(* ===== verification/Prelude.thy ===== *)
theory Prelude
  imports Main "HOL-Library.AList" "HOL-Library.Multiset" "HOL-Library.Word"
begin

text \<open>
  What every component shares: Go maps as association lists with distinct keys, the order in
  which a \<open>range\<close> visits a map, machine integers of 64 bits, durations and outcomes of calls
  that may dereference a nil pointer. The collections \<open>go_defs\<close> and \<open>gm_facts\<close> hold the
  definitions and the map facts the component proofs unfold.
\<close>

named_theorems go_defs
named_theorems gm_facts

section \<open>Go maps\<close>

text \<open>
  A Go map is an association list with distinct keys: \<open>m[k]\<close> is \<open>map_of m k\<close>,
  \<open>m[k] = v\<close> is \<open>AList.update k v m\<close>, \<open>delete(m, k)\<close> is \<open>AList.delete k m\<close> and
  \<open>len(m)\<close> is \<open>length m\<close>. The order of the list carries no meaning: where the code ranges
  over a map, the visiting order is a separate argument.
\<close>

type_synonym ('k, 'v) gomap = "('k \<times> 'v) list"

abbreviation gm_wf :: "('k, 'v) gomap \<Rightarrow> bool" where
  "gm_wf m \<equiv> distinct (map fst m)"

abbreviation gm_keys :: "('k, 'v) gomap \<Rightarrow> 'k list" where
  "gm_keys m \<equiv> map fst m"

text \<open>
  Go visits a map in an order the runtime chooses. The choice is a function from the list of
  keys to the order of the visit, and \<open>visits\<close> says that it visits every key once.
\<close>

type_synonym 'k visit_order = "'k list \<Rightarrow> 'k list"

definition visits :: "'k visit_order \<Rightarrow> bool" where
  "visits ord \<longleftrightarrow> (\<forall>ks. mset (ord ks) = mset ks)"

lemma visits_set: "visits ord \<Longrightarrow> set (ord ks) = set ks"
  unfolding visits_def by (metis set_mset_mset)

lemma visits_distinct: "visits ord \<Longrightarrow> distinct (ord ks) = distinct ks"
  unfolding visits_def by (metis mset_eq_imp_distinct_iff)

lemma visits_id [simp]: "visits (\<lambda>ks. ks)" "visits id"
  by (simp_all add: visits_def)

lemma visits_rev [simp]: "visits rev"
  by (simp add: visits_def)

lemma gm_update [gm_facts]: "map_of (AList.update k v m) = (map_of m)(k \<mapsto> v)"
  by (rule AList.update_conv')

lemma gm_delete [gm_facts]: "map_of (AList.delete k m) = (map_of m)(k := None)"
  by (rule AList.delete_conv')

lemma gm_wf_update: "gm_wf m \<Longrightarrow> gm_wf (AList.update k v m)"
  by (rule AList.distinct_update)

lemma gm_wf_delete: "gm_wf m \<Longrightarrow> gm_wf (AList.delete k m)"
  by (rule AList.distinct_delete)

lemma set_gm_keys: "set (gm_keys m) = dom (map_of m)"
  by (simp add: dom_map_of_conv_image_fst)

lemma gm_keys_update: "set (gm_keys (AList.update k v m)) = insert k (set (gm_keys m))"
  using AList.dom_update [of k v m] by simp

lemma gm_keys_delete: "set (gm_keys (AList.delete k m)) = set (gm_keys m) - {k}"
  by (simp add: AList.delete_keys)

lemma gm_len_update:
  "length (AList.update k v m) = (if map_of m k = None then Suc (length m) else length m)"
  by (induction m) auto

lemma gm_len_delete:
  assumes "gm_wf m"
  shows "length (AList.delete k m) = (if map_of m k = None then length m else length m - 1)"
proof (cases "map_of m k")
  case None
  then have "k \<notin> fst ` set m" by (simp add: map_of_eq_None_iff)
  with None show ?thesis by simp
next
  case (Some v)
  then have mem: "k \<in> set (gm_keys m)"
    by (metis map_of_eq_None_iff option.distinct(1) set_map)
  have "length (AList.delete k m) = length (removeAll k (gm_keys m))"
    by (metis AList.delete_keys length_map)
  also have "\<dots> = length m - 1"
    using assms mem by (simp add: distinct_remove1_removeAll [symmetric] length_remove1)
  finally show ?thesis using Some by simp
qed

section \<open>Machine integers and durations\<close>

text \<open>
  Go's \<open>int\<close>, \<open>int64\<close> and \<open>time.Duration\<close> have 64 bits. \<open>i64\<close> reads the mathematical
  result of an operation as the machine does, wrapping around in two's complement.
\<close>

definition i64 :: "int \<Rightarrow> int" where
  "i64 x = sint (word_of_int x :: 64 word)"

lemma i64_eq: "i64 x = (x + 2 ^ 63) mod 2 ^ 64 - 2 ^ 63"
  by (simp add: i64_def sint_word_ariths signed_take_bit_eq_take_bit_shift take_bit_eq_mod
      sint_uint uint_word_of_int mod_add_left_eq)

lemma i64_id [simp]: "- (2 ^ 63) \<le> x \<Longrightarrow> x < 2 ^ 63 \<Longrightarrow> i64 x = x"
  by (simp add: i64_eq)

lemma i64_bounds: "- (2 ^ 63) \<le> i64 x \<and> i64 x < 2 ^ 63"
  by (simp add: i64_eq)

text \<open>\<open>time.Duration(n) * time.Second\<close>: a count of nanoseconds, wrapping around at 64 bits.\<close>

definition seconds :: "int \<Rightarrow> int" where
  "seconds n = i64 (i64 n * 1000000000)"

lemma seconds_small: "\<bar>n\<bar> \<le> 9223372036 \<Longrightarrow> seconds n = n * 1000000000"
  by (simp add: seconds_def abs_le_iff)

text \<open>Go's integer division truncates towards zero.\<close>

definition trunc_div :: "int \<Rightarrow> int \<Rightarrow> int" where
  "trunc_div a b = (if (a < 0) = (b < 0) then \<bar>a\<bar> div \<bar>b\<bar> else - (\<bar>a\<bar> div \<bar>b\<bar>))"

lemma trunc_div_nonneg: "0 \<le> a \<Longrightarrow> 0 < b \<Longrightarrow> trunc_div a b = a div b"
  by (simp add: trunc_div_def)

text \<open>
  The clock is a count of nanoseconds since the Unix epoch. \<open>unix\<close> is \<open>Time.Unix()\<close>, the
  seconds rounded down, and \<open>whole_seconds\<close> is \<open>int(d.Seconds())\<close>, truncated towards zero.
\<close>

definition unix :: "int \<Rightarrow> int" where
  "unix t = t div 1000000000"

definition whole_seconds :: "int \<Rightarrow> int" where
  "whole_seconds d = trunc_div d 1000000000"

lemma unix_add_seconds: "\<bar>n\<bar> \<le> 9223372036 \<Longrightarrow> unix (t + seconds n) = unix t + n"
  by (simp add: unix_def seconds_small)

lemma unix_mono: "s \<le> t \<Longrightarrow> unix s \<le> unix t"
  by (simp add: unix_def zdiv_mono1)

section \<open>Calls that may panic\<close>

text \<open>A Go call either returns or panics (here: dereferences a nil pointer).\<close>

datatype 'a outcome = Returns 'a | Panics

fun on_return :: "'a outcome \<Rightarrow> ('a \<Rightarrow> 'b outcome) \<Rightarrow> 'b outcome" where
  "on_return (Returns x) f = f x"
| "on_return Panics f = Panics"

lemma on_return_eq_Returns [simp]:
  "(on_return r f = Returns y) = (\<exists>x. r = Returns x \<and> f x = Returns y)"
  by (cases r) simp_all

end
