(* ===== verification/Config.thy ===== *)
theory Config
  imports Prelude
begin

text \<open>
  The configuration, \<open>internal/model/config.go\<close>. Every struct is a record with the source's
  fields, a Go map field is a \<open>gomap\<close>, and \<open>zero_X\<close> is the zero value of the struct \<open>X\<close>,
  which a field not named in a composite literal has. \<open>new_default_configuration\<close> is the
  configuration the program starts from before files, flags and the environment are read.
\<close>

section \<open>Structures\<close>

record app_config =
  apc_domain :: string

definition zero_app_config :: app_config where
  "zero_app_config =
    \<lparr>apc_domain = []\<rparr>"

record app_users =
  aus_allow :: string
  aus_block :: string

definition zero_app_users :: app_users where
  "zero_app_users =
    \<lparr>aus_allow = [], aus_block = []\<rparr>"

record app_oauth =
  aoa_whitelist :: string
  aoa_groups :: string

definition zero_app_oauth :: app_oauth where
  "zero_app_oauth =
    \<lparr>aoa_whitelist = [], aoa_groups = []\<rparr>"

record app_ip =
  aip_allow :: "string list"
  aip_block :: "string list"
  aip_bypass :: "string list"

definition zero_app_ip :: app_ip where
  "zero_app_ip =
    \<lparr>aip_allow = [], aip_block = [], aip_bypass = []\<rparr>"

record app_basic_auth =
  aba_username :: string
  aba_password :: string
  aba_password_file :: string

definition zero_app_basic_auth :: app_basic_auth where
  "zero_app_basic_auth =
    \<lparr>aba_username = [], aba_password = [], aba_password_file = []\<rparr>"

record app_response =
  ars_headers :: "string list"
  ars_basic_auth :: app_basic_auth

definition zero_app_response :: app_response where
  "zero_app_response =
    \<lparr>ars_headers = [], ars_basic_auth = zero_app_basic_auth\<rparr>"

record app_path =
  apa_allow :: string
  apa_block :: string

definition zero_app_path :: app_path where
  "zero_app_path =
    \<lparr>apa_allow = [], apa_block = []\<rparr>"

record app_ldap =
  ald_groups :: string

definition zero_app_ldap :: app_ldap where
  "zero_app_ldap =
    \<lparr>ald_groups = []\<rparr>"

record app =
  app_config :: app_config
  app_users :: app_users
  app_oauth :: app_oauth
  app_ip :: app_ip
  app_response :: app_response
  app_path :: app_path
  app_ldap :: app_ldap

definition zero_app :: app where
  "zero_app =
    \<lparr>app_config = zero_app_config, app_users = zero_app_users, app_oauth = zero_app_oauth,
     app_ip = zero_app_ip, app_response = zero_app_response, app_path = zero_app_path,
     app_ldap = zero_app_ldap\<rparr>"

record database_config =
  db_driver :: string
  db_path :: string

definition zero_database_config :: database_config where
  "zero_database_config =
    \<lparr>db_driver = [], db_path = []\<rparr>"

record analytics_config =
  an_enabled :: bool

definition zero_analytics_config :: analytics_config where
  "zero_analytics_config =
    \<lparr>an_enabled = False\<rparr>"

record resources_config =
  rs_enabled :: bool
  rs_path :: string

definition zero_resources_config :: resources_config where
  "zero_resources_config =
    \<lparr>rs_enabled = False, rs_path = []\<rparr>"

record server_config =
  srv_port :: int
  srv_address :: string
  srv_socket_path :: string

definition zero_server_config :: server_config where
  "zero_server_config =
    \<lparr>srv_port = 0, srv_address = [], srv_socket_path = []\<rparr>"

record ip_config =
  ipc_allow :: "string list"
  ipc_block :: "string list"
  ipc_bypass :: "string list"

definition zero_ip_config :: ip_config where
  "zero_ip_config =
    \<lparr>ipc_allow = [], ipc_block = [], ipc_bypass = []\<rparr>"

record address_claim =
  ad_formatted :: string
  ad_street_address :: string
  ad_locality :: string
  ad_region :: string
  ad_postal_code :: string
  ad_country :: string

definition zero_address_claim :: address_claim where
  "zero_address_claim =
    \<lparr>ad_formatted = [], ad_street_address = [], ad_locality = [], ad_region = [],
     ad_postal_code = [], ad_country = []\<rparr>"

record user_attributes =
  ua_name :: string
  ua_given_name :: string
  ua_family_name :: string
  ua_middle_name :: string
  ua_nickname :: string
  ua_profile :: string
  ua_picture :: string
  ua_website :: string
  ua_email :: string
  ua_gender :: string
  ua_birthdate :: string
  ua_zoneinfo :: string
  ua_locale :: string
  ua_phone_number :: string
  ua_address :: address_claim

definition zero_user_attributes :: user_attributes where
  "zero_user_attributes =
    \<lparr>ua_name = [], ua_given_name = [], ua_family_name = [], ua_middle_name = [],
     ua_nickname = [], ua_profile = [], ua_picture = [], ua_website = [], ua_email = [],
     ua_gender = [], ua_birthdate = [], ua_zoneinfo = [], ua_locale = [], ua_phone_number = [],
     ua_address = zero_address_claim\<rparr>"

record acls_config =
  acl_policy :: string

definition zero_acls_config :: acls_config where
  "zero_acls_config =
    \<lparr>acl_policy = []\<rparr>"

record auth_config =
  au_ip :: ip_config
  au_users :: "string list"
  au_subdomains_enabled :: bool
  au_user_attributes :: "(string, user_attributes) gomap"
  au_users_file :: string
  au_secure_cookie :: bool
  au_session_expiry :: int
  au_session_max_lifetime :: int
  au_login_timeout :: int
  au_login_max_retries :: int
  au_lockdown_enabled :: bool
  au_trusted_proxies :: "string list"
  au_acls :: acls_config

definition zero_auth_config :: auth_config where
  "zero_auth_config =
    \<lparr>au_ip = zero_ip_config, au_users = [], au_subdomains_enabled = False,
     au_user_attributes = [], au_users_file = [], au_secure_cookie = False, au_session_expiry = 0,
     au_session_max_lifetime = 0, au_login_timeout = 0, au_login_max_retries = 0,
     au_lockdown_enabled = False, au_trusted_proxies = [], au_acls = zero_acls_config\<rparr>"

record oauth_service_config =
  osc_client_id :: string
  osc_client_secret :: string
  osc_client_secret_file :: string
  osc_whitelist :: "string list"
  osc_whitelist_file :: string
  osc_scopes :: "string list"
  osc_redirect_url :: string
  osc_auth_url :: string
  osc_token_url :: string
  osc_userinfo_url :: string
  osc_insecure :: bool
  osc_name :: string

definition zero_oauth_service_config :: oauth_service_config where
  "zero_oauth_service_config =
    \<lparr>osc_client_id = [], osc_client_secret = [], osc_client_secret_file = [],
     osc_whitelist = [], osc_whitelist_file = [], osc_scopes = [], osc_redirect_url = [],
     osc_auth_url = [], osc_token_url = [], osc_userinfo_url = [], osc_insecure = False,
     osc_name = []\<rparr>"

record oauth_config =
  oac_whitelist :: "string list"
  oac_whitelist_file :: string
  oac_auto_redirect :: string
  oac_providers :: "(string, oauth_service_config) gomap"

definition zero_oauth_config :: oauth_config where
  "zero_oauth_config =
    \<lparr>oac_whitelist = [], oac_whitelist_file = [], oac_auto_redirect = [],
     oac_providers = []\<rparr>"

record oidc_client_config =
  occ_id :: string
  occ_client_id :: string
  occ_client_secret :: string
  occ_client_secret_file :: string
  occ_trusted_redirect_uris :: "string list"
  occ_name :: string

definition zero_oidc_client_config :: oidc_client_config where
  "zero_oidc_client_config =
    \<lparr>occ_id = [], occ_client_id = [], occ_client_secret = [], occ_client_secret_file = [],
     occ_trusted_redirect_uris = [], occ_name = []\<rparr>"

record oidc_config =
  oic_private_key_path :: string
  oic_public_key_path :: string
  oic_clients :: "(string, oidc_client_config) gomap"

definition zero_oidc_config :: oidc_config where
  "zero_oidc_config =
    \<lparr>oic_private_key_path = [], oic_public_key_path = [], oic_clients = []\<rparr>"

record ui_config =
  ui_title :: string
  ui_forgot_password_message :: string
  ui_background_image :: string
  ui_warnings_enabled :: bool

definition zero_ui_config :: ui_config where
  "zero_ui_config =
    \<lparr>ui_title = [], ui_forgot_password_message = [], ui_background_image = [],
     ui_warnings_enabled = False\<rparr>"

record ldap_config =
  ldc_address :: string
  ldc_bind_dn :: string
  ldc_bind_password :: string
  ldc_bind_password_file :: string
  ldc_base_dn :: string
  ldc_insecure :: bool
  ldc_search_filter :: string
  ldc_auth_cert :: string
  ldc_auth_key :: string
  ldc_group_cache_ttl :: int

definition zero_ldap_config :: ldap_config where
  "zero_ldap_config =
    \<lparr>ldc_address = [], ldc_bind_dn = [], ldc_bind_password = [],
     ldc_bind_password_file = [], ldc_base_dn = [], ldc_insecure = False, ldc_search_filter = [],
     ldc_auth_cert = [], ldc_auth_key = [], ldc_group_cache_ttl = 0\<rparr>"

record tailscale_config =
  ts_enabled :: bool
  ts_dir :: string
  ts_hostname :: string
  ts_auth_key :: string
  ts_ephemeral :: bool
  ts_funnel :: bool
  ts_listen :: bool

definition zero_tailscale_config :: tailscale_config where
  "zero_tailscale_config =
    \<lparr>ts_enabled = False, ts_dir = [], ts_hostname = [], ts_auth_key = [],
     ts_ephemeral = False, ts_funnel = False, ts_listen = False\<rparr>"

record experimental_config =
  ex_tailscale :: tailscale_config

definition zero_experimental_config :: experimental_config where
  "zero_experimental_config =
    \<lparr>ex_tailscale = zero_tailscale_config\<rparr>"

record log_stream_config =
  lsc_enabled :: bool
  lsc_level :: string

definition zero_log_stream_config :: log_stream_config where
  "zero_log_stream_config =
    \<lparr>lsc_enabled = False, lsc_level = []\<rparr>"

record log_streams =
  ls_http :: log_stream_config
  ls_app :: log_stream_config
  ls_audit :: log_stream_config

definition zero_log_streams :: log_streams where
  "zero_log_streams =
    \<lparr>ls_http = zero_log_stream_config, ls_app = zero_log_stream_config,
     ls_audit = zero_log_stream_config\<rparr>"

record log_config =
  lc_level :: string
  lc_json :: bool
  lc_streams :: log_streams

definition zero_log_config :: log_config where
  "zero_log_config =
    \<lparr>lc_level = [], lc_json = False, lc_streams = zero_log_streams\<rparr>"

record config =
  cfg_app_url :: string
  cfg_database :: database_config
  cfg_analytics :: analytics_config
  cfg_resources :: resources_config
  cfg_server :: server_config
  cfg_auth :: auth_config
  cfg_apps :: "(string, app) gomap"
  cfg_oauth :: oauth_config
  cfg_oidc :: oidc_config
  cfg_ui :: ui_config
  cfg_ldap :: ldap_config
  cfg_experimental :: experimental_config
  cfg_label_provider :: string
  cfg_log :: log_config
  cfg_config_file :: string

definition zero_config :: config where
  "zero_config =
    \<lparr>cfg_app_url = [], cfg_database = zero_database_config,
     cfg_analytics = zero_analytics_config, cfg_resources = zero_resources_config,
     cfg_server = zero_server_config, cfg_auth = zero_auth_config, cfg_apps = [],
     cfg_oauth = zero_oauth_config, cfg_oidc = zero_oidc_config, cfg_ui = zero_ui_config,
     cfg_ldap = zero_ldap_config, cfg_experimental = zero_experimental_config,
     cfg_label_provider = [], cfg_log = zero_log_config, cfg_config_file = []\<rparr>"

section \<open>The default configuration\<close>

datatype runtime_env = RuntimeEnvUnknown | RuntimeEnvDocker

text \<open>The argument is the value of the environment variable \<open>RUNTIME_ENV\<close>.\<close>

definition detect_runtime_env :: "string \<Rightarrow> runtime_env" where
  "detect_runtime_env env = (if env = ''docker'' then RuntimeEnvDocker else RuntimeEnvUnknown)"

definition default_configuration :: config where
  "default_configuration =
     zero_config
      \<lparr>cfg_database := zero_database_config\<lparr>db_driver := ''sqlite'', db_path := ''./tinyauth.db''\<rparr>,
       cfg_analytics := \<lparr>an_enabled = True\<rparr>,
       cfg_resources := \<lparr>rs_enabled = True, rs_path = ''./resources''\<rparr>,
       cfg_server := zero_server_config\<lparr>srv_port := 3000, srv_address := ''0.0.0.0''\<rparr>,
       cfg_auth := zero_auth_config
         \<lparr>au_subdomains_enabled := True,
          au_session_expiry := 86400,
          au_session_max_lifetime := 0,
          au_login_timeout := 300,
          au_login_max_retries := 3,
          au_acls := \<lparr>acl_policy = ''allow''\<rparr>,
          au_lockdown_enabled := True\<rparr>,
       cfg_ui :=
         \<lparr>ui_title = ''Tinyauth'',
          ui_forgot_password_message = ''You can change your password by changing the configuration.'',
          ui_background_image = ''/background.jpg'',
          ui_warnings_enabled = True\<rparr>,
       cfg_ldap := zero_ldap_config
         \<lparr>ldc_insecure := False, ldc_search_filter := ''(uid=%s)'', ldc_group_cache_ttl := 900\<rparr>,
       cfg_log :=
         \<lparr>lc_level = ''info'', lc_json = False,
          lc_streams =
            \<lparr>ls_http = \<lparr>lsc_enabled = True, lsc_level = []\<rparr>,
             ls_app = \<lparr>lsc_enabled = True, lsc_level = []\<rparr>,
             ls_audit = \<lparr>lsc_enabled = False, lsc_level = []\<rparr>\<rparr>\<rparr>,
       cfg_oidc := zero_oidc_config
         \<lparr>oic_private_key_path := ''./tinyauth_oidc_key'',
          oic_public_key_path := ''./tinyauth_oidc_key.pub''\<rparr>,
       cfg_experimental := \<lparr>ex_tailscale = zero_tailscale_config\<lparr>ts_dir := ''./tailscale_state''\<rparr>\<rparr>,
       cfg_label_provider := ''auto''\<rparr>"

definition new_default_configuration :: "runtime_env \<Rightarrow> config" where
  "new_default_configuration env =
     (let cfg = default_configuration
      in case env of
           RuntimeEnvUnknown \<Rightarrow> cfg
         | RuntimeEnvDocker \<Rightarrow> cfg
             \<lparr>cfg_database := (cfg_database cfg)\<lparr>db_path := ''/data/tinyauth.db''\<rparr>,
              cfg_resources := (cfg_resources cfg)\<lparr>rs_path := ''/data/resources''\<rparr>,
              cfg_oidc := (cfg_oidc cfg)
                \<lparr>oic_private_key_path := ''/data/oidc/key.pem'', oic_public_key_path := ''/data/oidc/key.pub''\<rparr>,
              cfg_experimental :=
                \<lparr>ex_tailscale = (ex_tailscale (cfg_experimental cfg))\<lparr>ts_dir := ''/data/tailscale''\<rparr>\<rparr>\<rparr>)"

text \<open>The runtime only changes where files are kept; what governs access stays as it is.\<close>

lemma default_auth [simp]: "cfg_auth (new_default_configuration env) = cfg_auth default_configuration"
  by (cases env) (simp_all add: new_default_configuration_def)

lemma default_apps [simp]: "cfg_apps (new_default_configuration env) = []"
  by (cases env) (simp_all add: new_default_configuration_def default_configuration_def zero_config_def)

end
