(* ===== verification/Repository.thy ===== *)
theory Repository
  imports Config
begin

text \<open>
  The sessions the program stores, \<open>internal/repository/models.go\<close>, the interface of the
  stores, \<open>store.go\<close>, and the store in memory, \<open>memory/\<close>. An interface is a dictionary of
  its methods over the type of the store's state; the locale \<open>session_repo\<close> states what the
  services rely on, and the memory store provides it. The drivers for SQLite and PostgreSQL
  are generated from SQL and stay parameters.
\<close>

section \<open>Models\<close>

record session =
  se_uuid :: string
  se_username :: string
  se_email :: string
  se_name :: string
  se_provider :: string
  se_totp_pending :: bool
  se_oauth_groups :: string
  se_expiry :: int
  se_created_at :: int
  se_oauth_name :: string
  se_oauth_sub :: string

record oidc_session =
  os_sub :: string
  os_access_token_hash :: string
  os_refresh_token_hash :: string
  os_scope :: string
  os_client_id :: string
  os_token_expires_at :: int
  os_refresh_token_expires_at :: int
  os_nonce :: string
  os_userinfo_json :: string

text \<open>The parameters of a creation have the fields of the session itself.\<close>

type_synonym create_session_params = session

record update_session_params =
  us_username :: string
  us_email :: string
  us_name :: string
  us_provider :: string
  us_totp_pending :: bool
  us_oauth_groups :: string
  us_expiry :: int
  us_oauth_name :: string
  us_oauth_sub :: string
  us_uuid :: string

type_synonym create_oidc_session_params = oidc_session

type_synonym update_oidc_session_params = oidc_session

record delete_expired_oidc_params =
  de_token_expires_at :: int
  de_refresh_token_expires_at :: int

section \<open>The interface of a store\<close>

text \<open>\<open>ErrNotFound\<close> is told apart by the services; any other error is its text.\<close>

datatype store_error = ErrNotFound | StoreFailure string

record 's store_ops =
  create_session_op :: "create_session_params \<Rightarrow> 's \<Rightarrow> (store_error + session) \<times> 's"
  get_session_op :: "string \<Rightarrow> 's \<Rightarrow> store_error + session"
  update_session_op :: "update_session_params \<Rightarrow> 's \<Rightarrow> (store_error + session) \<times> 's"
  delete_session_op :: "string \<Rightarrow> 's \<Rightarrow> store_error option \<times> 's"
  delete_expired_sessions_op :: "int \<Rightarrow> 's \<Rightarrow> store_error option \<times> 's"
  create_oidc_session_op :: "create_oidc_session_params \<Rightarrow> 's \<Rightarrow> (store_error + oidc_session) \<times> 's"
  delete_expired_oidc_sessions_op :: "delete_expired_oidc_params \<Rightarrow> 's \<Rightarrow> store_error option \<times> 's"
  delete_oidc_session_by_sub_op :: "string \<Rightarrow> 's \<Rightarrow> store_error option \<times> 's"
  get_oidc_session_by_access_token_hash_op :: "string \<Rightarrow> 's \<Rightarrow> store_error + oidc_session"
  get_oidc_session_by_refresh_token_hash_op :: "string \<Rightarrow> 's \<Rightarrow> store_error + oidc_session"
  get_oidc_session_by_sub_op :: "string \<Rightarrow> 's \<Rightarrow> store_error + oidc_session"
  update_oidc_session_op :: "update_oidc_session_params \<Rightarrow> 's \<Rightarrow> (store_error + oidc_session) \<times> 's"

section \<open>The store in memory\<close>

record memory_store =
  ms_sessions :: "(string, session) gomap"
  ms_oidc_sessions :: "(string, oidc_session) gomap"

definition new_memory_store :: memory_store where
  "new_memory_store = \<lparr>ms_sessions = [], ms_oidc_sessions = []\<rparr>"

definition mem_create_session ::
  "create_session_params \<Rightarrow> memory_store \<Rightarrow> (store_error + session) \<times> memory_store"
where
  "mem_create_session arg s =
     (Inr arg, s\<lparr>ms_sessions := AList.update (se_uuid arg) arg (ms_sessions s)\<rparr>)"

definition mem_get_session :: "string \<Rightarrow> memory_store \<Rightarrow> store_error + session" where
  "mem_get_session uuid s =
     (case map_of (ms_sessions s) uuid of None \<Rightarrow> Inl ErrNotFound | Some sess \<Rightarrow> Inr sess)"

definition mem_update_session ::
  "update_session_params \<Rightarrow> memory_store \<Rightarrow> (store_error + session) \<times> memory_store"
where
  "mem_update_session arg s =
     (case map_of (ms_sessions s) (us_uuid arg) of
        None \<Rightarrow> (Inl ErrNotFound, s)
      | Some sess \<Rightarrow>
          let sess' = sess
                \<lparr>se_username := us_username arg, se_email := us_email arg, se_name := us_name arg,
                 se_provider := us_provider arg, se_totp_pending := us_totp_pending arg,
                 se_oauth_groups := us_oauth_groups arg, se_expiry := us_expiry arg,
                 se_oauth_name := us_oauth_name arg, se_oauth_sub := us_oauth_sub arg\<rparr>
          in (Inr sess', s\<lparr>ms_sessions := AList.update (us_uuid arg) sess' (ms_sessions s)\<rparr>))"

definition mem_delete_session :: "string \<Rightarrow> memory_store \<Rightarrow> store_error option \<times> memory_store" where
  "mem_delete_session uuid s = (None, s\<lparr>ms_sessions := AList.delete uuid (ms_sessions s)\<rparr>)"

definition mem_delete_expired_sessions ::
  "int \<Rightarrow> memory_store \<Rightarrow> store_error option \<times> memory_store"
where
  "mem_delete_expired_sessions expiry s =
     (None, s\<lparr>ms_sessions := filter (\<lambda>(k, v). \<not> se_expiry v < expiry) (ms_sessions s)\<rparr>)"

text \<open>
  The loop over the stored sessions in the order of the visit: the first clash decides which
  constraint the error names.
\<close>

fun unique_violation ::
  "(string, oidc_session) gomap \<Rightarrow> create_oidc_session_params \<Rightarrow> string list \<Rightarrow> string option"
where
  "unique_violation m arg [] = None"
| "unique_violation m arg (k # ks) =
     (case map_of m k of
        None \<Rightarrow> unique_violation m arg ks
      | Some sess \<Rightarrow>
          if os_sub sess = os_sub arg
          then Some ''UNIQUE constraint failed: oidc_sessions.sub''
          else if os_access_token_hash sess = os_access_token_hash arg
          then Some ''UNIQUE constraint failed: oidc_sessions.access_token_hash''
          else if os_refresh_token_hash sess = os_refresh_token_hash arg
          then Some ''UNIQUE constraint failed: oidc_sessions.refresh_token_hash''
          else unique_violation m arg ks)"

definition mem_create_oidc_session ::
  "string visit_order \<Rightarrow> create_oidc_session_params \<Rightarrow> memory_store \<Rightarrow>
     (store_error + oidc_session) \<times> memory_store"
where
  "mem_create_oidc_session ord arg s =
     (case unique_violation (ms_oidc_sessions s) arg (ord (gm_keys (ms_oidc_sessions s))) of
        Some e \<Rightarrow> (Inl (StoreFailure e), s)
      | None \<Rightarrow> (Inr arg, s\<lparr>ms_oidc_sessions := AList.update (os_sub arg) arg (ms_oidc_sessions s)\<rparr>))"

definition mem_get_oidc_session_by_sub :: "string \<Rightarrow> memory_store \<Rightarrow> store_error + oidc_session" where
  "mem_get_oidc_session_by_sub sub s =
     (case map_of (ms_oidc_sessions s) sub of None \<Rightarrow> Inl ErrNotFound | Some sess \<Rightarrow> Inr sess)"

text \<open>The loop that returns the first visited session for which the test holds.\<close>

fun find_oidc_session ::
  "(oidc_session \<Rightarrow> bool) \<Rightarrow> (string, oidc_session) gomap \<Rightarrow> string list \<Rightarrow> store_error + oidc_session"
where
  "find_oidc_session P m [] = Inl ErrNotFound"
| "find_oidc_session P m (k # ks) =
     (case map_of m k of
        None \<Rightarrow> find_oidc_session P m ks
      | Some sess \<Rightarrow> if P sess then Inr sess else find_oidc_session P m ks)"

definition mem_get_oidc_session_by_access_token_hash ::
  "string visit_order \<Rightarrow> string \<Rightarrow> memory_store \<Rightarrow> store_error + oidc_session"
where
  "mem_get_oidc_session_by_access_token_hash ord h s =
     find_oidc_session (\<lambda>x. os_access_token_hash x = h) (ms_oidc_sessions s)
       (ord (gm_keys (ms_oidc_sessions s)))"

definition mem_get_oidc_session_by_refresh_token_hash ::
  "string visit_order \<Rightarrow> string \<Rightarrow> memory_store \<Rightarrow> store_error + oidc_session"
where
  "mem_get_oidc_session_by_refresh_token_hash ord h s =
     find_oidc_session (\<lambda>x. os_refresh_token_hash x = h) (ms_oidc_sessions s)
       (ord (gm_keys (ms_oidc_sessions s)))"

definition mem_update_oidc_session ::
  "update_oidc_session_params \<Rightarrow> memory_store \<Rightarrow> (store_error + oidc_session) \<times> memory_store"
where
  "mem_update_oidc_session arg s =
     (case map_of (ms_oidc_sessions s) (os_sub arg) of
        None \<Rightarrow> (Inl ErrNotFound, s)
      | Some sess \<Rightarrow>
          let sess' = sess
                \<lparr>os_access_token_hash := os_access_token_hash arg,
                 os_refresh_token_hash := os_refresh_token_hash arg,
                 os_scope := os_scope arg, os_client_id := os_client_id arg,
                 os_token_expires_at := os_token_expires_at arg,
                 os_refresh_token_expires_at := os_refresh_token_expires_at arg,
                 os_nonce := os_nonce arg, os_userinfo_json := os_userinfo_json arg\<rparr>
          in (Inr sess', s\<lparr>ms_oidc_sessions := AList.update (os_sub arg) sess' (ms_oidc_sessions s)\<rparr>))"

definition mem_delete_oidc_session_by_sub ::
  "string \<Rightarrow> memory_store \<Rightarrow> store_error option \<times> memory_store"
where
  "mem_delete_oidc_session_by_sub sub s =
     (None, s\<lparr>ms_oidc_sessions := AList.delete sub (ms_oidc_sessions s)\<rparr>)"

definition mem_delete_expired_oidc_sessions ::
  "delete_expired_oidc_params \<Rightarrow> memory_store \<Rightarrow> store_error option \<times> memory_store"
where
  "mem_delete_expired_oidc_sessions arg s =
     (None, s\<lparr>ms_oidc_sessions := filter
        (\<lambda>(k, v). \<not> (os_token_expires_at v < de_token_expires_at arg \<and>
                     os_refresh_token_expires_at v < de_refresh_token_expires_at arg))
        (ms_oidc_sessions s)\<rparr>)"

definition memory_ops :: "string visit_order \<Rightarrow> memory_store store_ops" where
  "memory_ops ord =
     \<lparr>create_session_op = mem_create_session,
      get_session_op = mem_get_session,
      update_session_op = mem_update_session,
      delete_session_op = mem_delete_session,
      delete_expired_sessions_op = mem_delete_expired_sessions,
      create_oidc_session_op = mem_create_oidc_session ord,
      delete_expired_oidc_sessions_op = mem_delete_expired_oidc_sessions,
      delete_oidc_session_by_sub_op = mem_delete_oidc_session_by_sub,
      get_oidc_session_by_access_token_hash_op = mem_get_oidc_session_by_access_token_hash ord,
      get_oidc_session_by_refresh_token_hash_op = mem_get_oidc_session_by_refresh_token_hash ord,
      get_oidc_session_by_sub_op = mem_get_oidc_session_by_sub,
      update_oidc_session_op = mem_update_oidc_session\<rparr>"

section \<open>What the services rely on\<close>

text \<open>
  \<open>sess\<close> reads the browser sessions out of the state of a store. An operation that reports an
  error has changed nothing; one that succeeds has done exactly what its name says. A driver
  may fail at any time, so no law says that an operation succeeds.
\<close>

locale session_repo =
  fixes ops :: "'s store_ops"
    and inv :: "'s \<Rightarrow> bool"
    and sess :: "'s \<Rightarrow> string \<rightharpoonup> session"
  assumes key: "inv s \<Longrightarrow> sess s u = Some x \<Longrightarrow> se_uuid x = u"
    and create_inv: "inv s \<Longrightarrow> inv (snd (create_session_op ops a s))"
    and create_ok: "inv s \<Longrightarrow> create_session_op ops a s = (Inr x, s') \<Longrightarrow>
      x = a \<and> sess s' = (sess s)(se_uuid a \<mapsto> a)"
    and create_err: "inv s \<Longrightarrow> create_session_op ops a s = (Inl e, s') \<Longrightarrow> sess s' = sess s"
    and get_ok: "inv s \<Longrightarrow> get_session_op ops u s = Inr x \<Longrightarrow> sess s u = Some x"
    and get_missing: "inv s \<Longrightarrow> get_session_op ops u s = Inl ErrNotFound \<Longrightarrow> sess s u = None"
    and update_inv: "inv s \<Longrightarrow> inv (snd (update_session_op ops p s))"
    and update_ok: "inv s \<Longrightarrow> update_session_op ops p s = (Inr x, s') \<Longrightarrow>
      (\<exists>y. sess s (us_uuid p) = Some y \<and> se_created_at x = se_created_at y) \<and>
      se_uuid x = us_uuid p \<and> se_username x = us_username p \<and> se_email x = us_email p \<and>
      se_name x = us_name p \<and> se_provider x = us_provider p \<and>
      se_totp_pending x = us_totp_pending p \<and> se_oauth_groups x = us_oauth_groups p \<and>
      se_expiry x = us_expiry p \<and> se_oauth_name x = us_oauth_name p \<and>
      se_oauth_sub x = us_oauth_sub p \<and> sess s' = (sess s)(us_uuid p \<mapsto> x)"
    and update_err: "inv s \<Longrightarrow> update_session_op ops p s = (Inl e, s') \<Longrightarrow> sess s' = sess s"
    and delete_inv: "inv s \<Longrightarrow> inv (snd (delete_session_op ops u s))"
    and delete_ok: "inv s \<Longrightarrow> delete_session_op ops u s = (None, s') \<Longrightarrow> sess s' = (sess s)(u := None)"
    and delete_err: "inv s \<Longrightarrow> delete_session_op ops u s = (Some e, s') \<Longrightarrow> sess s' = sess s"
    and expire_inv: "inv s \<Longrightarrow> inv (snd (delete_expired_sessions_op ops t s))"
    and expire_ok: "inv s \<Longrightarrow> delete_expired_sessions_op ops t s = (None, s') \<Longrightarrow>
      sess s' u = (case sess s u of None \<Rightarrow> None | Some x \<Rightarrow> if se_expiry x < t then None else Some x)"
    and expire_err: "inv s \<Longrightarrow> delete_expired_sessions_op ops t s = (Some e, s') \<Longrightarrow> sess s' = sess s"
begin

lemma delete_only: "inv s \<Longrightarrow> sess (snd (delete_session_op ops u s)) v \<noteq> None \<Longrightarrow>
    sess (snd (delete_session_op ops u s)) v = sess s v"
  using delete_ok [of s u] delete_err [of s u]
  by (cases "delete_session_op ops u s"; cases "fst (delete_session_op ops u s)") (auto split: if_splits)

lemma expire_only: "inv s \<Longrightarrow> sess (snd (delete_expired_sessions_op ops t s)) v \<noteq> None \<Longrightarrow>
    sess (snd (delete_expired_sessions_op ops t s)) v = sess s v"
  using expire_ok [of s t _ v] expire_err [of s t]
  by (cases "delete_expired_sessions_op ops t s"; cases "fst (delete_expired_sessions_op ops t s)")
    (auto split: option.splits if_splits)

lemma expire_keeps_live: "inv s \<Longrightarrow> sess s u = Some x \<Longrightarrow> t \<le> se_expiry x \<Longrightarrow>
    sess (snd (delete_expired_sessions_op ops t s)) u = Some x"
  using expire_ok [of s t _ u] expire_err [of s t]
  by (cases "delete_expired_sessions_op ops t s"; cases "fst (delete_expired_sessions_op ops t s)") auto

end

text \<open>The sessions of the OIDC clients, with the two lookups by the hash of a token.\<close>

locale oidc_repo = session_repo +
  fixes osess :: "'a \<Rightarrow> string \<rightharpoonup> oidc_session"
  assumes okey: "inv s \<Longrightarrow> osess s k = Some y \<Longrightarrow> os_sub y = k"
    and ocreate_inv: "inv s \<Longrightarrow> inv (snd (create_oidc_session_op ops a s))"
    and ocreate_ok: "inv s \<Longrightarrow> create_oidc_session_op ops a s = (Inr y, s') \<Longrightarrow>
      y = a \<and> osess s (os_sub a) = None \<and> osess s' = (osess s)(os_sub a \<mapsto> a)"
    and ocreate_err: "inv s \<Longrightarrow> create_oidc_session_op ops a s = (Inl e, s') \<Longrightarrow> osess s' = osess s"
    and oget_access: "inv s \<Longrightarrow> get_oidc_session_by_access_token_hash_op ops h s = Inr y \<Longrightarrow>
      osess s (os_sub y) = Some y \<and> os_access_token_hash y = h"
    and oget_access_missing: "inv s \<Longrightarrow> get_oidc_session_by_access_token_hash_op ops h s = Inl ErrNotFound \<Longrightarrow>
      osess s k = Some y \<Longrightarrow> os_access_token_hash y \<noteq> h"
    and oget_refresh: "inv s \<Longrightarrow> get_oidc_session_by_refresh_token_hash_op ops h s = Inr y \<Longrightarrow>
      osess s (os_sub y) = Some y \<and> os_refresh_token_hash y = h"
    and oget_refresh_missing: "inv s \<Longrightarrow> get_oidc_session_by_refresh_token_hash_op ops h s = Inl ErrNotFound \<Longrightarrow>
      osess s k = Some y \<Longrightarrow> os_refresh_token_hash y \<noteq> h"
    and oget_sub: "inv s \<Longrightarrow> get_oidc_session_by_sub_op ops k s = Inr y \<Longrightarrow> osess s k = Some y"
    and oget_sub_missing: "inv s \<Longrightarrow> get_oidc_session_by_sub_op ops k s = Inl ErrNotFound \<Longrightarrow> osess s k = None"
    and oupdate_inv: "inv s \<Longrightarrow> inv (snd (update_oidc_session_op ops a s))"
    and oupdate_ok: "inv s \<Longrightarrow> update_oidc_session_op ops a s = (Inr y, s') \<Longrightarrow>
      y = a \<and> osess s (os_sub a) \<noteq> None \<and> osess s' = (osess s)(os_sub a \<mapsto> a)"
    and oupdate_err: "inv s \<Longrightarrow> update_oidc_session_op ops a s = (Inl e, s') \<Longrightarrow> osess s' = osess s"
    and odelete_inv: "inv s \<Longrightarrow> inv (snd (delete_oidc_session_by_sub_op ops k s))"
    and odelete_ok: "inv s \<Longrightarrow> delete_oidc_session_by_sub_op ops k s = (None, s') \<Longrightarrow>
      osess s' = (osess s)(k := None)"
    and odelete_err: "inv s \<Longrightarrow> delete_oidc_session_by_sub_op ops k s = (Some e, s') \<Longrightarrow> osess s' = osess s"
    and oexpire_inv: "inv s \<Longrightarrow> inv (snd (delete_expired_oidc_sessions_op ops p s))"
    and oexpire_ok: "inv s \<Longrightarrow> delete_expired_oidc_sessions_op ops p s = (None, s') \<Longrightarrow>
      osess s' k = (case osess s k of None \<Rightarrow> None | Some y \<Rightarrow>
        if os_token_expires_at y < de_token_expires_at p \<and>
           os_refresh_token_expires_at y < de_refresh_token_expires_at p then None else Some y)"
    and oexpire_err: "inv s \<Longrightarrow> delete_expired_oidc_sessions_op ops p s = (Some e, s') \<Longrightarrow> osess s' = osess s"
begin

lemma odelete_only: "inv s \<Longrightarrow> osess (snd (delete_oidc_session_by_sub_op ops k s)) j = Some y \<Longrightarrow>
    osess s j = Some y"
  using odelete_ok [of s k] odelete_err [of s k]
  by (cases "delete_oidc_session_by_sub_op ops k s"; cases "fst (delete_oidc_session_by_sub_op ops k s)")
    (auto split: if_splits)

end

text \<open>The two tables are apart: an operation on one leaves the other as it is.\<close>

locale two_tables = oidc_repo +
  assumes create_osess: "inv s \<Longrightarrow> osess (snd (create_session_op ops a s)) = osess s"
    and update_osess: "inv s \<Longrightarrow> osess (snd (update_session_op ops p s)) = osess s"
    and delete_osess: "inv s \<Longrightarrow> osess (snd (delete_session_op ops u s)) = osess s"
    and expire_osess: "inv s \<Longrightarrow> osess (snd (delete_expired_sessions_op ops t s)) = osess s"
    and ocreate_sess: "inv s \<Longrightarrow> sess (snd (create_oidc_session_op ops b s)) = sess s"
    and oupdate_sess: "inv s \<Longrightarrow> sess (snd (update_oidc_session_op ops b s)) = sess s"
    and odelete_sess: "inv s \<Longrightarrow> sess (snd (delete_oidc_session_by_sub_op ops k s)) = sess s"
    and oexpire_sess: "inv s \<Longrightarrow> sess (snd (delete_expired_oidc_sessions_op ops q s)) = sess s"

section \<open>The memory store provides it\<close>

text \<open>Every session is stored under its own key.\<close>

definition keyed :: "('v \<Rightarrow> string) \<Rightarrow> (string, 'v) gomap \<Rightarrow> bool" where
  "keyed f m \<longleftrightarrow> gm_wf m \<and> (\<forall>(k, x)\<in>set m. f x = k)"

definition mem_inv :: "memory_store \<Rightarrow> bool" where
  "mem_inv s \<longleftrightarrow> keyed se_uuid (ms_sessions s) \<and> keyed os_sub (ms_oidc_sessions s)"

definition mem_sess :: "memory_store \<Rightarrow> string \<rightharpoonup> session" where
  "mem_sess s = map_of (ms_sessions s)"

definition mem_osess :: "memory_store \<Rightarrow> string \<rightharpoonup> oidc_session" where
  "mem_osess s = map_of (ms_oidc_sessions s)"

lemma set_update_subset: "x \<in> set (AList.update k v m) \<Longrightarrow> x = (k, v) \<or> x \<in> set m"
  by (induction m) (auto split: if_splits)

lemma gm_wf_filter: "gm_wf m \<Longrightarrow> gm_wf (filter P m)"
  by (rule distinct_map_filter)

lemma map_of_filter_wf:
  "gm_wf m \<Longrightarrow> map_of (filter (\<lambda>(k, v). P v) m) k =
     (case map_of m k of None \<Rightarrow> None | Some v \<Rightarrow> if P v then Some v else None)"
proof (induction m)
  case (Cons a m)
  obtain j v where a: "a = (j, v)" by (cases a)
  have "map_of m j = None" using Cons.prems a by (simp add: map_of_eq_None_iff)
  with Cons a show ?case by (auto split: option.splits)
qed simp

lemma keyed_Nil [simp]: "keyed f []"
  by (simp add: keyed_def)

lemma keyed_update: "keyed f m \<Longrightarrow> f v = k \<Longrightarrow> keyed f (AList.update k v m)"
  by (auto simp: keyed_def gm_wf_update dest!: set_update_subset)

lemma keyed_delete: "keyed f m \<Longrightarrow> keyed f (AList.delete k m)"
  by (auto simp: keyed_def gm_wf_filter AList.delete_eq)

lemma keyed_filter: "keyed f m \<Longrightarrow> keyed f (filter P m)"
  by (auto simp: keyed_def gm_wf_filter)

lemma keyed_lookup: "keyed f m \<Longrightarrow> map_of m k = Some v \<Longrightarrow> f v = k"
  by (auto simp: keyed_def dest: map_of_SomeD)

lemma keyed_wf: "keyed f m \<Longrightarrow> gm_wf m"
  by (simp add: keyed_def)

lemma mem_inv_new [simp, intro]: "mem_inv new_memory_store"
  by (simp add: mem_inv_def new_memory_store_def)

lemma mem_inv_key: "mem_inv s \<Longrightarrow> mem_sess s u = Some x \<Longrightarrow> se_uuid x = u"
  by (auto simp: mem_inv_def mem_sess_def dest: keyed_lookup)

lemma mem_inv_okey: "mem_inv s \<Longrightarrow> mem_osess s u = Some x \<Longrightarrow> os_sub x = u"
  by (auto simp: mem_inv_def mem_osess_def dest: keyed_lookup)

lemma unique_violation_None:
  assumes "unique_violation m a ks = None" "k \<in> set ks" "map_of m k = Some y"
  shows "os_sub y \<noteq> os_sub a \<and> os_access_token_hash y \<noteq> os_access_token_hash a \<and>
     os_refresh_token_hash y \<noteq> os_refresh_token_hash a"
  using assms by (induction ks) (auto split: option.splits if_splits)

lemma find_oidc_session_Inr:
  "find_oidc_session P m ks = Inr y \<Longrightarrow> \<exists>k\<in>set ks. map_of m k = Some y \<and> P y"
  by (induction ks) (auto split: option.splits if_splits)

lemma find_oidc_session_Inl:
  "find_oidc_session P m ks = Inl e \<Longrightarrow> k \<in> set ks \<Longrightarrow> map_of m k = Some y \<Longrightarrow> \<not> P y"
  by (induction ks) (auto split: option.splits if_splits)

lemma visited_key: "visits ord \<Longrightarrow> map_of m k = Some v \<Longrightarrow> k \<in> set (ord (gm_keys m))"
  using visits_set [of ord "gm_keys m"] by (auto simp: set_gm_keys domIff simp del: set_map)

lemma create_oidc_free:
  assumes "visits ord" "mem_create_oidc_session ord a s = (Inr y, s')" "map_of (ms_oidc_sessions s) k = Some z"
  shows "os_sub z \<noteq> os_sub a \<and> os_access_token_hash z \<noteq> os_access_token_hash a \<and>
     os_refresh_token_hash z \<noteq> os_refresh_token_hash a"
proof (rule unique_violation_None)
  show "unique_violation (ms_oidc_sessions s) a (ord (gm_keys (ms_oidc_sessions s))) = None"
    using assms(2) by (simp add: mem_create_oidc_session_def split: option.splits)
  show "k \<in> set (ord (gm_keys (ms_oidc_sessions s)))" using assms(1,3) by (rule visited_key)
qed (rule assms(3))

lemma create_oidc_result:
  assumes "visits ord" "mem_inv s" "mem_create_oidc_session ord a s = (Inr y, s')"
  shows "y = a \<and> mem_osess s (os_sub a) = None \<and> mem_osess s' = (mem_osess s)(os_sub a \<mapsto> a)"
proof -
  have "mem_osess s (os_sub a) = None"
  proof (cases "mem_osess s (os_sub a)")
    case (Some z)
    with assms(2) have "os_sub z = os_sub a" by (simp add: mem_inv_okey)
    with Some create_oidc_free [OF assms(1,3), of "os_sub a" z] show ?thesis
      by (simp add: mem_osess_def)
  qed simp
  with assms(3) show ?thesis
    by (auto simp: mem_create_oidc_session_def mem_osess_def gm_update split: option.splits)
qed

lemma find_oidc_stored:
  assumes "visits ord" "mem_inv s"
    "find_oidc_session P (ms_oidc_sessions s) (ord (gm_keys (ms_oidc_sessions s))) = Inr y"
  shows "mem_osess s (os_sub y) = Some y \<and> P y"
  using find_oidc_session_Inr [OF assms(3)] keyed_lookup assms(2)
  by (fastforce simp: mem_inv_def mem_osess_def)

lemma mem_access_found:
  "visits ord \<Longrightarrow> mem_inv s \<Longrightarrow> mem_get_oidc_session_by_access_token_hash ord h s = Inr y \<Longrightarrow>
     mem_osess s (os_sub y) = Some y \<and> os_access_token_hash y = h"
  unfolding mem_get_oidc_session_by_access_token_hash_def
  by (drule (2) find_oidc_stored)

lemma mem_access_absent:
  "visits ord \<Longrightarrow> mem_get_oidc_session_by_access_token_hash ord h s = Inl ErrNotFound \<Longrightarrow>
     mem_osess s k = Some y \<Longrightarrow> os_access_token_hash y \<noteq> h"
  unfolding mem_get_oidc_session_by_access_token_hash_def mem_osess_def
  by (frule (1) visited_key) (drule (2) find_oidc_session_Inl)

lemma mem_refresh_found:
  "visits ord \<Longrightarrow> mem_inv s \<Longrightarrow> mem_get_oidc_session_by_refresh_token_hash ord h s = Inr y \<Longrightarrow>
     mem_osess s (os_sub y) = Some y \<and> os_refresh_token_hash y = h"
  unfolding mem_get_oidc_session_by_refresh_token_hash_def
  by (drule (2) find_oidc_stored)

lemma mem_refresh_absent:
  "visits ord \<Longrightarrow> mem_get_oidc_session_by_refresh_token_hash ord h s = Inl ErrNotFound \<Longrightarrow>
     mem_osess s k = Some y \<Longrightarrow> os_refresh_token_hash y \<noteq> h"
  unfolding mem_get_oidc_session_by_refresh_token_hash_def mem_osess_def
  by (frule (1) visited_key) (drule (2) find_oidc_session_Inl)

lemmas mem_ops_defs = memory_ops_def mem_create_session_def mem_get_session_def
  mem_update_session_def mem_delete_session_def mem_delete_expired_sessions_def
  mem_get_oidc_session_by_sub_def mem_update_oidc_session_def mem_delete_oidc_session_by_sub_def
  mem_delete_expired_oidc_sessions_def mem_get_oidc_session_by_access_token_hash_def
  mem_get_oidc_session_by_refresh_token_hash_def

lemma memory_session_repo: "session_repo (memory_ops ord) mem_inv mem_sess"
proof
  fix s s' :: memory_store and u v and x y a :: session and p :: update_session_params and t :: int and e
  show "mem_inv s \<Longrightarrow> mem_sess s u = Some x \<Longrightarrow> se_uuid x = u" by (rule mem_inv_key)
  show "mem_inv s \<Longrightarrow> mem_inv (snd (create_session_op (memory_ops ord) a s))"
    by (simp add: mem_ops_defs mem_inv_def keyed_update)
  show "create_session_op (memory_ops ord) a s = (Inr x, s') \<Longrightarrow>
      x = a \<and> mem_sess s' = (mem_sess s)(se_uuid a \<mapsto> a)"
    by (auto simp: mem_ops_defs mem_sess_def gm_update)
  show "create_session_op (memory_ops ord) a s = (Inl e, s') \<Longrightarrow> mem_sess s' = mem_sess s"
    by (simp add: mem_ops_defs)
  show "get_session_op (memory_ops ord) u s = Inr x \<Longrightarrow> mem_sess s u = Some x"
    by (simp add: mem_ops_defs mem_sess_def split: option.splits)
  show "get_session_op (memory_ops ord) u s = Inl ErrNotFound \<Longrightarrow> mem_sess s u = None"
    by (simp add: mem_ops_defs mem_sess_def split: option.splits)
  show "mem_inv s \<Longrightarrow> mem_inv (snd (update_session_op (memory_ops ord) p s))"
    by (auto simp: mem_ops_defs mem_inv_def Let_def intro!: keyed_update split: option.splits dest: keyed_lookup)
  show "mem_inv s \<Longrightarrow> update_session_op (memory_ops ord) p s = (Inr x, s') \<Longrightarrow>
      (\<exists>y. mem_sess s (us_uuid p) = Some y \<and> se_created_at x = se_created_at y) \<and>
      se_uuid x = us_uuid p \<and> se_username x = us_username p \<and> se_email x = us_email p \<and>
      se_name x = us_name p \<and> se_provider x = us_provider p \<and>
      se_totp_pending x = us_totp_pending p \<and> se_oauth_groups x = us_oauth_groups p \<and>
      se_expiry x = us_expiry p \<and> se_oauth_name x = us_oauth_name p \<and>
      se_oauth_sub x = us_oauth_sub p \<and> mem_sess s' = (mem_sess s)(us_uuid p \<mapsto> x)"
    using mem_inv_key [of s "us_uuid p"]
    by (auto simp: mem_ops_defs mem_sess_def Let_def gm_update split: option.splits)
  show "update_session_op (memory_ops ord) p s = (Inl e, s') \<Longrightarrow> mem_sess s' = mem_sess s"
    by (auto simp: mem_ops_defs Let_def split: option.splits)
  show "mem_inv s \<Longrightarrow> mem_inv (snd (delete_session_op (memory_ops ord) u s))"
    by (simp add: mem_ops_defs mem_inv_def keyed_delete)
  show "delete_session_op (memory_ops ord) u s = (None, s') \<Longrightarrow> mem_sess s' = (mem_sess s)(u := None)"
    by (auto simp: mem_ops_defs mem_sess_def gm_delete)
  show "mem_inv s \<Longrightarrow> mem_inv (snd (delete_expired_sessions_op (memory_ops ord) t s))"
    by (simp add: mem_ops_defs mem_inv_def keyed_filter)
  show "mem_inv s \<Longrightarrow> delete_expired_sessions_op (memory_ops ord) t s = (None, s') \<Longrightarrow>
      mem_sess s' u = (case mem_sess s u of None \<Rightarrow> None | Some x \<Rightarrow> if se_expiry x < t then None else Some x)"
    by (auto simp: mem_ops_defs mem_sess_def mem_inv_def map_of_filter_wf keyed_wf split: option.splits)
qed (simp_all add: mem_ops_defs)

lemma memory_oidc_repo:
  assumes "visits ord"
  shows "oidc_repo (memory_ops ord) mem_inv mem_sess mem_osess"
proof (intro oidc_repo.intro memory_session_repo oidc_repo_axioms.intro)
  fix s s' :: memory_store and h k and y a :: oidc_session and p :: delete_expired_oidc_params and e
  show "mem_inv s \<Longrightarrow> mem_osess s k = Some y \<Longrightarrow> os_sub y = k" by (rule mem_inv_okey)
  show "mem_inv s \<Longrightarrow> mem_inv (snd (create_oidc_session_op (memory_ops ord) a s))"
    by (simp add: memory_ops_def mem_create_oidc_session_def mem_inv_def keyed_update split: option.splits)
  show "mem_inv s \<Longrightarrow> create_oidc_session_op (memory_ops ord) a s = (Inr y, s') \<Longrightarrow>
      y = a \<and> mem_osess s (os_sub a) = None \<and> mem_osess s' = (mem_osess s)(os_sub a \<mapsto> a)"
    using create_oidc_result [OF assms] by (simp add: memory_ops_def)
  show "create_oidc_session_op (memory_ops ord) a s = (Inl e, s') \<Longrightarrow> mem_osess s' = mem_osess s"
    by (auto simp: memory_ops_def mem_create_oidc_session_def split: option.splits)
  show "mem_inv s \<Longrightarrow> get_oidc_session_by_access_token_hash_op (memory_ops ord) h s = Inr y \<Longrightarrow>
      mem_osess s (os_sub y) = Some y \<and> os_access_token_hash y = h"
    using mem_access_found [OF assms] by (simp add: memory_ops_def)
  show "mem_inv s \<Longrightarrow> get_oidc_session_by_refresh_token_hash_op (memory_ops ord) h s = Inr y \<Longrightarrow>
      mem_osess s (os_sub y) = Some y \<and> os_refresh_token_hash y = h"
    using mem_refresh_found [OF assms] by (simp add: memory_ops_def)
  show "get_oidc_session_by_access_token_hash_op (memory_ops ord) h s = Inl ErrNotFound \<Longrightarrow>
      mem_osess s k = Some y \<Longrightarrow> os_access_token_hash y \<noteq> h"
    using mem_access_absent [OF assms] by (simp add: memory_ops_def)
  show "get_oidc_session_by_refresh_token_hash_op (memory_ops ord) h s = Inl ErrNotFound \<Longrightarrow>
      mem_osess s k = Some y \<Longrightarrow> os_refresh_token_hash y \<noteq> h"
    using mem_refresh_absent [OF assms] by (simp add: memory_ops_def)
  show "get_oidc_session_by_sub_op (memory_ops ord) k s = Inr y \<Longrightarrow> mem_osess s k = Some y"
    by (simp add: mem_ops_defs mem_osess_def split: option.splits)
  show "get_oidc_session_by_sub_op (memory_ops ord) k s = Inl ErrNotFound \<Longrightarrow> mem_osess s k = None"
    by (simp add: mem_ops_defs mem_osess_def split: option.splits)
  show "mem_inv s \<Longrightarrow> mem_inv (snd (update_oidc_session_op (memory_ops ord) a s))"
    by (auto simp: mem_ops_defs mem_inv_def Let_def intro!: keyed_update split: option.splits dest: keyed_lookup)
  show "mem_inv s \<Longrightarrow> update_oidc_session_op (memory_ops ord) a s = (Inr y, s') \<Longrightarrow>
      y = a \<and> mem_osess s (os_sub a) \<noteq> None \<and> mem_osess s' = (mem_osess s)(os_sub a \<mapsto> a)"
    using mem_inv_okey [of s "os_sub a"]
    by (auto simp: mem_ops_defs mem_osess_def Let_def gm_update split: option.splits)
  show "update_oidc_session_op (memory_ops ord) a s = (Inl e, s') \<Longrightarrow> mem_osess s' = mem_osess s"
    by (auto simp: mem_ops_defs Let_def split: option.splits)
  show "mem_inv s \<Longrightarrow> mem_inv (snd (delete_oidc_session_by_sub_op (memory_ops ord) k s))"
    by (simp add: mem_ops_defs mem_inv_def keyed_delete)
  show "delete_oidc_session_by_sub_op (memory_ops ord) k s = (None, s') \<Longrightarrow>
      mem_osess s' = (mem_osess s)(k := None)"
    by (auto simp: mem_ops_defs mem_osess_def gm_delete)
  show "mem_inv s \<Longrightarrow> mem_inv (snd (delete_expired_oidc_sessions_op (memory_ops ord) p s))"
    by (simp add: mem_ops_defs mem_inv_def keyed_filter)
  show "mem_inv s \<Longrightarrow> delete_expired_oidc_sessions_op (memory_ops ord) p s = (None, s') \<Longrightarrow>
      mem_osess s' k = (case mem_osess s k of None \<Rightarrow> None | Some y \<Rightarrow>
        if os_token_expires_at y < de_token_expires_at p \<and>
           os_refresh_token_expires_at y < de_refresh_token_expires_at p then None else Some y)"
    by (auto simp: mem_ops_defs mem_osess_def mem_inv_def map_of_filter_wf keyed_wf split: option.splits)
qed (simp_all add: mem_ops_defs)

lemma memory_two_tables:
  assumes "visits ord"
  shows "two_tables (memory_ops ord) mem_inv mem_sess mem_osess"
  by (intro two_tables.intro memory_oidc_repo [OF assms] two_tables_axioms.intro)
    (simp_all add: mem_ops_defs mem_create_oidc_session_def mem_sess_def mem_osess_def Let_def split: option.split)

interpretation mem: two_tables "memory_ops id" mem_inv mem_sess mem_osess
  by (rule memory_two_tables) simp

end
