(* ===== verification/GoStrings.thy ===== *)
theory GoStrings
  imports Prelude "HOL-Library.Sublist"
begin

text \<open>
  The functions of Go's package \<open>strings\<close> that the program uses. A Go string is a sequence
  of bytes, so it is a \<open>string\<close> here (a character is a byte); a rune beyond ASCII is several
  bytes of UTF-8, and where the library works on runes the encoding is written out.
\<close>

section \<open>Splitting and joining\<close>

text \<open>\<open>strings.Split\<close> for a separator of one byte: never empty.\<close>

fun split_on :: "char \<Rightarrow> string \<Rightarrow> string list" where
  "split_on c [] = [[]]"
| "split_on c (x # xs) =
     (if x = c then [] # split_on c xs
      else (case split_on c xs of [] \<Rightarrow> [[x]] | y # ys \<Rightarrow> (x # y) # ys))"

text \<open>\<open>strings.Cut\<close> for a separator of one byte: \<open>None\<close> when it does not occur.\<close>

fun cut_at :: "char \<Rightarrow> string \<Rightarrow> (string \<times> string) option" where
  "cut_at c [] = None"
| "cut_at c (x # xs) =
     (if x = c then Some ([], xs) else map_option (\<lambda>(a, b). (x # a, b)) (cut_at c xs))"

text \<open>\<open>strings.SplitN\<close> with a positive bound: the last piece is the unsplit remainder.\<close>

fun split_n :: "nat \<Rightarrow> char \<Rightarrow> string \<Rightarrow> string list" where
  "split_n 0 c s = []"
| "split_n (Suc 0) c s = [s]"
| "split_n (Suc (Suc n)) c s =
     (case cut_at c s of None \<Rightarrow> [s] | Some (a, b) \<Rightarrow> a # split_n (Suc n) c b)"

fun join_with :: "string \<Rightarrow> string list \<Rightarrow> string" where
  "join_with sep [] = []"
| "join_with sep [x] = x"
| "join_with sep (x # y # ys) = x @ sep @ join_with sep (y # ys)"

lemma split_on_not_Nil [simp]: "split_on c s \<noteq> []"
  by (cases s) (auto split: list.splits)

lemma split_on_no_sep: "c \<notin> set s \<Longrightarrow> split_on c s = [s]"
  by (induction s) auto

lemma split_on_append: "c \<notin> set a \<Longrightarrow> split_on c (a @ c # s) = a # split_on c s"
  by (induction a) auto

lemma split_on_pieces: "x \<in> set (split_on c s) \<Longrightarrow> c \<notin> set x"
  by (induction s arbitrary: x) (fastforce split: if_splits list.splits)+

text \<open>Joining the pieces gives the string back; splitting a join gives the pieces back.\<close>

lemma join_split: "join_with [c] (split_on c s) = s"
proof (induction s)
  case (Cons x xs)
  obtain y ys where "split_on c xs = y # ys" by (cases "split_on c xs") auto
  with Cons show ?case by (cases ys) auto
qed simp

lemma split_join:
  "xs \<noteq> [] \<Longrightarrow> \<forall>x\<in>set xs. c \<notin> set x \<Longrightarrow> split_on c (join_with [c] xs) = xs"
proof (induction "[c]" xs rule: join_with.induct)
  case (2 x)
  then show ?case by (simp add: split_on_no_sep)
next
  case (3 x y ys)
  then show ?case by (simp add: split_on_append)
qed simp

lemma cut_at_Some: "cut_at c s = Some (a, b) \<Longrightarrow> s = a @ c # b \<and> c \<notin> set a"
  by (induction s arbitrary: a) (fastforce split: if_splits)+

lemma cut_at_None: "cut_at c s = None \<longleftrightarrow> c \<notin> set s"
  by (induction s) auto

lemma cut_at_append: "c \<notin> set a \<Longrightarrow> cut_at c (a @ c # b) = Some (a, b)"
  by (induction a) auto

lemma split_n_hd: "takeWhile (\<lambda>x. x \<noteq> c) s = hd (split_n (Suc (Suc n)) c s)"
proof (cases "cut_at c s")
  case None
  then have "c \<notin> set s" by (simp add: cut_at_None)
  with None show ?thesis by auto
next
  case (Some ab)
  then obtain a b where ab: "ab = (a, b)" "s = a @ c # b" "c \<notin> set a"
    using cut_at_Some by (cases ab) blast
  then have "takeWhile (\<lambda>x. x \<noteq> c) (a @ c # b) = a"
    by (subst takeWhile_append2) auto
  with Some ab show ?thesis by simp
qed

section \<open>Replacing, cutting prefixes, membership\<close>

text \<open>\<open>strings.ReplaceAll\<close> of one byte by another.\<close>

definition replace_char :: "char \<Rightarrow> char \<Rightarrow> string \<Rightarrow> string" where
  "replace_char a b s = map (\<lambda>x. if x = a then b else x) s"

text \<open>\<open>strings.ReplaceAll(s, cc, c)\<close>: left to right, without overlaps.\<close>

fun squeeze_pairs :: "char \<Rightarrow> string \<Rightarrow> string" where
  "squeeze_pairs c (x # y # s) =
     (if x = c \<and> y = c then c # squeeze_pairs c s else x # squeeze_pairs c (y # s))"
| "squeeze_pairs c s = s"

text \<open>\<open>strings.Contains(s, cc)\<close> for a pair of equal bytes.\<close>

fun has_pair :: "char \<Rightarrow> string \<Rightarrow> bool" where
  "has_pair c (x # y # s) = (x = c \<and> y = c \<or> has_pair c (y # s))"
| "has_pair c s = False"

text \<open>\<open>strings.ReplaceAll(s, c, cc)\<close>.\<close>

fun double_char :: "char \<Rightarrow> string \<Rightarrow> string" where
  "double_char c [] = []"
| "double_char c (x # s) = (if x = c then c # c # double_char c s else x # double_char c s)"

lemma squeeze_no_pair: "\<not> has_pair c s \<Longrightarrow> squeeze_pairs c s = s"
  by (induction c s rule: squeeze_pairs.induct) auto

lemma squeeze_double: "squeeze_pairs c (double_char c s) = s"
proof (induction s)
  case (Cons x s)
  show ?case
  proof (cases "x = c")
    case True
    with Cons show ?thesis by simp
  next
    case False
    show ?thesis
    proof (cases "double_char c s")
      case Nil
      with False Cons show ?thesis by simp
    next
      case (Cons y ys)
      with False Cons.IH show ?thesis by simp
    qed
  qed
qed simp

text \<open>\<open>strings.Replace(s, a, b, 1)\<close> of one byte.\<close>

fun replace_first :: "char \<Rightarrow> char \<Rightarrow> string \<Rightarrow> string" where
  "replace_first a b [] = []"
| "replace_first a b (x # s) = (if x = a then b # s else x # replace_first a b s)"

section \<open>White space\<close>

text \<open>
  \<open>strings.TrimSpace\<close> drops the runes \<open>unicode.IsSpace\<close> accepts, at both ends. These are
  their encodings: six of one byte, U+0085 and U+00A0 of two, the others of three.
\<close>

definition space_encodings :: "string list" where
  "space_encodings =
     [[CHR 0x09], [CHR 0x0A], [CHR 0x0B], [CHR 0x0C], [CHR 0x0D], [CHR 0x20],
      [CHR 0xC2, CHR 0x85], [CHR 0xC2, CHR 0xA0], [CHR 0xE1, CHR 0x9A, CHR 0x80],
      [CHR 0xE2, CHR 0x80, CHR 0x80], [CHR 0xE2, CHR 0x80, CHR 0x81],
      [CHR 0xE2, CHR 0x80, CHR 0x82], [CHR 0xE2, CHR 0x80, CHR 0x83],
      [CHR 0xE2, CHR 0x80, CHR 0x84], [CHR 0xE2, CHR 0x80, CHR 0x85],
      [CHR 0xE2, CHR 0x80, CHR 0x86], [CHR 0xE2, CHR 0x80, CHR 0x87],
      [CHR 0xE2, CHR 0x80, CHR 0x88], [CHR 0xE2, CHR 0x80, CHR 0x89],
      [CHR 0xE2, CHR 0x80, CHR 0x8A], [CHR 0xE2, CHR 0x80, CHR 0xA8],
      [CHR 0xE2, CHR 0x80, CHR 0xA9], [CHR 0xE2, CHR 0x80, CHR 0xAF],
      [CHR 0xE2, CHR 0x81, CHR 0x9F], [CHR 0xE3, CHR 0x80, CHR 0x80]]"

fun drop_one :: "string list \<Rightarrow> string \<Rightarrow> string option" where
  "drop_one [] s = None"
| "drop_one (e # es) s =
     (if e \<noteq> [] \<and> take (length e) s = e then Some (drop (length e) s) else drop_one es s)"

lemma drop_one_shorter: "drop_one es s = Some t \<Longrightarrow> length t < length s"
proof (induction es)
  case (Cons e es)
  show ?case
  proof (cases "e \<noteq> [] \<and> take (length e) s = e")
    case True
    then have "0 < length e" "length e \<le> length s"
      by (auto simp: take_eq_Nil) (metis length_take min.cobounded1)
    then have "length s - length e < length s" by linarith
    with True Cons.prems show ?thesis by auto
  next
    case False
    with Cons show ?thesis by auto
  qed
qed simp

function drop_while_one :: "string list \<Rightarrow> string \<Rightarrow> string" where
  "drop_while_one es s = (case drop_one es s of None \<Rightarrow> s | Some t \<Rightarrow> drop_while_one es t)"
  by pat_completeness auto
termination
  by (relation "measure (\<lambda>(es, s). length s)") (auto simp: drop_one_shorter)

declare drop_while_one.simps [simp del]

definition trim_left :: "string \<Rightarrow> string" where
  "trim_left s = drop_while_one space_encodings s"

definition trim_right :: "string \<Rightarrow> string" where
  "trim_right s = rev (drop_while_one (map rev space_encodings) (rev s))"

definition trim_space :: "string \<Rightarrow> string" where
  "trim_space s = trim_right (trim_left s)"

lemma drop_while_one_stuck: "drop_one es (drop_while_one es s) = None"
proof (induction es s rule: drop_while_one.induct)
  case (1 es s)
  then show ?case
    by (cases "drop_one es s") (simp_all add: drop_while_one.simps [of es s])
qed

lemma drop_while_one_id: "drop_one es s = None \<Longrightarrow> drop_while_one es s = s"
  by (simp add: drop_while_one.simps)

lemma drop_one_suffix: "drop_one es s = Some t \<Longrightarrow> \<exists>e. s = e @ t"
proof (induction es)
  case (Cons e es)
  then show ?case
    by (cases "e \<noteq> [] \<and> take (length e) s = e") (auto, metis append_take_drop_id)
qed simp

lemma drop_while_one_suffix: "\<exists>e. s = e @ drop_while_one es s"
proof (induction es s rule: drop_while_one.induct)
  case (1 es s)
  show ?case
  proof (cases "drop_one es s")
    case None
    then show ?thesis by (simp add: drop_while_one_id)
  next
    case (Some t)
    then obtain e where "s = e @ t" using drop_one_suffix by blast
    moreover from Some obtain e' where "t = e' @ drop_while_one es t" using 1 by blast
    moreover from Some have "drop_while_one es s = drop_while_one es t"
      by (simp add: drop_while_one.simps [of es s])
    ultimately show ?thesis by (metis append.assoc)
  qed
qed

lemma trim_space_Nil [simp]: "trim_space [] = []"
  by (code_simp)

end
