(* ===== verification/GoNet.thy ===== *)
theory GoNet
  imports GoStrings
begin

text \<open>
  The part of Go's package \<open>net\<close> that the program uses on client addresses: \<open>ParseIP\<close>,
  \<open>IP.String\<close>, \<open>IP.Equal\<close>, \<open>ParseCIDR\<close> and \<open>IPNet.Contains\<close>. A parsed address is its
  sixteen bytes, a \<open>128 word\<close> (an IPv4 address is the word below the prefix \<open>::ffff:0:0/96\<close>,
  as in Go); the nil address is \<open>None\<close>.
\<close>

type_synonym ip = "128 word"

section \<open>Digits\<close>

definition digit_value :: "char \<Rightarrow> int option" where
  "digit_value c = (let n = (of_char c :: int) in if 48 \<le> n \<and> n \<le> 57 then Some (n - 48) else None)"

definition hex_value :: "char \<Rightarrow> int option" where
  "hex_value c =
     (let n = (of_char c :: int) in
      if 48 \<le> n \<and> n \<le> 57 then Some (n - 48)
      else if 97 \<le> n \<and> n \<le> 102 then Some (n - 87)
      else if 65 \<le> n \<and> n \<le> 70 then Some (n - 55)
      else None)"

definition digit_char :: "int \<Rightarrow> char" where
  "digit_char n = char_of (if n < 10 then 48 + n else 87 + n)"

text \<open>The numeral of a number in a base of at least two, without leading zeros.\<close>

function numeral_in :: "int \<Rightarrow> int \<Rightarrow> string" where
  "numeral_in b n =
     (if b < 2 \<or> n < b then [digit_char n] else numeral_in b (n div b) @ [digit_char (n mod b)])"
  by pat_completeness auto
termination
  by (relation "measure (nat \<circ> snd)") (auto simp: int_div_less_self)

declare numeral_in.simps [simp del]

text \<open>A decimal number: digits only, at least one.\<close>

fun decimal_from :: "int \<Rightarrow> string \<Rightarrow> int option" where
  "decimal_from acc [] = Some acc"
| "decimal_from acc (c # s) =
     (case digit_value c of None \<Rightarrow> None | Some d \<Rightarrow> decimal_from (10 * acc + d) s)"

definition decimal :: "string \<Rightarrow> int option" where
  "decimal s = (if s = [] then None else decimal_from 0 s)"

section \<open>IPv4\<close>

text \<open>One field of a dotted address: no leading zero, at most 255.\<close>

definition parse_octet :: "string \<Rightarrow> int option" where
  "parse_octet s =
     (case decimal s of
        None \<Rightarrow> None
      | Some n \<Rightarrow> if n \<le> 255 \<and> (hd s = CHR ''0'' \<longrightarrow> length s = 1) then Some n else None)"

fun all_some :: "'a option list \<Rightarrow> 'a list option" where
  "all_some [] = Some []"
| "all_some (x # xs) = (case (x, all_some xs) of (Some y, Some ys) \<Rightarrow> Some (y # ys) | _ \<Rightarrow> None)"

definition parse_v4_fields :: "string \<Rightarrow> int list option" where
  "parse_v4_fields s =
     (let parts = split_on (CHR ''.'') s
      in if length parts = 4 then all_some (map parse_octet parts) else None)"

fun number_of :: "int \<Rightarrow> int list \<Rightarrow> int" where
  "number_of b xs = foldl (\<lambda>acc x. acc * b + x) 0 xs"

definition v4_prefix :: int where
  "v4_prefix = 0xFFFF * 2 ^ 32"

definition ip_of_v4 :: "int list \<Rightarrow> ip" where
  "ip_of_v4 fields = word_of_int (v4_prefix + number_of 256 fields)"

text \<open>\<open>To4\<close> succeeds.\<close>

definition is_v4 :: "ip \<Rightarrow> bool" where
  "is_v4 a \<longleftrightarrow> drop_bit 32 a = 0xFFFF"

section \<open>IPv6\<close>

text \<open>
  The leading hexadecimal digits of a group, at most four of them are accepted: the value and
  what follows.
\<close>

fun hex_group :: "nat \<Rightarrow> int \<Rightarrow> string \<Rightarrow> (nat \<times> int \<times> string) option" where
  "hex_group cnt acc [] = Some (cnt, acc, [])"
| "hex_group cnt acc (c # s) =
     (case hex_value c of
        None \<Rightarrow> Some (cnt, acc, c # s)
      | Some d \<Rightarrow> if 4 \<le> cnt then None else hex_group (Suc cnt) (16 * acc + d) s)"

text \<open>
  The loop of the parser: \<open>n\<close> groups of 16 bits may still come, \<open>gs\<close> were read, \<open>e\<close> is
  the number of groups before the ellipsis. The result is what was read and the unread rest.
\<close>

fun v6_groups :: "nat \<Rightarrow> int list \<Rightarrow> nat option \<Rightarrow> string \<Rightarrow> (int list \<times> nat option \<times> string) option" where
  "v6_groups 0 gs e s = Some (gs, e, s)"
| "v6_groups (Suc n) gs e s =
     (case hex_group 0 0 s of
        None \<Rightarrow> None
      | Some (cnt, acc, rest) \<Rightarrow>
          if cnt = 0 then None
          else if rest \<noteq> [] \<and> hd rest = CHR ''.'' then
            (if e = None \<and> length gs \<noteq> 6 then None
             else if 6 < length gs then None
             else (case parse_v4_fields s of
                     Some [a, b, c, d] \<Rightarrow> Some (gs @ [a * 256 + b, c * 256 + d], e, [])
                   | _ \<Rightarrow> None))
          else (case rest of
                  [] \<Rightarrow> Some (gs @ [acc], e, [])
                | c # s1 \<Rightarrow>
                    if c \<noteq> CHR '':'' \<or> s1 = [] then None
                    else if hd s1 = CHR '':'' then
                      (if e \<noteq> None then None
                       else if tl s1 = [] then Some (gs @ [acc], Some (Suc (length gs)), [])
                       else v6_groups n (gs @ [acc]) (Some (Suc (length gs))) (tl s1))
                    else v6_groups n (gs @ [acc]) e s1))"

definition parse_v6 :: "string \<Rightarrow> int list option" where
  "parse_v6 s =
     (let lead = (take 2 s = ''::'');
          s' = (if lead then drop 2 s else s)
      in if lead \<and> s' = [] then Some (replicate 8 0)
         else (case v6_groups 8 [] (if lead then Some 0 else None) s' of
                 None \<Rightarrow> None
               | Some (gs, e, rest) \<Rightarrow>
                   if rest \<noteq> [] then None
                   else (case e of
                           None \<Rightarrow> if length gs = 8 then Some gs else None
                         | Some k \<Rightarrow>
                             if length gs = 8 then None
                             else Some (take k gs @ replicate (8 - length gs) 0 @ drop k gs))))"

section \<open>Addresses\<close>

text \<open>
  An address has the form its first separator says. Zones are refused by \<open>ParseIP\<close> and
  \<open>ParseCIDR\<close>. The flag says whether the text is an IPv4 address.
\<close>

definition parse_addr :: "string \<Rightarrow> (bool \<times> ip) option" where
  "parse_addr s =
     (if CHR ''%'' \<in> set s then None
      else case dropWhile (\<lambda>c. c \<noteq> CHR ''.'' \<and> c \<noteq> CHR '':'') s of
             [] \<Rightarrow> None
           | c # _ \<Rightarrow>
               if c = CHR ''.'' then map_option (\<lambda>fs. (True, ip_of_v4 fs)) (parse_v4_fields s)
               else map_option (\<lambda>gs. (False, word_of_int (number_of 65536 gs))) (parse_v6 s))"

definition parse_ip :: "string \<Rightarrow> ip option" where
  "parse_ip s = map_option snd (parse_addr s)"

record cidr =
  cidr_v4 :: bool
  cidr_addr :: ip
  cidr_len :: nat

definition parse_cidr :: "string \<Rightarrow> cidr option" where
  "parse_cidr s =
     (case cut_at (CHR ''/'') s of
        None \<Rightarrow> None
      | Some (addr, bits) \<Rightarrow>
          (case (parse_addr addr, decimal bits) of
             (Some (v4, a), Some n) \<Rightarrow>
               if n \<le> (if v4 then 32 else 128)
               then Some \<lparr>cidr_v4 = v4, cidr_addr = a, cidr_len = nat n\<rparr>
               else None
           | _ \<Rightarrow> None))"

text \<open>The bits of the host part, out of 128, and the address with them cleared.\<close>

definition cidr_host_bits :: "cidr \<Rightarrow> nat" where
  "cidr_host_bits c = (if cidr_v4 c then 32 - cidr_len c else 128 - cidr_len c)"

definition cidr_network :: "cidr \<Rightarrow> ip" where
  "cidr_network c = push_bit (cidr_host_bits c) (drop_bit (cidr_host_bits c) (cidr_addr c))"

text \<open>
  Network and address are compared in four bytes when both are IPv4, in sixteen when neither
  is, and differ otherwise.
\<close>

definition cidr_contains :: "cidr \<Rightarrow> ip \<Rightarrow> bool" where
  "cidr_contains c a \<longleftrightarrow>
     is_v4 a = is_v4 (cidr_network c) \<and>
     drop_bit (cidr_host_bits c) a = drop_bit (cidr_host_bits c) (cidr_network c)"

section \<open>Printing\<close>

definition v4_fields :: "ip \<Rightarrow> int list" where
  "v4_fields a = map (\<lambda>i. uint (take_bit 8 (drop_bit (8 * i) a))) [3, 2, 1, 0]"

definition v6_fields :: "ip \<Rightarrow> int list" where
  "v6_fields a = map (\<lambda>i. uint (take_bit 16 (drop_bit (16 * i) a))) [7, 6, 5, 4, 3, 2, 1, 0]"

text \<open>The first longest run of zero groups, of at least two: where it starts and its length.\<close>

definition zero_run :: "int list \<Rightarrow> nat \<times> nat" where
  "zero_run gs =
     foldl (\<lambda>(st, l) i. let r = length (takeWhile (\<lambda>g. g = 0) (drop i gs))
                         in if 2 \<le> r \<and> l < r then (i, r) else (st, l))
       (0, 0) [0, 1, 2, 3, 4, 5, 6, 7]"

definition v6_string :: "int list \<Rightarrow> string" where
  "v6_string gs =
     (let (st, l) = zero_run gs; colons = join_with '':'' \<circ> map (numeral_in 16)
      in if l = 0 then colons gs
         else colons (take st gs) @ ''::'' @ colons (drop (st + l) gs))"

definition ip_string :: "ip option \<Rightarrow> string" where
  "ip_string ipo =
     (case ipo of
        None \<Rightarrow> ''<nil>''
      | Some a \<Rightarrow>
          if is_v4 a then join_with ''.'' (map (numeral_in 10) (v4_fields a))
          else v6_string (v6_fields a))"

section \<open>Reading back what was printed\<close>

lemma digit_value_char [simp]: "0 \<le> d \<Longrightarrow> d < 10 \<Longrightarrow> digit_value (digit_char d) = Some d"
  by (simp add: digit_value_def digit_char_def Let_def take_bit_eq_mod)

lemma digit_char_zero: "0 \<le> d \<Longrightarrow> d < 10 \<Longrightarrow> digit_char d = CHR ''0'' \<Longrightarrow> d = 0"
  using digit_value_char [of d] by (simp add: digit_value_def)

lemma digit_char_plain:
  assumes "0 \<le> d" "d < 10" "digit_value c = None"
  shows "digit_char d \<noteq> c"
  using assms by auto

lemma plain_chars [simp]:
  "digit_value (CHR ''.'') = None" "digit_value (CHR ''%'') = None" "digit_value (CHR '':'') = None"
  by (simp_all add: digit_value_def)

lemma numeral_octet:
  assumes "0 \<le> n" "n \<le> 255"
  shows "numeral_in 10 n =
     (if n < 10 then [digit_char n]
      else if n < 100 then [digit_char (n div 10), digit_char (n mod 10)]
      else [digit_char (n div 100), digit_char (n div 10 mod 10), digit_char (n mod 10)])"
proof -
  have "n div 10 < 100" "n div 100 < 10" "n div 10 div 10 = n div 100" using assms by linarith+
  then show ?thesis
    using assms numeral_in.simps [of 10 n] numeral_in.simps [of 10 "n div 10"]
      numeral_in.simps [of 10 "n div 100"] by auto
qed

lemma two_digits: "n = q * 10 + r \<Longrightarrow> q = p * 10 + s \<Longrightarrow> 100 * p + 10 * s + r = n" for n :: int
  by simp

lemma four_bytes:
  "u = q1 * 256 + r0 \<Longrightarrow> q1 = q2 * 256 + r1 \<Longrightarrow> q2 = q3 * 256 + r2 \<Longrightarrow> q3 = q4 * 256 + r3 \<Longrightarrow>
     u = q4 * 2 ^ 32 + (((r3 * 256 + r2) * 256 + r1) * 256 + r0)" for u :: int
  by simp

lemma decimal_three:
  "0 \<le> a \<Longrightarrow> a < 10 \<Longrightarrow> 0 \<le> b \<Longrightarrow> b < 10 \<Longrightarrow> 0 \<le> c \<Longrightarrow> c < 10 \<Longrightarrow>
     decimal [digit_char a, digit_char b, digit_char c] = Some (100 * a + 10 * b + c)"
  by (simp add: decimal_def)

lemma octet_roundtrip:
  assumes "0 \<le> n" "n \<le> 255"
  shows "parse_octet (numeral_in 10 n) = Some n"
    and "c \<in> set (numeral_in 10 n) \<Longrightarrow> digit_value c \<noteq> None"
proof -
  have d: "0 \<le> n mod 10" "n mod 10 < 10" "0 \<le> n div 10 mod 10" "n div 10 mod 10 < 10"
    "0 \<le> n div 100" "n div 100 < 10" "n < 100 \<Longrightarrow> n div 10 < 10" "0 \<le> n div 10"
    using assms by auto
  show "c \<in> set (numeral_in 10 n) \<Longrightarrow> digit_value c \<noteq> None"
    unfolding numeral_octet [OF assms] using assms d by (auto split: if_splits)
  have sum: "100 * (n div 100) + 10 * (n div 10 mod 10) + n mod 10 = n"
  proof -
    have "n div 100 = n div 10 div 10" by (simp add: zdiv_zmult2_eq [symmetric])
    moreover have "100 * (n div 10 div 10) + 10 * (n div 10 mod 10) + n mod 10 = n"
      by (rule two_digits [OF div_mult_mod_eq [symmetric] div_mult_mod_eq [symmetric]])
    ultimately show ?thesis by (simp only:)
  qed
  consider "n < 10" | "10 \<le> n" "n < 100" | "100 \<le> n" by linarith
  then show "parse_octet (numeral_in 10 n) = Some n"
  proof cases
    case 1
    then show ?thesis using assms by (simp add: numeral_octet parse_octet_def decimal_def)
  next
    case 2
    then have "n div 10 \<noteq> 0" by linarith
    then have "digit_char (n div 10) \<noteq> CHR ''0''" using digit_char_zero d(7,8) 2 by blast
    moreover have "decimal (numeral_in 10 n) = Some n"
      unfolding numeral_octet [OF assms] using 2 d by (simp add: decimal_def)
    ultimately show ?thesis
      unfolding parse_octet_def using 2 assms by (simp add: numeral_octet)
  next
    case 3
    then have "n div 100 \<noteq> 0" by linarith
    then have "digit_char (n div 100) \<noteq> CHR ''0''" using digit_char_zero d(5,6) by blast
    moreover have digits: "numeral_in 10 n = [digit_char (n div 100), digit_char (n div 10 mod 10), digit_char (n mod 10)]"
      using 3 by (subst numeral_octet [OF assms]) simp
    moreover have "decimal (numeral_in 10 n) = Some n"
      unfolding digits decimal_three [OF d(5,6,3,4,1,2)] sum ..
    ultimately show ?thesis
      unfolding parse_octet_def using assms(2) by (simp only: option.case list.sel if_True simp_thms)
  qed
qed

lemma v4_fields_range: "x \<in> set (v4_fields a) \<Longrightarrow> 0 \<le> x \<and> x \<le> 255"
proof -
  have lt: "uint (take_bit 8 (b :: ip)) < 256" for b
    by (simp add: take_bit_eq_mod uint_mod_distrib)
  have "uint (take_bit 8 (b :: ip)) \<le> 255" for b
    using lt [of b] by linarith
  then show "x \<in> set (v4_fields a) \<Longrightarrow> 0 \<le> x \<and> x \<le> 255" by (auto simp: v4_fields_def)
qed

lemma v4_value:
  assumes "is_v4 a"
  shows "ip_of_v4 (v4_fields a) = a"
proof -
  let ?u = "uint a"
  have f: "v4_fields a = map (\<lambda>i. ?u div 2 ^ (8 * i) mod 256) [3, 2, 1, 0]"
    by (simp add: v4_fields_def take_bit_eq_mod drop_bit_eq_div uint_div_distrib uint_mod_distrib)
  have "uint (drop_bit 32 a) = 0xFFFF" using assms by (simp add: is_v4_def)
  then have top: "?u div 2 ^ 32 = 0xFFFF" by (simp add: drop_bit_eq_div uint_div_distrib)
  have e: "?u div 2 ^ 16 = ?u div 256 div 256" "?u div 2 ^ 24 = ?u div 256 div 256 div 256"
    "?u div 2 ^ 32 = ?u div 256 div 256 div 256 div 256" "?u div 2 ^ 8 = ?u div 256"
    by (simp_all add: zdiv_zmult2_eq [symmetric])
  have sum: "?u = ?u div 2 ^ 32 * 2 ^ 32 + ((((?u div 2 ^ 24 mod 256) * 256 + ?u div 2 ^ 16 mod 256) * 256
      + ?u div 2 ^ 8 mod 256) * 256 + ?u mod 256)"
    unfolding e by (rule four_bytes [OF div_mult_mod_eq [symmetric] div_mult_mod_eq [symmetric]
          div_mult_mod_eq [symmetric] div_mult_mod_eq [symmetric]])
  have "v4_prefix + number_of 256 (v4_fields a) = ?u div 2 ^ 32 * 2 ^ 32 +
      ((((?u div 2 ^ 24 mod 256) * 256 + ?u div 2 ^ 16 mod 256) * 256 + ?u div 2 ^ 8 mod 256) * 256 + ?u mod 256)"
    unfolding f v4_prefix_def top by simp
  also have "\<dots> = ?u" by (rule sum [symmetric])
  finally show ?thesis by (simp add: ip_of_v4_def)
qed

lemma all_some_map: "\<forall>x\<in>set xs. f x = Some (g x) \<Longrightarrow> all_some (map f xs) = Some (map g xs)"
  by (induction xs) auto

lemma v4_roundtrip:
  assumes "is_v4 a"
  shows "parse_addr (ip_string (Some a)) = Some (True, a)"
proof -
  let ?parts = "map (numeral_in 10) (v4_fields a)"
  let ?s = "join_with ''.'' ?parts"
  have oct: "\<forall>n\<in>set (v4_fields a). parse_octet (numeral_in 10 n) = Some n"
    "\<forall>x\<in>set ?parts. CHR ''.'' \<notin> set x \<and> CHR ''%'' \<notin> set x \<and> CHR '':'' \<notin> set x"
    using octet_roundtrip v4_fields_range plain_chars by (auto, (metis)+)
  have len: "length (v4_fields a) = 4" by (simp add: v4_fields_def)
  have split: "split_on (CHR ''.'') ?s = ?parts"
    using oct(2) len by (intro split_join) auto
  have fields: "parse_v4_fields ?s = Some (v4_fields a)"
    using all_some_map [of "v4_fields a" "parse_octet \<circ> numeral_in 10" "\<lambda>x. x"] oct(1) len
    by (simp add: parse_v4_fields_def split Let_def comp_def)
  have mem: "c \<in> set (join_with ''.'' xs) \<Longrightarrow> c = CHR ''.'' \<or> (\<exists>x\<in>set xs. c \<in> set x)" for c xs
    by (induction "''.''" xs rule: join_with.induct) auto
  have "CHR ''%'' \<notin> set ?s" using mem oct(2) by fastforce
  obtain w ws where w: "?parts = w # ws" "ws \<noteq> []" using len by (cases ?parts; cases "tl ?parts") auto
  then have s: "?s = w @ CHR ''.'' # join_with ''.'' ws" by (cases ws) auto
  have "\<forall>c\<in>set w. c \<noteq> CHR ''.'' \<and> c \<noteq> CHR '':''"
    using oct(2) w(1) by (metis list.set_intros(1))
  then have "dropWhile (\<lambda>c. c \<noteq> CHR ''.'' \<and> c \<noteq> CHR '':'') ?s = CHR ''.'' # join_with ''.'' ws"
    unfolding s by (subst dropWhile_append2) auto
  with fields \<open>CHR ''%'' \<notin> set ?s\<close> assms show ?thesis
    by (simp add: parse_addr_def ip_string_def v4_value)
qed

lemma parse_nil [simp]: "parse_ip (ip_string None) = None"
  by (simp add: parse_ip_def ip_string_def parse_addr_def)

end
