(* ===== verification/GoLib.thy ===== *)
theory GoLib
  imports GoNet Config
begin

text \<open>
  What the program takes from libraries that are not part of the repository and that are too
  large to write out: regular expressions, URLs, Unicode case, hashes, one-time passwords and
  the like. They are the fields of one record \<open>golib\<close>, an argument of the definitions that
  use them; nothing is assumed of them unless a theorem says so. \<open>ascii_lib\<close> is a concrete
  instance. Small parts of the standard library (base64, UTF-8) are written out here.
\<close>

section \<open>UTF-8\<close>

definition byte_in :: "int \<Rightarrow> int \<Rightarrow> char \<Rightarrow> bool" where
  "byte_in lo hi c \<longleftrightarrow> lo \<le> of_char c \<and> of_char c \<le> hi"

text \<open>The length of the encoded rune at the head of the text, \<open>None\<close> when it is invalid.\<close>

fun rune_length :: "string \<Rightarrow> nat option" where
  "rune_length [] = None"
| "rune_length (a # s) =
     (if byte_in 0 0x7F a then Some 1
      else if byte_in 0xC2 0xDF a then
        (case s of b # _ \<Rightarrow> if byte_in 0x80 0xBF b then Some 2 else None | [] \<Rightarrow> None)
      else if byte_in 0xE0 0xEF a then
        (case s of b # c # _ \<Rightarrow>
           if byte_in (if byte_in 0xE0 0xE0 a then 0xA0 else 0x80) (if byte_in 0xED 0xED a then 0x9F else 0xBF) b
              \<and> byte_in 0x80 0xBF c then Some 3 else None
         | _ \<Rightarrow> None)
      else if byte_in 0xF0 0xF4 a then
        (case s of b # c # d # _ \<Rightarrow>
           if byte_in (if byte_in 0xF0 0xF0 a then 0x90 else 0x80) (if byte_in 0xF4 0xF4 a then 0x8F else 0xBF) b
              \<and> byte_in 0x80 0xBF c \<and> byte_in 0x80 0xBF d then Some 4 else None
         | _ \<Rightarrow> None)
      else None)"

text \<open>
  \<open>[]rune(s)\<close>, each rune given by its encoding: a byte that starts no valid rune becomes
  U+FFFD.
\<close>

function runes :: "string \<Rightarrow> string list" where
  "runes [] = []"
| "runes (a # s) =
     (case rune_length (a # s) of
        None \<Rightarrow> [CHR 0xEF, CHR 0xBF, CHR 0xBD] # runes s
      | Some n \<Rightarrow> take n (a # s) # runes (drop (n - 1) s))"
  by pat_completeness auto
termination
  by (relation "measure length") auto

lemma runes_ascii: "\<forall>c\<in>set s. byte_in 0 0x7F c \<Longrightarrow> runes s = map (\<lambda>c. [c]) s"
  by (induction s) auto

section \<open>Base64\<close>

definition std_alphabet :: string where
  "std_alphabet = ''ABCDEFGHIJKLMNOPQRSTUVWXYZabcdefghijklmnopqrstuvwxyz0123456789+/''"

definition url_alphabet :: string where
  "url_alphabet = ''ABCDEFGHIJKLMNOPQRSTUVWXYZabcdefghijklmnopqrstuvwxyz0123456789-_''"

fun base64_with :: "string \<Rightarrow> string \<Rightarrow> string \<Rightarrow> string" where
  "base64_with tbl pad [] = []"
| "base64_with tbl pad [a] =
     (let x = (of_char a :: nat) in [tbl ! (x div 4), tbl ! (x mod 4 * 16)] @ pad @ pad)"
| "base64_with tbl pad [a, b] =
     (let x = (of_char a :: nat); y = of_char b
      in [tbl ! (x div 4), tbl ! (x mod 4 * 16 + y div 16), tbl ! (y mod 16 * 4)] @ pad)"
| "base64_with tbl pad (a # b # c # s) =
     (let x = (of_char a :: nat); y = of_char b; z = of_char c
      in [tbl ! (x div 4), tbl ! (x mod 4 * 16 + y div 16), tbl ! (y mod 16 * 4 + z div 64), tbl ! (z mod 64)]
         @ base64_with tbl pad s)"

text \<open>\<open>StdEncoding\<close> pads, \<open>RawURLEncoding\<close> does not.\<close>

definition base64_std :: "string \<Rightarrow> string" where
  "base64_std s = base64_with std_alphabet ''='' s"

definition base64_raw_url :: "string \<Rightarrow> string" where
  "base64_raw_url s = base64_with url_alphabet [] s"

section \<open>JSON\<close>

datatype json =
    JNull
  | JBool bool
  | JNumber int
  | JString string
  | JArray "json list"
  | JObject "(string \<times> json) list"

section \<open>Libraries\<close>

text \<open>The parts of a parsed URL that the program reads.\<close>

record url =
  url_scheme :: string
  url_host :: string
  url_hostname :: string
  url_port :: string
  url_path :: string
  url_raw_query :: string

record golib =
  lib_to_lower :: "string \<Rightarrow> string"
  lib_to_upper :: "string \<Rightarrow> string"
  lib_equal_fold :: "string \<Rightarrow> string \<Rightarrow> bool"
  lib_regexp :: "string \<Rightarrow> (string \<Rightarrow> bool) option"
  lib_read_file :: "string \<Rightarrow> string option"
  lib_parse_url :: "string \<Rightarrow> url option"
  lib_parse_address :: "string \<Rightarrow> string option"
  lib_public_suffix :: "string \<Rightarrow> bool"
  lib_uuid_sha1 :: "string \<Rightarrow> string"
  lib_sha256 :: "string \<Rightarrow> string"
  lib_bcrypt :: "string \<Rightarrow> string \<Rightarrow> bool"
  lib_totp :: "string \<Rightarrow> string \<Rightarrow> bool"
  lib_nested_slice :: "string list \<Rightarrow> json \<Rightarrow> unit + json list option"
  lib_nested_map :: "string list \<Rightarrow> json \<Rightarrow> unit + (string \<times> json) list option"
  lib_decode_apps :: "(string \<times> string) list \<Rightarrow> (string \<times> app) list option"
  lib_sprintf :: "string \<Rightarrow> string \<Rightarrow> string"
  lib_rfc3339 :: "int \<Rightarrow> string"
  lib_ldap_escape :: "string \<Rightarrow> string"
  lib_parse_dn :: "string \<Rightarrow> (string \<times> string) list list option"

text \<open>
  \<open>lib_regexp p\<close> is \<open>regexp.Compile\<close> with the matcher it gives, \<open>lib_read_file\<close> is
  \<open>os.ReadFile\<close>, \<open>lib_parse_address\<close> is \<open>mail.ParseAddress\<close> with the bare address,
  \<open>lib_public_suffix\<close> holds of a domain that is itself a public suffix or unknown,
  \<open>lib_uuid_sha1\<close> is the version 5 UUID in the URL name space, \<open>lib_sha256\<close> the 32 bytes of
  the digest, \<open>lib_bcrypt hash password\<close> and \<open>lib_totp code secret\<close> the two checks,
  \<open>lib_nested_slice\<close> and \<open>lib_nested_map\<close> read a field of an unstructured Kubernetes object
  (an error, absent or present), \<open>lib_decode_apps\<close> decodes labels into apps by name,
  \<open>lib_sprintf f x\<close> is \<open>fmt.Sprintf(f, x)\<close>, \<open>lib_ldap_escape\<close> is \<open>ldap.EscapeFilter\<close> and
  \<open>lib_rfc3339\<close> formats a time, \<open>lib_parse_dn\<close> splits a distinguished name into its attributes with their values.
\<close>

definition ascii_lower :: "char \<Rightarrow> char" where
  "ascii_lower c = (let n = (of_char c :: int) in if 65 \<le> n \<and> n \<le> 90 then char_of (n + 32) else c)"

definition ascii_upper :: "char \<Rightarrow> char" where
  "ascii_upper c = (let n = (of_char c :: int) in if 97 \<le> n \<and> n \<le> 122 then char_of (n - 32) else c)"

text \<open>
  URLs of the form \<open>scheme://host[:port][/path][?query]\<close>; anything else is refused. Text is a
  regular expression for itself, a text matches when it starts with it.
\<close>

definition simple_url :: "string \<Rightarrow> url option" where
  "simple_url s =
     (case cut_at (CHR '':'') s of
        None \<Rightarrow> None
      | Some (scheme, rest) \<Rightarrow>
          if take 2 rest \<noteq> ''//'' \<or> scheme = [] then None
          else
            let s1 = drop 2 rest;
                host = takeWhile (\<lambda>c. c \<noteq> CHR ''/'' \<and> c \<noteq> CHR ''?'') s1;
                s2 = drop (length host) s1;
                path = takeWhile (\<lambda>c. c \<noteq> CHR ''?'') s2;
                name = takeWhile (\<lambda>c. c \<noteq> CHR '':'') host
            in Some \<lparr>url_scheme = map ascii_lower scheme, url_host = host, url_hostname = name,
                     url_port = drop (Suc (length name)) host, url_path = path,
                     url_raw_query = drop (Suc (length path)) s2\<rparr>)"

fun nested :: "string list \<Rightarrow> json \<Rightarrow> json option" where
  "nested [] v = Some v"
| "nested (k # ks) v =
     (case v of JObject fs \<Rightarrow> (case map_of fs k of None \<Rightarrow> None | Some w \<Rightarrow> nested ks w) | _ \<Rightarrow> None)"

definition ascii_lib :: golib where
  "ascii_lib =
     \<lparr>lib_to_lower = map ascii_lower,
      lib_to_upper = map ascii_upper,
      lib_equal_fold = (\<lambda>a b. map ascii_lower a = map ascii_lower b),
      lib_regexp = (\<lambda>p. if CHR ''('' \<in> set p then None else Some (\<lambda>s. take (length p) s = p)),
      lib_read_file = (\<lambda>f. None),
      lib_parse_url = simple_url,
      lib_parse_address = (\<lambda>s. if CHR ''@'' \<in> set s then Some s else None),
      lib_public_suffix = (\<lambda>s. CHR ''.'' \<notin> set s),
      lib_uuid_sha1 = (\<lambda>s. s),
      lib_sha256 = (\<lambda>s. s),
      lib_bcrypt = (\<lambda>h p. h = p),
      lib_totp = (\<lambda>c s. c = s),
      lib_nested_slice = (\<lambda>path v. case nested path v of
         None \<Rightarrow> Inr None | Some (JArray vs) \<Rightarrow> Inr (Some vs) | Some _ \<Rightarrow> Inl ()),
      lib_nested_map = (\<lambda>path v. case nested path v of
         None \<Rightarrow> Inr None | Some (JObject fs) \<Rightarrow> Inr (Some fs) | Some _ \<Rightarrow> Inl ()),
      lib_decode_apps = (\<lambda>labels. Some (map (\<lambda>(n, d). (n, zero_app\<lparr>app_config := \<lparr>apc_domain = d\<rparr>\<rparr>)) labels)),
      lib_sprintf = (\<lambda>f x. case cut_at (CHR ''%'') f of None \<Rightarrow> f | Some (a, b) \<Rightarrow> a @ x @ tl b),
      lib_rfc3339 = (\<lambda>t. numeral_in 10 t),
      lib_ldap_escape = (\<lambda>s. s),
      lib_parse_dn = (\<lambda>s. all_some (map (\<lambda>p. map_option (\<lambda>kv. [kv]) (cut_at (CHR ''='') p)) (split_on (CHR '','') s)))\<rparr>"

end
