(* ===== verification/Context.thy ===== *)
theory Context
  imports Repository GoLib
begin

text \<open>
  Who a request comes from: \<open>internal/model/context.go\<close>, \<open>users.go\<close>, \<open>runtime.go\<close> and
  \<open>constants.go\<close>. The pointers of a \<open>UserContext\<close> are options, an embedded struct is a record
  extension. \<open>new_from_gin\<close> reads the context a middleware stored with the request and
  \<open>new_from_session\<close> builds one from a stored session.
\<close>

section \<open>Users and the runtime configuration\<close>

datatype user_search_type = UserLocal | UserLDAP

record ldap_user =
  lu_dn :: string
  lu_groups :: "string list"

record local_user =
  user_username :: string
  user_password :: string
  user_totp_secret :: string
  user_attributes :: user_attributes

record user_search =
  search_username :: string
  search_email :: string
  search_type :: user_search_type

record provider =
  prov_name :: string
  prov_id :: string
  prov_oauth :: bool

record runtime_config =
  rt_app_url :: string
  rt_uuid :: string
  rt_cookie_domain :: string
  rt_session_cookie_name :: string
  rt_csrf_cookie_name :: string
  rt_redirect_cookie_name :: string
  rt_oauth_session_cookie_name :: string
  rt_local_users :: "local_user list"
  rt_oauth_providers :: "(string, oauth_service_config) gomap"
  rt_oauth_whitelist :: "string list"
  rt_configured_providers :: "provider list"

record claims =
  cl_sub :: string
  cl_name :: string
  cl_email :: string
  cl_preferred_username :: string
  cl_groups :: json

definition override_providers :: "(string, string) gomap" where
  "override_providers = [(''google'', ''Google''), (''github'', ''GitHub'')]"

definition reserved_provider_names :: "string list" where
  "reserved_provider_names = [''local'', ''ldap'', ''tailscale'']"

section \<open>The user context\<close>

datatype provider_type = ProviderLocal | ProviderBasicAuth | ProviderOAuth | ProviderLDAP | ProviderTailscale

record base_context =
  bc_username :: string
  bc_name :: string
  bc_email :: string

record local_context = base_context +
  lc_totp_pending :: bool
  lc_attributes :: user_attributes

record oauth_context = base_context +
  oc_groups :: "string list"
  oc_sub :: string
  oc_display_name :: string
  oc_id :: string

record ldap_context = base_context +
  dc_groups :: "string list"

record tailscale_context = base_context +
  tc_user_id :: string

record user_context =
  uc_authenticated :: bool
  uc_provider :: provider_type
  uc_auth_time :: int
  uc_local :: "local_context option"
  uc_oauth :: "oauth_context option"
  uc_ldap :: "ldap_context option"
  uc_tailscale :: "tailscale_context option"

definition zero_user_context :: user_context where
  "zero_user_context =
     \<lparr>uc_authenticated = False, uc_provider = ProviderLocal, uc_auth_time = 0, uc_local = None,
      uc_oauth = None, uc_ldap = None, uc_tailscale = None\<rparr>"

definition is_authenticated :: "user_context \<Rightarrow> bool" where
  "is_authenticated c = uc_authenticated c"

definition is_local :: "user_context \<Rightarrow> bool" where
  "is_local c \<longleftrightarrow> uc_provider c = ProviderLocal \<and> uc_local c \<noteq> None"

definition is_oauth :: "user_context \<Rightarrow> bool" where
  "is_oauth c \<longleftrightarrow> uc_provider c = ProviderOAuth \<and> uc_oauth c \<noteq> None"

definition is_ldap :: "user_context \<Rightarrow> bool" where
  "is_ldap c \<longleftrightarrow> uc_provider c = ProviderLDAP \<and> uc_ldap c \<noteq> None"

definition is_basic_auth :: "user_context \<Rightarrow> bool" where
  "is_basic_auth c \<longleftrightarrow> uc_provider c = ProviderBasicAuth \<and> uc_local c \<noteq> None"

definition is_tailscale :: "user_context \<Rightarrow> bool" where
  "is_tailscale c \<longleftrightarrow> uc_provider c = ProviderTailscale \<and> uc_tailscale c \<noteq> None"

datatype context_error = ErrUserContextNotFound | ErrInvalidContextType | ErrIncompleteContext

text \<open>
  The value stored under the key \<open>context\<close>: absent, a nil pointer or a pointer.
\<close>

type_synonym gin_value = "user_context option option"

definition new_from_gin :: "gin_value \<Rightarrow> context_error + user_context" where
  "new_from_gin value =
     (case value of
        None \<Rightarrow> Inl ErrUserContextNotFound
      | Some None \<Rightarrow> Inl ErrInvalidContextType
      | Some (Some c) \<Rightarrow>
          if uc_ldap c = None \<and> uc_local c = None \<and> uc_oauth c = None \<and> uc_tailscale c = None
          then Inl ErrIncompleteContext
          else Inr c)"

definition new_from_session :: "session \<Rightarrow> user_context" where
  "new_from_session s =
     (let c = zero_user_context
            \<lparr>uc_authenticated := \<not> se_totp_pending s, uc_auth_time := se_created_at s\<rparr>
      in if se_provider s = ''local'' then
           c\<lparr>uc_provider := ProviderLocal,
             uc_local := Some \<lparr>bc_username = se_username s, bc_name = se_name s, bc_email = se_email s,
               lc_totp_pending = se_totp_pending s, lc_attributes = zero_user_attributes\<rparr>\<rparr>
         else if se_provider s = ''ldap'' then
           c\<lparr>uc_provider := ProviderLDAP,
             uc_ldap := Some \<lparr>bc_username = se_username s, bc_name = se_name s, bc_email = se_email s,
               dc_groups = []\<rparr>\<rparr>
         else if se_provider s = ''tailscale'' then
           c\<lparr>uc_provider := ProviderTailscale,
             uc_tailscale := Some \<lparr>bc_username = se_username s, bc_name = se_name s, bc_email = se_email s,
               tc_user_id = []\<rparr>\<rparr>
         else
           c\<lparr>uc_provider := ProviderOAuth,
             uc_oauth := Some \<lparr>bc_username = se_username s, bc_name = se_name s, bc_email = se_email s,
               oc_groups = (if se_oauth_groups s = [] then [] else split_on (CHR '','') (se_oauth_groups s)),
               oc_sub = se_oauth_sub s, oc_display_name = se_oauth_name s, oc_id = se_provider s\<rparr>\<rparr>)"

definition get_base_context :: "user_context \<Rightarrow> base_context option" where
  "get_base_context c =
     (case uc_provider c of
        ProviderLocal \<Rightarrow> map_option base_context.truncate (uc_local c)
      | ProviderBasicAuth \<Rightarrow> map_option base_context.truncate (uc_local c)
      | ProviderLDAP \<Rightarrow> map_option base_context.truncate (uc_ldap c)
      | ProviderOAuth \<Rightarrow> map_option base_context.truncate (uc_oauth c)
      | ProviderTailscale \<Rightarrow> map_option base_context.truncate (uc_tailscale c))"

definition get_username :: "user_context \<Rightarrow> string" where
  "get_username c = (case get_base_context c of None \<Rightarrow> [] | Some b \<Rightarrow> bc_username b)"

definition get_email :: "user_context \<Rightarrow> string" where
  "get_email c = (case get_base_context c of None \<Rightarrow> [] | Some b \<Rightarrow> bc_email b)"

definition get_name :: "user_context \<Rightarrow> string" where
  "get_name c = (case get_base_context c of None \<Rightarrow> [] | Some b \<Rightarrow> bc_name b)"

text \<open>The OAuth branch reads through the pointer and panics when it is nil.\<close>

definition get_provider_id :: "user_context \<Rightarrow> string outcome" where
  "get_provider_id c =
     (case uc_provider c of
        ProviderBasicAuth \<Rightarrow> Returns ''local''
      | ProviderLocal \<Rightarrow> Returns ''local''
      | ProviderLDAP \<Rightarrow> Returns ''ldap''
      | ProviderOAuth \<Rightarrow> (case uc_oauth c of None \<Rightarrow> Panics | Some o' \<Rightarrow> Returns (oc_id o'))
      | ProviderTailscale \<Rightarrow> Returns ''tailscale'')"

definition totp_pending :: "user_context \<Rightarrow> bool" where
  "totp_pending c =
     (case uc_local c of
        None \<Rightarrow> False
      | Some l \<Rightarrow> if uc_provider c = ProviderLocal then lc_totp_pending l else False)"

definition oauth_name :: "user_context \<Rightarrow> string" where
  "oauth_name c =
     (case uc_oauth c of
        None \<Rightarrow> []
      | Some o' \<Rightarrow> if uc_provider c = ProviderOAuth then oc_display_name o' else [])"

definition tailscale_node_name :: "user_context \<Rightarrow> string" where
  "tailscale_node_name c = (case uc_tailscale c of None \<Rightarrow> [] | Some t \<Rightarrow> bc_username t)"

section \<open>Well-formed contexts\<close>

text \<open>The pointer of the provider is set; every context the program builds is like this.\<close>

definition wf_context :: "user_context \<Rightarrow> bool" where
  "wf_context c \<longleftrightarrow>
     (case uc_provider c of
        ProviderLocal \<Rightarrow> uc_local c \<noteq> None
      | ProviderBasicAuth \<Rightarrow> uc_local c \<noteq> None
      | ProviderOAuth \<Rightarrow> uc_oauth c \<noteq> None
      | ProviderLDAP \<Rightarrow> uc_ldap c \<noteq> None
      | ProviderTailscale \<Rightarrow> uc_tailscale c \<noteq> None)"

lemma wf_new_from_session [simp, intro]: "wf_context (new_from_session s)"
  by (simp add: wf_context_def new_from_session_def Let_def)

lemma wf_gin: "wf_context c \<Longrightarrow> new_from_gin (Some (Some c)) = Inr c"
  by (auto simp: wf_context_def new_from_gin_def split: provider_type.splits)

lemma new_from_gin_Inr: "new_from_gin v = Inr c \<Longrightarrow> v = Some (Some c)"
  by (auto simp: new_from_gin_def split: option.splits if_splits)

lemma wf_provider_id: "wf_context c \<Longrightarrow> \<exists>p. get_provider_id c = Returns p"
  by (auto simp: wf_context_def get_provider_id_def split: provider_type.splits)

lemma session_authenticated [simp]: "uc_authenticated (new_from_session s) = (\<not> se_totp_pending s)"
  by (simp add: new_from_session_def Let_def zero_user_context_def)

lemma session_auth_time [simp]: "uc_auth_time (new_from_session s) = se_created_at s"
  by (simp add: new_from_session_def Let_def)

lemma session_username [simp]: "get_username (new_from_session s) = se_username s"
  by (simp add: new_from_session_def Let_def get_username_def get_base_context_def
      base_context.truncate_def)

lemma session_email [simp]: "get_email (new_from_session s) = se_email s"
  by (simp add: new_from_session_def Let_def get_email_def get_base_context_def
      base_context.truncate_def)

lemma session_provider_id: "get_provider_id (new_from_session s) = Returns (se_provider s)"
  by (simp add: new_from_session_def Let_def get_provider_id_def)

text \<open>
  A session with a pending second factor never gives an authenticated context, and the groups
  of an OAuth session come back as they were joined, unless one of them holds a comma.
\<close>

lemma session_groups:
  assumes "se_provider s \<notin> set reserved_provider_names" "se_oauth_groups s = join_with '','' gs"
    "\<forall>g\<in>set gs. CHR '','' \<notin> set g" "gs \<noteq> [[]]"
  shows "\<exists>o'. uc_oauth (new_from_session s) = Some o' \<and> oc_groups o' = gs"
proof -
  have "join_with '','' gs = [] \<longleftrightarrow> gs = []" using assms(4)
    by (cases gs; cases "tl gs") auto
  then show ?thesis using assms split_join [of gs "CHR '',''"]
    by (auto simp: new_from_session_def Let_def reserved_provider_names_def)
qed

end
