(* ===== verification/Utils.thy ===== *)
theory Utils
  imports Context
begin

text \<open>
  The helpers of \<open>internal/utils\<close>: string lists and secrets, the users file, the domain of the
  cookies, headers given in labels, and the two filters of the access rules. An error value is
  one constructor per error of the source.
\<close>

section \<open>Strings\<close>

definition capitalize :: "golib \<Rightarrow> string \<Rightarrow> string" where
  "capitalize lib str =
     (if str = [] then [] else lib_to_upper lib (hd (runes str)) @ concat (tl (runes str)))"

fun json_strings :: "json list \<Rightarrow> string list" where
  "json_strings [] = []"
| "json_strings (JString s # vs) = s # json_strings vs"
| "json_strings (v # vs) = json_strings vs"

definition coalesce_to_string :: "json \<Rightarrow> string" where
  "coalesce_to_string v =
     (case v of
        JArray vs \<Rightarrow> join_with '','' (json_strings vs)
      | JString s \<Rightarrow> s
      | _ \<Rightarrow> [])"

definition parse_non_empty_lines :: "string \<Rightarrow> string list" where
  "parse_non_empty_lines contents =
     filter (\<lambda>l. l \<noteq> []) (map trim_space (split_on (CHR 0x0A) contents))"

definition get_string_list :: "golib \<Rightarrow> string list \<Rightarrow> string \<Rightarrow> (string list) option" where
  "get_string_list lib values_cfg values_path =
     (let values = filter (\<lambda>v. v \<noteq> []) (map trim_space values_cfg)
      in if values_path = [] then Some values
         else (case lib_read_file lib values_path of
                 None \<Rightarrow> None
               | Some contents \<Rightarrow> Some (values @ parse_non_empty_lines contents)))"

definition parse_file_to_line :: "string \<Rightarrow> string" where
  "parse_file_to_line content =
     join_with '','' (map trim_space (filter (\<lambda>l. trim_space l \<noteq> []) (split_on (CHR 0x0A) content)))"

fun filter_slice :: "('a \<Rightarrow> bool) \<Rightarrow> 'a list \<Rightarrow> 'a list" where
  "filter_slice test [] = []"
| "filter_slice test (x # xs) = (if test x then x # filter_slice test xs else filter_slice test xs)"

fun parse_secret_lines :: "string list \<Rightarrow> string" where
  "parse_secret_lines [] = []"
| "parse_secret_lines (l # ls) = (if trim_space l = [] then parse_secret_lines ls else trim_space l)"

definition parse_secret_file :: "string \<Rightarrow> string" where
  "parse_secret_file contents = parse_secret_lines (split_on (CHR 0x0A) contents)"

definition get_secret :: "golib \<Rightarrow> string \<Rightarrow> string \<Rightarrow> string" where
  "get_secret lib conf file =
     (if conf = [] \<and> file = [] then []
      else if conf \<noteq> [] then conf
      else (case lib_read_file lib file of None \<Rightarrow> [] | Some contents \<Rightarrow> parse_secret_file contents))"

definition encode_basic_auth :: "string \<Rightarrow> string \<Rightarrow> string" where
  "encode_basic_auth username password = base64_std (username @ '':'' @ password)"

definition generate_uuid :: "golib \<Rightarrow> string \<Rightarrow> string" where
  "generate_uuid lib str = lib_uuid_sha1 lib str"

text \<open>The random bytes are an argument; there are as many as the text has characters.\<close>

definition generate_string :: "string \<Rightarrow> string" where
  "generate_string random = take (length random) (base64_raw_url random)"

definition compile_user_email :: "golib \<Rightarrow> string \<Rightarrow> string \<Rightarrow> string" where
  "compile_user_email lib username domain =
     (case lib_parse_address lib username of
        None \<Rightarrow> lib_to_lower lib username @ ''@'' @ domain
      | Some _ \<Rightarrow> username)"

section \<open>Users\<close>

text \<open>\<open>None\<close> is the error \<open>invalid user format\<close>.\<close>

definition parse_user :: "string \<Rightarrow> local_user option" where
  "parse_user user_str =
     (let s = (if has_pair (CHR ''$'') user_str then squeeze_pairs (CHR ''$'') user_str else user_str);
          parts = split_n 4 (CHR '':'') s
      in if length parts < 2 \<or> 3 < length parts then None
         else
           let parts = map trim_space parts
           in if [] \<in> set parts then None
              else Some \<lparr>user_username = parts ! 0, user_password = parts ! 1,
                         user_totp_secret = (if length parts = 3 then parts ! 2 else []),
                         user_attributes = zero_user_attributes\<rparr>)"

fun parse_users_loop ::
  "(string, user_attributes) gomap \<Rightarrow> string list \<Rightarrow> local_user list option"
where
  "parse_users_loop attrs [] = Some []"
| "parse_users_loop attrs (u # us) =
     (if trim_space u = [] then parse_users_loop attrs us
      else (case parse_user (trim_space u) of
              None \<Rightarrow> None
            | Some p \<Rightarrow>
                let p' = (case map_of attrs (user_username p) of
                            None \<Rightarrow> p
                          | Some a \<Rightarrow> p\<lparr>user_attributes := a\<rparr>)
                in map_option ((#) p') (parse_users_loop attrs us)))"

text \<open>The outer option is the error; the inner \<open>None\<close> is the nil pointer of an empty list.\<close>

definition parse_users ::
  "string list \<Rightarrow> (string, user_attributes) gomap \<Rightarrow> local_user list option option"
where
  "parse_users users_str attrs =
     (if users_str = [] then Some None else map_option Some (parse_users_loop attrs users_str))"

definition get_users ::
  "golib \<Rightarrow> string list \<Rightarrow> string \<Rightarrow> (string, user_attributes) gomap \<Rightarrow> local_user list option option"
where
  "get_users lib users_cfg users_path attrs =
     (case get_string_list lib users_cfg users_path of
        None \<Rightarrow> None
      | Some users_str \<Rightarrow> parse_users users_str attrs)"

section \<open>The domain of the cookies\<close>

datatype cookie_domain_error = InvalidAppUrl | IpNotAllowed | BadAppUrlFormat | PublicSuffix

definition get_cookie_domain :: "golib \<Rightarrow> string \<Rightarrow> bool \<Rightarrow> cookie_domain_error + string" where
  "get_cookie_domain lib app_url subdomains_enabled =
     (case lib_parse_url lib app_url of
        None \<Rightarrow> Inl InvalidAppUrl
      | Some u \<Rightarrow>
          let hostname = lib_to_lower lib (url_hostname u);
              parts = split_on (CHR ''.'') hostname
          in if parse_ip hostname \<noteq> None then Inl IpNotAllowed
             else if length parts < 2 then Inl BadAppUrlFormat
             else if \<not> subdomains_enabled \<or> length parts = 2
             then (if lib_public_suffix lib hostname then Inl PublicSuffix else Inr hostname)
             else
               let domain = join_with ''.'' (tl parts)
               in if lib_public_suffix lib domain then Inl PublicSuffix else Inr domain)"

section \<open>Headers\<close>

text \<open>
  Every byte of a rune outside ASCII is above 126, so dropping those runes drops the bytes.
\<close>

definition sanitize_header :: "string \<Rightarrow> string" where
  "sanitize_header header = filter (\<lambda>c. c = CHR 0x09 \<or> byte_in 32 126 c) header"

text \<open>\<open>http.CanonicalHeaderKey\<close>: a key with a byte that no header name has is left alone.\<close>

definition header_name_byte :: "char \<Rightarrow> bool" where
  "header_name_byte c \<longleftrightarrow>
     byte_in 48 57 c \<or> byte_in 65 90 c \<or> byte_in 97 122 c \<or> c \<in> set ''!#$%&*+-.^_`|~'' \<or> c = CHR 0x27"

fun canonical_from :: "bool \<Rightarrow> string \<Rightarrow> string" where
  "canonical_from up [] = []"
| "canonical_from up (c # s) =
     (if up then ascii_upper c else ascii_lower c) # canonical_from (c = CHR ''-'') s"

definition canonical_header_key :: "string \<Rightarrow> string" where
  "canonical_header_key s = (if list_all header_name_byte s then canonical_from True s else s)"

fun parse_headers_from :: "(string, string) gomap \<Rightarrow> string list \<Rightarrow> (string, string) gomap" where
  "parse_headers_from m [] = m"
| "parse_headers_from m (h # hs) =
     (case split_n 2 (CHR ''='') h of
        [a, b] \<Rightarrow>
          if trim_space a = [] \<or> trim_space b = [] then parse_headers_from m hs
          else
            let key = sanitize_header (trim_space a)
            in if CHR '' '' \<in> set key \<or> CHR 0x09 \<in> set key then parse_headers_from m hs
               else parse_headers_from
                      (AList.update (canonical_header_key key) (sanitize_header (trim_space b)) m) hs
      | _ \<Rightarrow> parse_headers_from m hs)"

definition parse_headers :: "string list \<Rightarrow> (string, string) gomap" where
  "parse_headers headers = parse_headers_from [] headers"

section \<open>Filters\<close>

datatype ip_filter_error = InvalidIP | InvalidCIDR

definition check_ip_filter :: "string \<Rightarrow> string \<Rightarrow> ip_filter_error + bool" where
  "check_ip_filter flt addr =
     (case parse_ip addr of
        None \<Rightarrow> Inl InvalidIP
      | Some ip_addr \<Rightarrow>
          let f = replace_char (CHR ''-'') (CHR ''/'') flt
          in if CHR ''/'' \<in> set f
             then (case parse_cidr f of
                     None \<Rightarrow> Inl InvalidCIDR
                   | Some cidr \<Rightarrow> Inr (cidr_contains cidr ip_addr))
             else (case parse_ip f of
                     None \<Rightarrow> Inl InvalidIP
                   | Some ip_filter \<Rightarrow> Inr (ip_filter = ip_addr)))"

datatype filter_error = ErrFilterEmpty | ErrInvalidRegex

text \<open>
  The slice \<open>filter[1:len(filter)-1]\<close> panics for the filter \<open>/\<close>, whose first byte is also its
  last. A regular expression that does not match falls through to the list.
\<close>

definition check_filter :: "golib \<Rightarrow> string \<Rightarrow> string \<Rightarrow> (filter_error + bool) outcome" where
  "check_filter lib flt input =
     (let items = split_on (CHR '','') flt;
          listed = (input \<in> set (map trim_space items))
      in if trim_space flt = [] then Returns (Inl ErrFilterEmpty)
         else if prefix ''/'' flt \<and> suffix ''/'' flt then
           (if length flt < 2 then Panics
            else (case lib_regexp lib (butlast (tl flt)) of
                    None \<Rightarrow> Returns (Inl ErrInvalidRegex)
                  | Some m \<Rightarrow> Returns (Inr (m input \<or> listed))))
         else Returns (Inr listed))"

end
