(* ===== verification/Policy.thy ===== *)
theory Policy
  imports Utils
begin

text \<open>
  The policy engine, \<open>internal/service/policy_engine.go\<close>, the access rules,
  \<open>access_controls_rules.go\<close>, and their registration in
  \<open>internal/bootstrap/service_bootstrap.go\<close>. A rule is a function of the access context to an
  effect; it panics where the code would dereference nil or slice out of range. The engine
  turns an effect into an access decision with the default policy.
\<close>

section \<open>The engine\<close>

datatype policy = PolicyAllow | PolicyDeny

datatype effect = EffectAbstain | EffectAllow | EffectDeny

record acl_context =
  ac_acls :: "app option"
  ac_user_context :: "user_context option"
  ac_ip :: "ip option"
  ac_path :: string

type_synonym rule_name = string
type_synonym rule = "acl_context \<Rightarrow> effect outcome"

record policy_engine =
  pe_rules :: "(rule_name, rule) gomap"
  pe_policy :: policy

text \<open>\<open>None\<close> is the error for an unknown policy.\<close>

definition new_policy_engine :: "config \<Rightarrow> policy_engine option" where
  "new_policy_engine cfg =
     (let p = acl_policy (au_acls (cfg_auth cfg))
      in if p = ''allow'' then Some \<lparr>pe_rules = [], pe_policy = PolicyAllow\<rparr>
         else if p = ''deny'' then Some \<lparr>pe_rules = [], pe_policy = PolicyDeny\<rparr>
         else None)"

definition register_rule :: "rule_name \<Rightarrow> rule \<Rightarrow> policy_engine \<Rightarrow> policy_engine" where
  "register_rule name rule engine = engine\<lparr>pe_rules := AList.update name rule (pe_rules engine)\<rparr>"

definition evaluate_rule_by_name :: "policy_engine \<Rightarrow> rule_name \<Rightarrow> acl_context \<Rightarrow> effect outcome" where
  "evaluate_rule_by_name engine name ctx =
     (case map_of (pe_rules engine) name of
        None \<Rightarrow> Returns EffectDeny
      | Some rule \<Rightarrow> rule ctx)"

definition effect_to_access :: "policy_engine \<Rightarrow> effect \<Rightarrow> bool" where
  "effect_to_access engine eff =
     (case eff of
        EffectAllow \<Rightarrow> True
      | EffectDeny \<Rightarrow> False
      | EffectAbstain \<Rightarrow> pe_policy engine = PolicyAllow)"

definition evaluate :: "policy_engine \<Rightarrow> rule_name \<Rightarrow> acl_context \<Rightarrow> bool outcome" where
  "evaluate engine name ctx =
     on_return (evaluate_rule_by_name engine name ctx) (\<lambda>eff. Returns (effect_to_access engine eff))"

definition evaluate_func :: "policy_engine \<Rightarrow> (unit \<Rightarrow> effect outcome) \<Rightarrow> bool outcome" where
  "evaluate_func engine f = on_return (f ()) (\<lambda>eff. Returns (effect_to_access engine eff))"

section \<open>The rules\<close>

definition rule_user_allowed :: rule_name where "rule_user_allowed = ''rule-user-allowed''"
definition rule_oauth_group :: rule_name where "rule_oauth_group = ''rule-oauth-group''"
definition rule_ldap_group :: rule_name where "rule_ldap_group = ''rule-ldap-group''"
definition rule_auth_enabled :: rule_name where "rule_auth_enabled = ''rule-auth-enabled''"
definition rule_ip_allowed :: rule_name where "rule_ip_allowed = ''rule-ip-allowed''"
definition rule_ip_bypassed :: rule_name where "rule_ip_bypassed = ''rule-ip-bypassed''"

lemmas rule_names = rule_user_allowed_def rule_oauth_group_def rule_ldap_group_def
  rule_auth_enabled_def rule_ip_allowed_def rule_ip_bypassed_def

text \<open>The outcome of a filter: an error denies.\<close>

definition match_or_deny :: "(filter_error + bool) outcome \<Rightarrow> effect outcome" where
  "match_or_deny r =
     on_return r (\<lambda>v. Returns (case v of Inl _ \<Rightarrow> EffectDeny | Inr m \<Rightarrow> if m then EffectAllow else EffectDeny))"

definition user_allowed_rule :: "golib \<Rightarrow> rule" where
  "user_allowed_rule lib ctx =
     (case ac_user_context ctx of
        None \<Rightarrow> Returns EffectDeny
      | Some uc \<Rightarrow>
          (case ac_acls ctx of
             None \<Rightarrow> Returns EffectAbstain
           | Some acls \<Rightarrow>
               if uc_provider uc = ProviderOAuth then
                 (case uc_oauth uc of
                    None \<Rightarrow> Panics
                  | Some oa \<Rightarrow> match_or_deny (check_filter lib (aoa_whitelist (app_oauth acls)) (bc_email oa)))
               else if aus_block (app_users acls) \<noteq> [] then
                 on_return (check_filter lib (aus_block (app_users acls)) (get_username uc)) (\<lambda>v.
                   Returns (case v of Inl _ \<Rightarrow> EffectDeny | Inr m \<Rightarrow> if m then EffectDeny else EffectAllow))
               else
                 on_return (check_filter lib (aus_allow (app_users acls)) (get_username uc)) (\<lambda>v.
                   Returns (case v of
                       Inl e \<Rightarrow> if e = ErrFilterEmpty then EffectAbstain else EffectDeny
                     | Inr m \<Rightarrow> if m then EffectAllow else EffectDeny))))"

text \<open>The loop over the groups of the user.\<close>

fun match_groups :: "golib \<Rightarrow> string \<Rightarrow> string list \<Rightarrow> effect outcome" where
  "match_groups lib required [] = Returns EffectDeny"
| "match_groups lib required (g # gs) =
     on_return (check_filter lib required (trim_space g)) (\<lambda>v.
       (case v of
          Inl _ \<Rightarrow> Returns EffectDeny
        | Inr m \<Rightarrow> if m then Returns EffectAllow else match_groups lib required gs))"

definition oauth_group_rule :: "golib \<Rightarrow> rule" where
  "oauth_group_rule lib ctx =
     (case ac_user_context ctx of
        None \<Rightarrow> Returns EffectDeny
      | Some uc \<Rightarrow>
          (case ac_acls ctx of
             None \<Rightarrow> Returns EffectAllow
           | Some acls \<Rightarrow>
               (case uc_oauth uc of
                  None \<Rightarrow> Returns EffectAllow
                | Some oa \<Rightarrow>
                    if \<not> is_oauth uc then Returns EffectAllow
                    else if aoa_groups (app_oauth acls) = [] then Returns EffectAllow
                    else if map_of override_providers (oc_id oa) \<noteq> None then Returns EffectAllow
                    else match_groups lib (aoa_groups (app_oauth acls)) (oc_groups oa))))"

definition ldap_group_rule :: "golib \<Rightarrow> rule" where
  "ldap_group_rule lib ctx =
     (case ac_user_context ctx of
        None \<Rightarrow> Returns EffectDeny
      | Some uc \<Rightarrow>
          (case ac_acls ctx of
             None \<Rightarrow> Returns EffectAllow
           | Some acls \<Rightarrow>
               (case uc_ldap uc of
                  None \<Rightarrow> Returns EffectAllow
                | Some la \<Rightarrow>
                    if \<not> is_ldap uc then Returns EffectAllow
                    else if ald_groups (app_ldap acls) = [] then Returns EffectAllow
                    else match_groups lib (ald_groups (app_ldap acls)) (dc_groups la))))"

definition auth_enabled_rule :: "golib \<Rightarrow> rule" where
  "auth_enabled_rule lib ctx =
     (case ac_acls ctx of
        None \<Rightarrow> Returns EffectDeny
      | Some acls \<Rightarrow>
          let block = apa_block (app_path acls);
              allow = apa_allow (app_path acls);
              check_allow =
                (if allow = [] then EffectDeny
                 else (case lib_regexp lib allow of
                         None \<Rightarrow> EffectDeny
                       | Some m \<Rightarrow> if m (ac_path ctx) then EffectAllow else EffectDeny))
          in Returns
               (if block = [] then check_allow
                else (case lib_regexp lib block of
                        None \<Rightarrow> EffectDeny
                      | Some m \<Rightarrow> if \<not> m (ac_path ctx) then EffectAllow else check_allow)))"

text \<open>A loop over a list of addresses and networks: an invalid entry is skipped.\<close>

fun any_ip_match :: "string list \<Rightarrow> ip option \<Rightarrow> bool" where
  "any_ip_match [] a = False"
| "any_ip_match (x # xs) a =
     (case check_ip_filter x (ip_string a) of
        Inl _ \<Rightarrow> any_ip_match xs a
      | Inr m \<Rightarrow> if m then True else any_ip_match xs a)"

definition ip_allowed_rule :: "config \<Rightarrow> rule" where
  "ip_allowed_rule cfg ctx =
     (let conf = au_ip (cfg_auth cfg);
          blocked = ipc_block conf @ (case ac_acls ctx of None \<Rightarrow> [] | Some a \<Rightarrow> aip_block (app_ip a));
          allowed = ipc_allow conf @ (case ac_acls ctx of None \<Rightarrow> [] | Some a \<Rightarrow> aip_allow (app_ip a))
      in Returns
           (if any_ip_match blocked (ac_ip ctx) then EffectDeny
            else if any_ip_match allowed (ac_ip ctx) then EffectAllow
            else if allowed \<noteq> [] then EffectDeny
            else EffectAllow))"

definition ip_bypassed_rule :: "config \<Rightarrow> rule" where
  "ip_bypassed_rule cfg ctx =
     (let bypass = ipc_bypass (au_ip (cfg_auth cfg)) @
                   (case ac_acls ctx of None \<Rightarrow> [] | Some a \<Rightarrow> aip_bypass (app_ip a))
      in Returns (if any_ip_match bypass (ac_ip ctx) then EffectAllow else EffectDeny))"

text \<open>The engine as the program starts it.\<close>

definition setup_policy_engine :: "golib \<Rightarrow> config \<Rightarrow> policy_engine option" where
  "setup_policy_engine lib cfg =
     map_option
       (\<lambda>engine.
          register_rule rule_ip_bypassed (ip_bypassed_rule cfg)
           (register_rule rule_ip_allowed (ip_allowed_rule cfg)
             (register_rule rule_auth_enabled (auth_enabled_rule lib)
               (register_rule rule_ldap_group (ldap_group_rule lib)
                 (register_rule rule_oauth_group (oauth_group_rule lib)
                   (register_rule rule_user_allowed (user_allowed_rule lib) engine))))))
       (new_policy_engine cfg)"

section \<open>Evaluation\<close>

lemma rule_names_distinct: "distinct [rule_user_allowed, rule_oauth_group, rule_ldap_group, rule_auth_enabled, rule_ip_allowed, rule_ip_bypassed]"
  by (simp add: rule_names)

lemma setup_rules:
  assumes "setup_policy_engine lib cfg = Some e"
  shows "evaluate_rule_by_name e rule_user_allowed = user_allowed_rule lib"
    "evaluate_rule_by_name e rule_oauth_group = oauth_group_rule lib"
    "evaluate_rule_by_name e rule_ldap_group = ldap_group_rule lib"
    "evaluate_rule_by_name e rule_auth_enabled = auth_enabled_rule lib"
    "evaluate_rule_by_name e rule_ip_allowed = ip_allowed_rule cfg"
    "evaluate_rule_by_name e rule_ip_bypassed = ip_bypassed_rule cfg"
proof -
  from assms obtain e0 where "e = register_rule rule_ip_bypassed (ip_bypassed_rule cfg)
      (register_rule rule_ip_allowed (ip_allowed_rule cfg)
        (register_rule rule_auth_enabled (auth_enabled_rule lib)
          (register_rule rule_ldap_group (ldap_group_rule lib)
            (register_rule rule_oauth_group (oauth_group_rule lib)
              (register_rule rule_user_allowed (user_allowed_rule lib) e0)))))"
    unfolding setup_policy_engine_def by (elim map_option_eq_Some [THEN iffD1, elim_format] exE conjE) (rule that, erule sym)
  then have rules: "map_of (pe_rules e) = (map_of (pe_rules e0))
      (rule_user_allowed \<mapsto> user_allowed_rule lib, rule_oauth_group \<mapsto> oauth_group_rule lib,
       rule_ldap_group \<mapsto> ldap_group_rule lib, rule_auth_enabled \<mapsto> auth_enabled_rule lib,
       rule_ip_allowed \<mapsto> ip_allowed_rule cfg, rule_ip_bypassed \<mapsto> ip_bypassed_rule cfg)"
    by (simp add: register_rule_def gm_update)
  show "evaluate_rule_by_name e rule_user_allowed = user_allowed_rule lib"
    "evaluate_rule_by_name e rule_oauth_group = oauth_group_rule lib"
    "evaluate_rule_by_name e rule_ldap_group = ldap_group_rule lib"
    "evaluate_rule_by_name e rule_auth_enabled = auth_enabled_rule lib"
    "evaluate_rule_by_name e rule_ip_allowed = ip_allowed_rule cfg"
    "evaluate_rule_by_name e rule_ip_bypassed = ip_bypassed_rule cfg"
    using rule_names_distinct by (simp_all add: evaluate_rule_by_name_def fun_eq_iff rules)
qed

lemma register_policy [simp]: "pe_policy (register_rule n r e) = pe_policy e"
  by (simp add: register_rule_def)

lemma new_policy_engine_policy:
  "new_policy_engine cfg = Some e \<Longrightarrow>
     pe_policy e = (if acl_policy (au_acls (cfg_auth cfg)) = ''allow'' then PolicyAllow else PolicyDeny)"
  by (auto simp: new_policy_engine_def Let_def split: if_splits)

lemma setup_policy:
  "setup_policy_engine lib cfg = Some e \<Longrightarrow>
     pe_policy e = (if acl_policy (au_acls (cfg_auth cfg)) = ''allow'' then PolicyAllow else PolicyDeny)"
  unfolding setup_policy_engine_def
  by (cases "new_policy_engine cfg") (auto simp del: AList.update.simps simp: new_policy_engine_policy)

lemma effect_to_access_simps [simp]:
  "effect_to_access e EffectAllow" "\<not> effect_to_access e EffectDeny"
  "effect_to_access e EffectAbstain = (pe_policy e = PolicyAllow)"
  by (simp_all add: effect_to_access_def)

text \<open>The contract of the rules on users: without a user they deny.\<close>

locale user_rule =
  fixes rule :: rule
  assumes anonymous: "ac_user_context ctx = None \<Longrightarrow> rule ctx = Returns EffectDeny"
begin

lemma evaluate_anonymous:
  "evaluate_rule_by_name e name = rule \<Longrightarrow> ac_user_context ctx = None \<Longrightarrow> evaluate e name ctx = Returns False"
  by (simp add: evaluate_def anonymous)

end

text \<open>A rule that skips requests without access controls, whatever user there is.\<close>

locale optional_rule = user_rule +
  fixes default_effect :: effect
  assumes no_acls: "ac_acls ctx = None \<Longrightarrow> ac_user_context ctx \<noteq> None \<Longrightarrow> rule ctx = Returns default_effect"
begin

lemma evaluate_no_acls:
  "evaluate_rule_by_name e name = rule \<Longrightarrow> ac_acls ctx = None \<Longrightarrow> ac_user_context ctx \<noteq> None \<Longrightarrow>
     evaluate e name ctx = Returns (effect_to_access e default_effect)"
  by (simp add: evaluate_def no_acls)

end

interpretation user_allowed: optional_rule "user_allowed_rule lib" EffectAbstain for lib
  by unfold_locales (auto simp: user_allowed_rule_def)

interpretation oauth_group: optional_rule "oauth_group_rule lib" EffectAllow for lib
  by unfold_locales (auto simp: oauth_group_rule_def)

interpretation ldap_group: optional_rule "ldap_group_rule lib" EffectAllow for lib
  by unfold_locales (auto simp: ldap_group_rule_def)

section \<open>What the filters and the rules decide\<close>

text \<open>
  \<open>listed flt x\<close>: the text is an item of the comma-separated list. \<open>filter_accepts\<close> is the
  meaning of a filter that is not empty and, in its regular expression form, compiles.
\<close>

definition listed :: "string \<Rightarrow> string \<Rightarrow> bool" where
  "listed flt x \<longleftrightarrow> (\<exists>item\<in>set (split_on (CHR '','') flt). trim_space item = x)"

definition is_regex_filter :: "string \<Rightarrow> bool" where
  "is_regex_filter flt \<longleftrightarrow> prefix ''/'' flt \<and> suffix ''/'' flt"

definition filter_valid :: "golib \<Rightarrow> string \<Rightarrow> bool" where
  "filter_valid lib flt \<longleftrightarrow>
     trim_space flt \<noteq> [] \<and> (is_regex_filter flt \<longrightarrow> lib_regexp lib (butlast (tl flt)) \<noteq> None)"

definition filter_accepts :: "golib \<Rightarrow> string \<Rightarrow> string \<Rightarrow> bool" where
  "filter_accepts lib flt x \<longleftrightarrow>
     filter_valid lib flt \<and>
     (listed flt x \<or> is_regex_filter flt \<and> the (lib_regexp lib (butlast (tl flt))) x)"

lemma check_filter_outcome:
  assumes "flt \<noteq> ''/''"
  shows "check_filter lib flt x =
     Returns (if trim_space flt = [] then Inl ErrFilterEmpty
              else if \<not> filter_valid lib flt then Inl ErrInvalidRegex
              else Inr (filter_accepts lib flt x))"
proof -
  have items: "x \<in> trim_space ` set (split_on (CHR '','') flt) \<longleftrightarrow> listed flt x"
    by (auto simp: listed_def)
  have "is_regex_filter flt \<Longrightarrow> \<not> length flt < 2"
    using assms unfolding is_regex_filter_def by (cases flt; cases "tl flt") (auto simp: suffix_def)
  then show ?thesis
    by (cases "trim_space flt = []"; cases "is_regex_filter flt"; cases "lib_regexp lib (butlast (tl flt))")
      (auto simp: check_filter_def Let_def filter_accepts_def filter_valid_def
        is_regex_filter_def [symmetric] items)
qed

lemma check_filter_slash: "check_filter lib ''/'' x = Panics"
proof -
  have "trim_space ''/'' = ''/''" by code_simp
  then show ?thesis by (simp add: check_filter_def Let_def)
qed

text \<open>An entry of an address list matches an address, read without the detour over text.\<close>

definition ip_entry :: "string \<Rightarrow> ip \<Rightarrow> bool" where
  "ip_entry x a \<longleftrightarrow>
     (let f = replace_char (CHR ''-'') (CHR ''/'') x
      in if CHR ''/'' \<in> set f then (case parse_cidr f of None \<Rightarrow> False | Some c \<Rightarrow> cidr_contains c a)
         else parse_ip f = Some a)"

lemma check_ip_filter_entry:
  assumes "parse_ip (ip_string (Some a)) = Some a"
  shows "check_ip_filter x (ip_string (Some a)) = Inr True \<longleftrightarrow> ip_entry x a"
  using assms by (auto simp: check_ip_filter_def ip_entry_def Let_def split: option.splits)

lemma any_ip_match_iff: "any_ip_match xs a \<longleftrightarrow> (\<exists>x\<in>set xs. check_ip_filter x (ip_string a) = Inr True)"
  by (induction xs) (auto split: sum.splits)

lemma any_ip_match_entry:
  "parse_ip (ip_string (Some a)) = Some a \<Longrightarrow> any_ip_match xs (Some a) \<longleftrightarrow> (\<exists>x\<in>set xs. ip_entry x a)"
  by (simp add: any_ip_match_iff check_ip_filter_entry)

lemma any_ip_match_nil [simp]: "\<not> any_ip_match xs None"
  by (simp add: any_ip_match_iff check_ip_filter_def)

lemma v4_reads_back: "is_v4 a \<Longrightarrow> parse_ip (ip_string (Some a)) = Some a"
  by (simp add: parse_ip_def v4_roundtrip)

text \<open>The lists in force for a request: the global ones and those of the app.\<close>

definition blocked_ips :: "config \<Rightarrow> app option \<Rightarrow> string list" where
  "blocked_ips cfg acls = ipc_block (au_ip (cfg_auth cfg)) @ (case acls of None \<Rightarrow> [] | Some a \<Rightarrow> aip_block (app_ip a))"

definition allowed_ips :: "config \<Rightarrow> app option \<Rightarrow> string list" where
  "allowed_ips cfg acls = ipc_allow (au_ip (cfg_auth cfg)) @ (case acls of None \<Rightarrow> [] | Some a \<Rightarrow> aip_allow (app_ip a))"

definition bypass_ips :: "config \<Rightarrow> app option \<Rightarrow> string list" where
  "bypass_ips cfg acls = ipc_bypass (au_ip (cfg_auth cfg)) @ (case acls of None \<Rightarrow> [] | Some a \<Rightarrow> aip_bypass (app_ip a))"

lemma ip_allowed_rule_eq:
  "ip_allowed_rule cfg ctx =
     Returns (if any_ip_match (blocked_ips cfg (ac_acls ctx)) (ac_ip ctx) then EffectDeny
              else if allowed_ips cfg (ac_acls ctx) = [] \<or> any_ip_match (allowed_ips cfg (ac_acls ctx)) (ac_ip ctx)
              then EffectAllow else EffectDeny)"
  by (auto simp: ip_allowed_rule_def blocked_ips_def allowed_ips_def Let_def)

lemma ip_bypassed_rule_eq:
  "ip_bypassed_rule cfg ctx =
     Returns (if any_ip_match (bypass_ips cfg (ac_acls ctx)) (ac_ip ctx) then EffectAllow else EffectDeny)"
  by (simp add: ip_bypassed_rule_def bypass_ips_def Let_def)

text \<open>The groups a user must have one of.\<close>

lemma match_groups_spec:
  assumes "required \<noteq> ''/''" "filter_valid lib required"
  shows "match_groups lib required gs =
     Returns (if \<exists>g\<in>set gs. filter_accepts lib required (trim_space g) then EffectAllow else EffectDeny)"
  using assms by (induction gs) (auto simp: check_filter_outcome filter_valid_def)

lemma match_groups_invalid:
  assumes "required \<noteq> ''/''" "\<not> filter_valid lib required"
  shows "match_groups lib required gs = Returns EffectDeny"
  using assms by (cases gs) (auto simp: check_filter_outcome)

lemma match_groups_eq:
  assumes "required \<noteq> ''/''"
  shows "match_groups lib required gs =
     Returns (if \<exists>g\<in>set gs. filter_accepts lib required (trim_space g) then EffectAllow else EffectDeny)"
  using match_groups_spec [OF assms] match_groups_invalid [OF assms]
  by (cases "filter_valid lib required") (auto simp: filter_accepts_def)

text \<open>No filter of the app is the single slash.\<close>

definition filters_sliceable :: "app \<Rightarrow> bool" where
  "filters_sliceable a \<longleftrightarrow>
     ''/'' \<notin> {aoa_whitelist (app_oauth a), aoa_groups (app_oauth a), ald_groups (app_ldap a),
              aus_allow (app_users a), aus_block (app_users a)}"

text \<open>Which users an app lets in, the groups aside.\<close>

definition user_admitted :: "golib \<Rightarrow> policy \<Rightarrow> app \<Rightarrow> user_context \<Rightarrow> bool" where
  "user_admitted lib pol a uc \<longleftrightarrow>
     (if uc_provider uc = ProviderOAuth then filter_accepts lib (aoa_whitelist (app_oauth a)) (get_email uc)
      else if aus_block (app_users a) \<noteq> [] then
        filter_valid lib (aus_block (app_users a)) \<and>
        \<not> filter_accepts lib (aus_block (app_users a)) (get_username uc)
      else if trim_space (aus_allow (app_users a)) = [] then pol = PolicyAllow
      else filter_accepts lib (aus_allow (app_users a)) (get_username uc))"

lemma user_allowed_rule_access:
  assumes "wf_context uc" "filters_sliceable a" "ac_user_context ctx = Some uc" "ac_acls ctx = Some a"
  shows "\<exists>eff. user_allowed_rule lib ctx = Returns eff \<and>
     effect_to_access e eff = user_admitted lib (pe_policy e) a uc"
proof (cases "uc_provider uc = ProviderOAuth")
  case True
  then obtain oa where oa: "uc_oauth uc = Some oa" using assms(1) by (auto simp: wf_context_def)
  then have "get_email uc = bc_email oa"
    using True by (simp add: get_email_def get_base_context_def base_context.truncate_def)
  with True oa assms show ?thesis
    by (auto simp: user_allowed_rule_def match_or_deny_def filters_sliceable_def check_filter_outcome
        user_admitted_def filter_accepts_def filter_valid_def)
next
  case False
  with assms show ?thesis
    by (auto simp: user_allowed_rule_def filters_sliceable_def check_filter_outcome
        user_admitted_def filter_accepts_def filter_valid_def)
qed

section \<open>Properties of the engine the program starts\<close>

text \<open>Concrete inputs for the witnesses.\<close>

definition demo_config :: config where
  "demo_config = default_configuration\<lparr>cfg_auth := (cfg_auth default_configuration)
     \<lparr>au_ip := \<lparr>ipc_allow = [''10.1.2.3''], ipc_block = [''10.0.0.0-8''], ipc_bypass = [''192.168.0.0/16'']\<rparr>\<rparr>\<rparr>"

definition demo_app :: app where
  "demo_app = zero_app\<lparr>app_users := \<lparr>aus_allow = ''ann, bob'', aus_block = []\<rparr>,
     app_ldap := \<lparr>ald_groups = ''admins''\<rparr>\<rparr>"

definition demo_ldap_user :: "string list \<Rightarrow> user_context" where
  "demo_ldap_user gs = zero_user_context\<lparr>uc_authenticated := True, uc_provider := ProviderLDAP,
     uc_ldap := Some \<lparr>bc_username = ''bob'', bc_name = ''Bob'', bc_email = ''bob@x'', dc_groups = gs\<rparr>\<rparr>"

definition demo_oauth_user :: user_context where
  "demo_oauth_user = zero_user_context\<lparr>uc_authenticated := True, uc_provider := ProviderOAuth,
     uc_oauth := Some \<lparr>bc_username = ''eve'', bc_name = ''Eve'', bc_email = ''eve@x'', oc_groups = [''staff''],
       oc_sub = ''1'', oc_display_name = ''Eve'', oc_id = ''custom''\<rparr>\<rparr>"

definition demo_context :: "user_context option \<Rightarrow> app option \<Rightarrow> string \<Rightarrow> acl_context" where
  "demo_context uc a addr = \<lparr>ac_acls = a, ac_user_context = uc, ac_ip = parse_ip addr, ac_path = ''/x''\<rparr>"

definition demo_engine :: policy_engine where
  "demo_engine = the (setup_policy_engine ascii_lib demo_config)"

lemma demo_policy: "acl_policy (au_acls (cfg_auth demo_config)) = ''allow''"
  by code_simp

lemma demo_engine_setup: "setup_policy_engine ascii_lib demo_config = Some demo_engine"
  unfolding demo_engine_def setup_policy_engine_def new_policy_engine_def
  by (simp only: Let_def demo_policy simp_thms if_True option.map option.sel)



text \<open>
  C29: For a client with an IPv4 address: an address that an entry of the block lists covers
  is denied, even when an allow list covers it too; otherwise a non-empty allow list must cover
  it; and the bypass holds exactly for the addresses the bypass lists cover. The global lists
  and those of the app count together, entries that do not parse count for nothing, and the
  default policy plays no part.
\<close>

theorem ip_rules_decide:
  assumes "setup_policy_engine lib cfg = Some e" "ac_ip ctx = Some a" "is_v4 a"
  shows "evaluate e rule_ip_allowed ctx = Returns
      (\<not> (\<exists>x\<in>set (blocked_ips cfg (ac_acls ctx)). ip_entry x a) \<and>
       (allowed_ips cfg (ac_acls ctx) = [] \<or> (\<exists>x\<in>set (allowed_ips cfg (ac_acls ctx)). ip_entry x a)))
    \<and> evaluate e rule_ip_bypassed ctx = Returns (\<exists>x\<in>set (bypass_ips cfg (ac_acls ctx)). ip_entry x a)"
  by (simp add: evaluate_def setup_rules [OF assms(1)] ip_allowed_rule_eq ip_bypassed_rule_eq assms(2)
      any_ip_match_entry [OF v4_reads_back [OF assms(3)]])

lemma demo_blocked:
  "parse_ip ''10.1.2.3'' = Some 0xFFFF0A010203" "ip_entry ''10.0.0.0-8'' 0xFFFF0A010203"
  "is_v4 0xFFFF0A010203"
  by code_simp+

theorem ip_rules_decide_witness:
  "evaluate demo_engine rule_ip_allowed (demo_context None None ''10.1.2.3'') = Returns False"
proof -
  have "blocked_ips demo_config None = [''10.0.0.0-8'']" by code_simp
  with ip_rules_decide [OF demo_engine_setup, of "demo_context None None ''10.1.2.3''" "0xFFFF0A010203"]
  show ?thesis by (simp add: demo_context_def demo_blocked)
qed

text \<open>
  C28: For every well-formed user and every app whose filters are not the single slash, the
  rule on users never panics and decides as \<open>user_admitted\<close> says: an OAuth user needs an
  email the whitelist accepts; for the others a block list that is valid and does not accept
  the name admits, and otherwise the allow list decides, or the default policy when it is
  blank.
\<close>

theorem user_rule_decides:
  assumes "setup_policy_engine lib cfg = Some e" "wf_context uc" "filters_sliceable a"
    "ac_user_context ctx = Some uc" "ac_acls ctx = Some a"
  shows "evaluate e rule_user_allowed ctx = Returns (user_admitted lib (pe_policy e) a uc)"
  using user_allowed_rule_access [OF assms(2-5), where lib = lib and e = e]
  by (auto simp: evaluate_def setup_rules [OF assms(1)])

theorem user_rule_decides_witness:
  "evaluate demo_engine rule_user_allowed (demo_context (Some (demo_ldap_user [])) (Some demo_app) ''::1'')
     = Returns True"
proof -
  have "wf_context (demo_ldap_user [])" "filters_sliceable demo_app"
    "user_admitted ascii_lib (pe_policy demo_engine) demo_app (demo_ldap_user [])" by code_simp+
  then show ?thesis
    using user_rule_decides [OF demo_engine_setup, of "demo_ldap_user []" demo_app
        "demo_context (Some (demo_ldap_user [])) (Some demo_app) ''::1''"]
    by (simp add: demo_context_def)
qed

text \<open>
  The rules on groups ask only users of their own kind, only when the app names groups,
  and (for OAuth) not for the built-in providers; those pass when one of their groups, with
  white space trimmed, is accepted by the app's filter, and are denied when the filter does
  not compile.
\<close>

theorem group_rules_decide:
  assumes "setup_policy_engine lib cfg = Some e" "filters_sliceable a"
    "ac_user_context ctx = Some uc" "ac_acls ctx = Some a"
  shows "evaluate e rule_oauth_group ctx = Returns
      (\<forall>oa. is_oauth uc \<and> uc_oauth uc = Some oa \<and> aoa_groups (app_oauth a) \<noteq> [] \<and>
             map_of override_providers (oc_id oa) = None \<longrightarrow>
             (\<exists>g\<in>set (oc_groups oa). filter_accepts lib (aoa_groups (app_oauth a)) (trim_space g)))
    \<and> evaluate e rule_ldap_group ctx = Returns
      (\<forall>la. is_ldap uc \<and> uc_ldap uc = Some la \<and> ald_groups (app_ldap a) \<noteq> [] \<longrightarrow>
             (\<exists>g\<in>set (dc_groups la). filter_accepts lib (ald_groups (app_ldap a)) (trim_space g)))"
  using assms(2)
  by (auto simp: evaluate_def setup_rules [OF assms(1)] oauth_group_rule_def ldap_group_rule_def assms(3,4)
      match_groups_eq filters_sliceable_def split: option.splits)

theorem group_rules_decide_witness:
  "evaluate demo_engine rule_ldap_group (demo_context (Some (demo_ldap_user [''staff''])) (Some demo_app) ''::1'')
     = Returns False"
proof -
  let ?u = "demo_ldap_user [''staff'']"
  have "filters_sliceable demo_app" "is_ldap ?u"
    "\<not> filter_accepts ascii_lib (ald_groups (app_ldap demo_app)) (trim_space ''staff'')"
    "ald_groups (app_ldap demo_app) \<noteq> []" by code_simp+
  moreover have "uc_ldap ?u = Some \<lparr>bc_username = ''bob'', bc_name = ''Bob'', bc_email = ''bob@x'', dc_groups = [''staff'']\<rparr>"
    by (simp add: demo_ldap_user_def)
  ultimately show ?thesis
    using group_rules_decide [OF demo_engine_setup, of demo_app "demo_context (Some ?u) (Some demo_app) ''::1''" ?u]
    by (simp add: demo_context_def)
qed

text \<open>
  With access controls that leave the OAuth whitelist blank, every OAuth user is denied,
  also under the policy \<open>allow\<close>, while a local or LDAP user of an app with blank user lists
  is admitted by that policy.
\<close>

theorem blank_whitelist_denies_oauth:
  assumes "setup_policy_engine lib cfg = Some e" "wf_context uc" "trim_space (aoa_whitelist (app_oauth a)) = []"
    "aus_block (app_users a) = []" "trim_space (aus_allow (app_users a)) = []"
    "ac_user_context ctx = Some uc" "ac_acls ctx = Some a" "pe_policy e = PolicyAllow"
  shows "evaluate e rule_user_allowed ctx = Returns (uc_provider uc \<noteq> ProviderOAuth)"
  using assms(2-)
  by (auto simp: evaluate_def setup_rules [OF assms(1)] user_allowed_rule_def match_or_deny_def
      check_filter_def wf_context_def Let_def)

theorem blank_whitelist_denies_oauth_witness:
  "evaluate demo_engine rule_user_allowed (demo_context (Some demo_oauth_user) (Some zero_app) ''::1'')
     = Returns False"
proof -
  have "wf_context demo_oauth_user" "trim_space (aoa_whitelist (app_oauth zero_app)) = []"
    "aus_block (app_users zero_app) = []" "trim_space (aus_allow (app_users zero_app)) = []"
    "uc_provider demo_oauth_user = ProviderOAuth" by code_simp+
  moreover have "pe_policy demo_engine = PolicyAllow"
    using setup_policy [OF demo_engine_setup] by (simp only: demo_policy if_True simp_thms)
  ultimately show ?thesis
    using blank_whitelist_denies_oauth [OF demo_engine_setup, of demo_oauth_user zero_app
        "demo_context (Some demo_oauth_user) (Some zero_app) ''::1''"] by (simp add: demo_context_def)
qed

end
