(* ===== verification/AccessControls.thy ===== *)
theory AccessControls
  imports Policy
begin

text \<open>
  Which access controls an app has: the static ones of the configuration and those of a label
  provider, \<open>internal/service/access_controls_service.go\<close>, and the provider that reads the
  labels of Docker containers, \<open>docker_service.go\<close>. The locale \<open>label_provider\<close> is the
  interface of the providers.
\<close>

section \<open>Looking up an app\<close>

text \<open>\<open>strings.SplitN(domain, ., 2)[0]\<close>, the first label of the domain.\<close>

definition first_label :: "string \<Rightarrow> string" where
  "first_label domain = hd (split_n 2 (CHR ''.'') domain)"

text \<open>
  The loop over a map of apps: an app with the domain is returned at once, the last one visited
  whose name is the first label is remembered.
\<close>

fun match_apps :: "string \<Rightarrow> (string, app) gomap \<Rightarrow> string list \<Rightarrow> app option \<Rightarrow> app option" where
  "match_apps domain apps [] name_match = name_match"
| "match_apps domain apps (n # ns) name_match =
     (case map_of apps n of
        None \<Rightarrow> match_apps domain apps ns name_match
      | Some a \<Rightarrow>
          if apc_domain (app_config a) = domain then Some a
          else if first_label domain = n then match_apps domain apps ns (Some a)
          else match_apps domain apps ns name_match)"

definition lookup_static_acls :: "string visit_order \<Rightarrow> config \<Rightarrow> string \<Rightarrow> app option" where
  "lookup_static_acls ord cfg domain =
     match_apps domain (cfg_apps cfg) (ord (gm_keys (cfg_apps cfg))) None"

text \<open>A provider answers with an error, with nothing or with an app.\<close>

type_synonym 'e provider_answer = "'e + app option"

definition get_access_controls ::
  "string visit_order \<Rightarrow> config \<Rightarrow> (string \<Rightarrow> 'e provider_answer) option \<Rightarrow> string \<Rightarrow> 'e provider_answer"
where
  "get_access_controls ord cfg label_provider domain =
     (case lookup_static_acls ord cfg domain of
        Some a \<Rightarrow> Inr (Some a)
      | None \<Rightarrow> (case label_provider of None \<Rightarrow> Inr None | Some get_labels \<Rightarrow> get_labels domain))"

section \<open>Docker\<close>

text \<open>The daemon is not part of the program: its answers are a state the service reads.\<close>

datatype docker_error = ListFailed | InspectFailed | DecodeFailed

record docker_state =
  dk_connected :: bool
  dk_containers :: "string list option"
  dk_inspect :: "string \<Rightarrow> (string, string) gomap option"

fun docker_scan ::
  "golib \<Rightarrow> string visit_order \<Rightarrow> docker_state \<Rightarrow> string \<Rightarrow> string list \<Rightarrow> docker_error provider_answer"
where
  "docker_scan lib ord d domain [] = Inr None"
| "docker_scan lib ord d domain (c # cs) =
     (case dk_inspect d c of
        None \<Rightarrow> Inl InspectFailed
      | Some labels \<Rightarrow>
          (case lib_decode_apps lib labels of
             None \<Rightarrow> Inl DecodeFailed
           | Some apps \<Rightarrow>
               (case match_apps domain apps (ord (gm_keys apps)) None of
                  Some a \<Rightarrow> Inr (Some a)
                | None \<Rightarrow> docker_scan lib ord d domain cs)))"

definition docker_get_labels ::
  "golib \<Rightarrow> string visit_order \<Rightarrow> docker_state \<Rightarrow> string \<Rightarrow> docker_error provider_answer"
where
  "docker_get_labels lib ord d domain =
     (if \<not> dk_connected d then Inr None
      else (case dk_containers d of
              None \<Rightarrow> Inl ListFailed
            | Some cs \<Rightarrow> docker_scan lib ord d domain cs))"

section \<open>What a provider promises\<close>

text \<open>
  \<open>declares st n a\<close>: the source of the labels, in state \<open>st\<close>, declares the app \<open>a\<close> under the
  name \<open>n\<close>. An answer is always a declared app that the domain names, by its configured domain
  or by its first label.
\<close>

definition names_app :: "string \<Rightarrow> string \<Rightarrow> app \<Rightarrow> bool" where
  "names_app domain n a \<longleftrightarrow> apc_domain (app_config a) = domain \<or> first_label domain = n"

locale label_provider =
  fixes wf :: "'s \<Rightarrow> bool"
    and get_labels :: "'s \<Rightarrow> string \<Rightarrow> 'e provider_answer"
    and declares :: "'s \<Rightarrow> string \<Rightarrow> app \<Rightarrow> bool"
  assumes answer: "wf st \<Longrightarrow> get_labels st domain = Inr (Some a) \<Longrightarrow> \<exists>n. declares st n a \<and> names_app domain n a"
begin

lemma undeclared:
  "wf st \<Longrightarrow> \<not> (\<exists>n a. declares st n a \<and> names_app domain n a) \<Longrightarrow> get_labels st domain \<noteq> Inr (Some a)"
  using answer by blast

end

lemma match_apps_sound:
  "match_apps domain apps ns acc = Some a \<Longrightarrow>
     acc = Some a \<or> (\<exists>n\<in>set ns. map_of apps n = Some a \<and> names_app domain n a)"
  by (induction ns arbitrary: acc) (auto simp: names_app_def split: option.splits if_splits)

lemma match_apps_none:
  "match_apps domain apps ns acc = None \<Longrightarrow> acc = None \<and>
     (\<forall>n\<in>set ns. \<forall>a. map_of apps n = Some a \<longrightarrow> \<not> names_app domain n a)"
proof (induction ns arbitrary: acc)
  case (Cons n ns)
  show ?case
  proof (cases "map_of apps n")
    case None
    with Cons show ?thesis by auto
  next
    case (Some a)
    with Cons.prems Cons.IH [of "Some a"] Cons.IH [of acc] show ?thesis
      by (auto simp: names_app_def split: if_splits)
  qed
qed simp

text \<open>A match by domain wins over a match by name, whatever the order of the visit.\<close>

lemma match_apps_domain:
  assumes "n \<in> set ns" "map_of apps n = Some a" "apc_domain (app_config a) = domain"
  shows "\<exists>m\<in>set ns. \<exists>b. map_of apps m = Some b \<and> apc_domain (app_config b) = domain \<and>
     match_apps domain apps ns acc = Some b"
  using assms(1)
proof (induction ns arbitrary: acc)
  case (Cons m ns)
  show ?case
  proof (cases "\<exists>b. map_of apps m = Some b \<and> apc_domain (app_config b) = domain")
    case True
    then show ?thesis by auto
  next
    case False
    with assms(2,3) Cons.prems have "n \<in> set ns" by auto
    then have IH: "\<exists>m\<in>set ns. \<exists>b. map_of apps m = Some b \<and> apc_domain (app_config b) = domain \<and>
        match_apps domain apps ns acc = Some b" for acc by (rule Cons.IH)
    from False show ?thesis
      by (cases "map_of apps m") (use IH in \<open>auto split: if_splits\<close>)
  qed
qed simp

lemma match_apps_by_name:
  assumes "\<forall>n\<in>set ns. \<forall>a. map_of apps n = Some a \<longrightarrow> apc_domain (app_config a) \<noteq> domain" "distinct ns"
  shows "match_apps domain apps ns acc =
     (if first_label domain \<in> set ns \<and> map_of apps (first_label domain) \<noteq> None
      then map_of apps (first_label domain) else acc)"
  using assms
proof (induction ns arbitrary: acc)
  case (Cons n ns)
  then show ?case by (cases "map_of apps n") auto
qed simp

definition static_declares :: "config \<Rightarrow> string \<Rightarrow> app \<Rightarrow> bool" where
  "static_declares cfg n a \<longleftrightarrow> map_of (cfg_apps cfg) n = Some a"

definition static_answer :: "string visit_order \<Rightarrow> config \<Rightarrow> string \<Rightarrow> unit provider_answer" where
  "static_answer ord cfg domain = Inr (lookup_static_acls ord cfg domain)"

definition docker_declares :: "golib \<Rightarrow> docker_state \<Rightarrow> string \<Rightarrow> app \<Rightarrow> bool" where
  "docker_declares lib d n a \<longleftrightarrow>
     (\<exists>cs c labels apps. dk_containers d = Some cs \<and> c \<in> set cs \<and> dk_inspect d c = Some labels \<and>
        lib_decode_apps lib labels = Some apps \<and> map_of apps n = Some a)"

interpretation static: label_provider "\<lambda>_. True" "static_answer ord" static_declares for ord
  by unfold_locales
    (auto simp: static_answer_def lookup_static_acls_def static_declares_def dest!: match_apps_sound)

lemma docker_scan_sound:
  "docker_scan lib ord d domain cs = Inr (Some a) \<Longrightarrow>
     \<exists>c\<in>set cs. \<exists>labels apps n. dk_inspect d c = Some labels \<and> lib_decode_apps lib labels = Some apps \<and>
       map_of apps n = Some a \<and> names_app domain n a"
proof (induction cs)
  case (Cons c cs)
  from Cons.prems obtain labels apps where d: "dk_inspect d c = Some labels" "lib_decode_apps lib labels = Some apps"
    by (auto split: option.splits)
  show ?case
  proof (cases "match_apps domain apps (ord (gm_keys apps)) None")
    case None
    with Cons d show ?thesis by auto
  next
    case (Some b)
    with Cons.prems d have "b = a" by simp
    with match_apps_sound [OF Some] d show ?thesis by auto
  qed
qed simp

interpretation docker: label_provider "\<lambda>_. True" "docker_get_labels lib ord" "docker_declares lib" for lib ord
proof
  fix st :: docker_state and domain a
  assume "docker_get_labels lib ord st domain = Inr (Some a)"
  then obtain cs where "dk_containers st = Some cs" "docker_scan lib ord st domain cs = Inr (Some a)"
    by (auto simp: docker_get_labels_def split: if_splits option.splits)
  with docker_scan_sound [of lib ord st domain cs a] show "\<exists>n. docker_declares lib st n a \<and> names_app domain n a"
    unfolding docker_declares_def by blast
qed

section \<open>Properties of the lookup\<close>

text \<open>
  The static controls win over those of the label provider, and among them a match by
  domain wins over a match by name: when some app has the domain, the answer is such an app
  (the app itself when the domain is configured once), and when none has it, the app named by
  the first label of the domain, and only then the provider's answer. None of this depends on
  the order in which the runtime visits the map.
\<close>

theorem domain_match_wins:
  assumes "gm_wf (cfg_apps cfg)" "visits ord"
  shows "(\<forall>n a. map_of (cfg_apps cfg) n = Some a \<and> apc_domain (app_config a) = domain \<longrightarrow>
      (\<exists>m b. map_of (cfg_apps cfg) m = Some b \<and> apc_domain (app_config b) = domain \<and>
        get_access_controls ord cfg provider domain = Inr (Some b))) \<and>
    ((\<forall>n a. map_of (cfg_apps cfg) n = Some a \<longrightarrow> apc_domain (app_config a) \<noteq> domain) \<longrightarrow>
      get_access_controls ord cfg provider domain =
        (case map_of (cfg_apps cfg) (first_label domain) of
           Some a \<Rightarrow> Inr (Some a)
         | None \<Rightarrow> (case provider of None \<Rightarrow> Inr None | Some get_labels \<Rightarrow> get_labels domain)))"
proof (intro conjI allI impI)
  let ?apps = "cfg_apps cfg"
  have mem: "map_of ?apps n = Some a \<Longrightarrow> n \<in> set (ord (gm_keys ?apps))" for n a
    using assms(2) by (rule visited_key)
  have dist: "distinct (ord (gm_keys ?apps))" using assms by (simp add: visits_distinct)
  {
    fix n a
    assume "map_of ?apps n = Some a \<and> apc_domain (app_config a) = domain"
    then have "\<exists>m\<in>set (ord (gm_keys ?apps)). \<exists>b. map_of ?apps m = Some b \<and> apc_domain (app_config b) = domain \<and>
        match_apps domain ?apps (ord (gm_keys ?apps)) None = Some b"
      using mem by (intro match_apps_domain [of n _ _ a]) auto
    then show "\<exists>m b. map_of ?apps m = Some b \<and> apc_domain (app_config b) = domain \<and>
        get_access_controls ord cfg provider domain = Inr (Some b)"
      by (auto simp: get_access_controls_def lookup_static_acls_def)
  next
    assume "\<forall>n a. map_of ?apps n = Some a \<longrightarrow> apc_domain (app_config a) \<noteq> domain"
    then have "lookup_static_acls ord cfg domain =
        (if first_label domain \<in> set (ord (gm_keys ?apps)) \<and> map_of ?apps (first_label domain) \<noteq> None
         then map_of ?apps (first_label domain) else None)"
      unfolding lookup_static_acls_def by (intro match_apps_by_name dist) auto
    then have "lookup_static_acls ord cfg domain = map_of ?apps (first_label domain)"
      using mem by (cases "map_of ?apps (first_label domain)") auto
    then show "get_access_controls ord cfg provider domain =
        (case map_of ?apps (first_label domain) of
           Some a \<Rightarrow> Inr (Some a)
         | None \<Rightarrow> (case provider of None \<Rightarrow> Inr None | Some get_labels \<Rightarrow> get_labels domain))"
      by (simp add: get_access_controls_def split: option.splits)
  }
qed

definition app_with_domain :: "string \<Rightarrow> app" where
  "app_with_domain d = zero_app\<lparr>app_config := \<lparr>apc_domain = d\<rparr>\<rparr>"

definition two_apps_config :: config where
  "two_apps_config = default_configuration
     \<lparr>cfg_apps := [(''foo'', app_with_domain ''bar.x.io''), (''bar'', app_with_domain ''y.x.io'')]\<rparr>"

theorem domain_match_wins_witness:
  "get_access_controls rev two_apps_config (None :: (string \<Rightarrow> unit provider_answer) option) ''bar.x.io''
     = Inr (Some (app_with_domain ''bar.x.io''))"
proof -
  let ?d = "''bar.x.io''"
  have apps: "cfg_apps two_apps_config =
      [(''foo'', app_with_domain ''bar.x.io''), (''bar'', app_with_domain ''y.x.io'')]"
    by (simp add: two_apps_config_def)
  have dom: "apc_domain (app_config (app_with_domain d)) = d" for d by (simp add: app_with_domain_def)
  have "\<forall>n a. map_of (cfg_apps two_apps_config) n = Some a \<and> apc_domain (app_config a) = ?d \<longrightarrow>
      (\<exists>m b. map_of (cfg_apps two_apps_config) m = Some b \<and> apc_domain (app_config b) = ?d \<and>
        get_access_controls rev two_apps_config (None :: (string \<Rightarrow> unit provider_answer) option) ?d = Inr (Some b))"
    using domain_match_wins [of two_apps_config rev ?d "None :: (string \<Rightarrow> unit provider_answer) option"]
    by (simp add: apps)
  then obtain m b where "map_of (cfg_apps two_apps_config) m = Some b" "apc_domain (app_config b) = ?d"
      "get_access_controls rev two_apps_config (None :: (string \<Rightarrow> unit provider_answer) option) ?d = Inr (Some b)"
    using dom [of ?d] apps by (metis map_of_Cons_code(2))
  then show ?thesis by (auto simp: apps dom split: if_splits)
qed

end
