(* ===== verification/Kubernetes.thy ===== *)
theory Kubernetes
  imports AccessControls
begin

text \<open>
  The label provider for Kubernetes, \<open>internal/service/kubernetes_service.go\<close>: the apps of
  every ingress and two indexes over them, kept up to date by the events of a watch. The
  operations that take the lock are the steps; the loops around them, with their timers and retries,
  are in \<open>KubernetesWatch\<close>, and what they deliver is the list of events and of listings.
  \<open>kube_inv\<close> says that the indexes never point to an app that is gone.
\<close>

section \<open>State and operations\<close>

type_synonym ingress_key = "string \<times> string"

record ingress_app =
  ia_domain :: string
  ia_app_name :: string
  ia_app :: app

type_synonym ingress_app_key = "ingress_key \<times> string"

record kube_state =
  kb_started :: bool
  kb_ingress_apps :: "(ingress_key, ingress_app list) gomap"
  kb_domain_index :: "(string, ingress_app_key) gomap"
  kb_app_name_index :: "(string, ingress_app_key) gomap"

definition new_kube_state :: kube_state where
  "new_kube_state =
     \<lparr>kb_started = True, kb_ingress_apps = [], kb_domain_index = [], kb_app_name_index = []\<rparr>"

text \<open>The two loops over the apps of an ingress.\<close>

fun unindex_apps :: "ingress_app list \<Rightarrow> kube_state \<Rightarrow> kube_state" where
  "unindex_apps [] k = k"
| "unindex_apps (a # as) k =
     unindex_apps as
       (k\<lparr>kb_domain_index := AList.delete (ia_domain a) (kb_domain_index k),
          kb_app_name_index := AList.delete (ia_app_name a) (kb_app_name_index k)\<rparr>)"

fun index_apps :: "ingress_key \<Rightarrow> ingress_app list \<Rightarrow> kube_state \<Rightarrow> kube_state" where
  "index_apps key [] k = k"
| "index_apps key (a # as) k =
     index_apps key as
       (k\<lparr>kb_domain_index := AList.update (ia_domain a) (key, ia_app_name a) (kb_domain_index k),
          kb_app_name_index := AList.update (ia_app_name a) (key, ia_app_name a) (kb_app_name_index k)\<rparr>)"

definition add_ingress_apps :: "string \<Rightarrow> string \<Rightarrow> ingress_app list \<Rightarrow> kube_state \<Rightarrow> kube_state" where
  "add_ingress_apps namespace name apps k =
     (let key = (namespace, name);
          k1 = (case map_of (kb_ingress_apps k) key of
                  Some existing \<Rightarrow> unindex_apps existing k
                | None \<Rightarrow> k)
      in index_apps key apps (k1\<lparr>kb_ingress_apps := AList.update key apps (kb_ingress_apps k1)\<rparr>))"

definition remove_ingress :: "string \<Rightarrow> string \<Rightarrow> kube_state \<Rightarrow> kube_state" where
  "remove_ingress namespace name k =
     (let key = (namespace, name)
      in case map_of (kb_ingress_apps k) key of
           None \<Rightarrow> k
         | Some apps \<Rightarrow>
             let k1 = unindex_apps apps k
             in k1\<lparr>kb_ingress_apps := AList.delete key (kb_ingress_apps k1)\<rparr>)"

definition get_by_domain :: "kube_state \<Rightarrow> string \<Rightarrow> app option" where
  "get_by_domain k domain =
     (case map_of (kb_domain_index k) domain of
        None \<Rightarrow> None
      | Some (key, app_name) \<Rightarrow>
          (case map_of (kb_ingress_apps k) key of
             None \<Rightarrow> None
           | Some apps \<Rightarrow>
               map_option ia_app (find (\<lambda>a. ia_domain a = domain \<and> ia_app_name a = app_name) apps)))"

definition get_by_app_name :: "kube_state \<Rightarrow> string \<Rightarrow> app option" where
  "get_by_app_name k app_name =
     (case map_of (kb_app_name_index k) app_name of
        None \<Rightarrow> None
      | Some (key, _) \<Rightarrow>
          (case map_of (kb_ingress_apps k) key of
             None \<Rightarrow> None
           | Some apps \<Rightarrow> map_option ia_app (find (\<lambda>a. ia_app_name a = app_name) apps)))"

section \<open>Reading an ingress\<close>

record ingress_item =
  it_namespace :: string
  it_name :: string
  it_annotations :: "(string, string) gomap option"
  it_object :: json

fun path_of :: "json \<Rightarrow> string option" where
  "path_of (JObject fs) =
     (case map_of fs ''path'' of Some (JString p) \<Rightarrow> if p \<noteq> [] then Some p else None | _ \<Rightarrow> None)"
| "path_of v = None"

text \<open>The outer \<open>None\<close> is the error; a rule without paths gives the empty list.\<close>

definition extract_paths :: "golib \<Rightarrow> (string \<times> json) list \<Rightarrow> string list option" where
  "extract_paths lib rule =
     (case lib_nested_map lib [''http''] (JObject rule) of
        Inl _ \<Rightarrow> None
      | Inr None \<Rightarrow> Some []
      | Inr (Some http) \<Rightarrow>
          (case lib_nested_slice lib [''paths''] (JObject http) of
             Inl _ \<Rightarrow> None
           | Inr None \<Rightarrow> Some []
           | Inr (Some paths) \<Rightarrow> Some (List.map_filter path_of paths)))"

fun host_of :: "json \<Rightarrow> string option" where
  "host_of (JObject fs) =
     (case map_of fs ''host'' of Some (JString h) \<Rightarrow> if h \<noteq> [] then Some h else None | _ \<Rightarrow> None)"
| "host_of v = None"

text \<open>Whether a rule draws the warning about a missing catch-all path.\<close>

fun warns_of_paths :: "golib \<Rightarrow> json \<Rightarrow> bool" where
  "warns_of_paths lib (JObject fs) =
     (case extract_paths lib fs of None \<Rightarrow> True | Some ps \<Rightarrow> ps \<noteq> [] \<and> ''/'' \<notin> set ps)"
| "warns_of_paths lib v = False"

text \<open>The hosts and the number of warnings logged on the way; \<open>None\<close> is the error.\<close>

definition extract_hosts :: "golib \<Rightarrow> ingress_item \<Rightarrow> (string list \<times> nat) option" where
  "extract_hosts lib item =
     (case lib_nested_slice lib [''spec'', ''rules''] (it_object item) of
        Inl _ \<Rightarrow> None
      | Inr None \<Rightarrow> Some ([], 0)
      | Inr (Some rules) \<Rightarrow> Some (List.map_filter host_of rules, length (filter (warns_of_paths lib) rules)))"

fun collect_apps :: "string list \<Rightarrow> (string, app) gomap \<Rightarrow> string list \<Rightarrow> ingress_app list" where
  "collect_apps hosts apps [] = []"
| "collect_apps hosts apps (n # ns) =
     (case map_of apps n of
        None \<Rightarrow> collect_apps hosts apps ns
      | Some a \<Rightarrow>
          let d = apc_domain (app_config a)
          in if d = [] then collect_apps hosts apps ns
             else if hosts \<noteq> [] \<and> d \<notin> set hosts then collect_apps hosts apps ns
             else \<lparr>ia_domain = d, ia_app_name = n, ia_app = a\<rparr> # collect_apps hosts apps ns)"

definition update_from_item ::
  "golib \<Rightarrow> string visit_order \<Rightarrow> ingress_item \<Rightarrow> kube_state \<Rightarrow> kube_state"
where
  "update_from_item lib ord item k =
     (let drop_it = remove_ingress (it_namespace item) (it_name item) k
      in case it_annotations item of
           None \<Rightarrow> drop_it
         | Some annotations \<Rightarrow>
             (case extract_hosts lib item of
                None \<Rightarrow> drop_it
              | Some (hosts, _) \<Rightarrow>
                  (case lib_decode_apps lib annotations of
                     None \<Rightarrow> drop_it
                   | Some labels \<Rightarrow>
                       let apps = collect_apps hosts labels (ord (gm_keys labels))
                       in if apps = [] then drop_it
                          else add_ingress_apps (it_namespace item) (it_name item) apps k)))"

section \<open>The watch\<close>

text \<open>
  What reaches the loop: an event with an ingress, an event of another kind, and the tick that
  lists all ingresses again, which may fail.
\<close>

datatype kube_event =
    Added ingress_item
  | Modified ingress_item
  | Deleted ingress_item
  | OtherEvent
  | Resync "ingress_item list option"

fun resync_gvr :: "golib \<Rightarrow> string visit_order \<Rightarrow> ingress_item list option \<Rightarrow> kube_state \<Rightarrow> kube_state" where
  "resync_gvr lib ord None k = k"
| "resync_gvr lib ord (Some items) k = fold (update_from_item lib ord) items k"

fun run_event :: "golib \<Rightarrow> string visit_order \<Rightarrow> kube_event \<Rightarrow> kube_state \<Rightarrow> kube_state" where
  "run_event lib ord (Added item) k = update_from_item lib ord item k"
| "run_event lib ord (Modified item) k = update_from_item lib ord item k"
| "run_event lib ord (Deleted item) k = remove_ingress (it_namespace item) (it_name item) k"
| "run_event lib ord OtherEvent k = k"
| "run_event lib ord (Resync list) k = resync_gvr lib ord list k"

text \<open>One event is one step of the watcher; it may visit the decoded labels in any order.\<close>

inductive kube_step :: "golib \<Rightarrow> kube_state \<Rightarrow> kube_state \<Rightarrow> bool" for lib where
  event: "visits ord \<Longrightarrow> kube_step lib k (run_event lib ord ev k)"

inductive kube_reachable :: "golib \<Rightarrow> kube_state \<Rightarrow> bool" for lib where
  start: "kube_reachable lib new_kube_state"
| step: "kube_reachable lib k \<Longrightarrow> kube_step lib k k' \<Longrightarrow> kube_reachable lib k'"

inductive_cases kube_stepE: "kube_step lib k k'"

definition kube_get_labels :: "kube_state \<Rightarrow> string \<Rightarrow> unit provider_answer" where
  "kube_get_labels k domain =
     (if \<not> kb_started k then Inr None
      else (case get_by_domain k domain of
              Some a \<Rightarrow> Inr (Some a)
            | None \<Rightarrow> Inr (get_by_app_name k (first_label domain))))"

section \<open>The indexes\<close>

definition index_sound ::
  "(ingress_app \<Rightarrow> string) \<Rightarrow> (string, ingress_app_key) gomap \<Rightarrow> (ingress_key, ingress_app list) gomap \<Rightarrow> bool"
where
  "index_sound f idx m \<longleftrightarrow>
     (\<forall>d key n. map_of idx d = Some (key, n) \<longrightarrow>
        (\<exists>apps a. map_of m key = Some apps \<and> a \<in> set apps \<and> f a = d \<and> ia_app_name a = n))"

definition kube_inv :: "kube_state \<Rightarrow> bool" where
  "kube_inv k \<longleftrightarrow>
     index_sound ia_domain (kb_domain_index k) (kb_ingress_apps k) \<and>
     index_sound ia_app_name (kb_app_name_index k) (kb_ingress_apps k) \<and>
     (\<forall>key apps a. map_of (kb_ingress_apps k) key = Some apps \<longrightarrow> a \<in> set apps \<longrightarrow>
        ia_domain a = apc_domain (app_config (ia_app a)))"

lemma kube_inv_new [simp]: "kube_inv new_kube_state"
  by (simp add: kube_inv_def index_sound_def new_kube_state_def)

lemma unindex_fields [simp]:
  "kb_ingress_apps (unindex_apps as k) = kb_ingress_apps k"
  "kb_started (unindex_apps as k) = kb_started k"
  by (induction as arbitrary: k) auto

lemma index_fields [simp]:
  "kb_ingress_apps (index_apps key as k) = kb_ingress_apps k"
  "kb_started (index_apps key as k) = kb_started k"
  by (induction as arbitrary: k) auto

lemma unindex_domain:
  "map_of (kb_domain_index (unindex_apps as k)) d =
     (if d \<in> ia_domain ` set as then None else map_of (kb_domain_index k) d)"
  by (induction as arbitrary: k) (auto simp: gm_delete)

lemma unindex_name:
  "map_of (kb_app_name_index (unindex_apps as k)) n =
     (if n \<in> ia_app_name ` set as then None else map_of (kb_app_name_index k) n)"
  by (induction as arbitrary: k) (auto simp: gm_delete)

lemma unindex_domain_Some:
  "map_of (kb_domain_index (unindex_apps as k)) d = Some x \<Longrightarrow>
     map_of (kb_domain_index k) d = Some x \<and> d \<notin> ia_domain ` set as"
  by (simp add: unindex_domain split: if_splits)

lemma unindex_name_Some:
  "map_of (kb_app_name_index (unindex_apps as k)) n = Some x \<Longrightarrow>
     map_of (kb_app_name_index k) n = Some x \<and> n \<notin> ia_app_name ` set as"
  by (simp add: unindex_name split: if_splits)

text \<open>A key that is indexed afterwards was indexed before or belongs to one of the new apps.\<close>

lemma index_domain:
  "map_of (kb_domain_index (index_apps key as k)) d = Some x \<Longrightarrow>
     map_of (kb_domain_index k) d = Some x \<and> d \<notin> ia_domain ` set as \<or>
     (\<exists>a\<in>set as. ia_domain a = d \<and> x = (key, ia_app_name a))"
  by (induction as arbitrary: k) (fastforce simp: gm_update split: if_splits)+

lemma index_name:
  "map_of (kb_app_name_index (index_apps key as k)) n = Some x \<Longrightarrow>
     map_of (kb_app_name_index k) n = Some x \<and> n \<notin> ia_app_name ` set as \<or>
     (\<exists>a\<in>set as. ia_app_name a = n \<and> x = (key, n))"
  by (induction as arbitrary: k) (fastforce simp: gm_update split: if_splits)+

text \<open>After the apps of an ingress are unindexed, no entry points to it.\<close>

lemma index_sound_elsewhere:
  assumes "index_sound f idx m" "map_of m key = Some apps"
    "\<And>d x. map_of idx' d = Some x \<Longrightarrow> map_of idx d = Some x \<and> d \<notin> f ` set apps"
    "map_of idx' d = Some (key', n)"
  shows "key' \<noteq> key \<and> (\<exists>apps a. map_of m key' = Some apps \<and> a \<in> set apps \<and> f a = d \<and> ia_app_name a = n)"
proof -
  have "map_of idx d = Some (key', n)" "d \<notin> f ` set apps" using assms(3,4) by blast+
  moreover obtain apps' a where "map_of m key' = Some apps'" "a \<in> set apps'" "f a = d" "ia_app_name a = n"
    using calculation(1) assms(1) unfolding index_sound_def by blast
  ultimately show ?thesis using assms(2) by auto
qed

lemma index_sound_absent:
  assumes "index_sound f idx m" "map_of m key = None" "map_of idx d = Some (key', n)"
  shows "key' \<noteq> key"
  using assms unfolding index_sound_def by fastforce

lemma index_soundD:
  "index_sound f idx m \<Longrightarrow> map_of idx d = Some (key, n) \<Longrightarrow>
     \<exists>apps a. map_of m key = Some apps \<and> a \<in> set apps \<and> f a = d \<and> ia_app_name a = n"
  unfolding index_sound_def by blast

lemma index_sound_transfer:
  assumes "\<And>d key n. map_of idx d = Some (key, n) \<Longrightarrow>
      \<exists>apps a. map_of m key = Some apps \<and> a \<in> set apps \<and> f a = d \<and> ia_app_name a = n"
  shows "index_sound f idx m"
  using assms unfolding index_sound_def by blast

lemma remove_ingress_inv:
  assumes "kube_inv k"
  shows "kube_inv (remove_ingress ns name k)"
proof (cases "map_of (kb_ingress_apps k) (ns, name)")
  case None
  with assms show ?thesis by (simp add: remove_ingress_def)
next
  case (Some apps)
  let ?k1 = "unindex_apps apps k"
  let ?m = "AList.delete (ns, name) (kb_ingress_apps k)"
  from assms have s: "index_sound ia_domain (kb_domain_index k) (kb_ingress_apps k)"
    "index_sound ia_app_name (kb_app_name_index k) (kb_ingress_apps k)" by (simp_all add: kube_inv_def)
  have "index_sound ia_domain (kb_domain_index ?k1) ?m"
  proof (rule index_sound_transfer)
    fix d key n
    assume "map_of (kb_domain_index ?k1) d = Some (key, n)"
    from index_sound_elsewhere [OF s(1) Some unindex_domain_Some this]
    show "\<exists>apps a. map_of ?m key = Some apps \<and> a \<in> set apps \<and> ia_domain a = d \<and> ia_app_name a = n"
      by (auto simp: gm_delete)
  qed
  moreover have "index_sound ia_app_name (kb_app_name_index ?k1) ?m"
  proof (rule index_sound_transfer)
    fix d key n
    assume "map_of (kb_app_name_index ?k1) d = Some (key, n)"
    from index_sound_elsewhere [OF s(2) Some unindex_name_Some this]
    show "\<exists>apps a. map_of ?m key = Some apps \<and> a \<in> set apps \<and> ia_app_name a = d \<and> ia_app_name a = n"
      by (auto simp: gm_delete)
  qed
  ultimately show ?thesis using assms Some
    by (auto simp: remove_ingress_def kube_inv_def gm_delete split: if_splits)
qed

lemma add_ingress_inv:
  assumes "kube_inv k" "\<forall>a\<in>set apps. ia_domain a = apc_domain (app_config (ia_app a))"
  shows "kube_inv (add_ingress_apps ns name apps k)"
proof -
  let ?key = "(ns, name)"
  let ?k1 = "case map_of (kb_ingress_apps k) ?key of Some existing \<Rightarrow> unindex_apps existing k | None \<Rightarrow> k"
  let ?m = "AList.update ?key apps (kb_ingress_apps k)"
  let ?k2 = "?k1\<lparr>kb_ingress_apps := AList.update ?key apps (kb_ingress_apps ?k1)\<rparr>"
  from assms have s: "index_sound ia_domain (kb_domain_index k) (kb_ingress_apps k)"
    "index_sound ia_app_name (kb_app_name_index k) (kb_ingress_apps k)" by (simp_all add: kube_inv_def)
  have m: "kb_ingress_apps ?k1 = kb_ingress_apps k" by (simp split: option.splits)
  have other: "key \<noteq> ?key \<and> (\<exists>apps a. map_of (kb_ingress_apps k) key = Some apps \<and> a \<in> set apps \<and>
      ia_domain a = d \<and> ia_app_name a = n)" if "map_of (kb_domain_index ?k1) d = Some (key, n)" for d key n
  proof (cases "map_of (kb_ingress_apps k) ?key")
    case None
    with that have e: "map_of (kb_domain_index k) d = Some (key, n)" by simp
    from index_sound_absent [OF s(1) None e] index_soundD [OF s(1) e] show ?thesis by blast
  next
    case (Some existing)
    with that have e: "map_of (kb_domain_index (unindex_apps existing k)) d = Some (key, n)" by simp
    from index_sound_elsewhere [OF s(1) Some unindex_domain_Some e] show ?thesis .
  qed
  have other': "key \<noteq> ?key \<and> (\<exists>apps a. map_of (kb_ingress_apps k) key = Some apps \<and> a \<in> set apps \<and>
      ia_app_name a = d \<and> ia_app_name a = n)" if "map_of (kb_app_name_index ?k1) d = Some (key, n)" for d key n
  proof (cases "map_of (kb_ingress_apps k) ?key")
    case None
    with that have e: "map_of (kb_app_name_index k) d = Some (key, n)" by simp
    from index_sound_absent [OF s(2) None e] index_soundD [OF s(2) e] show ?thesis by blast
  next
    case (Some existing)
    with that have e: "map_of (kb_app_name_index (unindex_apps existing k)) d = Some (key, n)" by simp
    from index_sound_elsewhere [OF s(2) Some unindex_name_Some e] show ?thesis .
  qed
  have "index_sound ia_domain (kb_domain_index (index_apps ?key apps ?k2)) ?m"
  proof (rule index_sound_transfer)
    fix d key n
    assume "map_of (kb_domain_index (index_apps ?key apps ?k2)) d = Some (key, n)"
    from index_domain [OF this] other [of d key n]
    show "\<exists>apps a. map_of ?m key = Some apps \<and> a \<in> set apps \<and> ia_domain a = d \<and> ia_app_name a = n"
      by (auto simp: gm_update)
  qed
  moreover have "index_sound ia_app_name (kb_app_name_index (index_apps ?key apps ?k2)) ?m"
  proof (rule index_sound_transfer)
    fix d key n
    assume "map_of (kb_app_name_index (index_apps ?key apps ?k2)) d = Some (key, n)"
    from index_name [OF this] other' [of d key n]
    show "\<exists>apps a. map_of ?m key = Some apps \<and> a \<in> set apps \<and> ia_app_name a = d \<and> ia_app_name a = n"
      by (auto simp: gm_update)
  qed
  ultimately show ?thesis using assms
    unfolding add_ingress_apps_def Let_def kube_inv_def by (auto simp: m gm_update split: if_splits)
qed

lemma collect_apps_sound:
  "a \<in> set (collect_apps hosts apps ns) \<Longrightarrow>
     map_of apps (ia_app_name a) = Some (ia_app a) \<and> ia_domain a = apc_domain (app_config (ia_app a)) \<and>
     ia_domain a \<noteq> [] \<and> (hosts \<noteq> [] \<longrightarrow> ia_domain a \<in> set hosts)"
  by (induction ns) (auto simp: Let_def split: option.splits if_splits)

lemma update_from_item_inv: "kube_inv k \<Longrightarrow> kube_inv (update_from_item lib ord item k)"
  unfolding update_from_item_def Let_def
  by (auto intro!: remove_ingress_inv add_ingress_inv dest: collect_apps_sound split: option.splits)

lemma run_event_inv: "kube_inv k \<Longrightarrow> kube_inv (run_event lib ord ev k)"
proof (cases ev)
  case (Resync list)
  have "kube_inv k \<Longrightarrow> kube_inv (fold (update_from_item lib ord) items k)" for items
    by (induction items arbitrary: k) (simp_all add: update_from_item_inv)
  then show "kube_inv k \<Longrightarrow> kube_inv (run_event lib ord ev k)" using Resync by (cases list) simp_all
qed (simp_all add: update_from_item_inv remove_ingress_inv)

lemma reachable_inv: "kube_reachable lib k \<Longrightarrow> kube_inv k"
  by (induction rule: kube_reachable.induct) (auto elim: kube_stepE intro: run_event_inv)

text \<open>Some ingress that is present declares the app under the name.\<close>

definition kube_declares :: "kube_state \<Rightarrow> string \<Rightarrow> app \<Rightarrow> bool" where
  "kube_declares k n a \<longleftrightarrow>
     (\<exists>key apps x. map_of (kb_ingress_apps k) key = Some apps \<and> x \<in> set apps \<and> ia_app_name x = n \<and> ia_app x = a)"

lemma get_by_domain_sound:
  assumes "kube_inv k" "get_by_domain k d = Some a"
  shows "apc_domain (app_config a) = d \<and> (\<exists>n. kube_declares k n a)"
proof -
  from assms(2) obtain key n apps x where x: "map_of (kb_ingress_apps k) key = Some apps"
      "find (\<lambda>a. ia_domain a = d \<and> ia_app_name a = n) apps = Some x" "ia_app x = a"
    by (auto simp: get_by_domain_def split: option.splits)
  then have "x \<in> set apps" "ia_domain x = d" by (auto simp: find_Some_iff)
  with x assms(1) show ?thesis unfolding kube_inv_def kube_declares_def by metis
qed

lemma get_by_app_name_sound:
  assumes "get_by_app_name k n = Some a"
  shows "kube_declares k n a"
proof -
  from assms obtain key m apps x where x: "map_of (kb_ingress_apps k) key = Some apps"
      "find (\<lambda>a. ia_app_name a = n) apps = Some x" "ia_app x = a"
    by (auto simp: get_by_app_name_def split: option.splits)
  then have "x \<in> set apps" "ia_app_name x = n" by (auto simp: find_Some_iff)
  with x show ?thesis unfolding kube_declares_def by metis
qed

interpretation kube: label_provider kube_inv kube_get_labels kube_declares
proof
  fix k domain a
  assume "kube_inv k" "kube_get_labels k domain = Inr (Some a)"
  then show "\<exists>n. kube_declares k n a \<and> names_app domain n a"
    using get_by_domain_sound get_by_app_name_sound
    by (auto simp: kube_get_labels_def names_app_def split: if_splits option.splits) metis+
qed

section \<open>Properties of the watcher\<close>


definition demo_ingress :: "string \<Rightarrow> string \<Rightarrow> ingress_item" where
  "demo_ingress name d = \<lparr>it_namespace = ''ns'', it_name = name, it_annotations = Some [(name, d)],
     it_object = JObject []\<rparr>"

definition demo_kube :: kube_state where
  "demo_kube = run_event ascii_lib rev (Added (demo_ingress ''web'' ''a.io'')) new_kube_state"

lemma demo_kube_reachable: "kube_reachable ascii_lib demo_kube"
  unfolding demo_kube_def by (rule kube_reachable.step [OF kube_reachable.start event]) simp


lemma index_domain_last:
  assumes "a \<in> set as" "\<forall>b\<in>set as. ia_domain b = ia_domain a \<longrightarrow> b = a"
  shows "map_of (kb_domain_index (index_apps key as k)) (ia_domain a) = Some (key, ia_app_name a)"
  using assms
proof (induction as arbitrary: k)
  case (Cons b as)
  show ?case
  proof (cases "a \<in> set as")
    case True
    with Cons show ?thesis by simp
  next
    case False
    have "map_of (kb_domain_index (index_apps key as k)) (ia_domain a) = map_of (kb_domain_index k) (ia_domain a)"
      if "\<forall>b\<in>set as. ia_domain b \<noteq> ia_domain a" for as k
      using that by (induction as arbitrary: k) (auto simp: gm_update)
    note skip = this
    from False Cons.prems have "b = a" "\<forall>c\<in>set as. ia_domain c \<noteq> ia_domain a" by auto
    then show ?thesis by (simp add: skip gm_update)
  qed
qed simp

text \<open>
  An app is found by its domain as soon as its ingress has been processed: after an
  update that accepts apps, each accepted app that is the only one of its ingress with its
  domain is what a lookup of the domain returns, whatever the other ingresses declare.
\<close>

theorem processed_app_is_found:
  assumes "kb_started k" "it_annotations item = Some ann" "extract_hosts lib item = Some (hosts, w)"
    "lib_decode_apps lib ann = Some labels"
    "a \<in> set (collect_apps hosts labels (ord (gm_keys labels)))"
    "\<forall>b\<in>set (collect_apps hosts labels (ord (gm_keys labels))). ia_domain b = ia_domain a \<longrightarrow> b = a"
  shows "kube_get_labels (update_from_item lib ord item k) (ia_domain a) = Inr (Some (ia_app a))"
proof -
  let ?apps = "collect_apps hosts labels (ord (gm_keys labels))"
  let ?key = "(it_namespace item, it_name item)"
  let ?k = "add_ingress_apps (it_namespace item) (it_name item) ?apps k"
  have k: "update_from_item lib ord item k = ?k"
    using assms(2-5) by (auto simp: update_from_item_def Let_def)
  have "map_of (kb_domain_index ?k) (ia_domain a) = Some (?key, ia_app_name a)"
    unfolding add_ingress_apps_def Let_def by (rule index_domain_last [OF assms(5,6)])
  moreover have "map_of (kb_ingress_apps ?k) ?key = Some ?apps"
    by (simp add: add_ingress_apps_def gm_update Let_def split: option.splits)
  moreover have "find (\<lambda>b. ia_domain b = ia_domain a \<and> ia_app_name b = ia_app_name a) ?apps = Some a"
  proof (cases "find (\<lambda>b. ia_domain b = ia_domain a \<and> ia_app_name b = ia_app_name a) ?apps")
    case None
    with assms(5) show ?thesis by (auto simp: find_None_iff)
  next
    case (Some b)
    then have "b \<in> set ?apps" "ia_domain b = ia_domain a" by (auto simp: find_Some_iff)
    with Some assms(6) show ?thesis by simp
  qed
  ultimately have "get_by_domain ?k (ia_domain a) = Some (ia_app a)" by (simp add: get_by_domain_def)
  moreover have "kb_started ?k = kb_started k"
    by (simp add: add_ingress_apps_def Let_def split: option.splits)
  ultimately show ?thesis using assms(1) by (simp add: kube_get_labels_def k)
qed

theorem processed_app_is_found_witness:
  "kube_get_labels (update_from_item ascii_lib rev (demo_ingress ''web'' ''a.io'') new_kube_state) ''a.io''
     = Inr (Some (app_with_domain ''a.io''))"
proof -
  let ?a = "\<lparr>ia_domain = ''a.io'', ia_app_name = ''web'', ia_app = app_with_domain ''a.io''\<rparr>"
  let ?l = "[(''web'', app_with_domain ''a.io'')]"
  have "it_annotations (demo_ingress ''web'' ''a.io'') = Some [(''web'', ''a.io'')]" by code_simp
  moreover have "extract_hosts ascii_lib (demo_ingress ''web'' ''a.io'') = Some ([], 0)" by code_simp
  moreover have "lib_decode_apps ascii_lib [(''web'', ''a.io'')] = Some ?l" by code_simp
  moreover have "collect_apps [] ?l (rev (gm_keys ?l)) = [?a]" by code_simp
  moreover have "kb_started new_kube_state" by code_simp
  ultimately show ?thesis
    using processed_app_is_found [of new_kube_state "demo_ingress ''web'' ''a.io''" "[(''web'', ''a.io'')]"
        ascii_lib "[]" 0 ?l ?a rev] by simp
qed

text \<open>
  The index does not remember a second owner: when two ingresses declare the same domain,
  the removal of the one processed last takes the domain away from the other, which is still
  there and still declares it.
\<close>

theorem shared_domain_lost_on_removal:
  assumes "map_of (kb_ingress_apps k) key1 = Some apps1" "x \<in> set apps1" "ia_domain x = d"
    "map_of (kb_ingress_apps k) (ns, name) = Some apps2" "y \<in> set apps2" "ia_domain y = d"
    "key1 \<noteq> (ns, name)"
  shows "get_by_domain (remove_ingress ns name k) d = None \<and>
     kube_declares (remove_ingress ns name k) (ia_app_name x) (ia_app x)"
proof
  have "d \<in> ia_domain ` set apps2" using assms(5,6) by auto
  then show "get_by_domain (remove_ingress ns name k) d = None"
    by (simp add: get_by_domain_def remove_ingress_def assms(4) unindex_domain Let_def)
  have "map_of (kb_ingress_apps (remove_ingress ns name k)) key1 = Some apps1"
    using assms(1,7) by (simp add: remove_ingress_def assms(4) gm_delete Let_def)
  with assms(2) show "kube_declares (remove_ingress ns name k) (ia_app_name x) (ia_app x)"
    unfolding kube_declares_def by blast
qed

definition demo_shared :: kube_state where
  "demo_shared = run_event ascii_lib rev (Added (demo_ingress ''web2'' ''a.io'')) demo_kube"

theorem shared_domain_lost_on_removal_witness:
  "get_by_domain (remove_ingress ''ns'' ''web2'' demo_shared) ''a.io'' = None"
proof -
  let ?x = "\<lambda>n. \<lparr>ia_domain = ''a.io'', ia_app_name = n, ia_app = app_with_domain ''a.io''\<rparr>"
  have "map_of (kb_ingress_apps demo_shared) (''ns'', ''web'') = Some [?x ''web'']"
    "map_of (kb_ingress_apps demo_shared) (''ns'', ''web2'') = Some [?x ''web2'']" by code_simp+
  then show ?thesis
    using shared_domain_lost_on_removal [of demo_shared "(''ns'', ''web'')" "[?x ''web'']" "?x ''web''"
        "''a.io''" "''ns''" "''web2''" "[?x ''web2'']" "?x ''web2''"] by simp
qed

end
