(* ===== verification/KubernetesWatch.thy ===== *)
theory KubernetesWatch
  imports Kubernetes
begin

text \<open>
  The routine that keeps the tables of the label provider for Kubernetes: \<open>NewKubernetesService\<close>,
  \<open>watchGVR\<close> and \<open>runWatcher\<close> of \<open>internal/service/kubernetes_service.go\<close> as a machine that the
  client of the cluster, the ticker and the context drive, and what its tables have to do with
  the ingresses of the cluster: they agree while every change is delivered, and an ingress that is
  deleted between two watches stays in them.
\<close>

section \<open>Starting\<close>

text \<open>What the three calls of the library answer; an error is its text.\<close>

record kube_client =
  kc_config :: "string option"
  kc_client :: "string option"
  kc_access :: "string option"

definition new_kubernetes_service :: "kube_client \<Rightarrow> string + kube_state" where
  "new_kubernetes_service c =
     (case kc_config c of
        Some e \<Rightarrow> Inl (''failed to get in-cluster kubernetes config: '' @ e)
      | None \<Rightarrow>
          (case kc_client c of
             Some e \<Rightarrow> Inl (''failed to create kubernetes client: '' @ e)
           | None \<Rightarrow>
               (case kc_access c of
                  Some e \<Rightarrow> Inl (''failed to access ingress api: '' @ e)
                | None \<Rightarrow> Inr new_kube_state)))"

section \<open>The loop\<close>

text \<open>
  \<open>FirstList\<close> is before the first listing, \<open>Looping\<close> the loop of \<open>watchGVR\<close>, \<open>Watching\<close> the one of
  \<open>runWatcher\<close>. The pauses are the calls of \<open>time.Sleep\<close>, in seconds, in their order.
\<close>

datatype watch_phase = FirstList | Looping | Watching | Finished

record watch_state =
  wt_phase :: watch_phase
  wt_kube :: kube_state
  wt_pauses :: "int list"

definition start_watch :: watch_state where
  "start_watch = \<lparr>wt_phase = FirstList, wt_kube = new_kube_state, wt_pauses = []\<rparr>"

text \<open>
  What the loops receive: the end of the context, a tick with the listing it asks for, whether the
  watch could be started, an event of the channel, and its end.
\<close>

datatype watch_input =
    ContextDone
  | Listed "ingress_item list option"
  | WatchAnswer bool
  | ChannelEvent kube_event
  | ChannelClosed

definition pause :: "int \<Rightarrow> watch_state \<Rightarrow> watch_state" where
  "pause s st = st\<lparr>wt_pauses := wt_pauses st @ [s]\<rparr>"

definition listed :: "golib \<Rightarrow> string visit_order \<Rightarrow> ingress_item list option \<Rightarrow> watch_state \<Rightarrow> watch_state" where
  "listed lib ord items st = st\<lparr>wt_kube := resync_gvr lib ord items (wt_kube st)\<rparr>"

text \<open>\<open>runWatcher\<close>; an event of the channel is not a listing.\<close>

fun watcher_input :: "golib \<Rightarrow> string visit_order \<Rightarrow> watch_input \<Rightarrow> watch_state \<Rightarrow> watch_state option" where
  "watcher_input lib ord ContextDone st = Some (st\<lparr>wt_phase := Finished\<rparr>)"
| "watcher_input lib ord ChannelClosed st = Some (pause 5 (st\<lparr>wt_phase := Looping\<rparr>))"
| "watcher_input lib ord (ChannelEvent ev) st =
     (case ev of Resync _ \<Rightarrow> None | _ \<Rightarrow> Some (st\<lparr>wt_kube := run_event lib ord ev (wt_kube st)\<rparr>))"
| "watcher_input lib ord (Listed items) st = Some (listed lib ord items st)"
| "watcher_input lib ord (WatchAnswer b) st = None"

text \<open>\<open>watchGVR\<close>.\<close>

fun watch_next :: "golib \<Rightarrow> string visit_order \<Rightarrow> watch_input \<Rightarrow> watch_state \<Rightarrow> watch_state option" where
  "watch_next lib ord i st =
     (case wt_phase st of
        FirstList \<Rightarrow>
          (case i of
             Listed items \<Rightarrow>
               (let st1 = listed lib ord items st\<lparr>wt_phase := Looping\<rparr>
                in Some (if items = None then pause 30 st1 else st1))
           | _ \<Rightarrow> None)
      | Looping \<Rightarrow>
          (case i of
             ContextDone \<Rightarrow> Some (st\<lparr>wt_phase := Finished\<rparr>)
           | Listed items \<Rightarrow> Some (listed lib ord items st)
           | WatchAnswer b \<Rightarrow> Some (if b then st\<lparr>wt_phase := Watching\<rparr> else pause 10 st)
           | _ \<Rightarrow> None)
      | Watching \<Rightarrow> watcher_input lib ord i st
      | Finished \<Rightarrow> None)"

declare watch_next.simps [simp del]

text \<open>Each input comes with the order in which the runtime visits the labels it decodes.\<close>

fun watch_run :: "golib \<Rightarrow> (string visit_order \<times> watch_input) list \<Rightarrow> watch_state \<Rightarrow> watch_state option" where
  "watch_run lib [] st = Some st"
| "watch_run lib ((ord, i) # xs) st =
     (case watch_next lib ord i st of None \<Rightarrow> None | Some st1 \<Rightarrow> watch_run lib xs st1)"

lemma kube_reachable_event: "kube_reachable lib k \<Longrightarrow> visits ord \<Longrightarrow> kube_reachable lib (run_event lib ord ev k)"
  by (blast intro: kube_reachable.step kube_step.event)

lemma kube_reachable_listed: "kube_reachable lib k \<Longrightarrow> visits ord \<Longrightarrow> kube_reachable lib (resync_gvr lib ord items k)"
  using kube_reachable_event [of lib k ord "Resync items"] by simp

lemma watch_next_reachable:
  assumes "watch_next lib ord i st = Some st'" "visits ord" "kube_reachable lib (wt_kube st)"
  shows "kube_reachable lib (wt_kube st')"
  using assms
  by (cases "wt_phase st"; cases i)
    (auto simp: watch_next.simps Let_def listed_def pause_def kube_reachable_event kube_reachable_listed
      split: if_splits kube_event.splits simp del: run_event.simps resync_gvr.simps)

lemma watch_run_reachable:
  "watch_run lib xs st = Some st' \<Longrightarrow> \<forall>x\<in>set xs. visits (fst x) \<Longrightarrow> kube_reachable lib (wt_kube st) \<Longrightarrow>
     kube_reachable lib (wt_kube st')"
proof (induction xs arbitrary: st)
  case (Cons x xs)
  then obtain st1 where "watch_next lib (fst x) (snd x) st = Some st1" "watch_run lib xs st1 = Some st'"
    by (cases x) (auto split: option.splits)
  with Cons watch_next_reachable [of lib "fst x" "snd x" st st1] show ?case by simp
qed simp

section \<open>The tables and the cluster\<close>

definition item_key :: "ingress_item \<Rightarrow> ingress_key" where
  "item_key item = (it_namespace item, it_name item)"

text \<open>The apps of an ingress, none when it cannot be read.\<close>

definition item_apps :: "golib \<Rightarrow> string visit_order \<Rightarrow> ingress_item \<Rightarrow> ingress_app list" where
  "item_apps lib ord item =
     (case it_annotations item of
        None \<Rightarrow> []
      | Some annotations \<Rightarrow>
          (case extract_hosts lib item of
             None \<Rightarrow> []
           | Some (hosts, _) \<Rightarrow>
               (case lib_decode_apps lib annotations of
                  None \<Rightarrow> []
                | Some labels \<Rightarrow> collect_apps hosts labels (ord (gm_keys labels)))))"

lemma update_from_item_apps:
  "update_from_item lib ord item k =
     (if item_apps lib ord item = [] then remove_ingress (it_namespace item) (it_name item) k
      else add_ingress_apps (it_namespace item) (it_name item) (item_apps lib ord item) k)"
  by (simp add: update_from_item_def item_apps_def Let_def split: option.splits)

lemma table_add: "map_of (kb_ingress_apps (add_ingress_apps ns n apps k)) key =
    (if key = (ns, n) then Some apps else map_of (kb_ingress_apps k) key)"
  by (simp add: add_ingress_apps_def Let_def gm_update split: option.splits)

lemma table_remove: "map_of (kb_ingress_apps (remove_ingress ns n k)) key =
    (if key = (ns, n) then None else map_of (kb_ingress_apps k) key)"
  by (auto simp: remove_ingress_def Let_def gm_delete split: option.splits)

lemma table_update: "map_of (kb_ingress_apps (update_from_item lib ord item k)) key =
    (if key = item_key item then (if item_apps lib ord item = [] then None else Some (item_apps lib ord item))
     else map_of (kb_ingress_apps k) key)"
  by (simp add: update_from_item_apps table_add table_remove item_key_def)

text \<open>The visiting order only decides the order of the apps.\<close>

lemma collect_apps_set: "set ns = set ns' \<Longrightarrow> set (collect_apps hosts apps ns) = set (collect_apps hosts apps ns')"
proof -
  have "set (collect_apps hosts apps ns) = (\<Union>n\<in>set ns. set (collect_apps hosts apps [n]))" for ns
    by (induction ns) (auto simp: Let_def split: option.splits)
  then show "set ns = set ns' \<Longrightarrow> ?thesis" by simp
qed

lemma item_apps_order:
  assumes "visits ord"
  shows "set (item_apps lib ord item) = set (item_apps lib (\<lambda>ks. ks) item)"
proof -
  have "set (collect_apps hosts labels (ord (gm_keys labels))) = set (collect_apps hosts labels (gm_keys labels))" for hosts labels
    by (rule collect_apps_set) (simp add: visits_set assms)
  then show ?thesis by (simp add: item_apps_def split: option.split)
qed

type_synonym cluster = "ingress_key \<Rightarrow> ingress_item option"

datatype change = Put ingress_item | Drop ingress_item

fun changed :: "change \<Rightarrow> cluster \<Rightarrow> cluster" where
  "changed (Put item) c = c(item_key item \<mapsto> item)"
| "changed (Drop item) c = c(item_key item := None)"

text \<open>What the cluster sends for a change; a new and a changed ingress differ only in the event.\<close>

inductive announces :: "change \<Rightarrow> kube_event \<Rightarrow> bool" where
  "announces (Put item) (Added item)"
| "announces (Put item) (Modified item)"
| "announces (Drop item) (Deleted item)"

definition lists :: "ingress_item list \<Rightarrow> cluster \<Rightarrow> bool" where
  "lists items c \<longleftrightarrow> (\<forall>key item. c key = Some item \<longleftrightarrow> item \<in> set items \<and> item_key item = key)"

text \<open>
  The provider and the cluster while no change is lost: the first listing succeeds, each change is
  delivered once and in its order, and any later listing shows the cluster of its moment.
\<close>

inductive in_step :: "golib \<Rightarrow> cluster \<Rightarrow> kube_state \<Rightarrow> bool" for lib where
  first: "lists items c \<Longrightarrow> visits ord \<Longrightarrow> in_step lib c (resync_gvr lib ord (Some items) new_kube_state)"
| change: "in_step lib c k \<Longrightarrow> announces ch ev \<Longrightarrow> visits ord \<Longrightarrow> in_step lib (changed ch c) (run_event lib ord ev k)"
| again: "in_step lib c k \<Longrightarrow> lists items c \<Longrightarrow> visits ord \<Longrightarrow> in_step lib c (resync_gvr lib ord (Some items) k)"
| failed: "in_step lib c k \<Longrightarrow> in_step lib c (resync_gvr lib ord None k)"

definition table_apps :: "kube_state \<Rightarrow> ingress_key \<Rightarrow> ingress_app set" where
  "table_apps k key = (case map_of (kb_ingress_apps k) key of None \<Rightarrow> {} | Some apps \<Rightarrow> set apps)"

definition cluster_apps :: "golib \<Rightarrow> cluster \<Rightarrow> ingress_key \<Rightarrow> ingress_app set" where
  "cluster_apps lib c key = (case c key of None \<Rightarrow> {} | Some item \<Rightarrow> set (item_apps lib (\<lambda>ks. ks) item))"

lemma table_apps_update:
  "visits ord \<Longrightarrow> table_apps (update_from_item lib ord item k) =
     (table_apps k)(item_key item := set (item_apps lib (\<lambda>ks. ks) item))"
  using item_apps_order [of ord lib item] by (intro ext) (auto simp: table_apps_def table_update)

lemma table_apps_remove: "table_apps (remove_ingress ns n k) = (table_apps k)((ns, n) := {})"
  by (intro ext) (simp add: table_apps_def table_remove)

text \<open>The tables after a listing, as an update of what they held.\<close>

fun puts :: "(ingress_item \<Rightarrow> 'a) \<Rightarrow> ingress_item list \<Rightarrow> (ingress_key \<Rightarrow> 'a) \<Rightarrow> ingress_key \<Rightarrow> 'a" where
  "puts g [] f = f"
| "puts g (item # items) f = puts g items (f(item_key item := g item))"

lemma table_apps_listed:
  "visits ord \<Longrightarrow> table_apps (fold (update_from_item lib ord) items k) =
     puts (\<lambda>item. set (item_apps lib (\<lambda>ks. ks) item)) items (table_apps k)"
  by (induction items arbitrary: k) (simp_all add: table_apps_update)

lemma puts_out: "key \<notin> item_key ` set items \<Longrightarrow> puts g items f key = f key"
  by (induction items arbitrary: f) auto

lemma puts_in: "inj_on item_key (set items) \<Longrightarrow> x \<in> set items \<Longrightarrow> puts g items f (item_key x) = g x"
proof (induction items arbitrary: f)
  case (Cons y items)
  show ?case
  proof (cases "x \<in> set items")
    case True
    with Cons show ?thesis by simp
  next
    case False
    with Cons.prems have "x = y" "item_key y \<notin> item_key ` set items" by (auto simp: inj_on_def)
    then show ?thesis by (simp add: puts_out)
  qed
qed simp

lemma lists_unique: "lists items c \<Longrightarrow> inj_on item_key (set items)"
  unfolding lists_def inj_on_def by (metis option.inject)

lemma lists_absent: "lists items c \<Longrightarrow> c key = None \<Longrightarrow> key \<notin> item_key ` set items"
  unfolding lists_def by (metis image_iff option.distinct(1))

lemma lists_present: "lists items c \<Longrightarrow> c key = Some item \<Longrightarrow> item \<in> set items \<and> item_key item = key"
  unfolding lists_def by blast

text \<open>Listing the cluster makes the tables agree with it where they hold nothing else.\<close>

lemma listing_agrees:
  assumes "lists items c" "visits ord" "\<And>key. c key = None \<Longrightarrow> table_apps k key = {}"
  shows "table_apps (resync_gvr lib ord (Some items) k) = cluster_apps lib c"
proof
  fix key
  have "puts (\<lambda>item. set (item_apps lib (\<lambda>ks. ks) item)) items (table_apps k) key = cluster_apps lib c key"
  proof (cases "c key")
    case None
    with lists_absent [OF assms(1)] assms(3) show ?thesis by (simp add: puts_out cluster_apps_def)
  next
    case (Some item)
    with lists_present [OF assms(1)] have "item \<in> set items" "item_key item = key" by simp_all
    with puts_in [OF lists_unique [OF assms(1)], of item] Some show ?thesis by (auto simp: cluster_apps_def)
  qed
  then show "table_apps (resync_gvr lib ord (Some items) k) key = cluster_apps lib c key"
    by (simp add: table_apps_listed [OF assms(2)])
qed

lemma in_step_agrees: "in_step lib c k \<Longrightarrow> table_apps k = cluster_apps lib c"
proof (induction rule: in_step.induct)
  case (first items c ord)
  then show ?case by (rule listing_agrees) (simp add: table_apps_def new_kube_state_def)
next
  case (change c k ch ev ord)
  from change.hyps(2,3) change.IH show ?case
    by cases (simp_all add: table_apps_update table_apps_remove cluster_apps_def item_key_def fun_eq_iff)
next
  case (again c k items ord)
  then show ?case by (intro listing_agrees) (simp_all add: cluster_apps_def)
qed simp

lemma in_step_reachable: "in_step lib c k \<Longrightarrow> kube_reachable lib k"
proof (induction rule: in_step.induct)
  case (failed c k)
  then show ?case by simp
qed (blast intro: kube_reachable.start kube_reachable_event kube_reachable_listed)+

text \<open>
  C36: While no change is lost, the tables of the provider are a copy of the cluster: under every
  ingress they hold exactly the apps that this ingress declares now, and a lookup answers with an
  app of an ingress that is in the cluster at that moment.
\<close>

theorem tables_follow_cluster:
  assumes "in_step lib c k"
  shows "table_apps k = cluster_apps lib c \<and>
     (kube_get_labels k domain = Inr (Some a) \<longrightarrow>
        (\<exists>key item x. c key = Some item \<and> x \<in> set (item_apps lib (\<lambda>ks. ks) item) \<and> ia_app x = a \<and>
           names_app domain (ia_app_name x) a))"
proof (intro conjI impI)
  show agree: "table_apps k = cluster_apps lib c" by (rule in_step_agrees [OF assms])
  assume "kube_get_labels k domain = Inr (Some a)"
  from kube.answer [OF reachable_inv [OF in_step_reachable [OF assms]] this]
  obtain n where n: "kube_declares k n a" "names_app domain n a" by blast
  from n(1) obtain key apps x where "map_of (kb_ingress_apps k) key = Some apps" "x \<in> set apps"
    "ia_app_name x = n" "ia_app x = a" by (auto simp: kube_declares_def)
  then have "x \<in> table_apps k key" by (simp add: table_apps_def)
  with agree have "x \<in> cluster_apps lib c key" by simp
  then obtain item where "c key = Some item" "x \<in> set (item_apps lib (\<lambda>ks. ks) item)"
    by (auto simp: cluster_apps_def split: option.splits)
  with n(2) \<open>ia_app_name x = n\<close> \<open>ia_app x = a\<close>
  show "\<exists>key item x. c key = Some item \<and> x \<in> set (item_apps lib (\<lambda>ks. ks) item) \<and> ia_app x = a \<and>
      names_app domain (ia_app_name x) a" by blast
qed

definition demo_cluster :: cluster where
  "demo_cluster = (\<lambda>key. None)((''ns'', ''web'') \<mapsto> demo_ingress ''web'' ''a.io'')"

lemma demo_in_step: "in_step ascii_lib demo_cluster demo_kube"
proof -
  have "in_step ascii_lib (\<lambda>key. None) (resync_gvr ascii_lib rev (Some []) new_kube_state)"
    by (rule in_step.first) (simp_all add: lists_def)
  then have "in_step ascii_lib (\<lambda>key. None) new_kube_state" by simp
  from in_step.change [OF this announces.intros(1), of rev "demo_ingress ''web'' ''a.io''"]
  show ?thesis by (simp add: demo_cluster_def demo_kube_def item_key_def demo_ingress_def)
qed

theorem tables_follow_cluster_witness:
  "\<exists>key item x. demo_cluster key = Some item \<and> x \<in> set (item_apps ascii_lib (\<lambda>ks. ks) item) \<and>
     ia_app x = app_with_domain ''a.io''"
proof -
  have "kube_get_labels demo_kube ''a.io'' = Inr (Some (app_with_domain ''a.io''))" by code_simp
  with tables_follow_cluster [OF demo_in_step, of "''a.io''" "app_with_domain ''a.io''"] show ?thesis by blast
qed

section \<open>A change between two watches\<close>

text \<open>The routine ends only when its context does, and from either loop it then ends at once.\<close>

lemma watch_ends:
  "watch_next lib ord i st = Some st' \<Longrightarrow> wt_phase st' = Finished \<Longrightarrow> i = ContextDone"
  "wt_phase st \<in> {Looping, Watching} \<Longrightarrow> watch_next lib ord ContextDone st = Some (st\<lparr>wt_phase := Finished\<rparr>)"
  by (cases "wt_phase st"; cases i)
    (auto simp: watch_next.simps Let_def listed_def pause_def split: if_splits kube_event.splits)

text \<open>
  A listing adds and replaces the ingresses it shows and takes none away. When the watch is
  interrupted, the ingresses that are deleted before the next one starts never send an event; if the
  cluster has no ingress left, any number of listings leaves every lookup as it was.
\<close>

theorem missed_deletion_stays:
  assumes "wt_phase st = Watching"
  shows "\<exists>st'. watch_run lib ([(ord, ChannelClosed), (ord, Listed (Some [])), (ord, WatchAnswer True)] @
       map (\<lambda>ord. (ord, Listed (Some []))) ords) st = Some st' \<and>
     wt_phase st' = Watching \<and> wt_kube st' = wt_kube st"
proof -
  have again: "watch_run lib (map (\<lambda>ord. (ord, Listed (Some []))) ords) s = Some s" if "wt_phase s = Watching" for s
    using that by (induction ords) (simp_all add: watch_next.simps listed_def)
  show ?thesis using assms by (simp add: watch_next.simps listed_def pause_def again)
qed

end
