(* ===== verification/Cache.thy ===== *)
theory Cache
  imports Prelude
begin

text \<open>
  The bounded cache with expiring entries, \<open>internal/service/cache_store.go\<close>. Its state is the
  record \<open>cache_store\<close>; every method is one definition, run under the cache's lock. Two orders
  matter: \<open>cs_order\<close> is the order of insertion the code keeps, and the argument \<open>ord\<close> is
  the order in which the runtime visits the map. \<open>cache_inv\<close> is the representation invariant,
  the locale \<open>ttl_cache\<close> the contract the services rely on.
\<close>

section \<open>State and operations\<close>

record 'v cache_entry =
  ce_value :: 'v
  ce_expires_at :: "int option"

record 'v cache_store =
  cs_cache :: "(string, 'v cache_entry) gomap"
  cs_order :: "string list"
  cs_max_size :: int

definition new_cache_store :: "int \<Rightarrow> 'v cache_store" where
  "new_cache_store max_size = \<lparr>cs_cache = [], cs_order = [], cs_max_size = max_size\<rparr>"

definition entry_expired :: "int \<Rightarrow> 'v cache_entry \<Rightarrow> bool" where
  "entry_expired now e = (case ce_expires_at e of None \<Rightarrow> False | Some t \<Rightarrow> t < now)"

definition cache_get :: "int \<Rightarrow> 'v cache_store \<Rightarrow> string \<Rightarrow> 'v option" where
  "cache_get now cs key =
     (case map_of (cs_cache cs) key of
        None \<Rightarrow> None
      | Some entry \<Rightarrow> if entry_expired now entry then None else Some (ce_value entry))"

definition cache_delete :: "string \<Rightarrow> 'v cache_store \<Rightarrow> 'v cache_store" where
  "cache_delete key cs =
     cs\<lparr>cs_cache := AList.delete key (cs_cache cs), cs_order := remove1 key (cs_order cs)\<rparr>"

text \<open>
  The loop of \<open>evictOne\<close>: it returns at the first expired entry of the visit, and otherwise
  keeps the key with the earliest expiry (the empty string when there is none).
\<close>

fun evict_scan ::
  "int \<Rightarrow> (string, 'v cache_entry) gomap \<Rightarrow> string list \<Rightarrow> string \<Rightarrow> int option \<Rightarrow> string + string"
where
  "evict_scan now m [] oldest_key oldest_exp = Inr oldest_key"
| "evict_scan now m (k # ks) oldest_key oldest_exp =
     (case map_of m k of
        None \<Rightarrow> evict_scan now m ks oldest_key oldest_exp
      | Some e \<Rightarrow>
          if entry_expired now e then Inl k
          else (case ce_expires_at e of
                  None \<Rightarrow> evict_scan now m ks oldest_key oldest_exp
                | Some t \<Rightarrow>
                    (case oldest_exp of
                       None \<Rightarrow> evict_scan now m ks k (Some t)
                     | Some t0 \<Rightarrow>
                         if t < t0 then evict_scan now m ks k (Some t)
                         else evict_scan now m ks oldest_key oldest_exp)))"

definition evict_one :: "string visit_order \<Rightarrow> int \<Rightarrow> 'v cache_store \<Rightarrow> bool \<times> 'v cache_store" where
  "evict_one ord now cs =
     (case evict_scan now (cs_cache cs) (ord (gm_keys (cs_cache cs))) [] None of
        Inl k \<Rightarrow> (True, cache_delete k cs)
      | Inr oldest_key \<Rightarrow>
          if oldest_key \<noteq> [] then (True, cache_delete oldest_key cs)
          else (case cs_order cs of
                  [] \<Rightarrow> (False, cs)
                | k # ks \<Rightarrow> (True, cache_delete k cs)))"

definition cache_full :: "'v cache_store \<Rightarrow> string \<Rightarrow> bool" where
  "cache_full cs key \<longleftrightarrow>
     0 < cs_max_size cs \<and> map_of (cs_cache cs) key = None \<and>
     cs_max_size cs \<le> int (length (cs_cache cs))"

definition cache_set ::
  "string visit_order \<Rightarrow> int \<Rightarrow> string \<Rightarrow> 'v \<Rightarrow> int \<Rightarrow> 'v cache_store \<Rightarrow> 'v cache_store"
where
  "cache_set ord now key v ttl cs =
     (let cs1 = (if cache_full cs key then snd (evict_one ord now cs) else cs);
          expires = (if 0 < ttl then Some (now + ttl) else None)
      in cs1\<lparr>cs_cache := AList.update key \<lparr>ce_value = v, ce_expires_at = expires\<rparr> (cs_cache cs1),
             cs_order := (if key \<in> set (cs_order cs1) then cs_order cs1
                          else cs_order cs1 @ [key])\<rparr>)"

definition cache_update :: "int \<Rightarrow> string \<Rightarrow> 'v \<Rightarrow> int \<Rightarrow> 'v cache_store \<Rightarrow> bool \<times> 'v cache_store" where
  "cache_update now key v ttl cs =
     (case map_of (cs_cache cs) key of
        None \<Rightarrow> (False, cs)
      | Some current \<Rightarrow>
          if entry_expired now current then (False, cs)
          else
            let expires = (if 0 < ttl then Some (now + ttl) else ce_expires_at current)
            in (True, cs\<lparr>cs_cache :=
                  AList.update key \<lparr>ce_value = v, ce_expires_at = expires\<rparr> (cs_cache cs)\<rparr>))"

fun sweep_keys :: "int \<Rightarrow> string list \<Rightarrow> 'v cache_store \<Rightarrow> 'v cache_store" where
  "sweep_keys now [] cs = cs"
| "sweep_keys now (k # ks) cs =
     (case map_of (cs_cache cs) k of
        None \<Rightarrow> sweep_keys now ks cs
      | Some e \<Rightarrow>
          if entry_expired now e then sweep_keys now ks (cache_delete k cs)
          else sweep_keys now ks cs)"

definition cache_sweep :: "string visit_order \<Rightarrow> int \<Rightarrow> 'v cache_store \<Rightarrow> 'v cache_store" where
  "cache_sweep ord now cs = sweep_keys now (ord (gm_keys (cs_cache cs))) cs"

definition cache_size :: "'v cache_store \<Rightarrow> int" where
  "cache_size cs = int (length (cs_cache cs))"

definition cache_clear :: "'v cache_store \<Rightarrow> 'v cache_store" where
  "cache_clear cs = cs\<lparr>cs_cache := [], cs_order := []\<rparr>"

section \<open>The representation invariant\<close>

text \<open>
  The insertion order lists the keys of the map exactly once, and a cache with a positive bound
  never exceeds it.
\<close>

definition cache_inv :: "'v cache_store \<Rightarrow> bool" where
  "cache_inv cs \<longleftrightarrow>
     gm_wf (cs_cache cs) \<and> distinct (cs_order cs) \<and>
     set (cs_order cs) = dom (map_of (cs_cache cs)) \<and>
     (0 < cs_max_size cs \<longrightarrow> int (length (cs_cache cs)) \<le> cs_max_size cs)"

lemma cache_inv_new [intro, simp]: "cache_inv (new_cache_store n)"
  by (simp add: cache_inv_def new_cache_store_def)

lemma cache_inv_clear [intro]: "cache_inv cs \<Longrightarrow> cache_inv (cache_clear cs)"
  by (simp add: cache_inv_def cache_clear_def)

lemma cache_delete_fields [simp]:
  "cs_cache (cache_delete k cs) = AList.delete k (cs_cache cs)"
  "cs_order (cache_delete k cs) = remove1 k (cs_order cs)"
  "cs_max_size (cache_delete k cs) = cs_max_size cs"
  by (simp_all add: cache_delete_def)

lemma cache_inv_delete [intro]: "cache_inv cs \<Longrightarrow> cache_inv (cache_delete k cs)"
  using AList.length_delete_le [of k "cs_cache cs"]
  by (auto simp: cache_inv_def gm_delete gm_wf_delete)

lemma cache_inv_update [intro]: "cache_inv cs \<Longrightarrow> cache_inv (snd (cache_update now k v ttl cs))"
  by (simp add: cache_inv_def cache_update_def Let_def gm_wf_update gm_update gm_len_update
      domIff insert_absorb split: option.splits)

lemma sweep_keys_inv: "cache_inv cs \<Longrightarrow> cache_inv (sweep_keys now ks cs)"
  by (induction now ks cs rule: sweep_keys.induct) (auto split: option.splits)

lemma cache_inv_sweep [intro]: "cache_inv cs \<Longrightarrow> cache_inv (cache_sweep ord now cs)"
  by (simp add: cache_sweep_def sweep_keys_inv)

section \<open>Eviction\<close>

lemma evict_scan_key:
  "evict_scan now m ks k0 x0 = r \<Longrightarrow>
     (\<forall>k. r = Inl k \<longrightarrow> k \<in> set ks \<and> (\<exists>e. map_of m k = Some e \<and> entry_expired now e)) \<and>
     (\<forall>k. r = Inr k \<longrightarrow> k = k0 \<or> k \<in> set ks \<and> map_of m k \<noteq> None)"
  by (induction now m ks k0 x0 rule: evict_scan.induct)
     (fastforce split: option.splits if_splits)+

lemma evict_one_victim:
  assumes inv: "cache_inv cs" and ord: "visits ord" and ne: "cs_cache cs \<noteq> []"
  obtains k where "map_of (cs_cache cs) k \<noteq> None" "evict_one ord now cs = (True, cache_delete k cs)"
proof -
  let ?r = "evict_scan now (cs_cache cs) (ord (gm_keys (cs_cache cs))) [] None"
  show thesis
  proof (cases ?r)
    case (Inl k)
    with evict_scan_key [OF this] show thesis
      by (intro that [of k]) (auto simp: evict_one_def)
  next
    case (Inr k)
    show thesis
    proof (cases "k = []")
      case False
      with Inr evict_scan_key [OF Inr] show thesis
        by (intro that [of k]) (auto simp: evict_one_def)
    next
      case True
      from inv ne obtain k' ks where ks: "cs_order cs = k' # ks"
        by (cases "cs_order cs"; cases "cs_cache cs") (auto simp: cache_inv_def)
      with inv have "k' \<in> dom (map_of (cs_cache cs))" by (simp add: cache_inv_def) (metis insertI1)
      then have "map_of (cs_cache cs) k' \<noteq> None" by (simp add: domIff)
      with True Inr ks show thesis by (intro that [of k']) (simp_all add: evict_one_def)
    qed
  qed
qed

lemma evict_one_inv: "cache_inv cs \<Longrightarrow> visits ord \<Longrightarrow> cache_inv (snd (evict_one ord now cs))"
  by (auto simp: evict_one_def split: sum.splits list.splits)

lemma evict_one_max: "cs_max_size (snd (evict_one ord now cs)) = cs_max_size cs"
  by (simp add: evict_one_def split: sum.splits list.splits)

lemma evict_one_len:
  assumes "cache_inv cs" "visits ord" "cs_cache cs \<noteq> []"
  shows "length (cs_cache (snd (evict_one ord now cs))) = length (cs_cache cs) - 1"
proof -
  obtain k where "map_of (cs_cache cs) k \<noteq> None" "evict_one ord now cs = (True, cache_delete k cs)"
    using evict_one_victim [OF assms] .
  then show ?thesis using assms(1) by (auto simp: cache_inv_def gm_len_delete)
qed

lemma evict_one_lookup:
  "map_of (cs_cache (snd (evict_one ord now cs))) k = Some e \<Longrightarrow> map_of (cs_cache cs) k = Some e"
  by (auto simp: evict_one_def gm_delete split: sum.splits list.splits if_splits)

text \<open>The cache after the eviction that \<open>Set\<close> may start with.\<close>

definition make_room :: "string visit_order \<Rightarrow> int \<Rightarrow> 'v cache_store \<Rightarrow> string \<Rightarrow> 'v cache_store" where
  "make_room ord now cs key = (if cache_full cs key then snd (evict_one ord now cs) else cs)"

lemma make_room_inv:
  assumes "cache_inv cs" "visits ord"
  shows "cache_inv (make_room ord now cs key)"
    and "cs_max_size (make_room ord now cs key) = cs_max_size cs"
    and "0 < cs_max_size cs \<Longrightarrow> map_of (cs_cache (make_room ord now cs key)) key = None \<Longrightarrow>
           int (length (cs_cache (make_room ord now cs key))) < cs_max_size cs"
proof -
  show "cache_inv (make_room ord now cs key)"
    using assms by (simp add: make_room_def evict_one_inv)
  show "cs_max_size (make_room ord now cs key) = cs_max_size cs"
    by (simp add: make_room_def evict_one_max)
  assume pos: "0 < cs_max_size cs" and new: "map_of (cs_cache (make_room ord now cs key)) key = None"
  show "int (length (cs_cache (make_room ord now cs key))) < cs_max_size cs"
  proof (cases "cache_full cs key")
    case True
    then have ne: "cs_cache cs \<noteq> []" using pos by (auto simp: cache_full_def)
    then have "length (cs_cache cs) - 1 < length (cs_cache cs)" by simp
    moreover have "int (length (cs_cache cs)) \<le> cs_max_size cs"
      using assms(1) pos by (simp add: cache_inv_def)
    ultimately show ?thesis
      using True evict_one_len [OF assms ne, of now] by (simp add: make_room_def)
  next
    case False
    then have "make_room ord now cs key = cs" by (simp add: make_room_def)
    with False new pos show ?thesis by (simp add: cache_full_def)
  qed
qed

lemma cache_set_eq:
  "cache_set ord now key v ttl cs =
     (let cs1 = make_room ord now cs key
      in cs1\<lparr>cs_cache := AList.update key
               \<lparr>ce_value = v, ce_expires_at = if 0 < ttl then Some (now + ttl) else None\<rparr>
               (cs_cache cs1),
             cs_order := (if key \<in> set (cs_order cs1) then cs_order cs1
                          else cs_order cs1 @ [key])\<rparr>)"
  by (simp add: cache_set_def make_room_def Let_def)

lemma cache_inv_set [intro]:
  assumes "cache_inv cs" "visits ord"
  shows "cache_inv (cache_set ord now key v ttl cs)"
  using make_room_inv [OF assms, of now key]
  by (auto simp: cache_set_eq Let_def cache_inv_def gm_wf_update gm_update gm_len_update)

lemma cache_set_max [simp]: "cs_max_size (cache_set ord now key v ttl cs) = cs_max_size cs"
  by (simp add: cache_set_def Let_def evict_one_max)

section \<open>What a lookup sees\<close>

lemma cache_get_set_same:
  "cache_get t (cache_set ord now key v ttl cs) key =
     (if 0 < ttl \<and> now + ttl < t then None else Some v)"
  by (simp add: cache_set_def Let_def cache_get_def gm_update entry_expired_def)

lemma make_room_lookup:
  "map_of (cs_cache (make_room ord now cs key)) k = Some e \<Longrightarrow> map_of (cs_cache cs) k = Some e"
  by (cases "cache_full cs key") (auto simp: make_room_def dest: evict_one_lookup)

lemma cache_set_lookup:
  "map_of (cs_cache (cache_set ord now key v ttl cs)) =
     (map_of (cs_cache (make_room ord now cs key)))
       (key \<mapsto> \<lparr>ce_value = v, ce_expires_at = if 0 < ttl then Some (now + ttl) else None\<rparr>)"
  by (simp add: cache_set_eq Let_def gm_update)

lemma cache_get_set_other:
  assumes "k \<noteq> key" "cache_get t (cache_set ord now key v ttl cs) k = Some w"
  shows "cache_get t cs k = Some w"
  using assms
  by (auto simp: cache_get_def cache_set_lookup dest: make_room_lookup split: option.splits)

lemma cache_get_set_other_room:
  "k \<noteq> key \<Longrightarrow> \<not> cache_full cs key \<Longrightarrow>
     cache_get t (cache_set ord now key v ttl cs) k = cache_get t cs k"
  by (simp add: cache_set_def Let_def cache_get_def gm_update)

lemma cache_get_delete [simp]:
  "cache_get t (cache_delete key cs) k = (if k = key then None else cache_get t cs k)"
  by (simp add: cache_get_def gm_delete)

lemma cache_get_clear [simp]: "cache_get t (cache_clear cs) k = None"
  by (simp add: cache_get_def cache_clear_def)

lemma cache_get_new [simp]: "cache_get t (new_cache_store n) k = None"
  by (simp add: cache_get_def new_cache_store_def)

lemma cache_get_earlier: "cache_get t' cs k = Some v \<Longrightarrow> t \<le> t' \<Longrightarrow> cache_get t cs k = Some v"
  by (auto simp: cache_get_def entry_expired_def split: option.splits if_splits)

lemma cache_get_update:
  "cache_update now key v ttl cs = (ok, cs') \<Longrightarrow>
     ok = (cache_get now cs key \<noteq> None) \<and> (k \<noteq> key \<longrightarrow> cache_get t cs' k = cache_get t cs k) \<and>
     (\<not> ok \<longrightarrow> cs' = cs)"
  by (auto simp: cache_update_def cache_get_def gm_update Let_def split: option.splits if_splits)

lemma sweep_keys_lookup:
  "map_of (cs_cache (sweep_keys now ks cs)) k =
     (case map_of (cs_cache cs) k of
        None \<Rightarrow> None
      | Some e \<Rightarrow> if entry_expired now e \<and> k \<in> set ks then None else Some e)"
proof (induction now ks cs rule: sweep_keys.induct)
  case (2 now k' ks cs)
  then show ?case
    by (cases "map_of (cs_cache cs) k'"; cases "k = k'") (auto simp: gm_delete split: option.splits)
qed (simp split: option.splits)

text \<open>Sweeping changes no lookup, now or later, and leaves no expired entry behind.\<close>

lemma cache_get_sweep:
  assumes "visits ord" "now \<le> t"
  shows "cache_get t (cache_sweep ord now cs) k = cache_get t cs k"
proof -
  have "map_of (cs_cache cs) k \<noteq> None \<Longrightarrow> k \<in> set (ord (gm_keys (cs_cache cs)))"
    using visits_set [OF assms(1)] by (simp add: set_gm_keys domIff del: set_map)
  then show ?thesis using assms(2)
    by (auto simp: cache_get_def cache_sweep_def sweep_keys_lookup entry_expired_def
        split: option.splits)
qed

section \<open>Which entry an eviction takes\<close>

definition expiry_of :: "'v cache_store \<Rightarrow> string \<Rightarrow> int option" where
  "expiry_of cs k = (case map_of (cs_cache cs) k of None \<Rightarrow> None | Some e \<Rightarrow> ce_expires_at e)"

definition has_expired :: "int \<Rightarrow> 'v cache_store \<Rightarrow> string \<Rightarrow> bool" where
  "has_expired now cs k \<longleftrightarrow> (\<exists>t. expiry_of cs k = Some t \<and> t < now)"

lemma has_expired_entry:
  "has_expired now cs k \<longleftrightarrow> (\<exists>e. map_of (cs_cache cs) k = Some e \<and> entry_expired now e)"
  by (auto simp: has_expired_def expiry_of_def entry_expired_def split: option.splits)

lemma evict_scan_plain:
  "\<not> has_expired now cs a \<Longrightarrow> expiry_of cs a = None \<Longrightarrow>
     evict_scan now (cs_cache cs) (a # ks) k0 x0 = evict_scan now (cs_cache cs) ks k0 x0"
  by (cases "map_of (cs_cache cs) a") (simp_all add: has_expired_entry expiry_of_def)

lemma evict_scan_timed:
  assumes "\<not> has_expired now cs a" "expiry_of cs a = Some t"
  shows "evict_scan now (cs_cache cs) (a # ks) k0 x0 =
     (if \<exists>t0. x0 = Some t0 \<and> t0 \<le> t then evict_scan now (cs_cache cs) ks k0 x0
      else evict_scan now (cs_cache cs) ks a (Some t))"
proof -
  from assms obtain e where "map_of (cs_cache cs) a = Some e" "ce_expires_at e = Some t"
      "\<not> entry_expired now e"
    by (cases "map_of (cs_cache cs) a") (simp_all add: has_expired_entry expiry_of_def)
  then show ?thesis by (cases x0) auto
qed

lemma evict_scan_expired:
  "k \<in> set ks \<Longrightarrow> has_expired now cs k \<Longrightarrow> \<exists>j. evict_scan now (cs_cache cs) ks k0 x0 = Inl j"
proof (induction ks arbitrary: k0 x0)
  case (Cons a ks)
  show ?case
  proof (cases "has_expired now cs a")
    case True
    then show ?thesis by (auto simp: has_expired_entry)
  next
    case False
    then have "k \<in> set ks" using Cons.prems by auto
    with Cons False show ?thesis
      by (cases "expiry_of cs a") (simp_all add: evict_scan_plain evict_scan_timed del: evict_scan.simps)
  qed
qed simp

text \<open>\<open>earliest cs ks j\<close>: among the keys \<open>ks\<close> none expires before \<open>j\<close> does.\<close>

definition earliest :: "'v cache_store \<Rightarrow> string list \<Rightarrow> string \<Rightarrow> bool" where
  "earliest cs ks j \<longleftrightarrow>
     (\<exists>t. expiry_of cs j = Some t \<and> (\<forall>k\<in>set ks. \<forall>t'. expiry_of cs k = Some t' \<longrightarrow> t \<le> t'))"

lemma evict_scan_live:
  assumes "\<forall>k\<in>set ks. \<not> has_expired now cs k" "x0 = None \<or> x0 = expiry_of cs k0"
  shows "\<exists>j. evict_scan now (cs_cache cs) ks k0 x0 = Inr j \<and>
     (if x0 = None then j = k0 \<and> (\<forall>k\<in>set ks. expiry_of cs k = None) \<or> j \<in> set ks \<and> earliest cs ks j
      else j \<in> insert k0 (set ks) \<and> earliest cs (k0 # ks) j)"
  using assms
proof (induction ks arbitrary: k0 x0)
  case Nil
  show ?case
  proof (cases x0)
    case (Some t)
    with Nil.prems(2) have "expiry_of cs k0 = Some t" by simp
    with Some show ?thesis by (simp add: earliest_def)
  qed simp
next
  case (Cons a ks)
  have live: "\<forall>k\<in>set ks. \<not> has_expired now cs k" "\<not> has_expired now cs a" using Cons.prems by auto
  show ?case
  proof (cases "expiry_of cs a")
    case None
    have keep: "earliest cs (a # l) j" if "earliest cs l j" for l j
      using that None by (simp add: earliest_def)
    have keep2: "earliest cs (k0 # a # l) j" if "earliest cs (k0 # l) j" for l j
      using that None by (simp add: earliest_def)
    have "evict_scan now (cs_cache cs) (a # ks) k0 x0 = evict_scan now (cs_cache cs) ks k0 x0"
      using live(2) None by (rule evict_scan_plain)
    with Cons.IH [OF live(1) Cons.prems(2)] None show ?thesis
      by (cases x0) (auto simp del: evict_scan.simps intro: keep keep2)
  next
    case (Some t)
    show ?thesis
    proof (cases "\<exists>t0. x0 = Some t0 \<and> t0 \<le> t")
      case True
      then have "x0 \<noteq> None" by auto
      then obtain j where "evict_scan now (cs_cache cs) ks k0 x0 = Inr j"
          "j \<in> insert k0 (set ks)" "earliest cs (k0 # ks) j"
        using Cons.IH [OF live(1) Cons.prems(2)] by auto
      moreover from this(3) True Cons.prems(2) Some have "earliest cs (k0 # a # ks) j"
        by (force simp: earliest_def)
      ultimately show ?thesis using True \<open>x0 \<noteq> None\<close> live(2) Some
        by (auto simp: evict_scan_timed simp del: evict_scan.simps)
    next
      case False
      obtain j where j: "evict_scan now (cs_cache cs) ks a (Some t) = Inr j"
          "j \<in> insert a (set ks)" "earliest cs (a # ks) j"
        using Cons.IH [OF live(1), of "Some t" a] Some by auto
      have "x0 \<noteq> None \<Longrightarrow> earliest cs (k0 # a # ks) j"
        using j(3) False Cons.prems(2) Some by (force simp: earliest_def not_le)
      then show ?thesis using j False live(2) Some
        by (auto simp: evict_scan_timed simp del: evict_scan.simps)
    qed
  qed
qed

text \<open>
  The choice does not depend on the order in which the runtime visits the map, beyond ties: an
  expired entry goes first; failing that the entry that expires first; and when no entry
  expires, the one inserted first.
\<close>

lemma evict_one_choice:
  assumes inv: "cache_inv cs" and ord: "visits ord" and ne: "cs_cache cs \<noteq> []"
  obtains k where "evict_one ord now cs = (True, cache_delete k cs)" "map_of (cs_cache cs) k \<noteq> None"
    "(\<exists>j. has_expired now cs j) \<Longrightarrow> has_expired now cs k"
    "\<not> (\<exists>j. has_expired now cs j) \<Longrightarrow> expiry_of cs [] = None \<Longrightarrow> \<exists>j. expiry_of cs j \<noteq> None \<Longrightarrow>
       \<exists>t. expiry_of cs k = Some t \<and> (\<forall>j t'. expiry_of cs j = Some t' \<longrightarrow> t \<le> t')"
    "\<forall>j. expiry_of cs j = None \<Longrightarrow> k = hd (cs_order cs)"
proof -
  let ?ks = "ord (gm_keys (cs_cache cs))"
  let ?r = "evict_scan now (cs_cache cs) ?ks [] None"
  obtain k where k: "map_of (cs_cache cs) k \<noteq> None" "evict_one ord now cs = (True, cache_delete k cs)"
    using evict_one_victim [OF inv ord ne] .
  have keys: "j \<in> set ?ks" if "expiry_of cs j \<noteq> None" for j
    using that visits_set [OF ord] by (auto simp: expiry_of_def set_gm_keys domIff simp del: set_map split: option.splits)
  show thesis
  proof (cases "\<exists>j. has_expired now cs j")
    case True
    then obtain j where j: "has_expired now cs j" by blast
    then have "j \<in> set ?ks" by (intro keys) (auto simp: has_expired_def)
    then obtain i where i: "?r = Inl i" using evict_scan_expired j by blast
    with evict_scan_key [OF i] have x: "has_expired now cs i" by (simp add: has_expired_entry)
    then have "map_of (cs_cache cs) i \<noteq> None" by (auto simp: has_expired_entry)
    moreover from i have "evict_one ord now cs = (True, cache_delete i cs)" by (simp add: evict_one_def)
    moreover from x have "expiry_of cs i \<noteq> None" by (auto simp: has_expired_def)
    moreover have "\<exists>j. has_expired now cs j" using x by blast
    ultimately show thesis using x by (intro that [of i]) auto
  next
    case False
    then obtain i where i: "?r = Inr i"
      "i = [] \<and> (\<forall>k\<in>set ?ks. expiry_of cs k = None) \<or> i \<in> set ?ks \<and> earliest cs ?ks i"
      using evict_scan_live [of ?ks now cs None "[]"] by auto
    show thesis
    proof (cases "i = []")
      case True
      obtain j js where js: "cs_order cs = j # js"
        using inv ne by (cases "cs_order cs"; cases "cs_cache cs") (auto simp: cache_inv_def)
      then have "j \<in> dom (map_of (cs_cache cs))" using inv by (simp add: cache_inv_def) (metis insertI1)
      then have j: "map_of (cs_cache cs) j \<noteq> None" by (simp add: domIff)
      have none: "\<forall>l. expiry_of cs l = None" if "expiry_of cs [] = None"
      proof -
        have "\<forall>k\<in>set ?ks. expiry_of cs k = None"
          using i(2) True that by (auto simp: earliest_def)
        with keys show ?thesis by blast
      qed
      from i True js j False none show thesis
        by (intro that [of j]) (auto simp: evict_one_def)
    next
      case ne: False
      with i obtain t where t: "expiry_of cs i = Some t"
          "\<forall>k\<in>set ?ks. \<forall>t'. expiry_of cs k = Some t' \<longrightarrow> t \<le> t'" by (auto simp: earliest_def)
      then have "\<forall>j t'. expiry_of cs j = Some t' \<longrightarrow> t \<le> t'" using keys by fastforce
      moreover have "map_of (cs_cache cs) i \<noteq> None"
        using t(1) by (auto simp: expiry_of_def split: option.splits)
      ultimately show thesis using ne i(1) t(1) False
        by (intro that [of i]) (auto simp: evict_one_def)
    qed
  qed
qed

section \<open>The contract of a cache with expiring entries\<close>

text \<open>
  What the services rely on. A lookup after a store sees the stored value until its lifetime is
  over; a store of one key never makes another appear; a removed key is gone; time only makes
  entries disappear.
\<close>

locale ttl_cache =
  fixes inv :: "'c \<Rightarrow> bool"
    and lookup :: "int \<Rightarrow> 'c \<Rightarrow> string \<Rightarrow> 'v option"
    and store :: "string visit_order \<Rightarrow> int \<Rightarrow> string \<Rightarrow> 'v \<Rightarrow> int \<Rightarrow> 'c \<Rightarrow> 'c"
    and remove :: "string \<Rightarrow> 'c \<Rightarrow> 'c"
  assumes inv_store: "inv c \<Longrightarrow> visits ord \<Longrightarrow> inv (store ord now k v ttl c)"
    and inv_remove: "inv c \<Longrightarrow> inv (remove k c)"
    and lookup_store_same:
      "lookup t (store ord now k v ttl c) k = (if 0 < ttl \<and> now + ttl < t then None else Some v)"
    and lookup_store_other:
      "j \<noteq> k \<Longrightarrow> lookup t (store ord now k v ttl c) j = Some w \<Longrightarrow> lookup t c j = Some w"
    and lookup_remove: "lookup t (remove k c) j = (if j = k then None else lookup t c j)"
    and lookup_earlier: "lookup t' c k = Some v \<Longrightarrow> t \<le> t' \<Longrightarrow> lookup t c k = Some v"
begin

lemma store_fresh: "ttl \<le> 0 \<or> t \<le> now + ttl \<Longrightarrow> lookup t (store ord now k v ttl c) k = Some v"
  by (auto simp: lookup_store_same)

lemma store_stale: "0 < ttl \<Longrightarrow> now + ttl < t \<Longrightarrow> lookup t (store ord now k v ttl c) k = None"
  by (simp add: lookup_store_same)

lemma absent_later: "lookup t c k = None \<Longrightarrow> t \<le> t' \<Longrightarrow> lookup t' c k = None"
  using lookup_earlier by (metis option.exhaust)

lemma absent_store: "lookup t c j = None \<Longrightarrow> j \<noteq> k \<Longrightarrow> lookup t (store ord now k v ttl c) j = None"
  using lookup_store_other by (metis option.exhaust)

text \<open>A key stays absent through any history of stores of other keys and removals.\<close>

lemma absent_history:
  "lookup t c k = None \<Longrightarrow>
     lookup t (fold (\<lambda>f c. f c) fs c) k = None"
  if "\<And>f. f \<in> set fs \<Longrightarrow>
        (\<exists>j. f = remove j) \<or> (\<exists>ord now j v ttl. j \<noteq> k \<and> f = store ord now j v ttl)"
  using that
proof (induction fs arbitrary: c)
  case (Cons f fs)
  from Cons.prems(2) [of f] have "lookup t (f c) k = None"
    using Cons.prems(1) by (auto simp: lookup_remove absent_store)
  with Cons show ?case by simp
qed simp

text \<open>What is removed is gone for good, whatever happens to the other keys afterwards.\<close>

lemma removed_once:
  assumes "\<And>f. f \<in> set fs \<Longrightarrow>
      (\<exists>j. f = remove j) \<or> (\<exists>ord now j v ttl. j \<noteq> k \<and> f = store ord now j v ttl)"
  shows "lookup t (fold (\<lambda>f c. f c) fs (remove k c)) k = None"
  by (rule absent_history [OF assms]) (simp_all add: lookup_remove)

end

locale ttl_cache_refresh = ttl_cache +
  fixes refresh :: "int \<Rightarrow> string \<Rightarrow> 'b \<Rightarrow> int \<Rightarrow> 'a \<Rightarrow> bool \<times> 'a"
  assumes inv_refresh: "inv c \<Longrightarrow> inv (snd (refresh now k v ttl c))"
    and refresh_found: "fst (refresh now k v ttl c) = (lookup now c k \<noteq> None)"
    and refresh_other: "j \<noteq> k \<Longrightarrow> lookup t (snd (refresh now k v ttl c)) j = lookup t c j"
    and refresh_missing: "lookup now c k = None \<Longrightarrow> snd (refresh now k v ttl c) = c"
    and refresh_keeps: "lookup now c k \<noteq> None \<Longrightarrow> lookup t (snd (refresh now k v 0 c)) k \<noteq> None \<Longrightarrow>
      lookup t (snd (refresh now k v 0 c)) k = Some v \<and> lookup t c k \<noteq> None"
begin

text \<open>Refreshing never brings back a key that is gone.\<close>

lemma refresh_absent: "lookup now c k = None \<Longrightarrow> lookup t (snd (refresh now k v ttl c)) k = lookup t c k"
  by (simp add: refresh_missing)

end

interpretation cache: ttl_cache_refresh cache_inv cache_get cache_set cache_delete cache_update
proof unfold_locales
  fix c :: "'a cache_store" and ord now t and j k :: string and v w :: 'a and ttl
  show "cache_inv c \<Longrightarrow> visits ord \<Longrightarrow> cache_inv (cache_set ord now k v ttl c)" by (rule cache_inv_set)
  show "cache_inv c \<Longrightarrow> cache_inv (cache_delete k c)" by (rule cache_inv_delete)
  show "cache_get t (cache_set ord now k v ttl c) k = (if 0 < ttl \<and> now + ttl < t then None else Some v)"
    by (rule cache_get_set_same)
  show "j \<noteq> k \<Longrightarrow> cache_get t (cache_set ord now k v ttl c) j = Some w \<Longrightarrow> cache_get t c j = Some w"
    by (rule cache_get_set_other)
  show "cache_get t (cache_delete k c) j = (if j = k then None else cache_get t c j)" by simp
  show "cache_get t' c k = Some v \<Longrightarrow> t \<le> t' \<Longrightarrow> cache_get t c k = Some v" for t'
    by (rule cache_get_earlier)
  show "cache_inv c \<Longrightarrow> cache_inv (snd (cache_update now k v ttl c))" by (rule cache_inv_update)
  show "fst (cache_update now k v ttl c) = (cache_get now c k \<noteq> None)"
    using cache_get_update [of now k v ttl c] by (metis prod.collapse)
  show "j \<noteq> k \<Longrightarrow> cache_get t (snd (cache_update now k v ttl c)) j = cache_get t c j"
    using cache_get_update [of now k v ttl c] by (metis prod.collapse)
  show "cache_get now c k = None \<Longrightarrow> snd (cache_update now k v ttl c) = c"
    using cache_get_update [of now k v ttl c] by (metis prod.collapse)
  show "cache_get now c k \<noteq> None \<Longrightarrow> cache_get t (snd (cache_update now k v 0 c)) k \<noteq> None \<Longrightarrow>
      cache_get t (snd (cache_update now k v 0 c)) k = Some v \<and> cache_get t c k \<noteq> None"
    by (auto simp: cache_update_def cache_get_def gm_update Let_def entry_expired_def
        split: option.splits if_splits)
qed

section \<open>Histories and the properties of the cache\<close>

text \<open>The exported methods as values, so that a history of the cache is a list of calls.\<close>

datatype 'v cache_call =
    CallSet string 'v int
  | CallUpdate string 'v int
  | CallDelete string
  | CallSweep
  | CallClear

fun cache_apply :: "string visit_order \<Rightarrow> int \<Rightarrow> 'v cache_call \<Rightarrow> 'v cache_store \<Rightarrow> 'v cache_store" where
  "cache_apply ord now (CallSet k v ttl) cs = cache_set ord now k v ttl cs"
| "cache_apply ord now (CallUpdate k v ttl) cs = snd (cache_update now k v ttl cs)"
| "cache_apply ord now (CallDelete k) cs = cache_delete k cs"
| "cache_apply ord now CallSweep cs = cache_sweep ord now cs"
| "cache_apply ord now CallClear cs = cache_clear cs"

fun cache_run :: "(string visit_order \<times> int \<times> 'v cache_call) list \<Rightarrow> 'v cache_store \<Rightarrow> 'v cache_store" where
  "cache_run [] cs = cs"
| "cache_run ((ord, now, c) # h) cs = cache_run h (cache_apply ord now c cs)"

lemma cache_call_inv: "visits ord \<Longrightarrow> cache_inv cs \<Longrightarrow> cache_inv (cache_apply ord now c cs)"
  by (cases c) (simp_all add: cache.inv_store cache.inv_remove cache.inv_refresh cache_inv_sweep cache_inv_clear)

lemma sweep_keys_max: "cs_max_size (sweep_keys now ks cs) = cs_max_size cs"
  by (induction ks arbitrary: cs) (auto split: option.splits)

lemma cache_update_max: "cs_max_size (snd (cache_update now k v ttl cs)) = cs_max_size cs"
  by (auto simp: cache_update_def Let_def split: option.splits)

lemma cache_call_max: "cs_max_size (cache_apply ord now c cs) = cs_max_size cs"
  by (cases c) (simp_all add: cache_clear_def cache_update_max cache_sweep_def sweep_keys_max)

lemma cache_run_inv:
  "(\<And>ord now c. (ord, now, c) \<in> set h \<Longrightarrow> visits ord) \<Longrightarrow> cache_inv cs \<Longrightarrow> cache_inv (cache_run h cs)"
proof (induction h arbitrary: cs)
  case (Cons x h)
  obtain ord now c where x: "x = (ord, now, c)" by (cases x)
  then have "visits ord" using Cons.prems(1) by auto
  then have "cache_inv (cache_apply ord now c cs)" using Cons.prems(2) by (rule cache_call_inv)
  with Cons x show ?case by auto
qed simp

lemma cache_run_max: "cs_max_size (cache_run h cs) = cs_max_size cs"
  by (induction h arbitrary: cs) (auto simp: cache_call_max)

text \<open>
  C35: Starting from a new cache of positive bound, any history of calls, whatever order the
  runtime visits the map in, never holds more entries than the bound, and the insertion
  order lists the keys of the map exactly once.
\<close>

theorem cache_history_bounded:
  assumes "0 < n" "\<And>ord now c. (ord, now, c) \<in> set h \<Longrightarrow> visits ord"
  shows "cache_size (cache_run h (new_cache_store n)) \<le> n \<and>
     distinct (cs_order (cache_run h (new_cache_store n))) \<and>
     set (cs_order (cache_run h (new_cache_store n))) = set (gm_keys (cs_cache (cache_run h (new_cache_store n))))"
proof -
  have "cache_inv (cache_run h (new_cache_store n))"
    by (rule cache_run_inv [OF assms(2)]) auto
  with assms(1) show ?thesis
    by (simp add: cache_inv_def cache_size_def set_gm_keys cache_run_max new_cache_store_def del: set_map)
qed

theorem cache_history_bounded_witness:
  "cache_size (cache_run [(rev, 0, CallSet ''a'' (1::nat) 5), (rev, 1, CallSet ''b'' 2 0)] (new_cache_store 1)) \<le> 1"
  using cache_history_bounded [of 1 "[(rev, 0, CallSet ''a'' (1::nat) 5), (rev, 1, CallSet ''b'' 2 0)]"]
  by fastforce

text \<open>
  After \<open>Set\<close> the key is found until its lifetime is over, and not a moment longer;
  a lifetime of zero or less never ends. Another key is found only when it was there before,
  with the same value, and always when the cache had room.
\<close>

theorem cache_set_then_get:
  "cache_get t (cache_set ord now k v ttl cs) k = (if 0 < ttl \<and> now + ttl < t then None else Some v) \<and>
   (j \<noteq> k \<longrightarrow> cache_get t (cache_set ord now k v ttl cs) j \<in> {None, cache_get t cs j}) \<and>
   (j \<noteq> k \<longrightarrow> \<not> cache_full cs k \<longrightarrow> cache_get t (cache_set ord now k v ttl cs) j = cache_get t cs j)"
  using cache.lookup_store_same [of t ord now k v ttl cs] cache.absent_store
    cache.lookup_store_other [of j k t ord now v ttl cs] cache_get_set_other_room
  by (metis insertCI not_None_eq)

theorem cache_set_then_get_witness:
  "cache_get 9 (cache_set rev 0 ''a'' (7::nat) 5 (new_cache_store 1)) ''b'' = None"
  using cache_set_then_get [of 9 rev 0 "''a''" "7::nat" 5 "new_cache_store 1" "''b''"] by simp

text \<open>
  When the cache is full, the entry that makes room is an expired one if there is any,
  otherwise the one that expires first, and when nothing expires the one inserted first. This
  holds for every order in which the runtime visits the map.
\<close>

theorem eviction_policy:
  assumes "cache_inv cs" "visits ord" "cs_cache cs \<noteq> []"
  shows "\<exists>k. evict_one ord now cs = (True, cache_delete k cs) \<and> k \<in> set (cs_order cs) \<and>
     ((\<exists>j. has_expired now cs j) \<longrightarrow> has_expired now cs k) \<and>
     (\<not> (\<exists>j. has_expired now cs j) \<longrightarrow> expiry_of cs [] = None \<longrightarrow> (\<exists>j. expiry_of cs j \<noteq> None) \<longrightarrow>
        (\<exists>t. expiry_of cs k = Some t \<and> (\<forall>j t'. expiry_of cs j = Some t' \<longrightarrow> t \<le> t'))) \<and>
     ((\<forall>j. expiry_of cs j = None) \<longrightarrow> k = hd (cs_order cs))"
proof -
  obtain k where k: "evict_one ord now cs = (True, cache_delete k cs)" "map_of (cs_cache cs) k \<noteq> None"
    "(\<exists>j. has_expired now cs j) \<Longrightarrow> has_expired now cs k"
    "\<not> (\<exists>j. has_expired now cs j) \<Longrightarrow> expiry_of cs [] = None \<Longrightarrow> \<exists>j. expiry_of cs j \<noteq> None \<Longrightarrow>
       \<exists>t. expiry_of cs k = Some t \<and> (\<forall>j t'. expiry_of cs j = Some t' \<longrightarrow> t \<le> t')"
    "\<forall>j. expiry_of cs j = None \<Longrightarrow> k = hd (cs_order cs)"
    using evict_one_choice [OF assms] by metis
  have "k \<in> set (cs_order cs)" using k(2) assms(1) by (simp add: cache_inv_def domIff)
  then show ?thesis using k(1) by (intro exI [of _ k] conjI impI) (rule k(3-5) | assumption)+
qed

definition two_entries :: "nat cache_store" where
  "two_entries = cache_set rev 0 ''b'' 2 9 (cache_set rev 0 ''a'' 1 5 (new_cache_store 2))"

theorem eviction_policy_witness: "\<exists>k. evict_one rev 1 two_entries = (True, cache_delete k two_entries)"
proof -
  have "cache_inv two_entries" unfolding two_entries_def by (intro cache_inv_set cache_inv_new visits_rev)
  moreover have "cs_cache two_entries \<noteq> []" by code_simp
  ultimately show ?thesis using eviction_policy [of two_entries rev 1] visits_rev by blast
qed

text \<open>
  \<open>Sweep\<close> changes no lookup, at the time it runs or later, and what it leaves in the map
  are exactly the live entries.
\<close>

theorem sweep_transparent:
  assumes "visits ord" "now \<le> t"
  shows "cache_get t (cache_sweep ord now cs) k = cache_get t cs k \<and>
     (map_of (cs_cache (cache_sweep ord now cs)) k \<noteq> None \<longleftrightarrow> cache_get now cs k \<noteq> None)"
proof -
  have "map_of (cs_cache cs) k \<noteq> None \<Longrightarrow> k \<in> set (ord (gm_keys (cs_cache cs)))"
    using visits_set [OF assms(1)] by (simp add: set_gm_keys domIff del: set_map)
  then have "map_of (cs_cache (cache_sweep ord now cs)) k \<noteq> None \<longleftrightarrow> cache_get now cs k \<noteq> None"
    by (auto simp: cache_get_def cache_sweep_def sweep_keys_lookup split: option.splits)
  with cache_get_sweep [OF assms] show ?thesis by blast
qed

theorem sweep_transparent_witness:
  "cache_get 7 (cache_sweep rev 6 two_entries) ''b'' = cache_get 7 two_entries ''b''"
  using sweep_transparent [of rev 6 7 two_entries "''b''"] by simp

text \<open>
  \<open>Update\<close> succeeds exactly on a live entry; it never brings an expired or deleted entry
  back, changes no other key, and with no lifetime of its own keeps the old expiry.
\<close>

theorem update_never_resurrects:
  "fst (cache_update now k v ttl cs) = (cache_get now cs k \<noteq> None) \<and>
   (cache_get now cs k = None \<longrightarrow> snd (cache_update now k v ttl cs) = cs) \<and>
   (j \<noteq> k \<longrightarrow> cache_get t (snd (cache_update now k v ttl cs)) j = cache_get t cs j) \<and>
   (cache_get now cs k \<noteq> None \<longrightarrow>
      (cache_get t (snd (cache_update now k v 0 cs)) k \<noteq> None) = (cache_get t cs k \<noteq> None))"
  using cache.refresh_found [of now k v ttl cs] cache.refresh_missing [of now cs k v ttl]
    cache.refresh_other [of j k t now v ttl cs]
  by (auto simp: cache_update_def cache_get_def gm_update entry_expired_def Let_def
      split: option.splits if_splits)

theorem update_never_resurrects_witness:
  "snd (cache_update 8 ''a'' 3 0 two_entries) = two_entries"
proof -
  have "cache_get 8 two_entries ''a'' = None" by code_simp
  then show ?thesis using update_never_resurrects [of 8 "''a''" 3 0 two_entries] by blast
qed

end
