(* ===== verification/Ldap.thy ===== *)
theory Ldap
  imports Utils
begin

text \<open>
  The LDAP service, \<open>internal/service/ldap_service.go\<close>, and the lookup of Tailscale nodes,
  \<open>tailscale_service.go\<close>. The directory server is a parameter that answers searches and binds;
  what the service keeps is the identity its one connection is bound as, which every bind
  changes (a bind that fails leaves the connection anonymous, RFC 4513, section 4).
\<close>

section \<open>The directory\<close>

datatype ldap_identity = Anonymous | BoundAs string | External

record ldap_entry =
  le_dn :: string
  le_attributes :: "(string \<times> string list) list"

datatype ldap_scope = WholeSubtree | BaseObject

record search_request =
  sr_base :: string
  sr_scope :: ldap_scope
  sr_filter :: string

record ldap_server =
  sv_search :: "ldap_identity \<Rightarrow> search_request \<Rightarrow> ldap_entry list option"
  sv_bind :: "string \<Rightarrow> string \<Rightarrow> bool"
  sv_external_bind :: bool
  sv_unauthenticated_bind :: bool

record ldap_service =
  lv_config :: ldap_config
  lv_server :: ldap_server
  lv_cert :: bool
  lv_bind_pw :: string

text \<open>\<open>GetAttributeValue\<close>: the first value, empty when there is none.\<close>

definition attribute_value :: "ldap_entry \<Rightarrow> string \<Rightarrow> string" where
  "attribute_value e name =
     (case map_of (le_attributes e) name of Some (v # _) \<Rightarrow> v | _ \<Rightarrow> [])"

section \<open>Operations\<close>

definition ldap_get_user_info ::
  "golib \<Rightarrow> ldap_service \<Rightarrow> ldap_identity \<Rightarrow> string \<Rightarrow> (string \<times> string) option"
where
  "ldap_get_user_info lib ls who username =
     (let flt = lib_sprintf lib (ldc_search_filter (lv_config ls)) (lib_ldap_escape lib username)
      in case sv_search (lv_server ls) who
                \<lparr>sr_base = ldc_base_dn (lv_config ls), sr_scope = WholeSubtree, sr_filter = flt\<rparr> of
           None \<Rightarrow> None
         | Some entries \<Rightarrow>
             (case entries of
                [entry] \<Rightarrow> Some (le_dn entry, attribute_value entry ''mail'')
              | _ \<Rightarrow> None))"

definition ldap_get_user_count :: "ldap_service \<Rightarrow> ldap_identity \<Rightarrow> int option" where
  "ldap_get_user_count ls who =
     map_option (\<lambda>entries. int (length entries))
       (sv_search (lv_server ls) who
         \<lparr>sr_base = ldc_base_dn (lv_config ls), sr_scope = WholeSubtree, sr_filter = ''(objectClass=person)''\<rparr>)"

text \<open>The value of the first attribute of the first component of a name.\<close>

definition group_of_dn :: "golib \<Rightarrow> string \<Rightarrow> string option" where
  "group_of_dn lib dn =
     (case lib_parse_dn lib dn of
        Some (((_, v) # _) # _) \<Rightarrow> Some v
      | _ \<Rightarrow> None)"

definition ldap_get_user_groups ::
  "golib \<Rightarrow> ldap_service \<Rightarrow> ldap_identity \<Rightarrow> string \<Rightarrow> string list option"
where
  "ldap_get_user_groups lib ls who user_dn =
     (let flt = ''(&(objectclass=groupOfUniqueNames)(uniquemember='' @ lib_ldap_escape lib user_dn @ ''))''
      in case sv_search (lv_server ls) who
                \<lparr>sr_base = ldc_base_dn (lv_config ls), sr_scope = WholeSubtree, sr_filter = flt\<rparr> of
           None \<Rightarrow> None
         | Some entries \<Rightarrow> all_some (map (group_of_dn lib) (map le_dn entries)))"

text \<open>A bind: whether it succeeded, and who the connection is bound as afterwards.\<close>

definition ldap_bind_service :: "ldap_service \<Rightarrow> bool \<times> ldap_identity" where
  "ldap_bind_service ls =
     (if lv_cert ls then
        (if sv_external_bind (lv_server ls) then (True, External) else (False, Anonymous))
      else if ldc_bind_dn (lv_config ls) = [] \<and> lv_bind_pw ls = [] then
        (sv_unauthenticated_bind (lv_server ls), Anonymous)
      else if sv_bind (lv_server ls) (ldc_bind_dn (lv_config ls)) (lv_bind_pw ls) then
        (True, BoundAs (ldc_bind_dn (lv_config ls)))
      else (False, Anonymous))"

definition ldap_bind :: "ldap_service \<Rightarrow> string \<Rightarrow> string \<Rightarrow> bool \<times> ldap_identity" where
  "ldap_bind ls user_dn password =
     (if sv_bind (lv_server ls) user_dn password then (True, BoundAs user_dn) else (False, Anonymous))"

definition ldap_heartbeat :: "ldap_service \<Rightarrow> ldap_identity \<Rightarrow> bool" where
  "ldap_heartbeat ls who =
     (sv_search (lv_server ls) who \<lparr>sr_base = [], sr_scope = BaseObject, sr_filter = ''(objectClass=*)''\<rparr> \<noteq> None)"

section \<open>Connecting\<close>

text \<open>
  An attempt to connect: the dial fails, or the server that answers is bound to. \<open>reconnect\<close>
  retries up to three times and returns the last error.
\<close>

datatype dial = DialFails | Answers ldap_server

definition closed_server :: ldap_server where
  "closed_server = \<lparr>sv_search = (\<lambda>_ _. None), sv_bind = (\<lambda>_ _. False), sv_external_bind = False,
     sv_unauthenticated_bind = False\<rparr>"

fun ldap_connect :: "ldap_service \<Rightarrow> dial \<Rightarrow> bool \<times> ldap_service \<times> ldap_identity" where
  "ldap_connect ls DialFails = (False, ls, Anonymous)"
| "ldap_connect ls (Answers sv) =
     (let ls' = ls\<lparr>lv_server := sv\<rparr>; (ok, who) = ldap_bind_service ls' in (ok, ls', who))"

text \<open>Every try closes the connection there is; the result of the last one stays.\<close>

fun ldap_reconnect :: "ldap_service \<Rightarrow> dial list \<Rightarrow> bool \<times> ldap_service \<times> ldap_identity" where
  "ldap_reconnect ls [] = (False, ls, Anonymous)"
| "ldap_reconnect ls (d # ds) =
     (let (ok, ls', who) = ldap_connect (ls\<lparr>lv_server := closed_server\<rparr>) d
      in if ok \<or> ds = [] then (ok, ls', who) else ldap_reconnect ls' ds)"

datatype 'a startup = NotConfigured | StartupError | Started 'a

text \<open>
  \<open>d\<close> is the first dial, \<open>ds\<close> the next three; \<open>cert\<close> is the result of loading the key pair.
  After a failed first connection the error path is taken whatever the retries give.
\<close>

definition new_ldap_service ::
  "golib \<Rightarrow> config \<Rightarrow> bool \<Rightarrow> ldap_server \<Rightarrow> dial \<Rightarrow> dial list \<Rightarrow> (ldap_service \<times> ldap_identity) startup"
where
  "new_ldap_service lib cfg cert sv0 d ds =
     (let lc = cfg_ldap cfg
      in if ldc_address lc = [] then NotConfigured
         else
           let mtls = (ldc_auth_cert lc \<noteq> [] \<and> ldc_auth_key lc \<noteq> []);
               ls = \<lparr>lv_config = lc, lv_server = sv0, lv_cert = mtls,
                     lv_bind_pw = get_secret lib (ldc_bind_password lc) (ldc_bind_password_file lc)\<rparr>
           in if mtls \<and> \<not> cert then StartupError
              else
                let (ok, ls', who) = ldap_connect ls d
                in if ok then Started (ls', who)
                   else let r = ldap_reconnect ls' (take 3 ds) in StartupError)"

text \<open>A tick of the heartbeat: a dead connection is replaced when one of the retries succeeds.\<close>

definition ldap_heartbeat_tick ::
  "dial list \<Rightarrow> ldap_service \<times> ldap_identity \<Rightarrow> ldap_service \<times> ldap_identity"
where
  "ldap_heartbeat_tick ds c =
     (if ldap_heartbeat (fst c) (snd c) then c
      else let (_, ls, who) = ldap_reconnect (fst c) (take 3 ds) in (ls, who))"

section \<open>Tailscale\<close>

text \<open>What the local daemon knows of an address.\<close>

record tailscale_node =
  tn_name :: string
  tn_tagged :: bool
  tn_user_id :: string
  tn_login_name :: string
  tn_display_name :: string

datatype whois_answer = WhoisFailed | PeerNotFound | WhoisNode tailscale_node

record whois_response =
  wr_user_id :: string
  wr_login_name :: string
  wr_display_name :: string
  wr_node_name :: string

definition trim_prefix :: "string \<Rightarrow> string \<Rightarrow> string" where
  "trim_prefix p s = (if prefix p s then drop (length p) s else s)"

definition trim_suffix :: "string \<Rightarrow> string \<Rightarrow> string" where
  "trim_suffix x s = (if suffix x s then take (length s - length x) s else s)"

text \<open>The outer \<open>None\<close> is the error.\<close>

definition tailscale_whois :: "(string \<Rightarrow> whois_answer) \<Rightarrow> string \<Rightarrow> whois_response option option" where
  "tailscale_whois lc addr =
     (case lc addr of
        WhoisFailed \<Rightarrow> None
      | PeerNotFound \<Rightarrow> Some None
      | WhoisNode n \<Rightarrow>
          if tn_tagged n then Some None
          else Some (Some \<lparr>wr_user_id = trim_prefix ''userid:'' (tn_user_id n),
                          wr_login_name = tn_login_name n, wr_display_name = tn_display_name n,
                          wr_node_name = trim_suffix ''.'' (tn_name n)\<rparr>))"

section \<open>Who the connection is bound as\<close>

lemma bind_service_identity:
  "ldap_bind_service ls = (ok, who) \<Longrightarrow> who = Anonymous \<or> who = External \<or> who = BoundAs (ldc_bind_dn (lv_config ls))"
  by (auto simp: ldap_bind_service_def split: if_splits)

lemma connect_config: "ldap_connect ls d = (ok, ls', who) \<Longrightarrow>
    lv_config ls' = lv_config ls \<and> lv_bind_pw ls' = lv_bind_pw ls \<and> lv_cert ls' = lv_cert ls \<and>
    (ok \<longrightarrow> ldap_bind_service ls' = (True, who))"
  by (cases d) (auto simp: Let_def split: prod.splits)

lemma reconnect_config: "ldap_reconnect ls ds = (ok, ls', who) \<Longrightarrow>
    lv_config ls' = lv_config ls \<and> lv_bind_pw ls' = lv_bind_pw ls \<and> lv_cert ls' = lv_cert ls \<and>
    (ok \<longrightarrow> ldap_bind_service ls' = (True, who))"
proof (induction ds arbitrary: ls)
  case (Cons d ds)
  obtain ok1 ls1 who1 where c: "ldap_connect (ls\<lparr>lv_server := closed_server\<rparr>) d = (ok1, ls1, who1)"
    by (metis prod_cases3)
  from connect_config [OF c] Cons c show ?case by (auto simp: Let_def split: if_splits)
qed auto

section \<open>Properties\<close>

text \<open>
  C40: A heartbeat tick keeps the connection of a live service as it is. Of a dead one the
  configuration and the credentials are kept, and when a retry succeeds the new connection is
  bound with the service's own credentials, never as a user or anonymously by a failed bind.
\<close>

theorem heartbeat_restores_service_identity:
  assumes "ldap_heartbeat_tick ds (ls, who) = (ls', who')"
  shows "lv_config ls' = lv_config ls \<and> lv_bind_pw ls' = lv_bind_pw ls \<and> lv_cert ls' = lv_cert ls \<and>
     (ldap_heartbeat ls who \<longrightarrow> (ls', who') = (ls, who)) \<and>
     (\<not> ldap_heartbeat ls who \<longrightarrow> fst (ldap_reconnect ls (take 3 ds)) \<longrightarrow> ldap_bind_service ls' = (True, who'))"
  using assms
  by (auto simp: ldap_heartbeat_tick_def Let_def split: if_splits prod.splits dest: reconnect_config)

definition demo_server :: "(string \<times> string) list \<Rightarrow> ldap_server" where
  "demo_server users = \<lparr>sv_search = (\<lambda>who r. if who = Anonymous then None else Some
       [\<lparr>le_dn = ''cn=eve,dc=x'', le_attributes = [(''mail'', [''eve@x''])]\<rparr>]),
     sv_bind = (\<lambda>dn pw. map_of users dn = Some pw), sv_external_bind = False,
     sv_unauthenticated_bind = True\<rparr>"

definition demo_ldap_config :: ldap_config where
  "demo_ldap_config = zero_ldap_config\<lparr>ldc_address := ''ldap://x'', ldc_bind_dn := ''cn=svc'',
     ldc_bind_password := ''pw'', ldc_search_filter := ''(uid=%s)'', ldc_group_cache_ttl := 900\<rparr>"

definition demo_ldap :: ldap_service where
  "demo_ldap = \<lparr>lv_config = demo_ldap_config, lv_server = demo_server [(''cn=svc'', ''pw''), (''cn=eve,dc=x'', ''secret'')],
     lv_cert = False, lv_bind_pw = ''pw''\<rparr>"

theorem heartbeat_restores_service_identity_witness:
  "snd (ldap_heartbeat_tick [DialFails, Answers (lv_server demo_ldap)] (demo_ldap, Anonymous)) = BoundAs ''cn=svc''"
proof -
  let ?ds = "[DialFails, Answers (lv_server demo_ldap)]"
  obtain ls' who' where t: "ldap_heartbeat_tick ?ds (demo_ldap, Anonymous) = (ls', who')" by fastforce
  have "\<not> ldap_heartbeat demo_ldap Anonymous" "fst (ldap_reconnect demo_ldap (take 3 ?ds))"
    "lv_cert demo_ldap = False" "lv_bind_pw demo_ldap = ''pw''" "ldc_bind_dn (lv_config demo_ldap) = ''cn=svc''"
    by code_simp+
  with heartbeat_restores_service_identity [OF t] have "ldap_bind_service ls' = (True, who')"
      "lv_cert ls' = False" "lv_bind_pw ls' = ''pw''" "ldc_bind_dn (lv_config ls') = ''cn=svc''" by auto
  then have "who' = BoundAs ''cn=svc''" by (auto simp: ldap_bind_service_def split: if_splits)
  with t show ?thesis by simp
qed

text \<open>
  When the first connection at startup fails, the service is refused even if a retry
  succeeds: the outcome of the retries is never used.
\<close>

theorem startup_ignores_reconnect:
  assumes "ldc_address (cfg_ldap cfg) \<noteq> []"
  shows "new_ldap_service lib cfg cert sv DialFails ds = StartupError"
  using assms by (simp add: new_ldap_service_def Let_def)

theorem startup_ignores_reconnect_witness:
  "new_ldap_service ascii_lib (default_configuration\<lparr>cfg_ldap := demo_ldap_config\<rparr>) True (lv_server demo_ldap)
     DialFails [Answers (lv_server demo_ldap)] = StartupError \<and>
   fst (ldap_reconnect demo_ldap [Answers (lv_server demo_ldap)])"
proof
  have "ldc_address (cfg_ldap (default_configuration\<lparr>cfg_ldap := demo_ldap_config\<rparr>)) \<noteq> []" by code_simp
  then show "new_ldap_service ascii_lib (default_configuration\<lparr>cfg_ldap := demo_ldap_config\<rparr>) True
      (lv_server demo_ldap) DialFails [Answers (lv_server demo_ldap)] = StartupError"
    by (rule startup_ignores_reconnect)
  show "fst (ldap_reconnect demo_ldap [Answers (lv_server demo_ldap)])" by code_simp
qed

end
