(* ===== verification/OAuth.thy ===== *)
theory OAuth
  imports Utils "HOL-Library.List_Lexorder" "HOL-Library.Char_ord"
begin

text \<open>
  The OAuth providers the program is a client of: \<open>internal/service/oauth_service.go\<close>,
  \<open>oauth_presets.go\<close>, \<open>oauth_extractors.go\<close> and \<open>oauth_broker_service.go\<close>. The network is a
  parameter: the answers of the provider's endpoints, \<open>None\<close> for a request that fails or whose
  body does not decode.
\<close>

section \<open>Services\<close>

datatype extractor = DefaultExtractor | GithubExtractor

record oauth_service =
  ov_config :: oauth_service_config
  ov_id :: string
  ov_extractor :: extractor

record github_email =
  ge_email :: string
  ge_primary :: bool
  ge_verified :: bool

record github_user =
  gu_login :: string
  gu_name :: string
  gu_id :: int

type_synonym oauth_token = string

record oauth_world =
  ow_auth_code_url :: "oauth_service_config \<Rightarrow> string \<Rightarrow> string \<Rightarrow> string"
  ow_exchange :: "oauth_service_config \<Rightarrow> string \<Rightarrow> string \<Rightarrow> oauth_token option"
  ow_claims :: "oauth_token \<Rightarrow> string \<Rightarrow> claims option"
  ow_github_user :: "oauth_token \<Rightarrow> github_user option"
  ow_github_emails :: "oauth_token \<Rightarrow> github_email list option"
  ow_google_auth_url :: string
  ow_google_token_url :: string
  ow_github_auth_url :: string
  ow_github_token_url :: string

definition new_oauth_service :: "oauth_service_config \<Rightarrow> string \<Rightarrow> oauth_service" where
  "new_oauth_service cfg sid = \<lparr>ov_config = cfg, ov_id = sid, ov_extractor = DefaultExtractor\<rparr>"

definition with_userinfo_extractor :: "oauth_service \<Rightarrow> extractor \<Rightarrow> oauth_service" where
  "with_userinfo_extractor s e = s\<lparr>ov_extractor := e\<rparr>"

definition new_google_oauth_service :: "oauth_world \<Rightarrow> oauth_service_config \<Rightarrow> oauth_service" where
  "new_google_oauth_service w cfg =
     new_oauth_service
       (cfg\<lparr>osc_scopes := [''openid'', ''email'', ''profile''],
            osc_auth_url := ow_google_auth_url w, osc_token_url := ow_google_token_url w,
            osc_userinfo_url := ''https://openidconnect.googleapis.com/v1/userinfo''\<rparr>)
       ''google''"

definition new_github_oauth_service :: "oauth_world \<Rightarrow> oauth_service_config \<Rightarrow> oauth_service" where
  "new_github_oauth_service w cfg =
     with_userinfo_extractor
       (new_oauth_service
         (cfg\<lparr>osc_scopes := [''read:user'', ''user:email''],
              osc_auth_url := ow_github_auth_url w, osc_token_url := ow_github_token_url w\<rparr>)
         ''github'')
       GithubExtractor"

definition oauth_get_auth_url :: "oauth_world \<Rightarrow> oauth_service \<Rightarrow> string \<Rightarrow> string \<Rightarrow> string" where
  "oauth_get_auth_url w s state verifier = ow_auth_code_url w (ov_config s) state verifier"

definition oauth_get_token :: "oauth_world \<Rightarrow> oauth_service \<Rightarrow> string \<Rightarrow> string \<Rightarrow> oauth_token option" where
  "oauth_get_token w s code verifier = ow_exchange w (ov_config s) code verifier"

text \<open>Only these fields reach the OAuth client; the rest of the configuration is stored.\<close>

definition oauth_update_config :: "oauth_service \<Rightarrow> oauth_service_config \<Rightarrow> oauth_service" where
  "oauth_update_config s cfg = s\<lparr>ov_config := cfg\<rparr>"

section \<open>Userinfo\<close>

definition itoa :: "int \<Rightarrow> string" where
  "itoa n = (if n < 0 then ''-'' @ numeral_in 10 (- n) else numeral_in 10 n)"

fun first_email :: "(github_email \<Rightarrow> bool) \<Rightarrow> github_email list \<Rightarrow> string" where
  "first_email P [] = []"
| "first_email P (e # es) = (if P e then ge_email e else first_email P es)"

definition github_extractor :: "oauth_world \<Rightarrow> oauth_token \<Rightarrow> claims option" where
  "github_extractor w token =
     (case ow_github_user w token of
        None \<Rightarrow> None
      | Some user \<Rightarrow>
          (case ow_github_emails w token of
             None \<Rightarrow> None
           | Some emails \<Rightarrow>
               if emails = [] then None
               else
                 let email = first_email (\<lambda>e. ge_primary e \<and> ge_verified e) emails;
                     email = (if email = [] then first_email ge_verified emails else email)
                 in if email = [] then None
                    else Some \<lparr>cl_sub = itoa (gu_id user), cl_name = gu_name user, cl_email = email,
                               cl_preferred_username = gu_login user, cl_groups = JNull\<rparr>))"

definition default_extractor :: "oauth_world \<Rightarrow> oauth_token \<Rightarrow> string \<Rightarrow> claims option" where
  "default_extractor w token u = ow_claims w token u"

definition oauth_get_userinfo :: "oauth_world \<Rightarrow> oauth_service \<Rightarrow> oauth_token \<Rightarrow> claims option" where
  "oauth_get_userinfo w s token =
     (case ov_extractor s of
        DefaultExtractor \<Rightarrow> default_extractor w token (osc_userinfo_url (ov_config s))
      | GithubExtractor \<Rightarrow> github_extractor w token)"

section \<open>The broker\<close>

record oauth_broker =
  ob_services :: "(string, oauth_service) gomap"
  ob_configs :: "(string, oauth_service_config) gomap"

definition make_service :: "oauth_world \<Rightarrow> string \<Rightarrow> oauth_service_config \<Rightarrow> oauth_service" where
  "make_service w name cfg =
     (if name = ''github'' then new_github_oauth_service w cfg
      else if name = ''google'' then new_google_oauth_service w cfg
      else new_oauth_service cfg name)"

fun add_services ::
  "oauth_world \<Rightarrow> (string, oauth_service_config) gomap \<Rightarrow> string list \<Rightarrow>
     (string, oauth_service) gomap \<Rightarrow> (string, oauth_service) gomap"
where
  "add_services w cfgs [] m = m"
| "add_services w cfgs (n # ns) m =
     (case map_of cfgs n of
        None \<Rightarrow> add_services w cfgs ns m
      | Some cfg \<Rightarrow> add_services w cfgs ns (AList.update n (make_service w n cfg) m))"

definition new_oauth_broker :: "oauth_world \<Rightarrow> string visit_order \<Rightarrow> runtime_config \<Rightarrow> oauth_broker" where
  "new_oauth_broker w ord rt =
     \<lparr>ob_services = add_services w (rt_oauth_providers rt) (ord (gm_keys (rt_oauth_providers rt))) [],
      ob_configs = rt_oauth_providers rt\<rparr>"

definition get_configured_services :: "string visit_order \<Rightarrow> oauth_broker \<Rightarrow> string list" where
  "get_configured_services ord b = sort (ord (gm_keys (ob_services b)))"

definition get_service :: "oauth_broker \<Rightarrow> string \<Rightarrow> oauth_service option" where
  "get_service b name = map_of (ob_services b) name"

lemma add_services_lookup:
  "map_of (add_services w cfgs ns m) n =
     (if n \<in> set ns \<and> map_of cfgs n \<noteq> None then map_option (make_service w n) (map_of cfgs n) else map_of m n)"
  by (induction ns arbitrary: m) (auto simp: gm_update split: option.splits)

lemma add_services_wf: "gm_wf m \<Longrightarrow> gm_wf (add_services w cfgs ns m)"
  by (induction ns arbitrary: m) (auto simp: gm_wf_update split: option.splits)

lemma get_service_new:
  "visits ord \<Longrightarrow> get_service (new_oauth_broker w ord rt) n =
     map_option (make_service w n) (map_of (rt_oauth_providers rt) n)"
  using visited_key [of ord "rt_oauth_providers rt" n]
  by (cases "map_of (rt_oauth_providers rt) n") (auto simp: get_service_def new_oauth_broker_def add_services_lookup)

lemma make_service_id [simp]: "ov_id (make_service w n cfg) = n"
  by (simp add: make_service_def new_github_oauth_service_def new_google_oauth_service_def
      new_oauth_service_def with_userinfo_extractor_def)

section \<open>Properties\<close>

text \<open>
  The broker offers exactly the configured providers, each under its own name, and lists
  them in ascending order without repetition, whatever order the runtime visits the maps in.
\<close>

theorem broker_services:
  assumes "visits ord" "visits ord'"
  shows "(get_service (new_oauth_broker w ord rt) n \<noteq> None) = (map_of (rt_oauth_providers rt) n \<noteq> None) \<and>
     (\<forall>s. get_service (new_oauth_broker w ord rt) n = Some s \<longrightarrow> ov_id s = n) \<and>
     sorted (get_configured_services ord' (new_oauth_broker w ord rt)) \<and>
     distinct (get_configured_services ord' (new_oauth_broker w ord rt)) \<and>
     set (get_configured_services ord' (new_oauth_broker w ord rt)) = set (gm_keys (rt_oauth_providers rt))"
proof -
  let ?b = "new_oauth_broker w ord rt"
  have "set (gm_keys (ob_services ?b)) = {n. get_service ?b n \<noteq> None}"
    by (simp only: set_gm_keys get_service_def dom_def)
  also have "\<dots> = set (gm_keys (rt_oauth_providers rt))"
    by (simp only: get_service_new [OF assms(1)] set_gm_keys dom_def option.map_disc_iff)
  finally have "set (get_configured_services ord' ?b) = set (gm_keys (rt_oauth_providers rt))"
    by (simp add: get_configured_services_def visits_set [OF assms(2)] del: set_map)
  moreover have "distinct (gm_keys (ob_services ?b))"
    by (simp add: new_oauth_broker_def add_services_wf)
  ultimately show ?thesis
    by (auto simp: get_service_new [OF assms(1)] get_configured_services_def visits_distinct [OF assms(2)]
        simp del: set_map)
qed

definition demo_runtime :: runtime_config where
  "demo_runtime = \<lparr>rt_app_url = ''https://auth.x.io'', rt_uuid = ''u'', rt_cookie_domain = ''x.io'',
     rt_session_cookie_name = ''s'', rt_csrf_cookie_name = ''c'', rt_redirect_cookie_name = ''r'',
     rt_oauth_session_cookie_name = ''o'',
     rt_local_users =
       [\<lparr>user_username = ''ann'', user_password = ''pw'', user_totp_secret = [], user_attributes = zero_user_attributes\<rparr>,
        \<lparr>user_username = ''tom'', user_password = ''pw2'', user_totp_secret = ''123'', user_attributes = zero_user_attributes\<rparr>],
     rt_oauth_providers = [(''pocket'', zero_oauth_service_config), (''github'', zero_oauth_service_config)],
     rt_oauth_whitelist = [], rt_configured_providers = []\<rparr>"

definition demo_world :: oauth_world where
  "demo_world = \<lparr>ow_auth_code_url = (\<lambda>c s v. ''https://idp/auth?state='' @ s), ow_exchange = (\<lambda>c code v. Some ''tok''),
     ow_claims = (\<lambda>t u. Some \<lparr>cl_sub = ''1'', cl_name = ''Eve'', cl_email = ''eve@x.io'',
        cl_preferred_username = ''eve'', cl_groups = JArray [JString ''staff'']\<rparr>),
     ow_github_user = (\<lambda>t. Some \<lparr>gu_login = ''eve'', gu_name = ''Eve'', gu_id = 7\<rparr>),
     ow_github_emails = (\<lambda>t. Some [\<lparr>ge_email = ''a@x'', ge_primary = True, ge_verified = False\<rparr>,
        \<lparr>ge_email = ''b@x'', ge_primary = False, ge_verified = True\<rparr>]),
     ow_google_auth_url = ''g1'', ow_google_token_url = ''g2'', ow_github_auth_url = ''h1'', ow_github_token_url = ''h2''\<rparr>"

theorem broker_services_witness:
  "sorted (get_configured_services rev (new_oauth_broker demo_world rev demo_runtime))"
  using broker_services [of rev rev demo_world demo_runtime "[]"] by simp

lemma first_email_from: "first_email P es \<noteq> [] \<Longrightarrow> \<exists>e\<in>set es. P e \<and> ge_email e = first_email P es"
  by (induction es) (auto split: if_splits)

lemma first_email_none: "\<forall>e\<in>set es. \<not> P e \<Longrightarrow> first_email P es = []"
  by (induction es) auto

text \<open>
  C38: The claims taken from GitHub carry a verified email of the account, the primary one
  when it is verified and not empty; an account without a verified email is refused.
\<close>

theorem github_email_verified:
  assumes "github_extractor w token = Some c"
  shows "\<exists>emails e. ow_github_emails w token = Some emails \<and> e \<in> set emails \<and>
      ge_verified e \<and> ge_email e = cl_email c \<and> cl_email c \<noteq> [] \<and>
      (first_email (\<lambda>e. ge_primary e \<and> ge_verified e) emails \<noteq> [] \<longrightarrow> ge_primary e)"
proof -
  from assms obtain emails where em: "ow_github_emails w token = Some emails"
    by (auto simp: github_extractor_def split: option.splits)
  let ?p = "first_email (\<lambda>e. ge_primary e \<and> ge_verified e) emails"
  from assms em have c: "cl_email c = (if ?p = [] then first_email ge_verified emails else ?p)" "cl_email c \<noteq> []"
    by (auto simp: github_extractor_def Let_def split: option.splits if_splits)
  show ?thesis
  proof (cases "?p = []")
    case True
    with c obtain e where "e \<in> set emails" "ge_verified e" "ge_email e = cl_email c"
      using first_email_from [of ge_verified emails] by auto
    with em c(2) True show ?thesis by blast
  next
    case False
    with c obtain e where "e \<in> set emails" "ge_primary e" "ge_verified e" "ge_email e = cl_email c"
      using first_email_from [of "\<lambda>e. ge_primary e \<and> ge_verified e" emails] by auto
    with em c(2) show ?thesis by blast
  qed
qed

theorem github_email_verified_witness:
  "\<exists>emails e. ow_github_emails demo_world ''tok'' = Some emails \<and> e \<in> set emails \<and> ge_verified e"
proof -
  have "github_extractor demo_world ''tok'' = Some \<lparr>cl_sub = ''7'', cl_name = ''Eve'', cl_email = ''b@x'',
      cl_preferred_username = ''eve'', cl_groups = JNull\<rparr>" by code_simp
  from github_email_verified [OF this] show ?thesis by blast
qed

end
