(* ===== verification/Auth.thy ===== *)
theory Auth
  imports Cache Policy Ldap OAuth
begin

text \<open>
  The authentication service, \<open>internal/service/auth_service.go\<close>: users and passwords, the
  login limiter with its lockdown mode, browser sessions and the pending sessions of OAuth
  logins. \<open>auth_env\<close> holds what is fixed after startup, \<open>auth_state\<close> what changes: the
  store, the three caches, the lockdown flag and the identity of the LDAP connection. Every
  exported method is one definition over both; the clock, fresh random values and the order in
  which the runtime visits a map are arguments.
\<close>

section \<open>Data\<close>

record oauth_callback_params =
  cb_login_for :: string
  cb_oidc_ticket :: string
  cb_oidc_scope :: string
  cb_oidc_name :: string
  cb_redirect_uri :: string

record oauth_pending_session =
  op_state :: string
  op_verifier :: string
  op_token :: "oauth_token option"
  op_service :: oauth_service
  op_expires_at :: int
  op_callback_params :: oauth_callback_params

record login_attempt =
  la_failed_attempts :: int
  la_last_attempt :: int
  la_locked_until :: int

datatype same_site = SameSiteDefault | SameSiteLax | SameSiteStrict

record cookie =
  ck_name :: string
  ck_value :: string
  ck_path :: string
  ck_domain :: string
  ck_expires :: int
  ck_max_age :: int
  ck_secure :: bool
  ck_http_only :: bool
  ck_same_site :: same_site

text \<open>The zero \<open>time.Time\<close>, the first of January of the year 1, in nanoseconds.\<close>

definition zero_time :: int where
  "zero_time = - 62135596800 * 1000000000"

text \<open>
  What the service is made of. \<open>ae_tailscale\<close> is the local Tailscale client, \<open>None\<close> when the
  service is not configured.
\<close>

record 's auth_env =
  ae_lib :: golib
  ae_config :: config
  ae_runtime :: runtime_config
  ae_ops :: "'s store_ops"
  ae_ldap :: "ldap_service option"
  ae_broker :: oauth_broker
  ae_world :: oauth_world
  ae_tailscale :: "(string \<Rightarrow> whois_answer) option"
  ae_engine :: policy_engine
  ae_max_login_limits :: int

text \<open>
  \<open>as_lockdown_spawned\<close> counts the goroutines of the lockdown mode that were started and have
  not taken the lock yet, \<open>as_lockdown_waiting\<close> those that wait for their timer.
\<close>

record 's auth_state =
  as_store :: 's
  as_login :: "login_attempt cache_store"
  as_oauth :: "oauth_pending_session cache_store"
  as_ldap_groups :: "string list cache_store"
  as_lockdown_active :: bool
  as_lockdown_until :: int
  as_lockdown_spawned :: nat
  as_lockdown_waiting :: nat
  as_ldap_identity :: ldap_identity

section \<open>Startup\<close>

text \<open>\<open>jitter\<close> is the random number below 64, \<open>None\<close> when the source of randomness fails.\<close>

definition calculate_lockdown_limit ::
  "config \<Rightarrow> runtime_config \<Rightarrow> (ldap_service \<times> ldap_identity) option \<Rightarrow> int option \<Rightarrow> int"
where
  "calculate_lockdown_limit cfg rt ldap jitter =
     (let user_count = int (length (rt_local_users rt)) +
            (case ldap of
               None \<Rightarrow> 0
             | Some (ls, who) \<Rightarrow> (case ldap_get_user_count ls who of None \<Rightarrow> 0 | Some n \<Rightarrow> n));
          limit = i64 (user_count * au_login_max_retries (cfg_auth cfg));
          limit = i64 (limit + (case jitter of None \<Rightarrow> 0 | Some j \<Rightarrow> j))
      in if limit < 256 then 256 else limit)"

definition new_auth_service ::
  "golib \<Rightarrow> config \<Rightarrow> runtime_config \<Rightarrow> 's store_ops \<Rightarrow> 's \<Rightarrow> (ldap_service \<times> ldap_identity) option \<Rightarrow>
     oauth_broker \<Rightarrow> oauth_world \<Rightarrow> (string \<Rightarrow> whois_answer) option \<Rightarrow> policy_engine \<Rightarrow> int option \<Rightarrow>
     's auth_env \<times> 's auth_state"
where
  "new_auth_service lib cfg rt ops store ldap broker world tailscale engine jitter =
     (let limit = calculate_lockdown_limit cfg rt ldap jitter;
          login_cache_size = (if au_lockdown_enabled (cfg_auth cfg) then 0 else limit)
      in (\<lparr>ae_lib = lib, ae_config = cfg, ae_runtime = rt, ae_ops = ops, ae_ldap = map_option fst ldap,
           ae_broker = broker, ae_world = world, ae_tailscale = tailscale, ae_engine = engine,
           ae_max_login_limits = limit\<rparr>,
          \<lparr>as_store = store, as_login = new_cache_store login_cache_size, as_oauth = new_cache_store 256,
           as_ldap_groups = new_cache_store 1024, as_lockdown_active = False, as_lockdown_until = zero_time,
           as_lockdown_spawned = 0, as_lockdown_waiting = 0,
           as_ldap_identity = (case ldap of None \<Rightarrow> Anonymous | Some (_, who) \<Rightarrow> who)\<rparr>))"

text \<open>A tick of the minute timer.\<close>

definition sweep_caches :: "string visit_order \<Rightarrow> int \<Rightarrow> 's auth_state \<Rightarrow> 's auth_state" where
  "sweep_caches ord now st =
     st\<lparr>as_oauth := cache_sweep ord now (as_oauth st),
        as_login := cache_sweep ord now (as_login st),
        as_ldap_groups := cache_sweep ord now (as_ldap_groups st)\<rparr>"

section \<open>Users\<close>

definition get_local_user :: "runtime_config \<Rightarrow> string \<Rightarrow> local_user option" where
  "get_local_user rt username = find (\<lambda>u. user_username u = username) (rt_local_users rt)"

definition local_auth_configured :: "runtime_config \<Rightarrow> bool" where
  "local_auth_configured rt \<longleftrightarrow> 0 < length (rt_local_users rt)"

definition ldap_auth_configured :: "'s auth_env \<Rightarrow> bool" where
  "ldap_auth_configured env \<longleftrightarrow> ae_ldap env \<noteq> None"

datatype search_error = ErrUserNotFound | LdapSearchFailed

definition search_user :: "'s auth_env \<Rightarrow> 's auth_state \<Rightarrow> string \<Rightarrow> search_error + user_search" where
  "search_user env st username =
     (if get_local_user (ae_runtime env) username \<noteq> None
      then Inr \<lparr>search_username = username, search_email = [], search_type = UserLocal\<rparr>
      else (case ae_ldap env of
              Some ls \<Rightarrow>
                (case ldap_get_user_info (ae_lib env) ls (as_ldap_identity st) username of
                   None \<Rightarrow> Inl LdapSearchFailed
                 | Some (dn, email) \<Rightarrow>
                     Inr \<lparr>search_username = dn, search_email = email, search_type = UserLDAP\<rparr>)
            | None \<Rightarrow> Inl ErrUserNotFound))"

datatype check_error = NoSuchUser | PasswordMismatch | LdapBindFailed | ServiceBindFailed | AuthenticationFailed

definition check_user_password ::
  "'s auth_env \<Rightarrow> user_search \<Rightarrow> string \<Rightarrow> 's auth_state \<Rightarrow> check_error option \<times> 's auth_state"
where
  "check_user_password env search password st =
     (case search_type search of
        UserLocal \<Rightarrow>
          (case get_local_user (ae_runtime env) (search_username search) of
             None \<Rightarrow> (Some NoSuchUser, st)
           | Some u \<Rightarrow>
               (if lib_bcrypt (ae_lib env) (user_password u) password then None else Some PasswordMismatch, st))
      | UserLDAP \<Rightarrow>
          (case ae_ldap env of
             None \<Rightarrow> (Some AuthenticationFailed, st)
           | Some ls \<Rightarrow>
               (case ldap_bind ls (search_username search) password of
                  (False, who) \<Rightarrow> (Some LdapBindFailed, st\<lparr>as_ldap_identity := who\<rparr>)
                | (True, who) \<Rightarrow>
                    (case ldap_bind_service ls of
                       (False, who') \<Rightarrow> (Some ServiceBindFailed, st\<lparr>as_ldap_identity := who'\<rparr>)
                     | (True, who') \<Rightarrow> (None, st\<lparr>as_ldap_identity := who'\<rparr>)))))"

datatype ldap_user_error = LdapNotConfigured | LdapGroupsFailed

definition get_ldap_user ::
  "'s auth_env \<Rightarrow> string visit_order \<Rightarrow> int \<Rightarrow> string \<Rightarrow> 's auth_state \<Rightarrow>
     (ldap_user_error + ldap_user) \<times> 's auth_state"
where
  "get_ldap_user env ord now user_dn st =
     (case ae_ldap env of
        None \<Rightarrow> (Inl LdapNotConfigured, st)
      | Some ls \<Rightarrow>
          (case cache_get now (as_ldap_groups st) user_dn of
             Some groups \<Rightarrow> (Inr \<lparr>lu_dn = user_dn, lu_groups = groups\<rparr>, st)
           | None \<Rightarrow>
               (case ldap_get_user_groups (ae_lib env) ls (as_ldap_identity st) user_dn of
                  None \<Rightarrow> (Inl LdapGroupsFailed, st)
                | Some groups \<Rightarrow>
                    (Inr \<lparr>lu_dn = user_dn, lu_groups = groups\<rparr>,
                     st\<lparr>as_ldap_groups :=
                          cache_set ord now user_dn groups
                            (seconds (ldc_group_cache_ttl (cfg_ldap (ae_config env)))) (as_ldap_groups st)\<rparr>))))"

section \<open>The login limiter\<close>

definition is_in_lockdown :: "int \<Rightarrow> 's auth_state \<Rightarrow> bool \<times> int" where
  "is_in_lockdown now st =
     (if as_lockdown_active st then (True, whole_seconds (as_lockdown_until st - now)) else (False, 0))"

definition limiter_off :: "config \<Rightarrow> bool" where
  "limiter_off cfg \<longleftrightarrow> au_login_max_retries (cfg_auth cfg) \<le> 0 \<or> au_login_timeout (cfg_auth cfg) \<le> 0"

definition is_account_locked :: "'s auth_env \<Rightarrow> int \<Rightarrow> string \<Rightarrow> 's auth_state \<Rightarrow> bool \<times> int" where
  "is_account_locked env now identifier st =
     (if fst (is_in_lockdown now st) then (True, snd (is_in_lockdown now st))
      else if limiter_off (ae_config env) then (False, 0)
      else (case cache_get now (as_login st) identifier of
              None \<Rightarrow> (False, 0)
            | Some attempt \<Rightarrow>
                if now < la_locked_until attempt
                then (True, whole_seconds (la_locked_until attempt - now))
                else (False, 0)))"

text \<open>The time an account that reaches the limit now stays locked until.\<close>

definition lock_end :: "config \<Rightarrow> int \<Rightarrow> int" where
  "lock_end cfg now = now + seconds (au_login_timeout (cfg_auth cfg))"

text \<open>The entry an attempt leaves, from the one there was; runs under the lock of the cache.\<close>

definition next_attempt :: "config \<Rightarrow> int \<Rightarrow> bool \<Rightarrow> login_attempt option \<Rightarrow> login_attempt" where
  "next_attempt cfg now success old =
     (let max_retries = au_login_max_retries (cfg_auth cfg)
      in case old of
           None \<Rightarrow>
             if success then \<lparr>la_failed_attempts = 0, la_last_attempt = now, la_locked_until = zero_time\<rparr>
             else \<lparr>la_failed_attempts = 1, la_last_attempt = now,
                   la_locked_until = (if max_retries \<le> 1 then lock_end cfg now else zero_time)\<rparr>
         | Some e \<Rightarrow>
             if success
             then e\<lparr>la_last_attempt := now, la_failed_attempts := 0, la_locked_until := zero_time\<rparr>
             else
               let n = la_failed_attempts e + 1
               in e\<lparr>la_last_attempt := now, la_failed_attempts := n,
                    la_locked_until := (if max_retries \<le> n then lock_end cfg now else la_locked_until e)\<rparr>)"

definition record_login_attempt ::
  "'s auth_env \<Rightarrow> string visit_order \<Rightarrow> int \<Rightarrow> string \<Rightarrow> bool \<Rightarrow> 's auth_state \<Rightarrow> 's auth_state"
where
  "record_login_attempt env ord now identifier success st =
     (let cfg = ae_config env
      in if limiter_off cfg then st
         else if \<not> success \<and> au_lockdown_enabled (cfg_auth cfg) \<and>
                 ae_max_login_limits env \<le> cache_size (as_login st)
         then (if fst (is_in_lockdown now st) then st
               else st\<lparr>as_lockdown_spawned := Suc (as_lockdown_spawned st)\<rparr>)
         else st\<lparr>as_login := cache_set ord now identifier
                   (next_attempt cfg now success (cache_get now (as_login st) identifier)) 0 (as_login st)\<rparr>)"

definition clear_login_attempts :: "'s auth_state \<Rightarrow> 's auth_state" where
  "clear_login_attempts st = st\<lparr>as_login := cache_clear (as_login st)\<rparr>"

text \<open>
  The goroutine \<open>lockdownMode\<close> in its two critical sections: entering (a second goroutine finds
  the flag set and ends), and leaving when the timer fires or the program shuts down.
\<close>

definition lockdown_enter :: "'s auth_env \<Rightarrow> int \<Rightarrow> 's auth_state \<Rightarrow> 's auth_state" where
  "lockdown_enter env now st =
     (let st1 = st\<lparr>as_lockdown_spawned := as_lockdown_spawned st - 1\<rparr>
      in if as_lockdown_active st then st1
         else st1\<lparr>as_lockdown_active := True,
                  as_lockdown_until := now + seconds (au_login_timeout (cfg_auth (ae_config env))),
                  as_lockdown_waiting := Suc (as_lockdown_waiting st)\<rparr>)"

definition lockdown_exit :: "'s auth_state \<Rightarrow> 's auth_state" where
  "lockdown_exit st =
     st\<lparr>as_login := cache_clear (as_login st), as_lockdown_active := False,
        as_lockdown_until := zero_time, as_lockdown_waiting := as_lockdown_waiting st - 1\<rparr>"

section \<open>The whitelist\<close>

definition whitelist_for :: "runtime_config \<Rightarrow> string \<Rightarrow> string list" where
  "whitelist_for rt provider =
     (case map_of (rt_oauth_providers rt) provider of
        Some p \<Rightarrow> if 0 < length (osc_whitelist p) then osc_whitelist p else rt_oauth_whitelist rt
      | None \<Rightarrow> rt_oauth_whitelist rt)"

definition is_email_whitelisted :: "'s auth_env \<Rightarrow> string \<Rightarrow> string \<Rightarrow> bool outcome" where
  "is_email_whitelisted env provider email =
     evaluate_func (ae_engine env)
       (\<lambda>_. on_return (check_filter (ae_lib env) (join_with '','' (whitelist_for (ae_runtime env) provider)) email)
          (\<lambda>v. Returns (case v of
                  Inl e \<Rightarrow> if e = ErrFilterEmpty then EffectAbstain else EffectDeny
                | Inr m \<Rightarrow> if m then EffectAllow else EffectDeny)))"

section \<open>Browser sessions\<close>

definition auth_cookie_domain :: "'s auth_env \<Rightarrow> string" where
  "auth_cookie_domain env =
     (if \<not> au_subdomains_enabled (cfg_auth (ae_config env)) then [] else rt_cookie_domain (ae_runtime env))"

definition session_cookie :: "'s auth_env \<Rightarrow> string \<Rightarrow> int \<Rightarrow> int \<Rightarrow> cookie" where
  "session_cookie env v expires max_age =
     \<lparr>ck_name = rt_session_cookie_name (ae_runtime env), ck_value = v, ck_path = ''/'',
      ck_domain = auth_cookie_domain env, ck_expires = expires, ck_max_age = max_age,
      ck_secure = au_secure_cookie (cfg_auth (ae_config env)), ck_http_only = True, ck_same_site = SameSiteLax\<rparr>"

datatype session_error =
    TailscaleNotConfigured
  | UuidFailed
  | CreateFailed store_error
  | RetrieveFailed store_error
  | UpdateFailed store_error
  | SessionNotFound
  | StoreError store_error
  | DeleteExpiredFailed store_error
  | MaxLifetimeExceeded
  | SessionExpired

text \<open>A session with a pending second factor lives an hour, another as configured.\<close>

definition session_lifetime :: "config \<Rightarrow> session \<Rightarrow> int" where
  "session_lifetime cfg data = (if se_totp_pending data then 3600 else au_session_expiry (cfg_auth cfg))"

definition new_session_row :: "config \<Rightarrow> int \<Rightarrow> string \<Rightarrow> session \<Rightarrow> create_session_params" where
  "new_session_row cfg now uuid data =
     data\<lparr>se_uuid := uuid, se_expiry := unix (now + seconds (session_lifetime cfg data)),
          se_created_at := unix now\<rparr>"

text \<open>\<open>fresh\<close> is the new UUID, \<open>None\<close> when no randomness is available.\<close>

definition create_session ::
  "'s auth_env \<Rightarrow> int \<Rightarrow> string option \<Rightarrow> session \<Rightarrow> 's auth_state \<Rightarrow> (session_error + cookie) \<times> 's auth_state"
where
  "create_session env now fresh data st =
     (if se_provider data = ''tailscale'' \<and> ae_tailscale env = None then (Inl TailscaleNotConfigured, st)
      else (case fresh of
              None \<Rightarrow> (Inl UuidFailed, st)
            | Some uuid \<Rightarrow>
                let expires_at = now + seconds (session_lifetime (ae_config env) data)
                in case create_session_op (ae_ops env) (new_session_row (ae_config env) now uuid data) (as_store st) of
                     (Inl e, s') \<Rightarrow> (Inl (CreateFailed e), st\<lparr>as_store := s'\<rparr>)
                   | (Inr _, s') \<Rightarrow>
                       (Inr (session_cookie env uuid expires_at (whole_seconds (expires_at - now))),
                        st\<lparr>as_store := s'\<rparr>)))"

definition refresh_threshold :: "config \<Rightarrow> int" where
  "refresh_threshold cfg =
     (let e = au_session_expiry (cfg_auth cfg) in if e \<le> 3600 then trunc_div e 2 else 3600)"

definition update_params_of :: "session \<Rightarrow> int \<Rightarrow> update_session_params" where
  "update_params_of s expiry =
     \<lparr>us_username = se_username s, us_email = se_email s, us_name = se_name s, us_provider = se_provider s,
      us_totp_pending = se_totp_pending s, us_oauth_groups = se_oauth_groups s, us_expiry = expiry,
      us_oauth_name = se_oauth_name s, us_oauth_sub = se_oauth_sub s, us_uuid = se_uuid s\<rparr>"

definition refresh_session ::
  "'s auth_env \<Rightarrow> int \<Rightarrow> string \<Rightarrow> 's auth_state \<Rightarrow> (session_error + cookie option) \<times> 's auth_state"
where
  "refresh_session env now uuid st =
     (case get_session_op (ae_ops env) uuid (as_store st) of
        Inl e \<Rightarrow> (Inl (RetrieveFailed e), st)
      | Inr s \<Rightarrow>
          let current = unix now; threshold = refresh_threshold (ae_config env)
          in if threshold < se_expiry s - current then (Inr None, st)
             else
               let new_expiry = se_expiry s + threshold
               in case update_session_op (ae_ops env) (update_params_of s new_expiry) (as_store st) of
                    (Inl e, s') \<Rightarrow> (Inl (UpdateFailed e), st\<lparr>as_store := s'\<rparr>)
                  | (Inr _, s') \<Rightarrow>
                      (Inr (Some (session_cookie env (se_uuid s) (now + seconds (new_expiry - current))
                              (new_expiry - current))),
                       st\<lparr>as_store := s'\<rparr>))"

text \<open>An error of the store is only logged; the cookie that removes the old one is sent anyway.\<close>

definition delete_session :: "'s auth_env \<Rightarrow> int \<Rightarrow> string \<Rightarrow> 's auth_state \<Rightarrow> cookie \<times> 's auth_state" where
  "delete_session env now uuid st =
     (session_cookie env [] now (-1),
      st\<lparr>as_store := snd (delete_session_op (ae_ops env) uuid (as_store st))\<rparr>)"

text \<open>An ended session is deleted and reported with its error, or with that of the store.\<close>

definition drop_session ::
  "'s auth_env \<Rightarrow> string \<Rightarrow> session_error \<Rightarrow> 's auth_state \<Rightarrow> (session_error + session) \<times> 's auth_state"
where
  "drop_session env uuid err st =
     (case delete_session_op (ae_ops env) uuid (as_store st) of
        (Some e, s') \<Rightarrow> (Inl (DeleteExpiredFailed e), st\<lparr>as_store := s'\<rparr>)
      | (None, s') \<Rightarrow> (Inl err, st\<lparr>as_store := s'\<rparr>))"

definition outlived :: "config \<Rightarrow> int \<Rightarrow> session \<Rightarrow> bool" where
  "outlived cfg now s \<longleftrightarrow>
     au_session_max_lifetime (cfg_auth cfg) \<noteq> 0 \<and> se_created_at s \<noteq> 0 \<and>
     au_session_max_lifetime (cfg_auth cfg) < unix now - se_created_at s"

definition get_session ::
  "'s auth_env \<Rightarrow> int \<Rightarrow> string \<Rightarrow> 's auth_state \<Rightarrow> (session_error + session) \<times> 's auth_state"
where
  "get_session env now uuid st =
     (case get_session_op (ae_ops env) uuid (as_store st) of
        Inl e \<Rightarrow> (Inl (if e = ErrNotFound then SessionNotFound else StoreError e), st)
      | Inr s \<Rightarrow>
          if outlived (ae_config env) now s then drop_session env uuid MaxLifetimeExceeded st
          else if se_expiry s < unix now then drop_session env uuid SessionExpired st
          else (Inr s, st))"

section \<open>Pending OAuth sessions\<close>

datatype oauth_error =
    OAuthServiceNotFound
  | OAuthUuidFailed
  | OAuthSessionNotFound
  | OAuthExchangeFailed
  | OAuthUpdateFailed
  | OAuthTokenMissing
  | OAuthUserinfoFailed

definition new_oauth_session ::
  "'s auth_env \<Rightarrow> string visit_order \<Rightarrow> int \<Rightarrow> string \<Rightarrow> oauth_callback_params \<Rightarrow> string option \<Rightarrow> string \<Rightarrow> string \<Rightarrow>
     's auth_state \<Rightarrow> (oauth_error + string) \<times> 's auth_state"
where
  "new_oauth_session env ord now service_name params fresh state verifier st =
     (case get_service (ae_broker env) service_name of
        None \<Rightarrow> (Inl OAuthServiceNotFound, st)
      | Some service \<Rightarrow>
          (case fresh of
             None \<Rightarrow> (Inl OAuthUuidFailed, st)
           | Some session_id \<Rightarrow>
               let s = \<lparr>op_state = state, op_verifier = verifier, op_token = None, op_service = service,
                        op_expires_at = now + seconds 3600, op_callback_params = params\<rparr>
               in (Inr session_id,
                   st\<lparr>as_oauth := cache_set ord now session_id s (seconds 600) (as_oauth st)\<rparr>)))"

definition get_oauth_pending_session ::
  "int \<Rightarrow> string \<Rightarrow> 's auth_state \<Rightarrow> oauth_error + oauth_pending_session"
where
  "get_oauth_pending_session now session_id st =
     (case cache_get now (as_oauth st) session_id of
        None \<Rightarrow> Inl OAuthSessionNotFound
      | Some s \<Rightarrow> Inr s)"

definition get_oauth_url :: "'s auth_env \<Rightarrow> int \<Rightarrow> string \<Rightarrow> 's auth_state \<Rightarrow> oauth_error + string" where
  "get_oauth_url env now session_id st =
     (case get_oauth_pending_session now session_id st of
        Inl e \<Rightarrow> Inl e
      | Inr s \<Rightarrow> Inr (oauth_get_auth_url (ae_world env) (op_service s) (op_state s) (op_verifier s)))"

definition get_oauth_token ::
  "'s auth_env \<Rightarrow> int \<Rightarrow> string \<Rightarrow> string \<Rightarrow> 's auth_state \<Rightarrow> (oauth_error + oauth_token) \<times> 's auth_state"
where
  "get_oauth_token env now session_id code st =
     (case cache_get now (as_oauth st) session_id of
        None \<Rightarrow> (Inl OAuthSessionNotFound, st)
      | Some s \<Rightarrow>
          (case oauth_get_token (ae_world env) (op_service s) code (op_verifier s) of
             None \<Rightarrow> (Inl OAuthExchangeFailed, st)
           | Some token \<Rightarrow>
               let (ok, c') = cache_update now session_id (s\<lparr>op_token := Some token\<rparr>) 0 (as_oauth st)
               in if ok then (Inr token, st\<lparr>as_oauth := c'\<rparr>)
                  else (Inl OAuthUpdateFailed, st\<lparr>as_oauth := c'\<rparr>)))"

definition get_oauth_userinfo :: "'s auth_env \<Rightarrow> int \<Rightarrow> string \<Rightarrow> 's auth_state \<Rightarrow> oauth_error + claims" where
  "get_oauth_userinfo env now session_id st =
     (case get_oauth_pending_session now session_id st of
        Inl e \<Rightarrow> Inl e
      | Inr s \<Rightarrow>
          (case op_token s of
             None \<Rightarrow> Inl OAuthTokenMissing
           | Some token \<Rightarrow>
               (case oauth_get_userinfo (ae_world env) (op_service s) token of
                  None \<Rightarrow> Inl OAuthUserinfoFailed
                | Some c \<Rightarrow> Inr c)))"

definition get_oauth_service :: "int \<Rightarrow> string \<Rightarrow> 's auth_state \<Rightarrow> oauth_error + oauth_service" where
  "get_oauth_service now session_id st =
     (case get_oauth_pending_session now session_id st of
        Inl e \<Rightarrow> Inl e
      | Inr s \<Rightarrow> Inr (op_service s))"

definition end_oauth_session :: "string \<Rightarrow> 's auth_state \<Rightarrow> 's auth_state" where
  "end_oauth_session session_id st = st\<lparr>as_oauth := cache_delete session_id (as_oauth st)\<rparr>"

end
