(* ===== verification/LoginLimiter.thy ===== *)
theory LoginLimiter
  imports Auth
begin

text \<open>
  The login limiter of \<open>auth_service.go\<close>: an abstract account of the attempts on one account
  that the cache of attempts refines, and the lockdown mode as a step relation over the critical
  sections of its goroutines.
\<close>

section \<open>Histories of attempts\<close>

text \<open>An attempt: when, on which account, and whether it succeeded.\<close>

type_synonym attempt = "int \<times> string \<times> bool"

fun attempts_run ::
  "'s auth_env \<Rightarrow> string visit_order \<Rightarrow> attempt list \<Rightarrow> 's auth_state \<Rightarrow> 's auth_state"
where
  "attempts_run env ord [] st = st"
| "attempts_run env ord ((now, who, ok) # h) st =
     attempts_run env ord h (record_login_attempt env ord now who ok st)"

text \<open>What the attempts on one account amount to, on their own.\<close>

fun spec_entry :: "config \<Rightarrow> string \<Rightarrow> attempt list \<Rightarrow> login_attempt option \<Rightarrow> login_attempt option" where
  "spec_entry cfg i [] e = e"
| "spec_entry cfg i ((now, who, ok) # h) e =
     spec_entry cfg i h (if who = i then Some (next_attempt cfg now ok e) else e)"

text \<open>The failures since the last success, and the time of the last failure.\<close>

fun fail_count :: "string \<Rightarrow> attempt list \<Rightarrow> int \<Rightarrow> int" where
  "fail_count i [] n = n"
| "fail_count i ((now, who, ok) # h) n =
     fail_count i h (if who = i then (if ok then 0 else n + 1) else n)"

fun last_failure :: "string \<Rightarrow> attempt list \<Rightarrow> int \<Rightarrow> int" where
  "last_failure i [] t = t"
| "last_failure i ((now, who, ok) # h) t = last_failure i h (if who = i \<and> \<not> ok then now else t)"

section \<open>The cache refines the account\<close>

definition permanent :: "'v cache_store \<Rightarrow> bool" where
  "permanent cs \<longleftrightarrow> (\<forall>(k, e)\<in>set (cs_cache cs). ce_expires_at e = None)"

lemma permanent_get: "permanent cs \<Longrightarrow> cache_get t cs k = map_option ce_value (map_of (cs_cache cs) k)"
  by (auto simp: permanent_def cache_get_def entry_expired_def dest!: map_of_SomeD split: option.splits)

lemma permanent_set:
  "permanent cs \<Longrightarrow> cs_max_size cs \<le> 0 \<Longrightarrow>
     cs_cache (cache_set ord now k v 0 cs) = AList.update k \<lparr>ce_value = v, ce_expires_at = None\<rparr> (cs_cache cs) \<and>
     permanent (cache_set ord now k v 0 cs)"
  by (auto simp: cache_set_def cache_full_def permanent_def Let_def dest!: set_update_subset)

definition unbounded_log :: "'s auth_state \<Rightarrow> bool" where
  "unbounded_log st \<longleftrightarrow> permanent (as_login st) \<and> cs_max_size (as_login st) \<le> 0"

lemma record_attempt_entry:
  assumes "unbounded_log st" "\<not> limiter_off (ae_config env)" "cache_size (as_login st) < ae_max_login_limits env"
  shows "cache_get t (as_login (record_login_attempt env ord now who ok st)) i =
      (if who = i then Some (next_attempt (ae_config env) now ok (cache_get t (as_login st) i))
       else cache_get t (as_login st) i)"
    and "unbounded_log (record_login_attempt env ord now who ok st)"
    and "cache_size (as_login (record_login_attempt env ord now who ok st)) \<le> cache_size (as_login st) + 1"
    and "as_lockdown_active (record_login_attempt env ord now who ok st) = as_lockdown_active st"
proof -
  let ?cs = "as_login st"
  let ?e = "next_attempt (ae_config env) now ok (cache_get now ?cs who)"
  have r: "record_login_attempt env ord now who ok st = st\<lparr>as_login := cache_set ord now who ?e 0 ?cs\<rparr>"
    using assms(2,3) by (simp add: record_login_attempt_def Let_def)
  from assms(1) have p: "permanent ?cs" "cs_max_size ?cs \<le> 0" by (simp_all add: unbounded_log_def)
  let ?cs' = "cache_set ord now who ?e 0 ?cs"
  have s: "cs_cache ?cs' = AList.update who \<lparr>ce_value = ?e, ce_expires_at = None\<rparr> (cs_cache ?cs)" "permanent ?cs'"
    using permanent_set [OF p] by blast+
  have "cache_get t ?cs' i = map_option ce_value (map_of (cs_cache ?cs') i)" using s(2) by (rule permanent_get)
  also have "\<dots> = (if who = i then Some (next_attempt (ae_config env) now ok (cache_get t ?cs i)) else cache_get t ?cs i)"
    unfolding s(1) by (simp add: gm_update permanent_get [OF p(1)])
  finally show "cache_get t (as_login (record_login_attempt env ord now who ok st)) i =
      (if who = i then Some (next_attempt (ae_config env) now ok (cache_get t ?cs i)) else cache_get t ?cs i)"
    by (simp add: r)
  show "unbounded_log (record_login_attempt env ord now who ok st)"
    using s(2) p(2) by (simp add: r unbounded_log_def)
  show "cache_size (as_login (record_login_attempt env ord now who ok st)) \<le> cache_size ?cs + 1"
    using s(1) by (simp add: r cache_size_def gm_len_update)
  show "as_lockdown_active (record_login_attempt env ord now who ok st) = as_lockdown_active st"
    by (simp add: r)
qed

lemma attempts_run_entry:
  assumes "unbounded_log st" "\<not> limiter_off (ae_config env)"
    "cache_size (as_login st) + int (length h) \<le> ae_max_login_limits env"
  shows "cache_get t (as_login (attempts_run env ord h st)) i =
      spec_entry (ae_config env) i h (cache_get t (as_login st) i) \<and>
    as_lockdown_active (attempts_run env ord h st) = as_lockdown_active st"
  using assms
proof (induction h arbitrary: st)
  case (Cons x h)
  obtain now who ok where x: "x = (now, who, ok)" by (cases x)
  have room: "cache_size (as_login st) < ae_max_login_limits env" using Cons.prems(3) by simp
  note r = record_attempt_entry [OF Cons.prems(1,2) room, where ord = ord and now = now and who = who and ok = ok]
  have "cache_size (as_login (record_login_attempt env ord now who ok st)) + int (length h)
      \<le> ae_max_login_limits env" using r(3) Cons.prems(3) by simp
  from Cons.IH [OF r(2) Cons.prems(2) this] show ?case by (simp add: x r(1,4))
qed simp

lemma spec_entry_counts:
  assumes "\<not> limiter_off cfg"
    "case e of None \<Rightarrow> n = 0 \<and> t0 = t0 | Some a \<Rightarrow> la_failed_attempts a = n \<and>
       la_locked_until a = (if au_login_max_retries (cfg_auth cfg) \<le> n then lock_end cfg t0 else zero_time)"
    "0 \<le> n"
  shows "case spec_entry cfg i h e of
     None \<Rightarrow> fail_count i h n = 0
   | Some a \<Rightarrow> la_failed_attempts a = fail_count i h n \<and>
       la_locked_until a = (if au_login_max_retries (cfg_auth cfg) \<le> fail_count i h n
         then lock_end cfg (last_failure i h t0) else zero_time)"
  using assms(2,3)
proof (induction h arbitrary: e n t0)
  case Nil
  then show ?case by (auto split: option.splits)
next
  case (Cons x h)
  obtain now who ok where x: "x = (now, who, ok)" by (cases x)
  have on: "0 < au_login_max_retries (cfg_auth cfg)" using assms(1) by (simp add: limiter_off_def)
  show ?case
  proof (cases "who = i")
    case False
    with Cons.IH [OF Cons.prems] show ?thesis unfolding x by (simp split: option.splits)
  next
    case True
    let ?a = "next_attempt cfg now ok e"
    let ?n = "if ok then 0 else n + 1"
    let ?t = "if ok then t0 else now"
    have "la_failed_attempts ?a = ?n \<and>
       la_locked_until ?a = (if au_login_max_retries (cfg_auth cfg) \<le> ?n then lock_end cfg ?t else zero_time)"
      using Cons.prems on by (auto simp: next_attempt_def Let_def split: option.splits)
    then show ?thesis using Cons.IH [where e = "Some ?a" and n = ?n and ?t0.0 = ?t] Cons.prems(2) True
      unfolding x by (simp split: if_splits option.splits)
  qed
qed

section \<open>Locking an account\<close>

text \<open>
  C24: As long as the attempts are fewer than the lockdown limit, an account is locked at a
  time exactly when the failed attempts on it since its last successful one have reached the
  configured number of retries and the time is before the end of the timeout after the last of
  them. Attempts on other accounts, whatever their number and order, do not matter.
\<close>

theorem account_locked_iff:
  assumes "\<not> limiter_off (ae_config env)" "as_login st = new_cache_store 0" "\<not> as_lockdown_active st"
    "int (length h) \<le> ae_max_login_limits env" "zero_time \<le> t"
  shows "fst (is_account_locked env t i (attempts_run env ord h st)) \<longleftrightarrow>
     au_login_max_retries (cfg_auth (ae_config env)) \<le> fail_count i h 0 \<and>
     t < lock_end (ae_config env) (last_failure i h 0)"
proof -
  have "unbounded_log st" using assms(2) by (simp add: unbounded_log_def permanent_def new_cache_store_def)
  moreover have "cache_size (as_login st) = 0" by (simp add: assms(2) cache_size_def new_cache_store_def)
  moreover have "cache_get t (as_login st) i = None" by (simp add: assms(2))
  ultimately have e: "cache_get t (as_login (attempts_run env ord h st)) i = spec_entry (ae_config env) i h None"
    "\<not> as_lockdown_active (attempts_run env ord h st)"
    using attempts_run_entry [of st env h t ord i] assms(1,3,4) by simp_all
  have on: "0 < au_login_max_retries (cfg_auth (ae_config env))" using assms(1) by (simp add: limiter_off_def)
  show ?thesis
    using spec_entry_counts [OF assms(1), where e = None and n = 0 and ?t0.0 = 0 and i = i and h = h] on assms(1,5) e
    by (auto simp: is_account_locked_def is_in_lockdown_def split: option.splits if_splits)
qed

definition demo_env :: "memory_store auth_env" where
  "demo_env = \<lparr>ae_lib = ascii_lib, ae_config = default_configuration, ae_runtime = demo_runtime,
     ae_ops = memory_ops id, ae_ldap = None, ae_broker = new_oauth_broker demo_world rev demo_runtime,
     ae_world = demo_world, ae_tailscale = None, ae_engine = demo_engine, ae_max_login_limits = 256\<rparr>"

definition demo_state :: "memory_store auth_state" where
  "demo_state = \<lparr>as_store = new_memory_store, as_login = new_cache_store 0, as_oauth = new_cache_store 256,
     as_ldap_groups = new_cache_store 1024, as_lockdown_active = False, as_lockdown_until = zero_time,
     as_lockdown_spawned = 0, as_lockdown_waiting = 0, as_ldap_identity = Anonymous\<rparr>"

theorem account_locked_iff_witness:
  "fst (is_account_locked demo_env 299000000000 ''ann''
     (attempts_run demo_env rev [(0, ''ann'', False), (1, ''ann'', False), (2, ''eve'', True), (3, ''ann'', False)] demo_state))"
proof -
  let ?h = "[(0, ''ann'', False), (1, ''ann'', False), (2, ''eve'', True), (3, ''ann'', False)] :: attempt list"
  have "\<not> limiter_off (ae_config demo_env)" "as_login demo_state = new_cache_store 0"
    "\<not> as_lockdown_active demo_state" "int (length ?h) \<le> ae_max_login_limits demo_env"
    "zero_time \<le> 299000000000"
    "au_login_max_retries (cfg_auth (ae_config demo_env)) \<le> fail_count ''ann'' ?h 0"
    "299000000000 < lock_end (ae_config demo_env) (last_failure ''ann'' ?h 0)"
    by code_simp+
  then show ?thesis using account_locked_iff [of demo_env demo_state ?h 299000000000 "''ann''" rev] by blast
qed

section \<open>The lockdown mode\<close>

text \<open>
  The steps of the limiter: an attempt is recorded, a goroutine of the lockdown mode passes one
  of its two critical sections, the caches are swept or cleared.
\<close>

inductive limiter_step :: "'s auth_env \<Rightarrow> 's auth_state \<Rightarrow> 's auth_state \<Rightarrow> bool" for env where
  attempt: "visits ord \<Longrightarrow> limiter_step env st (record_login_attempt env ord now who ok st)"
| enter: "0 < as_lockdown_spawned st \<Longrightarrow> limiter_step env st (lockdown_enter env now st)"
| exit: "0 < as_lockdown_waiting st \<Longrightarrow> limiter_step env st (lockdown_exit st)"
| sweep: "visits ord \<Longrightarrow> limiter_step env st (sweep_caches ord now st)"
| clear: "limiter_step env st (clear_login_attempts st)"

inductive limiter_run :: "'s auth_env \<Rightarrow> 's auth_state \<Rightarrow> 's auth_state \<Rightarrow> bool" for env where
  idle: "limiter_run env st st"
| more: "limiter_run env st st1 \<Longrightarrow> limiter_step env st1 st2 \<Longrightarrow> limiter_run env st st2"

inductive_cases limiter_stepE: "limiter_step env st st'"

definition lockdown_inv :: "'s auth_state \<Rightarrow> bool" where
  "lockdown_inv st \<longleftrightarrow>
     as_lockdown_waiting st = (if as_lockdown_active st then 1 else 0) \<and>
     (\<not> as_lockdown_active st \<longrightarrow> as_lockdown_until st = zero_time) \<and>
     cache_inv (as_login st)"

lemma record_lockdown_fields [simp]:
  "as_lockdown_active (record_login_attempt env ord now who ok st) = as_lockdown_active st"
  "as_lockdown_until (record_login_attempt env ord now who ok st) = as_lockdown_until st"
  "as_lockdown_waiting (record_login_attempt env ord now who ok st) = as_lockdown_waiting st"
  by (simp_all add: record_login_attempt_def Let_def)

lemma record_login_inv:
  "visits ord \<Longrightarrow> cache_inv (as_login st) \<Longrightarrow> cache_inv (as_login (record_login_attempt env ord now who ok st))"
  by (auto simp: record_login_attempt_def Let_def intro: cache.inv_store)

lemma limiter_step_inv: "limiter_step env st st' \<Longrightarrow> lockdown_inv st \<Longrightarrow> lockdown_inv st'"
  by (elim limiter_stepE)
    (auto simp: lockdown_inv_def lockdown_enter_def lockdown_exit_def sweep_caches_def clear_login_attempts_def
      Let_def record_login_inv cache_inv_clear cache_inv_sweep)

lemma limiter_run_inv: "limiter_run env st st' \<Longrightarrow> lockdown_inv st \<Longrightarrow> lockdown_inv st'"
  by (induction rule: limiter_run.induct) (auto intro: limiter_step_inv)

text \<open>
  However the goroutines of the lockdown mode, the attempts and the sweeps interleave, at
  most one goroutine waits for its timer, the mode is active exactly while one does, and the end
  of a mode that is not active is the zero time; so two goroutines never clear each other's
  lockdown.
\<close>

theorem lockdown_single_owner:
  assumes "limiter_run env st st'" "as_login st = new_cache_store n" "\<not> as_lockdown_active st"
    "as_lockdown_waiting st = 0" "as_lockdown_until st = zero_time"
  shows "as_lockdown_waiting st' = (if as_lockdown_active st' then 1 else 0) \<and>
     (\<not> as_lockdown_active st' \<longrightarrow> as_lockdown_until st' = zero_time)"
proof -
  have "lockdown_inv st" using assms(2-5) by (simp add: lockdown_inv_def)
  with limiter_run_inv [OF assms(1)] show ?thesis by (simp add: lockdown_inv_def)
qed

theorem lockdown_single_owner_witness:
  "as_lockdown_waiting (lockdown_enter demo_env 5 (demo_state\<lparr>as_lockdown_spawned := 2\<rparr>)) = 1"
proof -
  let ?s = "demo_state\<lparr>as_lockdown_spawned := 2\<rparr>"
  have "limiter_run demo_env ?s (lockdown_enter demo_env 5 ?s)"
    by (rule limiter_run.more [OF limiter_run.idle limiter_step.enter]) simp
  moreover have "as_login ?s = new_cache_store 0" "\<not> as_lockdown_active ?s" "as_lockdown_waiting ?s = 0"
    "as_lockdown_until ?s = zero_time" "as_lockdown_active (lockdown_enter demo_env 5 ?s)"
    by (simp_all add: demo_state_def lockdown_enter_def Let_def)
  ultimately show ?thesis using lockdown_single_owner [of demo_env ?s _ 0] by force
qed

text \<open>
  With the lockdown mode on, a failed attempt that finds the cache at its limit is not
  recorded but starts the mode; once a goroutine has entered it, every account is locked for
  the login timeout, attempts on any account leave the recorded ones as they are when they fail,
  and leaving the mode forgets all attempts.
\<close>

theorem lockdown_blocks_everyone:
  assumes "\<not> limiter_off (ae_config env)" "au_lockdown_enabled (cfg_auth (ae_config env))"
    "ae_max_login_limits env \<le> cache_size (as_login st)" "\<not> as_lockdown_active st"
  shows "let st1 = record_login_attempt env ord now who False st;
             st2 = lockdown_enter env now' st1
         in as_lockdown_spawned st1 = Suc (as_lockdown_spawned st) \<and> as_login st1 = as_login st \<and>
            (\<forall>i t. fst (is_account_locked env t i st2)) \<and>
            as_lockdown_until st2 = now' + seconds (au_login_timeout (cfg_auth (ae_config env))) \<and>
            (\<forall>i t. record_login_attempt env ord t i False st2 = st2) \<and>
            (\<forall>i t. cache_get t (as_login (lockdown_exit st2)) i = None \<and>
                   \<not> as_lockdown_active (lockdown_exit st2))"
  using assms
  by (simp add: record_login_attempt_def lockdown_enter_def lockdown_exit_def is_account_locked_def
      is_in_lockdown_def Let_def)

theorem lockdown_blocks_everyone_witness:
  "fst (is_account_locked (demo_env\<lparr>ae_max_login_limits := 0\<rparr>) 7 ''ann''
     (lockdown_enter (demo_env\<lparr>ae_max_login_limits := 0\<rparr>) 6
       (record_login_attempt (demo_env\<lparr>ae_max_login_limits := 0\<rparr>) rev 5 ''eve'' False demo_state)))"
proof -
  let ?e = "demo_env\<lparr>ae_max_login_limits := 0\<rparr>"
  have "\<not> limiter_off (ae_config ?e)" "au_lockdown_enabled (cfg_auth (ae_config ?e))"
    "ae_max_login_limits ?e \<le> cache_size (as_login demo_state)" "\<not> as_lockdown_active demo_state"
    by code_simp+
  from lockdown_blocks_everyone [OF this, where ord = rev and now = 5 and who = "''eve''" and now' = 6]
  show ?thesis by (simp add: Let_def)
qed

section \<open>Every lock ends\<close>

text \<open>A run of the limiter whose attempts and lockdowns all happen by the time \<open>T\<close>.\<close>

inductive limiter_until :: "'s auth_env \<Rightarrow> int \<Rightarrow> 's auth_state \<Rightarrow> 's auth_state \<Rightarrow> bool" for env T where
  start: "limiter_until env T st st"
| attempt_by: "limiter_until env T st st1 \<Longrightarrow> visits ord \<Longrightarrow> now \<le> T \<Longrightarrow>
    limiter_until env T st (record_login_attempt env ord now who ok st1)"
| enter_by: "limiter_until env T st st1 \<Longrightarrow> 0 < as_lockdown_spawned st1 \<Longrightarrow> now \<le> T \<Longrightarrow>
    limiter_until env T st (lockdown_enter env now st1)"
| exit_by: "limiter_until env T st st1 \<Longrightarrow> 0 < as_lockdown_waiting st1 \<Longrightarrow> limiter_until env T st (lockdown_exit st1)"
| sweep_by: "limiter_until env T st st1 \<Longrightarrow> visits ord \<Longrightarrow> limiter_until env T st (sweep_caches ord now st1)"
| clear_by: "limiter_until env T st st1 \<Longrightarrow> limiter_until env T st (clear_login_attempts st1)"

lemma until_run: "limiter_until env T st st' \<Longrightarrow> limiter_run env st st'"
  by (induction rule: limiter_until.induct) (auto intro: limiter_run.intros limiter_step.intros)

text \<open>No entry is locked beyond \<open>B\<close>, and neither is everyone.\<close>

definition locks_end_by :: "int \<Rightarrow> 's auth_state \<Rightarrow> bool" where
  "locks_end_by B st \<longleftrightarrow>
     (\<forall>k c. map_of (cs_cache (as_login st)) k = Some c \<longrightarrow> la_locked_until (ce_value c) \<le> B) \<and>
     (as_lockdown_active st \<longrightarrow> as_lockdown_until st \<le> B)"

lemma next_attempt_bound:
  assumes "zero_time \<le> B" "lock_end cfg now \<le> B" "\<And>e. old = Some e \<Longrightarrow> la_locked_until e \<le> B"
  shows "la_locked_until (next_attempt cfg now ok old) \<le> B"
  using assms by (auto simp: next_attempt_def Let_def split: option.split)

lemma entry_after_set:
  "map_of (cs_cache (cache_set ord now k v ttl cs)) j = Some c \<Longrightarrow> ce_value c = v \<or> map_of (cs_cache cs) j = Some c"
  by (auto simp: cache_set_lookup dest: make_room_lookup split: if_splits)

lemma attempt_locks_end:
  assumes "locks_end_by B st" "zero_time \<le> B" "lock_end (ae_config env) now \<le> B"
  shows "locks_end_by B (record_login_attempt env ord now who ok st)"
proof -
  let ?v = "next_attempt (ae_config env) now ok (cache_get now (as_login st) who)"
  have "la_locked_until ?v \<le> B"
    using assms by (intro next_attempt_bound) (auto simp: locks_end_by_def cache_get_def split: option.splits if_splits)
  moreover have "ce_value c = ?v \<or> map_of (cs_cache (as_login st)) k = Some c"
    if "map_of (cs_cache (cache_set ord now who ?v 0 (as_login st))) k = Some c" for k c
    using entry_after_set [OF that] .
  ultimately show ?thesis using assms(1) by (fastforce simp: record_login_attempt_def Let_def locks_end_by_def)
qed

lemma until_locks_end:
  assumes "limiter_until env T st0 st" "locks_end_by B st0" "zero_time \<le> B"
    "\<And>now. now \<le> T \<Longrightarrow> lock_end (ae_config env) now \<le> B"
  shows "locks_end_by B st"
  using assms(1,2)
proof (induction rule: limiter_until.induct)
  case (attempt_by st st1 ord now who ok)
  then show ?case using assms(3,4) attempt_locks_end by blast
next
  case (enter_by st st1 now)
  with assms(4) [of now] show ?case by (auto simp: locks_end_by_def lockdown_enter_def lock_end_def Let_def)
next
  case (sweep_by st st1 ord now)
  then show ?case by (auto simp: locks_end_by_def sweep_caches_def cache_sweep_def sweep_keys_lookup split: option.splits if_splits)
qed (auto simp: locks_end_by_def lockdown_exit_def clear_login_attempts_def cache_clear_def)

text \<open>
  C25: Every lock ends. Whatever attempts were made and whichever lockdowns began up to a time, as soon
  as the login timeout has passed since: if the lockdown mode is still on, its end has come and its
  goroutine can leave it; and once it has, no account is locked any more, whoever attacked it.
\<close>

theorem every_lock_ends:
  assumes "limiter_until env T st0 st" "as_login st0 = new_cache_store n" "\<not> as_lockdown_active st0"
    "as_lockdown_waiting st0 = 0" "as_lockdown_until st0 = zero_time"
    "T + seconds (au_login_timeout (cfg_auth (ae_config env))) \<le> t" "zero_time \<le> t"
  shows "(as_lockdown_active st \<longrightarrow> as_lockdown_until st \<le> t \<and> limiter_step env st (lockdown_exit st)) \<and>
     \<not> fst (is_account_locked env t who (if as_lockdown_active st then lockdown_exit st else st))"
proof -
  have inv: "lockdown_inv st"
    using limiter_run_inv [OF until_run [OF assms(1)]] assms(2-5) by (simp add: lockdown_inv_def)
  have "locks_end_by t st0" using assms(2,3) by (simp add: locks_end_by_def new_cache_store_def)
  from until_locks_end [OF assms(1) this assms(7)] assms(6) have ends: "locks_end_by t st"
    by (force simp: lock_end_def)
  show ?thesis
  proof (cases "as_lockdown_active st")
    case True
    with inv have "limiter_step env st (lockdown_exit st)" by (simp add: lockdown_inv_def limiter_step.exit)
    with True ends show ?thesis
      by (simp add: locks_end_by_def is_account_locked_def is_in_lockdown_def lockdown_exit_def)
  next
    case False
    with ends show ?thesis
      by (fastforce simp: locks_end_by_def is_account_locked_def is_in_lockdown_def cache_get_def split: option.splits if_splits)
  qed
qed

theorem every_lock_ends_witness:
  "\<not> fst (is_account_locked demo_env 350000000000 ''ann''
     (foldl (\<lambda>st i. record_login_attempt demo_env rev i ''ann'' False st) demo_state [1, 2, 3]))"
proof -
  let ?a = "\<lambda>i st. record_login_attempt demo_env rev i ''ann'' False st"
  let ?st = "foldl (\<lambda>st i. ?a i st) demo_state [1, 2, 3]"
  have "limiter_until demo_env 3 demo_state (?a 3 (?a 2 (?a 1 demo_state)))"
    by (intro limiter_until.attempt_by limiter_until.start) simp_all
  then have "limiter_until demo_env 3 demo_state ?st" by simp
  moreover have "as_login demo_state = new_cache_store 0" "\<not> as_lockdown_active demo_state"
    "as_lockdown_waiting demo_state = 0" "as_lockdown_until demo_state = zero_time" by (simp_all add: demo_state_def)
  moreover have "3 + seconds (au_login_timeout (cfg_auth (ae_config demo_env))) \<le> 350000000000" "zero_time \<le> 350000000000"
    "\<not> as_lockdown_active ?st" by code_simp+
  ultimately show ?thesis using every_lock_ends [of demo_env 3 demo_state ?st 0 350000000000 "''ann''"] by simp
qed

end
