(* ===== verification/AuthSessions.thy ===== *)
theory AuthSessions
  imports LoginLimiter
begin

text \<open>
  Browser sessions over any store that keeps the contract \<open>session_repo\<close>: what a session gives
  back, when it ends and what a refresh may change. The memory store is one such store, and for
  it the round trip is stated with its result.
\<close>

section \<open>Operations on a store that keeps the contract\<close>

context session_repo
begin

lemma get_session_ok:
  assumes "ae_ops env = ops" "inv (as_store st)" "get_session env now u st = (Inr x, st')"
  shows "st' = st \<and> sess (as_store st) u = Some x \<and> unix now \<le> se_expiry x \<and> \<not> outlived (ae_config env) now x"
proof -
  have "fst (drop_session env u e st) \<noteq> Inr x" for e
    by (simp add: drop_session_def split: prod.splits option.splits)
  then have "get_session_op ops u (as_store st) = Inr x \<and> st' = st \<and> unix now \<le> se_expiry x \<and>
      \<not> outlived (ae_config env) now x"
    using assms(1,3) by (auto simp: get_session_def split: sum.splits if_splits) (metis fst_conv)+
  with get_ok [OF assms(2)] show ?thesis by blast
qed

lemma drop_session_inv:
  assumes "ae_ops env = ops" "inv (as_store st)"
  shows "inv (as_store (snd (drop_session env u e st)))"
  using assms(1) delete_inv [OF assms(2), of u]
  by (cases "delete_session_op ops u (as_store st)")
    (simp add: drop_session_def split: option.splits)

lemma get_session_inv:
  assumes "ae_ops env = ops" "inv (as_store st)"
  shows "inv (as_store (snd (get_session env now u st)))"
  using assms drop_session_inv [OF assms] by (simp add: get_session_def split: sum.splits)

lemma drop_session_gone:
  assumes "ae_ops env = ops" "inv (as_store st)" "drop_session env u e st = (Inl e', st')"
    "\<forall>x. e' \<noteq> DeleteExpiredFailed x"
  shows "sess (as_store st') = (sess (as_store st))(u := None)"
proof -
  obtain r s' where d: "delete_session_op ops u (as_store st) = (r, s')" by fastforce
  with assms(1,3,4) have "r = None" "st' = st\<lparr>as_store := s'\<rparr>"
    by (auto simp: drop_session_def split: option.splits)
  with delete_ok [OF assms(2)] d show ?thesis by simp
qed

lemma create_session_eq:
  assumes "ae_ops env = ops"
  shows "create_session env now fresh d st =
     (if se_provider d = ''tailscale'' \<and> ae_tailscale env = None then (Inl TailscaleNotConfigured, st)
      else case fresh of
        None \<Rightarrow> (Inl UuidFailed, st)
      | Some u \<Rightarrow>
         (let r = create_session_op ops (new_session_row (ae_config env) now u d) (as_store st);
              expires_at = now + seconds (session_lifetime (ae_config env) d)
          in (map_sum CreateFailed (\<lambda>_. session_cookie env u expires_at (whole_seconds (expires_at - now))) (fst r),
              st\<lparr>as_store := snd r\<rparr>)))"
  using assms by (auto simp: create_session_def Let_def split: option.splits prod.splits sum.splits)

lemma create_session_ok:
  assumes "ae_ops env = ops" "inv (as_store st)" "create_session env now fresh d st = (Inr c, st')"
  shows "\<exists>u. fresh = Some u \<and> ck_value c = u \<and>
     sess (as_store st') = (sess (as_store st))(u \<mapsto> new_session_row (ae_config env) now u d) \<and>
     st' = st\<lparr>as_store := as_store st'\<rparr>"
proof -
  from assms(3) obtain u where u: "fresh = Some u"
    by (auto simp: create_session_eq [OF assms(1)] split: if_splits option.splits)
  let ?n = "new_session_row (ae_config env) now u d"
  obtain r s' where op: "create_session_op ops ?n (as_store st) = (r, s')" by fastforce
  with assms(3) u obtain x where "r = Inr x" "st' = st\<lparr>as_store := s'\<rparr>" "ck_value c = u"
    by (cases r) (auto simp: create_session_eq [OF assms(1)] Let_def session_cookie_def split: if_splits)
  with create_ok [OF assms(2), of ?n x s'] op u show ?thesis
    by (auto simp: new_session_row_def)
qed

lemma create_session_inv:
  assumes "ae_ops env = ops" "inv (as_store st)"
  shows "inv (as_store (snd (create_session env now fresh d st)))"
  using create_inv [OF assms(2)] assms(2)
  by (simp add: create_session_eq [OF assms(1)] Let_def split: option.splits)

lemma create_session_failed:
  assumes "ae_ops env = ops" "inv (as_store st)" "create_session env now fresh d st = (Inl e, st')"
  shows "sess (as_store st') = sess (as_store st) \<and> st' = st\<lparr>as_store := as_store st'\<rparr>"
proof (cases "fresh = None \<or> se_provider d = ''tailscale'' \<and> ae_tailscale env = None")
  case True
  with assms(3) show ?thesis
    by (auto simp: create_session_eq [OF assms(1)] split: if_splits)
next
  case False
  then obtain u where u: "fresh = Some u" "\<not> (se_provider d = ''tailscale'' \<and> ae_tailscale env = None)"
    by auto
  let ?n = "new_session_row (ae_config env) now u d"
  obtain r s' where op: "create_session_op ops ?n (as_store st) = (r, s')" by fastforce
  with assms(3) u obtain x where "r = Inl x" "st' = st\<lparr>as_store := s'\<rparr>"
    by (cases r) (auto simp: create_session_eq [OF assms(1)] Let_def)
  with create_err [OF assms(2), of ?n x s'] op show ?thesis by simp
qed

lemma refresh_session_effect:
  assumes "ae_ops env = ops" "inv (as_store st)" "refresh_session env now u st = (r, st')"
  shows "inv (as_store st') \<and> (\<forall>v. v \<noteq> u \<longrightarrow> sess (as_store st') v = sess (as_store st) v) \<and>
     (sess (as_store st') u = sess (as_store st) u \<or>
      (\<exists>x. sess (as_store st) u = Some x \<and> se_expiry x - unix now \<le> refresh_threshold (ae_config env) \<and>
        sess (as_store st') u = Some (x\<lparr>se_expiry := se_expiry x + refresh_threshold (ae_config env)\<rparr>)))"
proof (cases "get_session_op ops u (as_store st)")
  case (Inl e)
  with assms show ?thesis by (auto simp: refresh_session_def)
next
  case (Inr x)
  let ?t = "refresh_threshold (ae_config env)"
  show ?thesis
  proof (cases "?t < se_expiry x - unix now")
    case True
    with Inr assms show ?thesis by (auto simp: refresh_session_def Let_def)
  next
    case False
    let ?p = "update_params_of x (se_expiry x + ?t)"
    obtain r' s' where up: "update_session_op ops ?p (as_store st) = (r', s')" by fastforce
    have st': "st' = st\<lparr>as_store := s'\<rparr>"
      using assms(1,3) Inr False up by (auto simp: refresh_session_def Let_def split: sum.splits)
    have i: "inv s'" using update_inv [OF assms(2), of ?p] up by simp
    have x: "sess (as_store st) u = Some x" using get_ok [OF assms(2) Inr] .
    then have uu: "se_uuid x = u" using key [OF assms(2)] by blast
    show ?thesis
    proof (cases r')
      case (Inl e)
      with up update_err [OF assms(2), of ?p e s'] st' i show ?thesis by simp
    next
      case (Inr y)
      with up have "update_session_op ops ?p (as_store st) = (Inr y, s')" by simp
      from update_ok [OF assms(2) this] x uu
      have "sess s' = (sess (as_store st))(u \<mapsto> y)" "y = x\<lparr>se_expiry := se_expiry x + ?t\<rparr>"
        by (auto simp: update_params_of_def)
      with st' i x False show ?thesis by auto
    qed
  qed
qed

lemma delete_session_effect:
  assumes "ae_ops env = ops" "inv (as_store st)"
  shows "inv (as_store (snd (delete_session env now u st))) \<and>
     (\<forall>v x. sess (as_store (snd (delete_session env now u st))) v = Some x \<longrightarrow> sess (as_store st) v = Some x)"
  using assms(1) delete_inv [OF assms(2), of u] delete_only [OF assms(2), of u]
  by (simp add: delete_session_def)

text \<open>Refreshing at a list of times.\<close>

lemma refresh_many:
  assumes "ae_ops env = ops" "inv (as_store st)"
  shows "inv (as_store (fold (\<lambda>t st. snd (refresh_session env t u st)) ts st)) \<and>
     (\<forall>v y. sess (as_store (fold (\<lambda>t st. snd (refresh_session env t u st)) ts st)) v = Some y \<longrightarrow>
       (\<exists>x. sess (as_store st) v = Some x \<and> y = x\<lparr>se_expiry := se_expiry y\<rparr>))"
  using assms
proof (induction ts arbitrary: st)
  case (Cons t ts)
  obtain r st' where r: "refresh_session env t u st = (r, st')" by fastforce
  note e = refresh_session_effect [OF Cons.prems r]
  have one: "\<exists>x. sess (as_store st) v = Some x \<and> y = x\<lparr>se_expiry := se_expiry y\<rparr>"
    if "sess (as_store st') v = Some y" for v y
  proof (cases "sess (as_store st) v = Some y")
    case True
    then show ?thesis by (intro exI [of _ y]) simp
  next
    case False
    with e that have "v = u" by auto
    with e that False show ?thesis by auto
  qed
  note IH = Cons.IH [OF Cons.prems(1) conjunct1 [OF e]]
  show ?case
  proof (intro conjI allI impI)
    show "inv (as_store (fold (\<lambda>t st. snd (refresh_session env t u st)) (t # ts) st))"
      using IH r by simp
    fix v y
    assume "sess (as_store (fold (\<lambda>t st. snd (refresh_session env t u st)) (t # ts) st)) v = Some y"
    then have "sess (as_store (fold (\<lambda>t st. snd (refresh_session env t u st)) ts st')) v = Some y"
      using r by simp
    with IH obtain x where "sess (as_store st') v = Some x" "y = x\<lparr>se_expiry := se_expiry y\<rparr>" by blast
    moreover from one [OF this(1)] obtain z where "sess (as_store st) v = Some z" "x = z\<lparr>se_expiry := se_expiry x\<rparr>"
      by blast
    ultimately show "\<exists>x. sess (as_store st) v = Some x \<and> y = x\<lparr>se_expiry := se_expiry y\<rparr>"
      by (metis (no_types, lifting) session.surjective session.update_convs(8))
  qed
qed auto

end

lemma refresh_threshold_bounds:
  assumes "0 \<le> au_session_expiry (cfg_auth cfg)"
  shows "0 \<le> refresh_threshold cfg \<and> refresh_threshold cfg \<le> 3600 \<and>
     (au_session_expiry (cfg_auth cfg) \<le> 3600 \<longrightarrow> 2 * refresh_threshold cfg \<le> au_session_expiry (cfg_auth cfg))"
  using assms by (auto simp: refresh_threshold_def Let_def trunc_div_nonneg)

section \<open>Properties\<close>

text \<open>
  C26: Over every store that keeps the contract: \<open>GetSession\<close> returns the stored session only
  while it has not expired and has not outlived the maximum lifetime, and then changes nothing;
  a session it rejects for one of these reasons is no longer in the store, and no other session
  is touched.
\<close>

theorem get_session_only_live:
  assumes "session_repo (ae_ops env) good sess" "good (as_store st)"
  shows "case get_session env now u st of
      (Inr x, st') \<Rightarrow> st' = st \<and> sess (as_store st) u = Some x \<and> unix now \<le> se_expiry x \<and>
        \<not> outlived (ae_config env) now x
    | (Inl e, st') \<Rightarrow> (e = SessionExpired \<or> e = MaxLifetimeExceeded \<longrightarrow>
        sess (as_store st') = (sess (as_store st))(u := None))"
proof -
  obtain r st' where r: "get_session env now u st = (r, st')" by fastforce
  show ?thesis
  proof (cases r)
    case (Inr x)
    with session_repo.get_session_ok [OF assms(1) refl assms(2), of now u x st'] r show ?thesis by simp
  next
    case (Inl e)
    have "sess (as_store st') = (sess (as_store st))(u := None)" if "e = SessionExpired \<or> e = MaxLifetimeExceeded"
    proof -
      from that r Inl obtain e0 where "drop_session env u e0 st = (Inl e, st')"
        by (auto simp: get_session_def split: sum.splits if_splits)
      then show ?thesis
        using that by (intro session_repo.drop_session_gone [OF assms(1) refl assms(2)]) auto
    qed
    with r Inl show ?thesis by simp
  qed
qed

lemmas demo_repo = memory_session_repo [of id]

lemma demo_ops [simp]: "ae_ops demo_env = memory_ops id"
  by (simp add: demo_env_def)

definition demo_session :: session where
  "demo_session = \<lparr>se_uuid = ''u1'', se_username = ''ann'', se_email = ''ann@x.io'', se_name = ''Ann'',
     se_provider = ''local'', se_totp_pending = False, se_oauth_groups = [], se_expiry = 100,
     se_created_at = 10, se_oauth_name = [], se_oauth_sub = []\<rparr>"

definition stored_state :: "memory_store auth_state" where
  "stored_state = demo_state\<lparr>as_store := snd (mem_create_session demo_session new_memory_store)\<rparr>"

lemma stored_inv: "mem_inv (as_store stored_state)"
  by (simp add: stored_state_def mem_create_session_def mem_inv_def new_memory_store_def keyed_def)

theorem get_session_only_live_witness:
  "mem_sess (as_store (snd (get_session demo_env 101000000000 ''u1'' stored_state))) ''u1'' = None"
proof -
  obtain st' where g: "get_session demo_env 101000000000 ''u1'' stored_state = (Inl SessionExpired, st')"
  proof -
    have "fst (get_session demo_env 101000000000 ''u1'' stored_state) = Inl SessionExpired" by code_simp
    then show ?thesis using that by (metis prod.collapse)
  qed
  have "session_repo (ae_ops demo_env) mem_inv mem_sess" using demo_repo by simp
  from get_session_only_live [OF this stored_inv, where now = 101000000000 and u = "''u1''"] g show ?thesis by simp
qed

text \<open>
  On the memory store: after \<open>CreateSession\<close> succeeds with a fresh UUID, the session the
  cookie names is given back with the data it was created from, at every later time up to the
  end of its lifetime (an hour while the second factor is pending, the configured expiry
  otherwise) unless it outlives the maximum lifetime, and after that it is reported as ended.
\<close>

theorem session_roundtrip:
  assumes "ae_ops env = memory_ops ord" "create_session env now (Some u) d st = (Inr c, st')"
    "\<bar>session_lifetime (ae_config env) d\<bar> \<le> 9223372036"
  shows "fst (get_session env t (ck_value c) st') =
     (let row = d\<lparr>se_uuid := u, se_created_at := unix now,
                  se_expiry := unix now + session_lifetime (ae_config env) d\<rparr>
      in if outlived (ae_config env) t row then Inl MaxLifetimeExceeded
         else if unix now + session_lifetime (ae_config env) d < unix t then Inl SessionExpired
         else Inr row)"
proof -
  let ?n = "new_session_row (ae_config env) now u d"
  have n: "?n = d\<lparr>se_uuid := u, se_created_at := unix now,
                  se_expiry := unix now + session_lifetime (ae_config env) d\<rparr>"
    by (simp add: new_session_row_def unix_add_seconds [OF assms(3)])
  from assms(1,2) have c: "ck_value c = u" "as_store st' = snd (mem_create_session ?n (as_store st))"
    by (auto simp: create_session_def memory_ops_def Let_def session_cookie_def mem_create_session_def
        split: if_splits)
  then have "mem_get_session (ck_value c) (as_store st') = Inr ?n"
    by (simp add: mem_create_session_def mem_get_session_def gm_update new_session_row_def)
  then show ?thesis
    by (auto simp: get_session_def assms(1) memory_ops_def drop_session_def mem_delete_session_def n Let_def)
qed

theorem session_roundtrip_witness:
  "fst (get_session demo_env 86400000000000 ''u2''
      (snd (create_session demo_env 0 (Some ''u2'') demo_session demo_state)))
     = Inr (demo_session\<lparr>se_uuid := ''u2'', se_created_at := 0, se_expiry := 86400\<rparr>)"
proof -
  obtain c st' where c: "create_session demo_env 0 (Some ''u2'') demo_session demo_state = (Inr c, st')" "ck_value c = ''u2''"
    by (simp add: create_session_def demo_env_def demo_session_def memory_ops_def mem_create_session_def
        Let_def session_cookie_def)
  have l: "session_lifetime (ae_config demo_env) demo_session = 86400" by code_simp
  have "\<not> outlived (ae_config demo_env) 86400000000000
      (demo_session\<lparr>se_uuid := ''u2'', se_created_at := unix 0, se_expiry := unix 0 + 86400\<rparr>)" by code_simp
  moreover have "unix 0 = 0" "unix 86400000000000 = 86400" by (simp_all add: unix_def)
  ultimately show ?thesis using session_roundtrip [OF demo_ops c(1), where t = 86400000000000] by (simp add: c l Let_def)
qed

text \<open>
  Over every store that keeps the contract: a refresh touches no session but its own, and
  of its own it changes at most the expiry, which never moves back and is never later than two
  refresh thresholds from now (unless it already was); for an expiry of at most an hour that is
  at most the configured expiry.
\<close>

theorem refresh_only_extends:
  assumes "session_repo (ae_ops env) good sess" "good (as_store st)"
    "0 \<le> au_session_expiry (cfg_auth (ae_config env))"
    "refresh_session env now u st = (r, st')" "sess (as_store st') v = Some y"
  shows "\<exists>x. sess (as_store st) v = Some x \<and> y = x\<lparr>se_expiry := se_expiry y\<rparr> \<and> (v \<noteq> u \<longrightarrow> y = x) \<and>
     se_expiry x \<le> se_expiry y \<and>
     (se_expiry y = se_expiry x \<or> se_expiry y \<le> unix now + 2 * refresh_threshold (ae_config env)) \<and>
     (au_session_expiry (cfg_auth (ae_config env)) \<le> 3600 \<longrightarrow>
        2 * refresh_threshold (ae_config env) \<le> au_session_expiry (cfg_auth (ae_config env)))"
proof -
  note e = session_repo.refresh_session_effect [OF assms(1) refl assms(2,4)]
  note b = refresh_threshold_bounds [OF assms(3)]
  show ?thesis
  proof (cases "sess (as_store st) v = Some y")
    case True
    with b show ?thesis by (intro exI [of _ y]) simp
  next
    case False
    with e assms(5) have "v = u" by auto
    with e assms(5) False b show ?thesis by auto
  qed
qed

lemma demo_session_repo: "session_repo (ae_ops demo_env) mem_inv mem_sess"
  using demo_repo by simp

theorem refresh_only_extends_witness:
  "\<exists>x. mem_sess (as_store stored_state) ''u1'' = Some x \<and> se_expiry x \<le> 3700"
proof -
  obtain r st' where r: "refresh_session demo_env 50000000000 ''u1'' stored_state = (r, st')" by fastforce
  have "mem_sess (as_store (snd (refresh_session demo_env 50000000000 ''u1'' stored_state))) ''u1''
      = Some (demo_session\<lparr>se_expiry := 3700\<rparr>)" by code_simp
  then have y: "mem_sess (as_store st') ''u1'' = Some (demo_session\<lparr>se_expiry := 3700\<rparr>)" by (simp add: r)
  have "0 \<le> au_session_expiry (cfg_auth (ae_config demo_env))" by code_simp
  from refresh_only_extends [OF demo_session_repo stored_inv this r y] show ?thesis by auto
qed

text \<open>
  C27: No number of refreshes, at whatever times, lets a session live past the configured
  maximum: once the maximum lifetime after its creation is over, \<open>GetSession\<close> rejects it.
\<close>

theorem refresh_cannot_outlive_maximum:
  assumes "session_repo (ae_ops env) good sess" "good (as_store st)"
    "sess (as_store st) u = Some x" "se_created_at x \<noteq> 0"
    "au_session_max_lifetime (cfg_auth (ae_config env)) \<noteq> 0"
    "au_session_max_lifetime (cfg_auth (ae_config env)) < unix t - se_created_at x"
  shows "\<forall>y. fst (get_session env t u (fold (\<lambda>t st. snd (refresh_session env t u st)) ts st)) \<noteq> Inr y"
proof (intro allI notI)
  fix y
  let ?st = "fold (\<lambda>t st. snd (refresh_session env t u st)) ts st"
  assume "fst (get_session env t u ?st) = Inr y"
  then obtain st' where g: "get_session env t u ?st = (Inr y, st')" by (metis prod.collapse)
  note many = session_repo.refresh_many [OF assms(1) refl assms(2), of u ts]
  note ok = session_repo.get_session_ok [OF assms(1) refl conjunct1 [OF many] g]
  from ok many obtain z where "sess (as_store st) u = Some z" "y = z\<lparr>se_expiry := se_expiry y\<rparr>" by blast
  with assms(3) have "se_created_at y = se_created_at x" by (metis option.inject session.select_convs(9)
        session.surjective session.update_convs(8))
  with assms(4-6) ok show False by (simp add: outlived_def)
qed

definition short_lived_env :: "memory_store auth_env" where
  "short_lived_env = demo_env\<lparr>ae_config := default_configuration\<lparr>cfg_auth :=
     (cfg_auth default_configuration)\<lparr>au_session_max_lifetime := 60\<rparr>\<rparr>\<rparr>"

theorem refresh_cannot_outlive_maximum_witness:
  "\<forall>y. fst (get_session short_lived_env 80000000000 ''u1''
     (fold (\<lambda>t st. snd (refresh_session short_lived_env t ''u1'' st)) [20000000000, 60000000000] stored_state)) \<noteq> Inr y"
proof -
  have repo: "session_repo (ae_ops short_lived_env) mem_inv mem_sess"
    using demo_repo by (simp add: short_lived_env_def)
  have "mem_sess (as_store stored_state) ''u1'' = Some demo_session" by code_simp
  moreover have "se_created_at demo_session \<noteq> 0"
    "au_session_max_lifetime (cfg_auth (ae_config short_lived_env)) \<noteq> 0"
    "au_session_max_lifetime (cfg_auth (ae_config short_lived_env)) < unix 80000000000 - se_created_at demo_session"
    by code_simp+
  ultimately show ?thesis using refresh_cannot_outlive_maximum [OF repo stored_inv] by blast
qed

end
