(* ===== verification/Http.thy ===== *)
theory Http
  imports Auth "HOL-Library.List_Lexorder" "HOL-Library.Char_ord"
begin

text \<open>
  What the handlers read of a request and what they answer, and the parts of \<open>net/http\<close>,
  \<open>net/url\<close>, \<open>encoding/json\<close> and the web framework they use for it: headers, cookies,
  redirects, query strings and the binding of JSON bodies. A request holds the parsed parts
  the handlers ask for; a response collects what a handler writes.
\<close>

section \<open>Headers\<close>

text \<open>Pairs in the order they were added, with canonical names.\<close>

type_synonym headers = "(string \<times> string) list"

text \<open>\<open>Context.Header\<close> sets a header, and removes it when the value is empty.\<close>

definition set_header :: "string \<Rightarrow> string \<Rightarrow> headers \<Rightarrow> headers" where
  "set_header k v hs =
     (let others = filter (\<lambda>(k', _). k' \<noteq> canonical_header_key k) hs
      in if v = [] then others else others @ [(canonical_header_key k, v)])"

definition add_header :: "string \<Rightarrow> string \<Rightarrow> headers \<Rightarrow> headers" where
  "add_header k v hs = hs @ [(canonical_header_key k, v)]"

text \<open>\<open>Header.Get\<close>: the first value, empty when there is none.\<close>

definition get_header :: "string \<Rightarrow> headers \<Rightarrow> string" where
  "get_header k hs = (case map_of hs (canonical_header_key k) of None \<Rightarrow> [] | Some v \<Rightarrow> v)"

lemma map_of_filter_neq: "map_of (filter (\<lambda>(k', _). k' \<noteq> k) hs) j = (if j = k then None else map_of hs j)"
  by (induction hs) auto

lemma get_set_header:
  "get_header k (set_header k' v hs) =
     (if canonical_header_key k = canonical_header_key k' then v else get_header k hs)"
  by (simp add: get_header_def set_header_def Let_def map_of_filter_neq map_add_def split: option.split)

section \<open>Requests and responses\<close>

text \<open>
  Cookies are given by name with their unescaped values, the query and the form with decoded
  names and values in order; \<open>rq_json\<close> is the body as JSON, \<open>None\<close> when it is not.
\<close>

record http_request =
  rq_method :: string
  rq_host :: string
  rq_path :: string
  rq_headers :: headers
  rq_query :: "(string \<times> string) list"
  rq_form :: "(string \<times> string) list"
  rq_json :: "json option"
  rq_content_type :: string
  rq_cookies :: "(string, string) gomap"
  rq_basic_auth :: "(string \<times> string) option"
  rq_client_ip :: string

definition empty_request :: http_request where
  "empty_request = \<lparr>rq_method = ''GET'', rq_host = [], rq_path = ''/'', rq_headers = [], rq_query = [],
     rq_form = [], rq_json = None, rq_content_type = [], rq_cookies = [], rq_basic_auth = None,
     rq_client_ip = ''10.0.0.1''\<rparr>"

text \<open>\<open>c.Query\<close> and \<open>c.PostForm\<close>: the first value of a name.\<close>

definition first_value :: "(string \<times> string) list \<Rightarrow> string \<Rightarrow> string" where
  "first_value vs k = (case map_of vs k of None \<Rightarrow> [] | Some v \<Rightarrow> v)"

datatype body =
    NoBody
  | JsonBody json
  | TextBody string
  | RedirectTo string

record response =
  rs_status :: int
  rs_headers :: headers
  rs_cookies :: "cookie list"
  rs_body :: body

definition empty_response :: response where
  "empty_response = \<lparr>rs_status = 200, rs_headers = [], rs_cookies = [], rs_body = NoBody\<rparr>"

definition reply_json :: "int \<Rightarrow> json \<Rightarrow> response \<Rightarrow> response" where
  "reply_json status j rs = rs\<lparr>rs_status := status, rs_body := JsonBody j\<rparr>"

definition reply_redirect :: "int \<Rightarrow> string \<Rightarrow> response \<Rightarrow> response" where
  "reply_redirect status url rs = rs\<lparr>rs_status := status, rs_body := RedirectTo url\<rparr>"

text \<open>The body most handlers answer with: \<open>gin.H{status, message}\<close>.\<close>

definition message_json :: "int \<Rightarrow> string \<Rightarrow> json" where
  "message_json status msg = JObject [(''status'', JNumber status), (''message'', JString msg)]"

definition reply_message :: "int \<Rightarrow> string \<Rightarrow> response \<Rightarrow> response" where
  "reply_message status msg rs = reply_json status (message_json status msg) rs"

definition with_header :: "string \<Rightarrow> string \<Rightarrow> response \<Rightarrow> response" where
  "with_header k v rs = rs\<lparr>rs_headers := set_header k v (rs_headers rs)\<rparr>"

definition with_added_header :: "string \<Rightarrow> string \<Rightarrow> response \<Rightarrow> response" where
  "with_added_header k v rs = rs\<lparr>rs_headers := add_header k v (rs_headers rs)\<rparr>"

definition with_cookie :: "cookie \<Rightarrow> response \<Rightarrow> response" where
  "with_cookie c rs = rs\<lparr>rs_cookies := rs_cookies rs @ [c]\<rparr>"

lemmas reply_defs = reply_json_def reply_redirect_def reply_message_def with_header_def
  with_added_header_def with_cookie_def empty_response_def


section \<open>Query strings\<close>

definition unreserved :: "char \<Rightarrow> bool" where
  "unreserved c \<longleftrightarrow> byte_in 48 57 c \<or> byte_in 65 90 c \<or> byte_in 97 122 c \<or> c \<in> set ''-_.~''"

definition hex_upper :: "int \<Rightarrow> char" where
  "hex_upper n = char_of (if n < 10 then 48 + n else 55 + n)"

fun query_escape :: "string \<Rightarrow> string" where
  "query_escape [] = []"
| "query_escape (c # s) =
     (if unreserved c then c # query_escape s
      else if c = CHR '' '' then CHR ''+'' # query_escape s
      else CHR ''%'' # hex_upper (of_char c div 16) # hex_upper (of_char c mod 16) # query_escape s)"

definition set_value :: "string \<Rightarrow> string \<Rightarrow> (string \<times> string) list \<Rightarrow> (string \<times> string) list" where
  "set_value k v vs = filter (\<lambda>(k', _). k' \<noteq> k) vs @ [(k, v)]"

text \<open>\<open>Values.Encode\<close>: sorted by name.\<close>

definition encode_values :: "(string \<times> string) list \<Rightarrow> string" where
  "encode_values vs =
     join_with ''&'' (map (\<lambda>(k, v). query_escape k @ ''='' @ query_escape v) (sort_key fst vs))"

definition bool_value :: "bool \<Rightarrow> string" where
  "bool_value b = (if b then ''true'' else ''false'')"

section \<open>Reading a query string back\<close>

text \<open>The decoding of \<open>net/url\<close>, for stating what an encoded query carries.\<close>

definition hex_digit :: "char \<Rightarrow> int option" where
  "hex_digit c =
     (let n = of_char c
      in if 48 \<le> n \<and> n \<le> 57 then Some (n - 48)
         else if 65 \<le> n \<and> n \<le> 70 then Some (n - 55)
         else if 97 \<le> n \<and> n \<le> 102 then Some (n - 87) else None)"

fun query_unescape :: "string \<Rightarrow> string option" where
  "query_unescape [] = Some []"
| "query_unescape (c # s) =
     (if c = CHR ''+'' then map_option ((#) (CHR '' '')) (query_unescape s)
      else if c = CHR ''%'' then
        (case s of
           a # b # s' \<Rightarrow>
             (case (hex_digit a, hex_digit b, query_unescape s') of
                (Some x, Some y, Some r) \<Rightarrow> Some (char_of (16 * x + y) # r)
              | _ \<Rightarrow> None)
         | _ \<Rightarrow> None)
      else map_option ((#) c) (query_unescape s))"

definition decode_pair :: "string \<Rightarrow> (string \<times> string) option" where
  "decode_pair p =
     (let (k, v) = (case cut_at (CHR ''='') p of None \<Rightarrow> (p, []) | Some kv \<Rightarrow> kv)
      in case (query_unescape k, query_unescape v) of
           (Some a, Some b) \<Rightarrow> Some (a, b)
         | _ \<Rightarrow> None)"

definition decode_values :: "string \<Rightarrow> (string \<times> string) list option" where
  "decode_values s = (if s = [] then Some [] else all_some (map decode_pair (split_on (CHR ''&'') s)))"

lemma hex_round_trip: "0 \<le> n \<Longrightarrow> n < 16 \<Longrightarrow> hex_digit (hex_upper n) = Some n"
  by (simp add: hex_digit_def hex_upper_def Let_def take_bit_eq_mod)

lemma of_char_bounds: "0 \<le> (of_char c :: int)" "(of_char c :: int) < 256"
  by (simp_all add: of_char_def)

lemma char_of_of_char: "char_of (16 * (of_char c div 16) + of_char c mod 16 :: int) = c"
  by simp

lemma unreserved_plain: "unreserved c \<Longrightarrow> c \<noteq> CHR ''+'' \<and> c \<noteq> CHR ''%'' \<and> c \<noteq> CHR ''&'' \<and> c \<noteq> CHR ''=''"
  by (auto simp: unreserved_def byte_in_def)

lemma query_unescape_escape: "query_unescape (query_escape s) = Some s"
proof (induction s)
  case (Cons c s)
  have "hex_digit (hex_upper (of_char c div 16)) = Some (of_char c div 16)"
    "hex_digit (hex_upper (of_char c mod 16)) = Some (of_char c mod 16)"
    using of_char_bounds [of c] by (intro hex_round_trip; simp)+
  with Cons have e: "query_unescape (CHR ''%'' # hex_upper (of_char c div 16) # hex_upper (of_char c mod 16)
      # query_escape s) = Some (c # s)"
    by (simp add: char_of_of_char)
  show ?case
  proof (cases "unreserved c")
    case True
    with Cons show ?thesis by (simp add: unreserved_plain)
  next
    case False
    with Cons show ?thesis by (cases "c = CHR '' ''") (simp, simp only: query_escape.simps if_False e)
  qed
qed simp

lemma hex_upper_plain: "0 \<le> n \<Longrightarrow> n < 16 \<Longrightarrow> hex_upper n \<noteq> CHR ''&'' \<and> hex_upper n \<noteq> CHR ''=''"
  using hex_round_trip [of n] by (auto simp: hex_digit_def)

lemma query_escape_plain: "CHR ''&'' \<notin> set (query_escape s) \<and> CHR ''='' \<notin> set (query_escape s)"
proof (induction s)
  case (Cons c s)
  have "hex_upper (of_char c div 16) \<noteq> CHR ''&''" "hex_upper (of_char c mod 16) \<noteq> CHR ''&''"
    "hex_upper (of_char c div 16) \<noteq> CHR ''=''" "hex_upper (of_char c mod 16) \<noteq> CHR ''=''"
    using of_char_bounds [of c] hex_upper_plain by simp_all
  with Cons show ?case by (auto dest: unreserved_plain)
qed simp

lemma decode_pair_escape: "decode_pair (query_escape k @ ''='' @ query_escape v) = Some (k, v)"
  using query_escape_plain [of k]
  by (simp add: decode_pair_def cut_at_append query_unescape_escape)

text \<open>An encoded query decodes to the values it was made of, sorted by name.\<close>

lemma decode_encode_values: "decode_values (encode_values vs) = Some (sort_key fst vs)"
proof (cases "vs = []")
  case True
  then show ?thesis by (simp add: decode_values_def encode_values_def)
next
  case False
  let ?f = "\<lambda>(k, v). query_escape k @ ''='' @ query_escape v"
  let ?ps = "map ?f (sort_key fst vs)"
  have "sort_key fst vs \<noteq> []" using False by (metis set_empty set_sort)
  then have ne: "?ps \<noteq> []" by simp
  have "\<forall>p\<in>set ?ps. CHR ''&'' \<notin> set p" using query_escape_plain by auto
  then have s: "split_on (CHR ''&'') (encode_values vs) = ?ps"
    unfolding encode_values_def using ne by (simp add: split_join)
  have "encode_values vs \<noteq> []"
    using s ne by (auto simp: encode_values_def)
  have "all_some (map (\<lambda>x. decode_pair (?f x)) (sort_key fst vs)) = Some (map (\<lambda>x. x) (sort_key fst vs))"
    using decode_pair_escape by (intro all_some_map) auto
  with s \<open>encode_values vs \<noteq> []\<close> show ?thesis
    by (simp add: decode_values_def comp_def)
qed

section \<open>JSON bodies\<close>

text \<open>
  A string field of a struct: the keys of the object are matched by name, else without regard
  to case; null leaves the field, another type is an error, the last one wins.
\<close>

fun bind_field :: "golib \<Rightarrow> string \<Rightarrow> (string \<times> json) list \<Rightarrow> string \<Rightarrow> string option" where
  "bind_field lib name [] acc = Some acc"
| "bind_field lib name ((k, v) # fs) acc =
     (if k = name \<or> lib_equal_fold lib k name
      then (case v of
              JString s \<Rightarrow> bind_field lib name fs s
            | JNull \<Rightarrow> bind_field lib name fs acc
            | _ \<Rightarrow> None)
      else bind_field lib name fs acc)"

definition bind_json :: "golib \<Rightarrow> string list \<Rightarrow> json option \<Rightarrow> string list option" where
  "bind_json lib names body =
     (case body of
        Some JNull \<Rightarrow> Some (map (\<lambda>_. []) names)
      | Some (JObject fs) \<Rightarrow> all_some (map (\<lambda>n. bind_field lib n fs []) names)
      | _ \<Rightarrow> None)"

end
