(* ===== verification/Middleware.thy ===== *)
theory Middleware
  imports AuthSessions Http
begin

text \<open>
  The middleware that decides who a request comes from,
  \<open>internal/middleware/context_middleware.go\<close>: a session cookie, then HTTP basic
  authentication, then the Tailscale address. Its result is the value stored under the key
  \<open>context\<close>, the headers and cookies set on the response and the new state of the
  authentication service; a panic keeps the state reached.
\<close>

section \<open>Paths without a context\<close>

definition context_skip_paths_prefix :: "string list" where
  "context_skip_paths_prefix =
     [''GET /api/context/app'',
      ''GET /api/healthz'',
      ''HEAD /api/healthz'',
      ''GET /api/oauth/url'',
      ''GET /api/oauth/callback'',
      ''GET /api/oidc/clients'',
      ''POST /api/oidc/token'',
      ''GET /api/oidc/userinfo'',
      ''POST /api/oidc/userinfo'',
      ''GET /resources'',
      ''POST /api/user/login'',
      ''GET /.well-known/openid-configuration'',
      ''GET /.well-known/jwks.json'']"

definition is_ignore_path :: "string \<Rightarrow> bool" where
  "is_ignore_path path \<longleftrightarrow> list_ex (\<lambda>p. prefix p path) context_skip_paths_prefix"

section \<open>Tailscale\<close>

text \<open>The outer \<open>None\<close> is the error.\<close>

definition middleware_whois :: "'s auth_env \<Rightarrow> string \<Rightarrow> tailscale_context option option" where
  "middleware_whois env addr =
     (case ae_tailscale env of
        None \<Rightarrow> Some None
      | Some lc \<Rightarrow>
          (case tailscale_whois lc addr of
             None \<Rightarrow> None
           | Some None \<Rightarrow> Some None
           | Some (Some w) \<Rightarrow>
               Some (Some \<lparr>bc_username = wr_node_name w, bc_name = wr_display_name w,
                           bc_email = wr_login_name w, tc_user_id = wr_user_id w\<rparr>)))"

section \<open>Cookie authentication\<close>

datatype cookie_error =
    SessionError session_error
  | LocalUserNotFound
  | WhoisError
  | WhoisNoResult
  | LdapSearchError search_error
  | NotAnLdapUser
  | LdapDetailsError ldap_user_error
  | OAuthProviderGone
  | EmailNotWhitelisted
  | RefreshError session_error

definition refreshed ::
  "'s auth_env \<Rightarrow> int \<Rightarrow> string \<Rightarrow> user_context \<Rightarrow> 's auth_state \<Rightarrow>
     (cookie_error + user_context \<times> cookie option) outcome \<times> 's auth_state"
where
  "refreshed env now uuid uc st =
     (case refresh_session env now uuid st of
        (Inl e, st') \<Rightarrow> (Returns (Inl (RefreshError e)), st')
      | (Inr ck, st') \<Rightarrow> (Returns (Inr (uc, ck)), st'))"

text \<open>The attributes of a local user, with the defaults for the name and the email.\<close>

definition local_attributes :: "'s auth_env \<Rightarrow> local_user \<Rightarrow> user_attributes" where
  "local_attributes env user =
     (let a = user_attributes user;
          a = (if ua_name a = [] then a\<lparr>ua_name := capitalize (ae_lib env) (user_username user)\<rparr> else a)
      in if ua_email a = []
         then a\<lparr>ua_email := compile_user_email (ae_lib env) (user_username user) (rt_cookie_domain (ae_runtime env))\<rparr>
         else a)"

text \<open>The context of an LDAP user: groups and contact data from the directory.\<close>

definition ldap_details :: "'s auth_env \<Rightarrow> ldap_context \<Rightarrow> string list \<Rightarrow> string \<Rightarrow> ldap_context" where
  "ldap_details env lc groups email =
     lc\<lparr>dc_groups := groups,
        bc_name := capitalize (ae_lib env) (bc_username lc),
        bc_email := (if email \<noteq> [] then email
                     else compile_user_email (ae_lib env) (bc_username lc) (rt_cookie_domain (ae_runtime env)))\<rparr>"

definition cookie_auth ::
  "'s auth_env \<Rightarrow> string visit_order \<Rightarrow> int \<Rightarrow> string \<Rightarrow> string \<Rightarrow> 's auth_state \<Rightarrow>
     (cookie_error + user_context \<times> cookie option) outcome \<times> 's auth_state"
where
  "cookie_auth env ord now uuid ip st =
     (case get_session env now uuid st of
        (Inl e, st1) \<Rightarrow> (Returns (Inl (SessionError e)), st1)
      | (Inr sess, st1) \<Rightarrow>
          let uc = new_from_session sess
          in case uc_provider uc of
               ProviderLocal \<Rightarrow>
                 (case uc_local uc of
                    None \<Rightarrow> (Panics, st1)
                  | Some l \<Rightarrow>
                      if lc_totp_pending l then (Returns (Inr (uc, None)), st1)
                      else (case get_local_user (ae_runtime env) (bc_username l) of
                              None \<Rightarrow> (Returns (Inl LocalUserNotFound), st1)
                            | Some user \<Rightarrow>
                                refreshed env now uuid
                                  (uc\<lparr>uc_local := Some (l\<lparr>lc_attributes := local_attributes env user\<rparr>)\<rparr>) st1))
             | ProviderTailscale \<Rightarrow>
                 (case middleware_whois env ip of
                    None \<Rightarrow> (Returns (Inl WhoisError), st1)
                  | Some None \<Rightarrow> (Returns (Inl WhoisNoResult), st1)
                  | Some (Some t) \<Rightarrow> refreshed env now uuid (uc\<lparr>uc_tailscale := Some t\<rparr>) st1)
             | ProviderLDAP \<Rightarrow>
                 (case uc_ldap uc of
                    None \<Rightarrow> (Panics, st1)
                  | Some lc \<Rightarrow>
                      (case search_user env st1 (bc_username lc) of
                         Inl e \<Rightarrow> (Returns (Inl (LdapSearchError e)), st1)
                       | Inr search \<Rightarrow>
                           if search_type search \<noteq> UserLDAP then (Returns (Inl NotAnLdapUser), st1)
                           else (case get_ldap_user env ord now (search_username search) st1 of
                                   (Inl e, st2) \<Rightarrow> (Returns (Inl (LdapDetailsError e)), st2)
                                 | (Inr user, st2) \<Rightarrow>
                                     refreshed env now uuid
                                       (uc\<lparr>uc_ldap := Some (ldap_details env lc (lu_groups user) (search_email search))\<rparr>)
                                       st2)))
             | ProviderOAuth \<Rightarrow>
                 (case uc_oauth uc of
                    None \<Rightarrow> (Panics, st1)
                  | Some oc \<Rightarrow>
                      (case get_service (ae_broker env) (oc_id oc) of
                         None \<Rightarrow> (Returns (Inl OAuthProviderGone), st1)
                       | Some _ \<Rightarrow>
                           (case is_email_whitelisted env (oc_id oc) (bc_email oc) of
                              Panics \<Rightarrow> (Panics, st1)
                            | Returns ok \<Rightarrow>
                                if \<not> ok then (Returns (Inl EmailNotWhitelisted), snd (delete_session env now uuid st1))
                                else refreshed env now uuid uc st1)))
             | ProviderBasicAuth \<Rightarrow> refreshed env now uuid uc st1)"

section \<open>Basic authentication\<close>

datatype basic_error =
    BasicSearchError search_error
  | BasicWrongPassword check_error
  | BasicUserNotFound
  | BasicTotpUser
  | BasicLdapDetails ldap_user_error

definition lock_headers :: "golib \<Rightarrow> int \<Rightarrow> int \<Rightarrow> headers" where
  "lock_headers lib now remaining =
     set_header ''x-tinyauth-lock-reset'' (lib_rfc3339 lib (now + seconds remaining))
       (set_header ''x-tinyauth-lock-locked'' ''true'' [])"

definition basic_auth ::
  "'s auth_env \<Rightarrow> string visit_order \<Rightarrow> int \<Rightarrow> string \<Rightarrow> string \<Rightarrow> 's auth_state \<Rightarrow>
     (basic_error + user_context option \<times> headers) \<times> 's auth_state"
where
  "basic_auth env ord now username password st =
     (let lib = ae_lib env; domain = rt_cookie_domain (ae_runtime env);
          (locked, remaining) = is_account_locked env now username st
      in if locked then (Inr (None, lock_headers lib now remaining), st)
         else (case search_user env st username of
                 Inl e \<Rightarrow> (Inl (BasicSearchError e), st)
               | Inr search \<Rightarrow>
                   (case check_user_password env search password st of
                      (Some e, st1) \<Rightarrow>
                        (Inl (BasicWrongPassword e), record_login_attempt env ord now username False st1)
                    | (None, st1) \<Rightarrow>
                        let st2 = record_login_attempt env ord now username True st1
                        in case search_type search of
                             UserLocal \<Rightarrow>
                               (case get_local_user (ae_runtime env) username of
                                  None \<Rightarrow> (Inl BasicUserNotFound, st2)
                                | Some user \<Rightarrow>
                                    if user_totp_secret user \<noteq> [] then (Inl BasicTotpUser, st2)
                                    else
                                      (Inr (Some (zero_user_context
                                         \<lparr>uc_authenticated := True, uc_provider := ProviderLocal,
                                          uc_local := Some
                                            \<lparr>bc_username = user_username user,
                                             bc_name = capitalize lib (user_username user),
                                             bc_email = compile_user_email lib (user_username user) domain,
                                             lc_totp_pending = False, lc_attributes = user_attributes user\<rparr>\<rparr>), []),
                                       st2))
                           | UserLDAP \<Rightarrow>
                               (case get_ldap_user env ord now username st2 of
                                  (Inl e, st3) \<Rightarrow> (Inl (BasicLdapDetails e), st3)
                                | (Inr user, st3) \<Rightarrow>
                                    (Inr (Some (zero_user_context
                                       \<lparr>uc_authenticated := True, uc_provider := ProviderLDAP,
                                        uc_ldap := Some
                                          \<lparr>bc_username = username, bc_name = capitalize lib username,
                                           bc_email = (if search_email search \<noteq> [] then search_email search
                                                       else compile_user_email lib username domain),
                                           dc_groups = lu_groups user\<rparr>\<rparr>), []),
                                     st3)))))"

section \<open>The middleware\<close>

record context_result =
  cr_value :: gin_value
  cr_headers :: headers
  cr_cookies :: "cookie list"

definition no_context :: context_result where
  "no_context = \<lparr>cr_value = None, cr_headers = [], cr_cookies = []\<rparr>"

text \<open>What follows when the session cookie gave nothing.\<close>

definition without_session ::
  "'s auth_env \<Rightarrow> string visit_order \<Rightarrow> int \<Rightarrow> http_request \<Rightarrow> 's auth_state \<Rightarrow>
     context_result outcome \<times> 's auth_state"
where
  "without_session env ord now rq st =
     (case rq_basic_auth rq of
        Some (username, password) \<Rightarrow>
          (case basic_auth env ord now username password st of
             (Inl e, st1) \<Rightarrow> (Returns no_context, st1)
           | (Inr (uc, hs), st1) \<Rightarrow> (Returns (no_context\<lparr>cr_value := Some uc, cr_headers := hs\<rparr>), st1))
      | None \<Rightarrow>
          (case middleware_whois env (rq_client_ip rq) of
             Some (Some t) \<Rightarrow>
               (Returns (no_context\<lparr>cr_value := Some (Some (zero_user_context
                  \<lparr>uc_authenticated := False, uc_provider := ProviderTailscale, uc_tailscale := Some t\<rparr>))\<rparr>), st)
           | _ \<Rightarrow> (Returns no_context, st)))"

definition context_middleware ::
  "'s auth_env \<Rightarrow> string visit_order \<Rightarrow> int \<Rightarrow> http_request \<Rightarrow> 's auth_state \<Rightarrow>
     context_result outcome \<times> 's auth_state"
where
  "context_middleware env ord now rq st =
     (if is_ignore_path (rq_method rq @ '' '' @ rq_path rq) then (Returns no_context, st)
      else (case map_of (rq_cookies rq) (rt_session_cookie_name (ae_runtime env)) of
              None \<Rightarrow> without_session env ord now rq st
            | Some uuid \<Rightarrow>
                (case cookie_auth env ord now uuid (rq_client_ip rq) st of
                   (Panics, st1) \<Rightarrow> (Panics, st1)
                 | (Returns (Inr (uc, ck)), st1) \<Rightarrow>
                     (Returns \<lparr>cr_value = Some (Some uc), cr_headers = [],
                               cr_cookies = (case ck of None \<Rightarrow> [] | Some k \<Rightarrow> [k])\<rparr>, st1)
                 | (Returns (Inl _), st1) \<Rightarrow> without_session env ord now rq st1)))"

section \<open>What an authenticated context rests on\<close>

lemma refreshed_context: "refreshed env now u uc st = (Returns (Inr (uc', ck)), st') \<Longrightarrow> uc' = uc"
  by (auto simp: refreshed_def split: prod.splits sum.splits)

text \<open>The checks a live session passes before its context is accepted.\<close>

definition provider_accepts :: "'s auth_env \<Rightarrow> session \<Rightarrow> bool" where
  "provider_accepts env x \<longleftrightarrow>
     (if se_provider x = ''local'' then get_local_user (ae_runtime env) (se_username x) \<noteq> None
      else if se_provider x = ''ldap'' \<or> se_provider x = ''tailscale'' then True
      else get_service (ae_broker env) (se_provider x) \<noteq> None \<and>
           is_email_whitelisted env (se_provider x) (se_email x) = Returns True)"

lemma local_session:
  assumes "se_provider x = ''local''"
  shows "uc_provider (new_from_session x) = ProviderLocal"
    "\<exists>l. uc_local (new_from_session x) = Some l \<and> bc_username l = se_username x \<and>
       lc_totp_pending l = se_totp_pending x"
  using assms by (simp_all add: new_from_session_def Let_def)

lemma ldap_session:
  assumes "se_provider x = ''ldap''"
  shows "uc_provider (new_from_session x) = ProviderLDAP"
    "\<exists>l. uc_ldap (new_from_session x) = Some l \<and> bc_username l = se_username x"
  using assms by (simp_all add: new_from_session_def Let_def)

lemma tailscale_session:
  assumes "se_provider x = ''tailscale''"
  shows "uc_provider (new_from_session x) = ProviderTailscale"
  using assms by (simp add: new_from_session_def Let_def)

lemma oauth_session:
  assumes "se_provider x \<notin> {''local'', ''ldap'', ''tailscale''}"
  shows "uc_provider (new_from_session x) = ProviderOAuth"
    "\<exists>o'. uc_oauth (new_from_session x) = Some o' \<and> bc_username o' = se_username x \<and>
       bc_email o' = se_email x \<and> oc_id o' = se_provider x"
  using assms by (simp_all add: new_from_session_def Let_def)

lemma username_of:
  "uc_provider c = ProviderLocal \<Longrightarrow> uc_local c = Some l \<Longrightarrow> get_username c = bc_username l"
  "uc_provider c = ProviderLDAP \<Longrightarrow> uc_ldap c = Some d \<Longrightarrow> get_username c = bc_username d"
  "uc_provider c = ProviderOAuth \<Longrightarrow> uc_oauth c = Some o' \<Longrightarrow> get_username c = bc_username o'"
  by (simp_all add: get_username_def get_base_context_def base_context.truncate_def)

text \<open>The context a live session gives, by kind of provider.\<close>

definition context_of_session :: "session \<Rightarrow> user_context \<Rightarrow> bool" where
  "context_of_session x uc \<longleftrightarrow>
     wf_context uc \<and> uc_authenticated uc = (\<not> se_totp_pending x) \<and>
     uc_provider uc = uc_provider (new_from_session x) \<and>
     (uc_provider uc \<noteq> ProviderTailscale \<longrightarrow> get_username uc = se_username x)"

lemma cookie_auth_session:
  assumes g: "get_session env now uuid st = (Inr x, st1)"
    and c: "cookie_auth env ord now uuid ip st = (Returns (Inr (uc, ck)), st')"
  shows "context_of_session x uc \<and> (\<not> se_totp_pending x \<longrightarrow> provider_accepts env x)"
proof -
  consider "se_provider x = ''local''" | "se_provider x = ''ldap''" | "se_provider x = ''tailscale''"
    | "se_provider x \<notin> {''local'', ''ldap'', ''tailscale''}" by blast
  then show ?thesis
  proof cases
    case 1
    then obtain l where l: "uc_local (new_from_session x) = Some l" "bc_username l = se_username x"
        "lc_totp_pending l = se_totp_pending x" using local_session(2) by blast
    note p = local_session(1) [OF 1]
    show ?thesis
    proof (cases "se_totp_pending x")
      case True
      with c g l p have "uc = new_from_session x" by (simp add: cookie_auth_def Let_def)
      with True p l show ?thesis by (simp add: context_of_session_def)
    next
      case False
      with c g l p obtain user where u: "get_local_user (ae_runtime env) (se_username x) = Some user"
          "refreshed env now uuid ((new_from_session x)\<lparr>uc_local := Some (l\<lparr>lc_attributes := local_attributes env user\<rparr>)\<rparr>) st1
             = (Returns (Inr (uc, ck)), st')"
        by (auto simp: cookie_auth_def Let_def split: option.splits)
      from refreshed_context [OF u(2)]
      have uc: "uc = (new_from_session x)\<lparr>uc_local := Some (l\<lparr>lc_attributes := local_attributes env user\<rparr>)\<rparr>" .
      then have "get_username uc = se_username x"
        using username_of(1) [of uc "l\<lparr>lc_attributes := local_attributes env user\<rparr>"] p l by simp
      with uc p False u(1) 1 show ?thesis
        by (simp add: context_of_session_def wf_context_def provider_accepts_def)
    qed
  next
    case 2
    then obtain l where l: "uc_ldap (new_from_session x) = Some l" "bc_username l = se_username x"
      using ldap_session(2) by blast
    note p = ldap_session(1) [OF 2]
    from c g l p obtain user :: ldap_user and search :: user_search and st2 where
      "refreshed env now uuid ((new_from_session x)\<lparr>uc_ldap := Some (ldap_details env l (lu_groups user) (search_email search))\<rparr>) st2
         = (Returns (Inr (uc, ck)), st')"
      by (auto simp: cookie_auth_def Let_def split: option.splits sum.splits prod.splits if_splits)
    from refreshed_context [OF this]
    have uc: "uc = (new_from_session x)\<lparr>uc_ldap := Some (ldap_details env l (lu_groups user) (search_email search))\<rparr>" .
    then have "get_username uc = se_username x"
      using username_of(2) [of uc "ldap_details env l (lu_groups user) (search_email search)"] p l
      by (simp add: ldap_details_def)
    with uc p 2 show ?thesis by (simp add: context_of_session_def wf_context_def provider_accepts_def)
  next
    case 3
    note p = tailscale_session [OF 3]
    from c g p obtain t where
      "refreshed env now uuid ((new_from_session x)\<lparr>uc_tailscale := Some t\<rparr>) st1 = (Returns (Inr (uc, ck)), st')"
      by (auto simp: cookie_auth_def Let_def split: option.splits)
    from refreshed_context [OF this] p 3 show ?thesis
      by (simp add: context_of_session_def wf_context_def provider_accepts_def)
  next
    case 4
    then obtain oc where l: "uc_oauth (new_from_session x) = Some oc" "bc_username oc = se_username x"
        "bc_email oc = se_email x" "oc_id oc = se_provider x" using oauth_session(2) by blast
    note p = oauth_session(1) [OF 4]
    from c g l p have
      "get_service (ae_broker env) (se_provider x) \<noteq> None \<and>
       is_email_whitelisted env (se_provider x) (se_email x) = Returns True \<and>
       refreshed env now uuid (new_from_session x) st1 = (Returns (Inr (uc, ck)), st')"
      by (auto simp: cookie_auth_def Let_def split: option.splits outcome.splits if_splits)
    with refreshed_context [of env now uuid "new_from_session x" st1 uc ck st'] p 4 show ?thesis
      by (auto simp: context_of_session_def provider_accepts_def)
  qed
qed

text \<open>What cookie authentication keeps: whatever the operations on the session and the directory keep.\<close>

lemma cookie_auth_keeps:
  assumes get: "Q (snd (get_session env now uuid st))"
    and refresh: "\<And>uc st1. Q st1 \<Longrightarrow> Q (snd (refreshed env now uuid uc st1))"
    and delete: "\<And>st1. Q st1 \<Longrightarrow> Q (snd (delete_session env now uuid st1))"
    and ldap: "\<And>dn st1. Q st1 \<Longrightarrow> Q (snd (get_ldap_user env ord now dn st1))"
  shows "Q (snd (cookie_auth env ord now uuid ip st))"
proof -
  obtain r st1 where g: "get_session env now uuid st = (r, st1)" by fastforce
  with get have s1: "Q st1" by simp
  show ?thesis
  proof (cases r)
    case (Inl e)
    with g s1 show ?thesis by (simp add: cookie_auth_def)
  next
    case (Inr x)
    note c = cookie_auth_def [of env ord now uuid ip st] g Inr
    show ?thesis
    proof (cases "uc_provider (new_from_session x)")
      case ProviderLDAP
      have k: "Q (snd (case get_ldap_user env ord now dn st1 of
           (Inl e, st2) \<Rightarrow> (Returns (Inl (LdapDetailsError e)), st2)
         | (Inr user, st2) \<Rightarrow> refreshed env now uuid (f user) st2))" for dn f
      proof -
        obtain q st2 where q: "get_ldap_user env ord now dn st1 = (q, st2)" by fastforce
        with ldap [OF s1, of dn] have "Q st2" by simp
        with q refresh show ?thesis by (cases q) simp_all
      qed
      from ProviderLDAP show ?thesis
        by (cases "uc_ldap (new_from_session x)"; simp add: c Let_def s1)
          (rename_tac lc, case_tac "search_user env st1 (bc_username lc)"; simp add: s1 k)
    qed (simp_all add: c Let_def s1 refresh delete split: option.split outcome.split)
  qed
qed

text \<open>
  Cookie authentication leaves the limiter, the LDAP connection and the pending logins at OAuth
  providers as they are.
\<close>

definition same_limiter :: "'s auth_state \<Rightarrow> 's auth_state \<Rightarrow> bool" where
  "same_limiter st st' \<longleftrightarrow>
     as_login st' = as_login st \<and> as_lockdown_active st' = as_lockdown_active st \<and>
     as_lockdown_until st' = as_lockdown_until st \<and> as_ldap_identity st' = as_ldap_identity st \<and>
     as_oauth st' = as_oauth st"

lemma same_limiter_refl [simp, intro]: "same_limiter st st"
  by (simp add: same_limiter_def)

lemma same_limiter_trans [trans]: "same_limiter a b \<Longrightarrow> same_limiter b c \<Longrightarrow> same_limiter a c"
  by (simp add: same_limiter_def)

lemma same_limiter_store [simp]: "same_limiter st (st\<lparr>as_store := s\<rparr>)"
  by (simp add: same_limiter_def)

lemma drop_session_limiter: "same_limiter st (snd (drop_session env u e st))"
  by (simp add: drop_session_def split: prod.splits option.splits)

lemma get_session_limiter: "same_limiter st (snd (get_session env now u st))"
  by (simp add: get_session_def drop_session_limiter split: sum.splits)

lemma refresh_session_limiter: "same_limiter st (snd (refresh_session env now u st))"
  by (simp add: refresh_session_def Let_def split: prod.splits sum.splits)

lemma refreshed_limiter: "same_limiter st (snd (refreshed env now u uc st))"
  using refresh_session_limiter [of st env now u] by (auto simp: refreshed_def split: prod.splits sum.splits)

lemma get_ldap_user_limiter: "same_limiter st (snd (get_ldap_user env ord now dn st))"
  by (simp add: get_ldap_user_def same_limiter_def split: option.splits)

lemma delete_session_limiter: "same_limiter st (snd (delete_session env now u st))"
  by (simp add: delete_session_def)

text \<open>What the limiter and the user search read is the same in two such states.\<close>

lemma same_limiter_reads:
  assumes "same_limiter st st'"
  shows "is_account_locked env now n st' = is_account_locked env now n st"
    "search_user env st' n = search_user env st n"
proof -
  from assms have e: "as_login st' = as_login st" "as_lockdown_active st' = as_lockdown_active st"
    "as_lockdown_until st' = as_lockdown_until st" "as_ldap_identity st' = as_ldap_identity st"
    by (simp_all add: same_limiter_def)
  show "is_account_locked env now n st' = is_account_locked env now n st"
    by (simp add: is_account_locked_def is_in_lockdown_def e)
  show "search_user env st' n = search_user env st n"
    unfolding search_user_def e ..
qed

lemma cookie_auth_limiter: "same_limiter st (snd (cookie_auth env ord now uuid ip st))"
  by (rule cookie_auth_keeps)
    (auto intro: same_limiter_trans get_session_limiter refreshed_limiter delete_session_limiter get_ldap_user_limiter)

section \<open>What basic authentication grants\<close>

text \<open>
  The account is not locked, and either it is a local user without a second factor with this
  password, or no local user and the directory accepts the password for the name it finds.
\<close>

definition basic_grants :: "'s auth_env \<Rightarrow> int \<Rightarrow> string \<Rightarrow> string \<Rightarrow> 's auth_state \<Rightarrow> user_context \<Rightarrow> bool" where
  "basic_grants env now n p st uc \<longleftrightarrow>
     \<not> fst (is_account_locked env now n st) \<and> get_username uc = n \<and> wf_context uc \<and>
     (case get_local_user (ae_runtime env) n of
        Some usr \<Rightarrow> lib_bcrypt (ae_lib env) (user_password usr) p \<and> user_totp_secret usr = [] \<and>
          uc_provider uc = ProviderLocal
      | None \<Rightarrow> \<exists>ls dn email. ae_ldap env = Some ls \<and>
          ldap_get_user_info (ae_lib env) ls (as_ldap_identity st) n = Some (dn, email) \<and>
          fst (ldap_bind ls dn p) \<and> uc_provider uc = ProviderLDAP)"

lemma basic_grants_same:
  "same_limiter st st' \<Longrightarrow> basic_grants env now n p st' uc = basic_grants env now n p st uc"
  using same_limiter_reads(1) [of st st' env now n]
  by (simp add: basic_grants_def same_limiter_def cong: option.case_cong)

lemma get_local_user_name: "get_local_user rt n = Some u \<Longrightarrow> user_username u = n"
  by (auto simp: get_local_user_def find_Some_iff)

lemma basic_auth_grants:
  assumes b: "basic_auth env ord now n p st = (Inr (Some uc, hs), st')"
  shows "basic_grants env now n p st uc"
proof -
  from b have unlocked: "\<not> fst (is_account_locked env now n st)"
    by (auto simp: basic_auth_def Let_def split: prod.splits if_splits)
  then obtain rem where lk: "is_account_locked env now n st = (False, rem)"
    by (cases "is_account_locked env now n st") auto
  show ?thesis
  proof (cases "get_local_user (ae_runtime env) n")
    case (Some usr)
    then have s: "search_user env st n = Inr \<lparr>search_username = n, search_email = [], search_type = UserLocal\<rparr>"
      by (simp add: search_user_def)
    from b lk s Some have "lib_bcrypt (ae_lib env) (user_password usr) p" "user_totp_secret usr = []"
      and uc: "uc = zero_user_context
        \<lparr>uc_authenticated := True, uc_provider := ProviderLocal,
         uc_local := Some \<lparr>bc_username = user_username usr, bc_name = capitalize (ae_lib env) (user_username usr),
           bc_email = compile_user_email (ae_lib env) (user_username usr) (rt_cookie_domain (ae_runtime env)),
           lc_totp_pending = False, lc_attributes = user_attributes usr\<rparr>\<rparr>"
      by (auto simp: basic_auth_def Let_def check_user_password_def split: if_splits)
    with Some unlocked get_local_user_name [OF Some] show ?thesis
      by (simp add: basic_grants_def get_username_def get_base_context_def base_context.truncate_def wf_context_def)
  next
    case None
    from b lk None obtain ls dn email where s: "ae_ldap env = Some ls"
        "ldap_get_user_info (ae_lib env) ls (as_ldap_identity st) n = Some (dn, email)"
      by (auto simp: basic_auth_def search_user_def Let_def split: option.splits)
    from b lk None s have "fst (ldap_bind ls dn p)"
      by (auto simp: basic_auth_def search_user_def check_user_password_def Let_def split: prod.splits if_splits bool.splits)
    moreover from b lk None s have "uc_provider uc = ProviderLDAP" "get_username uc = n" "wf_context uc"
      by (auto simp: basic_auth_def search_user_def Let_def get_username_def get_base_context_def
          base_context.truncate_def wf_context_def split: prod.splits option.splits sum.splits)
    ultimately show ?thesis using None unlocked s by (simp add: basic_grants_def)
  qed
qed

lemma without_session_grants:
  assumes "without_session env ord now rq st = (Returns r, st')" "cr_value r = Some (Some uc)" "uc_authenticated uc"
  shows "\<exists>n p. rq_basic_auth rq = Some (n, p) \<and> basic_grants env now n p st uc"
proof (cases "rq_basic_auth rq")
  case None
  have "no_context = r" if "(Returns no_context, st) = (Returns r, st')" using that by simp
  with assms None show ?thesis
    by (auto simp: without_session_def no_context_def split: option.splits)
next
  case (Some np)
  obtain n p where np: "np = (n, p)" by fastforce
  obtain q st1 where q: "basic_auth env ord now n p st = (q, st1)" by fastforce
  from assms Some np q obtain hs where "q = Inr (Some uc, hs)"
    by (cases q) (auto simp: without_session_def no_context_def)
  with q Some np basic_auth_grants show ?thesis by blast
qed

lemma basic_auth_local:
  assumes "\<not> fst (is_account_locked env now n st)" "get_local_user (ae_runtime env) n = Some usr"
    "lib_bcrypt (ae_lib env) (user_password usr) p" "user_totp_secret usr \<noteq> []"
  shows "basic_auth env ord now n p st = (Inl BasicTotpUser, record_login_attempt env ord now n True st)"
proof -
  obtain r where "is_account_locked env now n st = (False, r)"
    using assms(1) by (cases "is_account_locked env now n st") auto
  with assms(2-4) show ?thesis by (simp add: basic_auth_def search_user_def check_user_password_def Let_def)
qed

lemma record_success_entry:
  assumes "\<not> limiter_off (ae_config env)"
  shows "\<exists>e. cache_get t (as_login (record_login_attempt env ord now n True st)) n = Some e \<and>
     la_failed_attempts e = 0 \<and> la_locked_until e = zero_time"
  using assms
  by (simp add: record_login_attempt_def cache_get_set_same next_attempt_def Let_def split: option.split)

end
