(* ===== verification/SessionFlow.thy ===== *)
theory SessionFlow
  imports Middleware
begin

text \<open>
  What a request can do to the stored sessions. \<open>flow good sess P st st'\<close> says that a step keeps the
  invariant of the store and that every session after it is one from before, with the expiry
  possibly moved, or a new one that satisfies \<open>P\<close>. The steps of the middleware create none.
\<close>

section \<open>Flows\<close>

definition grows :: "(session \<Rightarrow> bool) \<Rightarrow> (string \<Rightarrow> session option) \<Rightarrow> (string \<Rightarrow> session option) \<Rightarrow> bool" where
  "grows P m m' \<longleftrightarrow>
     (\<forall>v y. m' v = Some y \<longrightarrow> (\<exists>x. m v = Some x \<and> y = x\<lparr>se_expiry := se_expiry y\<rparr>) \<or> P y)"

definition flow ::
  "('s \<Rightarrow> bool) \<Rightarrow> ('s \<Rightarrow> string \<Rightarrow> session option) \<Rightarrow> (session \<Rightarrow> bool) \<Rightarrow> 's auth_state \<Rightarrow> 's auth_state \<Rightarrow> bool"
where
  "flow good sess P st st' \<longleftrightarrow>
     good (as_store st') \<and> grows P (sess (as_store st)) (sess (as_store st'))"

text \<open>A predicate on sessions that a refresh cannot change.\<close>

definition expiry_free :: "(session \<Rightarrow> bool) \<Rightarrow> bool" where
  "expiry_free P \<longleftrightarrow> (\<forall>x e. P (x\<lparr>se_expiry := e\<rparr>) = P x)"

lemma grows_refl [simp]: "grows P m m"
  unfolding grows_def by (metis session.surjective session.update_convs(8))

lemma same_but_expiry:
  fixes x y z :: session
  shows "y = x\<lparr>se_expiry := se_expiry y\<rparr> \<Longrightarrow> z = y\<lparr>se_expiry := se_expiry z\<rparr> \<Longrightarrow> z = x\<lparr>se_expiry := se_expiry z\<rparr>"
  by (metis session.surjective session.update_convs(8))

lemma expiry_freeD:
  fixes x y :: session
  shows "expiry_free P \<Longrightarrow> y = x\<lparr>se_expiry := se_expiry y\<rparr> \<Longrightarrow> P y = P x"
  by (metis expiry_free_def)

lemma grows_trans:
  assumes "grows P m m1" "grows P m1 m2" "expiry_free P"
  shows "grows P m m2"
  unfolding grows_def
proof (intro allI impI)
  fix v z
  assume "m2 v = Some z"
  with assms(2) consider y where "m1 v = Some y" "z = y\<lparr>se_expiry := se_expiry z\<rparr>" | "P z"
    unfolding grows_def by blast
  then show "(\<exists>x. m v = Some x \<and> z = x\<lparr>se_expiry := se_expiry z\<rparr>) \<or> P z"
  proof cases
    case 1
    with assms(1) consider x where "m v = Some x" "y = x\<lparr>se_expiry := se_expiry y\<rparr>" | "P y"
      unfolding grows_def by blast
    then show ?thesis
    proof cases
      case 1
      with same_but_expiry [OF this(2) \<open>z = _\<close>] show ?thesis by blast
    next
      case 2
      with expiry_freeD [OF assms(3) \<open>z = _\<close>] show ?thesis by blast
    qed
  qed blast
qed

lemma grows_mono: "grows P m m' \<Longrightarrow> (\<And>x. P x \<Longrightarrow> Q x) \<Longrightarrow> grows Q m m'"
  unfolding grows_def by blast

lemma grows_subset: "(\<And>v y. m' v = Some y \<Longrightarrow> m v = Some y) \<Longrightarrow> grows P m m'"
  unfolding grows_def by (metis session.surjective session.update_convs(8))

lemma grows_upd: "P x \<Longrightarrow> grows P m (m(u \<mapsto> x))"
  using grows_refl [of P m] by (simp add: grows_def)

lemma flow_refl [simp]: "flow good sess P st st \<longleftrightarrow> good (as_store st)"
  by (simp add: flow_def)

lemma flow_store: "as_store st' = as_store st \<Longrightarrow> flow good sess P st st' \<longleftrightarrow> good (as_store st)"
  by (simp add: flow_def)

lemma flow_trans:
  "flow good sess P st st1 \<Longrightarrow> flow good sess P st1 st2 \<Longrightarrow> expiry_free P \<Longrightarrow> flow good sess P st st2"
  unfolding flow_def using grows_trans by blast

lemma flow_mono: "flow good sess P st st' \<Longrightarrow> (\<And>x. P x \<Longrightarrow> Q x) \<Longrightarrow> flow good sess Q st st'"
  unfolding flow_def using grows_mono by blast

lemma flow_inv: "flow good sess P st st' \<Longrightarrow> good (as_store st')"
  by (simp add: flow_def)

text \<open>A predicate that every session satisfies stays satisfied.\<close>

lemma flow_preserves:
  assumes "flow good sess P st st'" "expiry_free Q" "\<And>x. P x \<Longrightarrow> Q x" "\<forall>v x. sess (as_store st) v = Some x \<longrightarrow> Q x"
  shows "\<forall>v x. sess (as_store st') v = Some x \<longrightarrow> Q x"
  using assms expiry_freeD [OF assms(2)] unfolding flow_def grows_def by blast

lemma expiry_free_simps [simp]: "expiry_free (\<lambda>_. False)" "expiry_free (\<lambda>_. True)"
  by (simp_all add: expiry_free_def)

section \<open>The operations on sessions\<close>

lemma record_attempt_store [simp]: "as_store (record_login_attempt env ord now who ok st) = as_store st"
  by (simp add: record_login_attempt_def Let_def)

lemma check_password_store [simp]: "as_store (snd (check_user_password env search p st)) = as_store st"
  by (simp add: check_user_password_def split: user_search_type.split option.split prod.split bool.split)

lemma get_ldap_user_store [simp]: "as_store (snd (get_ldap_user env ord now dn st)) = as_store st"
  by (simp add: get_ldap_user_def split: option.split)

lemma basic_auth_store: "as_store (snd (basic_auth env ord now n p st)) = as_store st"
proof -
  have g: "as_store st2 = as_store st1" if "get_ldap_user env ord now dn st1 = (x, st2)" for dn x st1 st2
    using get_ldap_user_store [of env ord now dn st1] that by simp
  obtain lk r where l: "is_account_locked env now n st = (lk, r)" by fastforce
  show ?thesis
  proof (cases "search_user env st n")
    case (Inl e)
    with l show ?thesis by (simp add: basic_auth_def Let_def)
  next
    case (Inr s)
    obtain e st1 where c: "check_user_password env s p st = (e, st1)" by fastforce
    with check_password_store [of env s p st] have s1: "as_store st1 = as_store st" by simp
    obtain q st2 where q: "get_ldap_user env ord now n (record_login_attempt env ord now n True st1) = (q, st2)"
      by fastforce
    from l Inr c q s1 g [OF q] show ?thesis
      by (cases q) (simp_all add: basic_auth_def Let_def split: user_search_type.split option.split)
  qed
qed

context session_repo
begin

lemma get_session_flow:
  assumes "ae_ops env = ops" "inv (as_store st)"
  shows "flow inv sess P st (snd (get_session env now u st))"
proof -
  have d: "flow inv sess P st (snd (drop_session env u e st))" for e
  proof -
    obtain r s' where "delete_session_op ops u (as_store st) = (r, s')" by fastforce
    with assms delete_inv [OF assms(2), of u] delete_only [OF assms(2), of u] show ?thesis
      by (cases r) (auto simp: drop_session_def flow_def intro: grows_subset)
  qed
  with assms show ?thesis by (simp add: get_session_def split: sum.split)
qed

lemma delete_session_flow:
  assumes "ae_ops env = ops" "inv (as_store st)"
  shows "flow inv sess P st (snd (delete_session env now u st))"
  using delete_session_effect [OF assms, of now u] by (auto simp: flow_def intro: grows_subset)

lemma refresh_session_flow:
  assumes "ae_ops env = ops" "inv (as_store st)"
  shows "flow inv sess P st (snd (refresh_session env now u st))"
proof -
  obtain r st' where r: "refresh_session env now u st = (r, st')" by fastforce
  note e = refresh_session_effect [OF assms r]
  have "(\<exists>x. sess (as_store st) v = Some x \<and> y = x\<lparr>se_expiry := se_expiry y\<rparr>)"
    if "sess (as_store st') v = Some y" for v y
  proof (cases "sess (as_store st) v = Some y")
    case True
    then show ?thesis by (intro exI [of _ y]) simp
  next
    case False
    with e that have "v = u" by auto
    with e that False show ?thesis by auto
  qed
  with e r show ?thesis by (simp add: flow_def grows_def)
qed

lemma create_session_flow:
  assumes "ae_ops env = ops" "inv (as_store st)"
    "\<And>u. fresh = Some u \<Longrightarrow> P (new_session_row (ae_config env) now u d)"
  shows "flow inv sess P st (snd (create_session env now fresh d st))"
proof -
  obtain r st' where c: "create_session env now fresh d st = (r, st')" by fastforce
  with create_session_inv [OF assms(1,2), of now fresh d] have i: "inv (as_store st')" by simp
  show ?thesis
  proof (cases r)
    case (Inl e)
    with c create_session_failed [OF assms(1,2), of now fresh d e st'] i show ?thesis by (simp add: flow_def)
  next
    case (Inr ck)
    with c create_session_ok [OF assms(1,2), of now fresh d ck st'] assms(3) i show ?thesis
      by (auto simp: flow_def intro!: grows_upd)
  qed
qed

lemma cookie_auth_flow:
  assumes "ae_ops env = ops" "inv (as_store st)"
  shows "flow inv sess (\<lambda>_. False) st (snd (cookie_auth env ord now uuid ip st))"
proof (rule cookie_auth_keeps)
  show "flow inv sess (\<lambda>_. False) st (snd (get_session env now uuid st))"
    by (rule get_session_flow [OF assms])
  fix st1 uc dn
  assume f: "flow inv sess (\<lambda>_. False) st st1"
  note tr = flow_trans [OF f _ expiry_free_simps(1)] and i = flow_inv [OF f]
  show "flow inv sess (\<lambda>_. False) st (snd (refreshed env now uuid uc st1))"
    using tr [OF refresh_session_flow [OF assms(1) i, of _ now uuid]]
    by (auto simp: refreshed_def split: prod.split sum.split)
  show "flow inv sess (\<lambda>_. False) st (snd (delete_session env now uuid st1))"
    by (rule tr [OF delete_session_flow [OF assms(1) i]])
  show "flow inv sess (\<lambda>_. False) st (snd (get_ldap_user env ord now dn st1))"
    using f by (simp add: flow_def)
qed

lemma without_session_flow:
  assumes "inv (as_store st)"
  shows "flow inv sess P st (snd (without_session env ord now rq st))"
proof -
  have "as_store (snd (without_session env ord now rq st)) = as_store st"
  proof (cases "rq_basic_auth rq")
    case (Some np)
    obtain n p where "np = (n, p)" by fastforce
    moreover obtain q st1 where "basic_auth env ord now n p st = (q, st1)" by fastforce
    ultimately show ?thesis using Some basic_auth_store [of env ord now n p st]
      by (cases q) (auto simp: without_session_def)
  qed (simp add: without_session_def split: option.split)
  with assms show ?thesis by (simp add: flow_store)
qed

lemma middleware_flow:
  assumes "ae_ops env = ops" "inv (as_store st)"
  shows "flow inv sess (\<lambda>_. False) st (snd (context_middleware env ord now rq st))"
proof (cases "is_ignore_path (rq_method rq @ '' '' @ rq_path rq)")
  case True
  with assms(2) show ?thesis by (simp add: context_middleware_def)
next
  case path: False
  show ?thesis
  proof (cases "map_of (rq_cookies rq) (rt_session_cookie_name (ae_runtime env))")
    case None
    with path without_session_flow [OF assms(2)] show ?thesis by (simp add: context_middleware_def)
  next
    case (Some u)
    obtain c st1 where c: "cookie_auth env ord now u (rq_client_ip rq) st = (c, st1)" by fastforce
    with cookie_auth_flow [OF assms, of ord now u "rq_client_ip rq"]
    have f: "flow inv sess (\<lambda>_. False) st st1" by simp
    from flow_trans [OF f without_session_flow [OF flow_inv [OF f]]]
    have "flow inv sess (\<lambda>_. False) st (snd (without_session env ord now rq st1))" by simp
    with f path Some c show ?thesis
      by (simp add: context_middleware_def split: outcome.split sum.split prod.split)
  qed
qed

end

end
