(* ===== verification/UserController.thy ===== *)
theory UserController
  imports SessionFlow
begin

text \<open>
  The handlers under \<open>/api/user\<close>, \<open>internal/controller/user_controller.go\<close>: login, logout,
  the second factor and the login of a Tailscale node. A handler takes the request and the value
  the middleware stored under \<open>context\<close>, and gives the response with the new state of the
  authentication service.
\<close>

section \<open>Handlers\<close>

record login_request =
  lr_username :: string
  lr_password :: string

record totp_request =
  tr_code :: string

definition bind_login_request :: "golib \<Rightarrow> http_request \<Rightarrow> login_request option" where
  "bind_login_request lib rq =
     (case bind_json lib [''username'', ''password''] (rq_json rq) of
        Some [u, p] \<Rightarrow> Some \<lparr>lr_username = u, lr_password = p\<rparr>
      | _ \<Rightarrow> None)"

definition bind_totp_request :: "golib \<Rightarrow> http_request \<Rightarrow> totp_request option" where
  "bind_totp_request lib rq =
     (case bind_json lib [''code''] (rq_json rq) of
        Some [c] \<Rightarrow> Some \<lparr>tr_code = c\<rparr>
      | _ \<Rightarrow> None)"

definition zero_session :: session where
  "zero_session = \<lparr>se_uuid = [], se_username = [], se_email = [], se_name = [], se_provider = [],
     se_totp_pending = False, se_oauth_groups = [], se_expiry = 0, se_created_at = 0,
     se_oauth_name = [], se_oauth_sub = []\<rparr>"

definition bad_request :: response where
  "bad_request = reply_message 400 ''Bad Request'' empty_response"

definition unauthorized :: response where
  "unauthorized = reply_message 401 ''Unauthorized'' empty_response"

definition server_error :: response where
  "server_error = reply_message 500 ''Internal Server Error'' empty_response"

definition too_many_attempts :: "golib \<Rightarrow> int \<Rightarrow> int \<Rightarrow> string \<Rightarrow> response" where
  "too_many_attempts lib now remaining kind =
     reply_message 429 (''Too many failed '' @ kind @ '' attempts. Try again in '' @ itoa remaining @ '' seconds'')
      (with_added_header ''x-tinyauth-lock-reset'' (lib_rfc3339 lib (now + seconds remaining))
        (with_added_header ''x-tinyauth-lock-locked'' ''true'' empty_response))"

text \<open>The data a local user's session is created from.\<close>

definition local_session_data :: "'s auth_env \<Rightarrow> local_user \<Rightarrow> bool \<Rightarrow> session" where
  "local_session_data env user pending =
     (let a = user_attributes user
      in zero_session
        \<lparr>se_username := user_username user,
         se_name := (if ua_name a = [] then capitalize (ae_lib env) (user_username user) else ua_name a),
         se_email := (if ua_email a = []
                      then compile_user_email (ae_lib env) (user_username user) (rt_cookie_domain (ae_runtime env))
                      else ua_email a),
         se_provider := ''local'', se_totp_pending := pending\<rparr>)"

text \<open>The data after a login without a second factor.\<close>

definition login_session_data :: "'s auth_env \<Rightarrow> string \<Rightarrow> user_search \<Rightarrow> local_user option \<Rightarrow> session" where
  "login_session_data env username search local_user =
     (let s0 = zero_session
            \<lparr>se_username := username, se_name := capitalize (ae_lib env) username,
             se_email := compile_user_email (ae_lib env) username (rt_cookie_domain (ae_runtime env)),
             se_provider := ''local''\<rparr>
      in case search_type search of
           UserLocal \<Rightarrow>
             (case local_user of
                None \<Rightarrow> s0
              | Some user \<Rightarrow>
                  let a = user_attributes user;
                      s1 = (if ua_name a \<noteq> [] then s0\<lparr>se_name := ua_name a\<rparr> else s0)
                  in if ua_email a \<noteq> [] then s1\<lparr>se_email := ua_email a\<rparr> else s1)
         | UserLDAP \<Rightarrow>
             let s1 = s0\<lparr>se_provider := ''ldap''\<rparr>
             in if search_email search \<noteq> [] then s1\<lparr>se_email := search_email search\<rparr> else s1)"

text \<open>Creating the session of a completed login, recording the success and answering.\<close>

definition finish_login ::
  "'s auth_env \<Rightarrow> string visit_order \<Rightarrow> int \<Rightarrow> string option \<Rightarrow> string \<Rightarrow> session \<Rightarrow> 's auth_state \<Rightarrow>
     response \<times> 's auth_state"
where
  "finish_login env ord now fresh username data st =
     (case create_session env now fresh data st of
        (Inl e, st1) \<Rightarrow> (server_error, st1)
      | (Inr ck, st1) \<Rightarrow>
          (reply_message 200 ''Login successful'' (with_cookie ck empty_response),
           record_login_attempt env ord now username True st1))"

definition login_handler ::
  "'s auth_env \<Rightarrow> string visit_order \<Rightarrow> int \<Rightarrow> string option \<Rightarrow> http_request \<Rightarrow> 's auth_state \<Rightarrow>
     response \<times> 's auth_state"
where
  "login_handler env ord now fresh rq st =
     (case bind_login_request (ae_lib env) rq of
        None \<Rightarrow> (bad_request, st)
      | Some req \<Rightarrow>
          let username = lr_username req; (locked, remaining) = is_account_locked env now username st
          in if locked then (too_many_attempts (ae_lib env) now remaining ''login'', st)
             else (case search_user env st username of
                     Inl ErrUserNotFound \<Rightarrow> (unauthorized, record_login_attempt env ord now username False st)
                   | Inl _ \<Rightarrow> (server_error, st)
                   | Inr search \<Rightarrow>
                       (case check_user_password env search (lr_password req) st of
                          (Some _, st1) \<Rightarrow> (unauthorized, record_login_attempt env ord now username False st1)
                        | (None, st1) \<Rightarrow>
                            (case search_type search of
                               UserLDAP \<Rightarrow>
                                 finish_login env ord now fresh username (login_session_data env username search None) st1
                             | UserLocal \<Rightarrow>
                                 (case get_local_user (ae_runtime env) username of
                                    None \<Rightarrow> (unauthorized, st1)
                                  | Some user \<Rightarrow>
                                      if user_totp_secret user \<noteq> []
                                      then (case create_session env now fresh (local_session_data env user True) st1 of
                                              (Inl _, st2) \<Rightarrow> (server_error, st2)
                                            | (Inr ck, st2) \<Rightarrow>
                                                (reply_json 200
                                                   (JObject [(''status'', JNumber 200), (''message'', JString ''TOTP required''),
                                                             (''totpPending'', JBool True)])
                                                   (with_cookie ck empty_response), st2))
                                      else finish_login env ord now fresh username
                                             (login_session_data env username search (Some user)) st1)))))"

text \<open>The audit entry names the provider of the context, which may fault.\<close>

definition logout_handler ::
  "'s auth_env \<Rightarrow> int \<Rightarrow> gin_value \<Rightarrow> http_request \<Rightarrow> 's auth_state \<Rightarrow> response outcome \<times> 's auth_state"
where
  "logout_handler env now ctx rq st =
     (let done = reply_message 200 ''Logout successful''
      in case map_of (rq_cookies rq) (rt_session_cookie_name (ae_runtime env)) of
           None \<Rightarrow> (Returns (done empty_response), st)
         | Some uuid \<Rightarrow>
             let (ck, st1) = delete_session env now uuid st
             in case new_from_gin ctx of
                  Inl _ \<Rightarrow> (Returns (done (with_cookie ck empty_response)), st1)
                | Inr uc \<Rightarrow>
                    (on_return (get_provider_id uc) (\<lambda>_. Returns (done (with_cookie ck empty_response))), st1))"

definition totp_handler ::
  "'s auth_env \<Rightarrow> string visit_order \<Rightarrow> int \<Rightarrow> string option \<Rightarrow> gin_value \<Rightarrow> http_request \<Rightarrow> 's auth_state \<Rightarrow>
     response \<times> 's auth_state"
where
  "totp_handler env ord now fresh ctx rq st =
     (case bind_totp_request (ae_lib env) rq of
        None \<Rightarrow> (bad_request, st)
      | Some req \<Rightarrow>
          (case new_from_gin ctx of
             Inl ErrUserContextNotFound \<Rightarrow> (unauthorized, st)
           | Inl _ \<Rightarrow> (server_error, st)
           | Inr uc \<Rightarrow>
               if \<not> totp_pending uc then (unauthorized, st)
               else
                 let username = get_username uc; (locked, remaining) = is_account_locked env now username st
                 in if locked then (too_many_attempts (ae_lib env) now remaining ''TOTP'', st)
                    else (case get_local_user (ae_runtime env) username of
                            None \<Rightarrow> (unauthorized, st)
                          | Some user \<Rightarrow>
                              if \<not> lib_totp (ae_lib env) (tr_code req) (user_totp_secret user)
                              then (unauthorized, record_login_attempt env ord now username False st)
                              else
                                let st1 = (case map_of (rq_cookies rq) (rt_session_cookie_name (ae_runtime env)) of
                                             None \<Rightarrow> st
                                           | Some uuid \<Rightarrow> snd (delete_session env now uuid st));
                                    st2 = record_login_attempt env ord now username True st1
                                in case create_session env now fresh (local_session_data env user False) st2 of
                                     (Inl _, st3) \<Rightarrow> (server_error, st3)
                                   | (Inr ck, st3) \<Rightarrow>
                                       (reply_message 200 ''Login successful'' (with_cookie ck empty_response), st3))))"

definition tailscale_handler ::
  "'s auth_env \<Rightarrow> int \<Rightarrow> string option \<Rightarrow> gin_value \<Rightarrow> 's auth_state \<Rightarrow> response \<times> 's auth_state"
where
  "tailscale_handler env now fresh ctx st =
     (case new_from_gin ctx of
        Inl _ \<Rightarrow> (unauthorized, st)
      | Inr uc \<Rightarrow>
          (case uc_tailscale uc of
             None \<Rightarrow> (unauthorized, st)
           | Some t \<Rightarrow>
               let data = zero_session
                     \<lparr>se_username := bc_username t, se_name := bc_name t, se_email := bc_email t,
                      se_provider := ''tailscale''\<rparr>
               in case create_session env now fresh data st of
                    (Inl _, st1) \<Rightarrow> (server_error, st1)
                  | (Inr ck, st1) \<Rightarrow>
                      (reply_message 200 ''Login successful'' (with_cookie ck empty_response), st1)))"

section \<open>What the handlers do to the stored sessions\<close>

text \<open>The password belongs to the name: a local user's, or one the directory accepts.\<close>

definition password_ok :: "'s auth_env \<Rightarrow> 's auth_state \<Rightarrow> string \<Rightarrow> string \<Rightarrow> bool" where
  "password_ok env st n p \<longleftrightarrow>
     (case get_local_user (ae_runtime env) n of
        Some usr \<Rightarrow> lib_bcrypt (ae_lib env) (user_password usr) p
      | None \<Rightarrow> \<exists>ls dn email. ae_ldap env = Some ls \<and>
          ldap_get_user_info (ae_lib env) ls (as_ldap_identity st) n = Some (dn, email) \<and>
          fst (ldap_bind ls dn p))"

lemma search_check_ok:
  assumes "search_user env st n = Inr search" "check_user_password env search p st = (None, st1)"
  shows "password_ok env st n p \<and> as_store st1 = as_store st \<and>
     (search_type search = UserLocal \<longleftrightarrow> get_local_user (ae_runtime env) n \<noteq> None)"
proof (cases "get_local_user (ae_runtime env) n")
  case (Some usr)
  with assms(1) have "search = \<lparr>search_username = n, search_email = [], search_type = UserLocal\<rparr>"
    by (simp add: search_user_def)
  with assms(2) Some show ?thesis
    by (auto simp: check_user_password_def password_ok_def split: if_splits)
next
  case None
  with assms(1) obtain ls dn email where l: "ae_ldap env = Some ls"
    "ldap_get_user_info (ae_lib env) ls (as_ldap_identity st) n = Some (dn, email)"
    and s: "search = \<lparr>search_username = dn, search_email = email, search_type = UserLDAP\<rparr>"
    by (auto simp: search_user_def split: option.splits)
  from assms(2) l s have "fst (ldap_bind ls dn p)"
    by (auto simp: check_user_password_def split: prod.splits bool.splits)
  moreover have "as_store st1 = as_store st"
    using check_password_store [of env search p st] assms(2) by simp
  ultimately show ?thesis using None l s by (simp add: password_ok_def)
qed

lemma session_data_fields [simp]:
  "se_username (local_session_data env user b) = user_username user"
  "se_provider (local_session_data env user b) = ''local''"
  "se_totp_pending (local_session_data env user b) = b"
  "se_username (login_session_data env n search l) = n"
  "se_provider (login_session_data env n search l) = (if search_type search = UserLocal then ''local'' else ''ldap'')"
  "\<not> se_totp_pending (login_session_data env n search l)"
  by (simp_all add: local_session_data_def login_session_data_def zero_session_def Let_def
      split: option.split user_search_type.split)

lemma session_row_fields [simp]:
  "se_username (new_session_row cfg now u d) = se_username d"
  "se_provider (new_session_row cfg now u d) = se_provider d"
  "se_totp_pending (new_session_row cfg now u d) = se_totp_pending d"
  "se_email (new_session_row cfg now u d) = se_email d"
  by (simp_all add: new_session_row_def)

text \<open>A response that names a new session, and the store that holds it.\<close>

definition hands_out ::
  "('s \<Rightarrow> string \<Rightarrow> session option) \<Rightarrow> response \<Rightarrow> string \<Rightarrow> session \<Rightarrow> 's auth_state \<Rightarrow> 's auth_state \<Rightarrow> bool"
where
  "hands_out sess rs u x st st' \<longleftrightarrow>
     rs_status rs = 200 \<and> map ck_value (rs_cookies rs) = [u] \<and>
     sess (as_store st') = (sess (as_store st))(u \<mapsto> x)"

lemma hands_out_store: "as_store st1 = as_store st \<Longrightarrow> hands_out sess rs u x st1 st' \<longleftrightarrow> hands_out sess rs u x st st'"
  by (simp add: hands_out_def)

lemma no_cookies [simp]:
  "rs_cookies bad_request = []" "rs_cookies unauthorized = []" "rs_cookies server_error = []"
  "rs_cookies (too_many_attempts lib now r k) = []"
  by (simp_all add: bad_request_def unauthorized_def server_error_def too_many_attempts_def reply_defs)

context session_repo
begin

lemma finish_login_ok:
  assumes "ae_ops env = ops" "inv (as_store st)"
    "finish_login env ord now fresh n d st = (rs, st')" "rs_cookies rs \<noteq> []"
  shows "\<exists>u. fresh = Some u \<and> hands_out sess rs u (new_session_row (ae_config env) now u d) st st'"
proof -
  obtain r st1 where c: "create_session env now fresh d st = (r, st1)" by fastforce
  with assms(3,4) obtain ck where r: "r = Inr ck" by (cases r) (auto simp: finish_login_def)
  with c assms(3) have rs: "rs = reply_message 200 ''Login successful'' (with_cookie ck empty_response)"
    "st' = record_login_attempt env ord now n True st1"
    by (simp_all add: finish_login_def)
  from create_session_ok [OF assms(1,2), of now fresh d ck st1] c r obtain u where
    "fresh = Some u" "ck_value ck = u"
    "sess (as_store st1) = (sess (as_store st))(u \<mapsto> new_session_row (ae_config env) now u d)" by blast
  with rs show ?thesis by (auto simp: hands_out_def reply_defs)
qed

end

definition login_form :: "string \<Rightarrow> string \<Rightarrow> http_request" where
  "login_form n p = empty_request\<lparr>rq_method := ''POST'', rq_path := ''/api/user/login'',
     rq_json := Some (JObject [(''username'', JString n), (''password'', JString p)])\<rparr>"

definition code_form :: "string \<Rightarrow> string \<Rightarrow> http_request" where
  "code_form uuid code = empty_request\<lparr>rq_method := ''POST'', rq_path := ''/api/user/totp'',
     rq_cookies := [(''s'', uuid)], rq_json := Some (JObject [(''code'', JString code)])\<rparr>"

lemma demo_state_inv: "mem_inv (as_store demo_state)"
  by (simp add: demo_state_def mem_inv_def new_memory_store_def keyed_def)

end
