(* ===== verification/Proxy.thy ===== *)
theory Proxy
  imports UserController AccessControls
begin

text \<open>
  The endpoint the reverse proxies ask, \<open>internal/controller/proxy_controller.go\<close>: the context
  of the proxied request is read from the headers the proxy sends, the access controls of its
  host are looked up, the rules are evaluated, and the answer lets the request through with
  identity headers, refuses it or sends the browser to the login page.
\<close>

section \<open>The proxied request\<close>

datatype auth_module_type = AuthRequest | ExtAuthz | ForwardAuth

datatype proxy_type = Traefik | Caddy | Envoy | Nginx

record proxy_context =
  px_host :: string
  px_proto :: string
  px_path :: string
  px_method :: string
  px_type :: auth_module_type
  px_is_browser :: bool
  px_proxy_type :: proxy_type

text \<open>A header that is there and not blank.\<close>

definition request_header :: "http_request \<Rightarrow> string \<Rightarrow> string option" where
  "request_header rq name =
     (let v = get_header name (rq_headers rq) in if trim_space v \<noteq> [] then Some v else None)"

definition context_of :: "string \<Rightarrow> string \<Rightarrow> string \<Rightarrow> string \<Rightarrow> auth_module_type \<Rightarrow> proxy_context" where
  "context_of host proto path method module =
     \<lparr>px_host = host, px_proto = proto, px_path = path, px_method = method, px_type = module,
      px_is_browser = False, px_proxy_type = Traefik\<rparr>"

definition get_forward_auth_context :: "http_request \<Rightarrow> proxy_context option" where
  "get_forward_auth_context rq =
     (case request_header rq ''x-forwarded-host'' of
        None \<Rightarrow> None
      | Some host \<Rightarrow>
          (case request_header rq ''x-forwarded-uri'' of
             None \<Rightarrow> None
           | Some uri \<Rightarrow>
               (case request_header rq ''x-forwarded-proto'' of
                  None \<Rightarrow> None
                | Some proto \<Rightarrow> Some (context_of host proto uri (rq_method rq) ForwardAuth))))"

definition get_auth_request_context :: "golib \<Rightarrow> http_request \<Rightarrow> proxy_context option" where
  "get_auth_request_context lib rq =
     (case request_header rq ''x-original-url'' of
        None \<Rightarrow> None
      | Some x_original_url \<Rightarrow>
          (case lib_parse_url lib x_original_url of
             None \<Rightarrow> None
           | Some u \<Rightarrow>
               if trim_space (url_host u) = [] then None
               else if trim_space (url_scheme u) = [] then None
               else Some (context_of (url_host u) (url_scheme u) (url_path u) (rq_method rq) AuthRequest)))"

definition get_ext_authz_context :: "http_request \<Rightarrow> proxy_context option" where
  "get_ext_authz_context rq =
     (case request_header rq ''x-forwarded-proto'' of
        None \<Rightarrow> None
      | Some proto \<Rightarrow>
          if trim_space (rq_host rq) = [] then None
          else Some (context_of (rq_host rq) proto (first_value (rq_query rq) ''path'') (rq_method rq) ExtAuthz))"

definition get_proxy_type :: "string \<Rightarrow> proxy_type option" where
  "get_proxy_type proxy =
     (if proxy = ''traefik'' then Some Traefik
      else if proxy = ''caddy'' then Some Caddy
      else if proxy = ''envoy'' then Some Envoy
      else if proxy = ''nginx'' then Some Nginx
      else None)"

fun determine_auth_modules :: "proxy_type \<Rightarrow> auth_module_type list" where
  "determine_auth_modules Traefik = [ForwardAuth]"
| "determine_auth_modules Caddy = [ForwardAuth]"
| "determine_auth_modules Envoy = [ExtAuthz, ForwardAuth]"
| "determine_auth_modules Nginx = [AuthRequest, ForwardAuth]"

fun get_context_from_auth_module :: "golib \<Rightarrow> http_request \<Rightarrow> auth_module_type \<Rightarrow> proxy_context option" where
  "get_context_from_auth_module lib rq ForwardAuth = get_forward_auth_context rq"
| "get_context_from_auth_module lib rq ExtAuthz = get_ext_authz_context rq"
| "get_context_from_auth_module lib rq AuthRequest = get_auth_request_context lib rq"

text \<open>The loop over the modules: the first that gives a context.\<close>

fun first_context :: "golib \<Rightarrow> http_request \<Rightarrow> auth_module_type list \<Rightarrow> proxy_context option" where
  "first_context lib rq [] = None"
| "first_context lib rq (m # ms) =
     (case get_context_from_auth_module lib rq m of
        Some ctx \<Rightarrow> Some ctx
      | None \<Rightarrow> first_context lib rq ms)"

text \<open>The regular expression is an alternative of words, matched anywhere.\<close>

definition browser_words :: "string list" where
  "browser_words = [''Chrome'', ''Gecko'', ''AppleWebKit'', ''Opera'', ''Edge'']"

definition is_browser_agent :: "string \<Rightarrow> bool" where
  "is_browser_agent agent \<longleftrightarrow> list_ex (\<lambda>w. sublist w agent) browser_words"

definition get_proxy_context :: "golib \<Rightarrow> string \<Rightarrow> http_request \<Rightarrow> proxy_context option" where
  "get_proxy_context lib proxy rq =
     (if proxy = [] then None
      else (case get_proxy_type proxy of
              None \<Rightarrow> None
            | Some p \<Rightarrow>
                (case first_context lib rq (determine_auth_modules p) of
                   None \<Rightarrow> None
                 | Some ctx \<Rightarrow>
                     Some (ctx\<lparr>px_is_browser := is_browser_agent (get_header ''user-agent'' (rq_headers rq)),
                               px_proxy_type := p\<rparr>))))"

definition use_browser_response :: "proxy_context \<Rightarrow> bool" where
  "use_browser_response px = (if px_proxy_type px = Nginx then False else px_is_browser px)"

section \<open>Answers\<close>

text \<open>A browser is redirected; anything else gets the location in a header and a JSON body.\<close>

definition locate :: "proxy_context \<Rightarrow> string \<Rightarrow> int \<Rightarrow> string \<Rightarrow> response" where
  "locate px url status msg =
     (if \<not> use_browser_response px
      then reply_message status msg (with_header ''x-tinyauth-location'' url empty_response)
      else reply_redirect 302 url empty_response)"

definition handle_error :: "runtime_config \<Rightarrow> proxy_context \<Rightarrow> response" where
  "handle_error rt px = locate px (rt_app_url rt @ ''/error'') 500 ''Internal Server Error''"

definition unauthorized_query :: "string \<Rightarrow> string \<Rightarrow> bool \<Rightarrow> string \<Rightarrow> (string \<times> string) list" where
  "unauthorized_query username resource group_err ip =
     [(''username'', username), (''resource'', resource), (''groupErr'', bool_value group_err), (''ip'', ip)]"

definition redirect_query :: "string \<Rightarrow> string \<Rightarrow> (string \<times> string) list" where
  "redirect_query redirect_uri login_for = [(''redirect_uri'', redirect_uri), (''login_for'', login_for)]"

definition resource_of :: "proxy_context \<Rightarrow> string" where
  "resource_of px = hd (split_on (CHR ''.'') (px_host px))"

definition forbid :: "runtime_config \<Rightarrow> proxy_context \<Rightarrow> (string \<times> string) list \<Rightarrow> response" where
  "forbid rt px queries =
     locate px (rt_app_url rt @ ''/unauthorized?'' @ encode_values queries) 403 ''Forbidden''"

text \<open>The headers for the app: its own credentials are passed on, then those of the labels.\<close>

fun put_headers :: "(string, string) gomap \<Rightarrow> string list \<Rightarrow> response \<Rightarrow> response" where
  "put_headers m [] rs = rs"
| "put_headers m (k # ks) rs =
     put_headers m ks (case map_of m k of None \<Rightarrow> rs | Some v \<Rightarrow> with_header k v rs)"

definition set_headers :: "golib \<Rightarrow> string visit_order \<Rightarrow> http_request \<Rightarrow> app option \<Rightarrow> response \<Rightarrow> response" where
  "set_headers lib ord rq acls rs =
     (let rs1 = with_header ''Authorization'' (get_header ''Authorization'' (rq_headers rq)) rs
      in case acls of
           None \<Rightarrow> rs1
         | Some a \<Rightarrow>
             let headers = parse_headers (ars_headers (app_response a));
                 rs2 = put_headers headers (ord (gm_keys headers)) rs1;
                 basic = ars_basic_auth (app_response a);
                 password = get_secret lib (aba_password basic) (aba_password_file basic)
             in if aba_username basic \<noteq> [] \<and> password \<noteq> []
                then with_header ''Authorization'' (''Basic '' @ encode_basic_auth (aba_username basic) password) rs2
                else rs2)"

text \<open>The identity of the user, without what a header must not hold.\<close>

definition identity_headers :: "user_context \<Rightarrow> response \<Rightarrow> response" where
  "identity_headers uc rs =
     (let rs1 = with_header ''Remote-Email'' (sanitize_header (get_email uc))
            (with_header ''Remote-Name'' (sanitize_header (get_name uc))
              (with_header ''Remote-User'' (sanitize_header (get_username uc)) rs));
          rs2 = (case uc_ldap uc of
                   Some d \<Rightarrow> if is_ldap uc
                     then with_header ''Remote-Groups'' (sanitize_header (join_with '','' (dc_groups d))) rs1 else rs1
                 | None \<Rightarrow> rs1)
      in case uc_oauth uc of
           Some oa \<Rightarrow> if is_oauth uc
             then with_header ''Remote-Sub'' (sanitize_header (oc_sub oa))
               (with_header ''Remote-Groups'' (sanitize_header (join_with '','' (oc_groups oa))) rs2) else rs2
         | None \<Rightarrow> rs2)"

definition let_through :: "golib \<Rightarrow> string visit_order \<Rightarrow> http_request \<Rightarrow> app option \<Rightarrow> response \<Rightarrow> response" where
  "let_through lib ord rq acls rs = reply_message 200 ''Authenticated'' (set_headers lib ord rq acls rs)"

section \<open>The handler\<close>

text \<open>The name a refused user is shown with.\<close>

definition shown_name :: "user_context \<Rightarrow> string" where
  "shown_name uc = (if is_oauth uc then get_email uc else get_username uc)"

definition group_rule_for :: "user_context \<Rightarrow> rule_name option" where
  "group_rule_for uc =
     (if is_oauth uc \<or> is_ldap uc
      then Some (if is_oauth uc then rule_oauth_group else rule_ldap_group) else None)"

text \<open>What follows once the address is accepted and the context of the user is known.\<close>

definition proxy_user ::
  "'s auth_env \<Rightarrow> string visit_order \<Rightarrow> http_request \<Rightarrow> proxy_context \<Rightarrow> app option \<Rightarrow> acl_context \<Rightarrow>
     user_context \<Rightarrow> response outcome"
where
  "proxy_user env ord rq px acls actx uc =
     (let rt = ae_runtime env; engine = ae_engine env
      in if uc_authenticated uc then
           on_return (evaluate engine rule_user_allowed actx) (\<lambda>user_ok.
             if \<not> user_ok then
               Returns (forbid rt px (set_value ''username'' (shown_name uc)
                 (unauthorized_query [] (resource_of px) False [])))
             else
               on_return (case group_rule_for uc of
                            None \<Rightarrow> Returns True
                          | Some name \<Rightarrow> evaluate engine name actx) (\<lambda>group_ok.
                 if \<not> group_ok then
                   Returns (forbid rt px (set_value ''username'' (shown_name uc)
                     (unauthorized_query [] (resource_of px) True [])))
                 else Returns (let_through (ae_lib env) ord rq acls (identity_headers uc empty_response))))
         else
           Returns (locate px
             (rt_app_url rt @ ''/login?'' @
              encode_values (redirect_query (px_proto px @ ''://'' @ px_host px @ px_path px) ''app''))
             401 ''Unauthorized''))"

definition proxy_handler ::
  "'s auth_env \<Rightarrow> string visit_order \<Rightarrow> (string \<Rightarrow> 'e provider_answer) option \<Rightarrow> string \<Rightarrow> gin_value \<Rightarrow>
     http_request \<Rightarrow> response outcome"
where
  "proxy_handler env ord labels proxy ctx rq =
     (let rt = ae_runtime env; engine = ae_engine env; lib = ae_lib env
      in case get_proxy_context lib proxy rq of
           None \<Rightarrow> Returns (reply_message 400 ''Bad request'' empty_response)
         | Some px \<Rightarrow>
             (case get_access_controls ord (ae_config env) labels (px_host px) of
                Inl _ \<Rightarrow> Returns (handle_error rt px)
              | Inr acls \<Rightarrow>
                  let actx = \<lparr>ac_acls = acls, ac_user_context = None, ac_ip = parse_ip (rq_client_ip rq),
                              ac_path = px_path px\<rparr>
                  in on_return (evaluate engine rule_ip_bypassed actx) (\<lambda>bypassed.
                       if bypassed then Returns (let_through lib ord rq acls empty_response)
                       else on_return (evaluate engine rule_auth_enabled actx) (\<lambda>auth_disabled.
                         if auth_disabled then Returns (let_through lib ord rq acls empty_response)
                         else on_return (evaluate engine rule_ip_allowed actx) (\<lambda>ip_ok.
                           if \<not> ip_ok then
                             Returns (forbid rt px (unauthorized_query [] (resource_of px) False (rq_client_ip rq)))
                           else
                             let uc = (case new_from_gin ctx of Inl _ \<Rightarrow> zero_user_context | Inr c \<Rightarrow> c)
                             in proxy_user env ord rq px acls (actx\<lparr>ac_user_context := Some uc\<rparr>) uc)))))"

end
