(* ===== verification/ProxyAnswers.thy ===== *)
theory ProxyAnswers
  imports Proxy
begin

text \<open>
  What the endpoint of the reverse proxies answers: whom it admits, in terms of the rules on users,
  groups, addresses and paths; of whom it tells the proxy; and where it sends a request without a user.
\<close>

section \<open>Answers of the endpoint\<close>

lemmas answer_defs = locate_def forbid_def handle_error_def reply_defs message_json_def

lemma locate_status [simp]:
  "rs_status (locate px url status msg) = (if use_browser_response px then 302 else status)"
  by (simp add: answer_defs)

lemma locate_body:
  "rs_body (locate px url status msg) =
     (if use_browser_response px then RedirectTo url else JsonBody (message_json status msg))"
  by (simp add: answer_defs)

lemma locate_header [simp]:
  "get_header k (rs_headers (locate px url status msg)) =
     (if use_browser_response px \<or> canonical_header_key k \<noteq> canonical_header_key ''x-tinyauth-location''
      then [] else url)"
  by (simp add: answer_defs get_header_def set_header_def)

lemma let_through_status [simp]: "rs_status (let_through lib ord rq acls rs) = 200"
  by (simp add: let_through_def reply_defs)

lemma let_through_body [simp]:
  "rs_body (let_through lib ord rq acls rs) = JsonBody (message_json 200 ''Authenticated'')"
  by (simp add: let_through_def reply_defs)

lemma put_headers_other:
  "canonical_header_key k \<notin> canonical_header_key ` set ks \<Longrightarrow>
     get_header k (rs_headers (put_headers m ks rs)) = get_header k (rs_headers rs)"
  by (induction ks arbitrary: rs) (auto simp: with_header_def get_set_header split: option.splits)

text \<open>Which headers an app's labels set: their names, and \<open>Authorization\<close>.\<close>

definition app_header_names :: "app option \<Rightarrow> string set" where
  "app_header_names acls =
     insert ''Authorization'' (case acls of
        None \<Rightarrow> {} | Some a \<Rightarrow> set (gm_keys (parse_headers (ars_headers (app_response a)))))"

lemma let_through_other:
  assumes "visits ord" "canonical_header_key k \<notin> canonical_header_key ` app_header_names acls"
  shows "get_header k (rs_headers (let_through lib ord rq acls rs)) = get_header k (rs_headers rs)"
  using assms
  by (auto simp: let_through_def set_headers_def reply_json_def reply_message_def with_header_def Let_def
      get_set_header app_header_names_def visits_set put_headers_other split: option.splits)

lemma identity_user_header:
  "get_header ''Remote-User'' (rs_headers (identity_headers uc rs)) = sanitize_header (get_username uc)"
proof -
  have "canonical_header_key ''Remote-User'' \<noteq> canonical_header_key n"
    if "n \<in> {''Remote-Name'', ''Remote-Email'', ''Remote-Groups'', ''Remote-Sub''}" for n
    using that by (elim insertE emptyE; hypsubst) code_simp+
  then show ?thesis
    by (simp add: identity_headers_def with_header_def get_set_header Let_def split: option.split)
qed

section \<open>Who is let through\<close>

definition regex_accepts :: "golib \<Rightarrow> string \<Rightarrow> string \<Rightarrow> bool" where
  "regex_accepts lib r s = (case lib_regexp lib r of None \<Rightarrow> False | Some m \<Rightarrow> m s)"

text \<open>The paths of an app that need no login.\<close>

definition path_exempt :: "golib \<Rightarrow> app \<Rightarrow> string \<Rightarrow> bool" where
  "path_exempt lib a path \<longleftrightarrow>
     (let block = apa_block (app_path a); allow = apa_allow (app_path a)
      in if block \<noteq> [] \<and> lib_regexp lib block = None then False
         else if block \<noteq> [] \<and> \<not> regex_accepts lib block path then True
         else allow \<noteq> [] \<and> regex_accepts lib allow path)"

lemma auth_enabled_rule_exempt:
  assumes "setup_policy_engine lib cfg = Some e" "ac_acls ctx = Some a"
  shows "evaluate e rule_auth_enabled ctx = Returns (path_exempt lib a (ac_path ctx))"
  by (simp add: evaluate_def setup_rules [OF assms(1)] auth_enabled_rule_def assms(2) Let_def path_exempt_def
      regex_accepts_def split: option.split)

text \<open>The group an app asks of the users of the provider it names.\<close>

definition group_admitted :: "golib \<Rightarrow> app \<Rightarrow> user_context \<Rightarrow> bool" where
  "group_admitted lib a uc \<longleftrightarrow>
     (case uc_oauth uc of
        None \<Rightarrow> True
      | Some oa \<Rightarrow>
          is_oauth uc \<and> aoa_groups (app_oauth a) \<noteq> [] \<and> map_of override_providers (oc_id oa) = None \<longrightarrow>
          list_ex (\<lambda>g. filter_accepts lib (aoa_groups (app_oauth a)) (trim_space g)) (oc_groups oa)) \<and>
     (case uc_ldap uc of
        None \<Rightarrow> True
      | Some la \<Rightarrow>
          is_ldap uc \<and> ald_groups (app_ldap a) \<noteq> [] \<longrightarrow>
          list_ex (\<lambda>g. filter_accepts lib (ald_groups (app_ldap a)) (trim_space g)) (dc_groups la))"

lemma group_rule_admits:
  assumes "setup_policy_engine lib cfg = Some e" "filters_sliceable a"
    "ac_user_context ctx = Some uc" "ac_acls ctx = Some a"
  shows "(case group_rule_for uc of None \<Rightarrow> Returns True | Some name \<Rightarrow> evaluate e name ctx) =
      Returns (group_admitted lib a uc)"
  using assms(2)
  by (auto simp: evaluate_def setup_rules [OF assms(1)] oauth_group_rule_def ldap_group_rule_def assms(3,4)
      match_groups_eq filters_sliceable_def group_rule_for_def group_admitted_def is_oauth_def is_ldap_def list_ex_iff
      split: option.splits)

lemma proxy_user_decides:
  assumes "setup_policy_engine (ae_lib env) cfg = Some (ae_engine env)" "filters_sliceable a"
    "wf_context uc \<or> \<not> uc_authenticated uc" "ac_user_context actx = Some uc" "ac_acls actx = Some a"
  shows "\<exists>rs. proxy_user env ord rq px acls actx uc = Returns rs \<and>
     (rs_status rs = 200 \<longleftrightarrow>
        uc_authenticated uc \<and> user_admitted (ae_lib env) (pe_policy (ae_engine env)) a uc \<and>
        group_admitted (ae_lib env) a uc)"
proof (cases "uc_authenticated uc")
  case True
  with assms(3) have wf: "wf_context uc" by simp
  have user: "evaluate (ae_engine env) rule_user_allowed actx =
      Returns (user_admitted (ae_lib env) (pe_policy (ae_engine env)) a uc)"
    using user_allowed_rule_access [OF wf assms(2,4,5), where lib = "ae_lib env" and e = "ae_engine env"]
    by (auto simp: evaluate_def setup_rules [OF assms(1)])
  show ?thesis
    by (simp add: proxy_user_def Let_def True user group_rule_admits [OF assms(1,2,4,5)] forbid_def)
next
  case False
  then show ?thesis by (simp add: proxy_user_def Let_def)
qed

text \<open>The rules on addresses, as the engine of the handler answers them.\<close>

definition address_allowed :: "config \<Rightarrow> app option \<Rightarrow> ip \<Rightarrow> bool" where
  "address_allowed cfg acls a \<longleftrightarrow>
     \<not> list_ex (\<lambda>x. ip_entry x a) (blocked_ips cfg acls) \<and>
     (allowed_ips cfg acls = [] \<or> list_ex (\<lambda>x. ip_entry x a) (allowed_ips cfg acls))"

definition address_bypassed :: "config \<Rightarrow> app option \<Rightarrow> ip \<Rightarrow> bool" where
  "address_bypassed cfg acls a \<longleftrightarrow> list_ex (\<lambda>x. ip_entry x a) (bypass_ips cfg acls)"

lemma address_rules:
  assumes "setup_policy_engine lib cfg = Some e" "ac_ip ctx = Some a" "is_v4 a"
  shows "evaluate e rule_ip_allowed ctx = Returns (address_allowed cfg (ac_acls ctx) a)"
    "evaluate e rule_ip_bypassed ctx = Returns (address_bypassed cfg (ac_acls ctx) a)"
  by (simp_all add: evaluate_def setup_rules [OF assms(1)] ip_allowed_rule_eq ip_bypassed_rule_eq assms(2)
      any_ip_match_entry [OF v4_reads_back [OF assms(3)]] address_allowed_def address_bypassed_def
      list_ex_iff)

text \<open>
  C1: For a client with an IPv4 address and an app whose filters are not the single slash, the
  endpoint answers without a panic, and it answers 200 exactly when the address is on a bypass
  list, or the path of the proxied request is exempt, or the address is allowed and the request
  carries an authenticated user whom the rules on users and on groups of the app admit. So
  neither rule can be skipped, and nothing else (the proxy, the browser, the method) counts.
\<close>

theorem proxy_admits_exactly:
  assumes "setup_policy_engine (ae_lib env) (ae_config env) = Some (ae_engine env)"
    "get_proxy_context (ae_lib env) proxy rq = Some px"
    "get_access_controls ord (ae_config env) labels (px_host px) = Inr (Some a)"
    "parse_ip (rq_client_ip rq) = Some ip" "is_v4 ip" "filters_sliceable a"
    "\<And>uc. new_from_gin ctx = Inr uc \<Longrightarrow> wf_context uc"
  shows "\<exists>rs. proxy_handler env ord labels proxy ctx rq = Returns rs \<and>
     (rs_status rs = 200 \<longleftrightarrow>
        address_bypassed (ae_config env) (Some a) ip \<or> path_exempt (ae_lib env) a (px_path px) \<or>
        address_allowed (ae_config env) (Some a) ip \<and>
        (\<exists>uc. new_from_gin ctx = Inr uc \<and> uc_authenticated uc \<and>
           user_admitted (ae_lib env) (pe_policy (ae_engine env)) a uc \<and> group_admitted (ae_lib env) a uc))"
proof -
  define uc where "uc = (case new_from_gin ctx of Inl _ \<Rightarrow> zero_user_context | Inr c \<Rightarrow> c)"
  define actx where "actx = \<lparr>ac_acls = Some a, ac_user_context = None, ac_ip = Some ip, ac_path = px_path px\<rparr>"
  have wf: "wf_context uc \<or> \<not> uc_authenticated uc"
    using assms(7) by (cases "new_from_gin ctx") (auto simp: uc_def zero_user_context_def)
  have user: "ac_user_context (actx\<lparr>ac_user_context := Some uc\<rparr>) = Some uc"
    "ac_acls (actx\<lparr>ac_user_context := Some uc\<rparr>) = Some a" by (simp_all add: actx_def)
  note rules = address_rules [OF assms(1) _ assms(5), of actx] auth_enabled_rule_exempt [OF assms(1), of actx a]
  obtain rs where rs: "proxy_user env ord rq px (Some a) (actx\<lparr>ac_user_context := Some uc\<rparr>) uc = Returns rs"
    "rs_status rs = 200 \<longleftrightarrow> uc_authenticated uc \<and>
        user_admitted (ae_lib env) (pe_policy (ae_engine env)) a uc \<and> group_admitted (ae_lib env) a uc"
    using proxy_user_decides [OF assms(1,6) wf user] by blast
  have known: "uc_authenticated uc \<and> P uc \<longleftrightarrow> (\<exists>uc. new_from_gin ctx = Inr uc \<and> uc_authenticated uc \<and> P uc)" for P
    by (cases "new_from_gin ctx") (auto simp: uc_def zero_user_context_def)
  have "proxy_handler env ord labels proxy ctx rq =
      (if address_bypassed (ae_config env) (Some a) ip then
         Returns (let_through (ae_lib env) ord rq (Some a) empty_response)
       else if path_exempt (ae_lib env) a (px_path px) then
         Returns (let_through (ae_lib env) ord rq (Some a) empty_response)
       else if \<not> address_allowed (ae_config env) (Some a) ip then
         Returns (forbid (ae_runtime env) px (unauthorized_query [] (resource_of px) False (rq_client_ip rq)))
       else Returns rs)"
    using rules rs(1)
    by (simp add: proxy_handler_def Let_def assms(2,3,4) actx_def uc_def)
  moreover have "rs_status rs = 200 \<longleftrightarrow> (\<exists>uc. new_from_gin ctx = Inr uc \<and> uc_authenticated uc \<and>
      user_admitted (ae_lib env) (pe_policy (ae_engine env)) a uc \<and> group_admitted (ae_lib env) a uc)"
    using rs(2) known [of "\<lambda>uc. user_admitted (ae_lib env) (pe_policy (ae_engine env)) a uc \<and>
      group_admitted (ae_lib env) a uc"] by simp
  ultimately show ?thesis by (simp add: forbid_def)
qed

text \<open>Concrete inputs for the witnesses.\<close>

definition proxied_request :: "string \<Rightarrow> http_request" where
  "proxied_request agent = empty_request
     \<lparr>rq_headers := set_header ''x-forwarded-host'' ''app.x.io''
        (set_header ''x-forwarded-uri'' ''/x?a=1''
          (set_header ''x-forwarded-proto'' ''https'' (set_header ''user-agent'' agent [])))\<rparr>"

definition proxied_context :: "proxy_type \<Rightarrow> bool \<Rightarrow> proxy_context" where
  "proxied_context p browser = \<lparr>px_host = ''app.x.io'', px_proto = ''https'', px_path = ''/x?a=1'', px_method = ''GET'',
     px_type = ForwardAuth, px_is_browser = browser, px_proxy_type = p\<rparr>"

definition default_engine :: policy_engine where
  "default_engine = the (setup_policy_engine ascii_lib default_configuration)"

definition proxy_env :: "memory_store auth_env" where
  "proxy_env = demo_env\<lparr>ae_engine := default_engine\<rparr>"

abbreviation demo_labels :: "string \<Rightarrow> unit provider_answer" where
  "demo_labels \<equiv> \<lambda>_. Inr (Some demo_app)"

lemma proxied_request_context:
  "get_proxy_context ascii_lib ''traefik'' (proxied_request ''curl'') = Some (proxied_context Traefik False)"
  "get_proxy_context ascii_lib ''traefik'' (proxied_request ''Gecko'') = Some (proxied_context Traefik True)"
  "get_proxy_context ascii_lib ''nginx'' (proxied_request ''Gecko'') = Some (proxied_context Nginx True)"
  by code_simp+

lemma proxy_env_simps:
  "ae_lib proxy_env = ascii_lib" "ae_config proxy_env = default_configuration"
  "setup_policy_engine (ae_lib proxy_env) (ae_config proxy_env) = Some (ae_engine proxy_env)"
proof -
  have "acl_policy (au_acls (cfg_auth default_configuration)) = ''allow''" by code_simp
  then have "setup_policy_engine ascii_lib default_configuration = Some default_engine"
    unfolding default_engine_def setup_policy_engine_def new_policy_engine_def
    by (simp only: Let_def simp_thms if_True option.map option.sel)
  then show "ae_lib proxy_env = ascii_lib" "ae_config proxy_env = default_configuration"
    "setup_policy_engine (ae_lib proxy_env) (ae_config proxy_env) = Some (ae_engine proxy_env)"
    by (simp_all add: proxy_env_def demo_env_def)
qed

lemma demo_acls:
  "get_access_controls rev default_configuration (Some demo_labels) host = Inr (Some demo_app)"
proof -
  have "cfg_apps default_configuration = []" by code_simp
  then show ?thesis by (simp add: get_access_controls_def lookup_static_acls_def)
qed

theorem proxy_admits_exactly_witness:
  "(\<exists>rs. proxy_handler proxy_env rev (Some demo_labels) ''traefik''
      (Some (Some (demo_ldap_user [''admins'']))) (proxied_request ''curl'') = Returns rs \<and> rs_status rs = 200) \<and>
   (\<exists>rs. proxy_handler proxy_env rev (Some demo_labels) ''traefik''
      (Some (Some (demo_ldap_user [''staff'']))) (proxied_request ''curl'') = Returns rs \<and> rs_status rs \<noteq> 200)"
proof -
  have facts: "parse_ip (rq_client_ip (proxied_request ''curl'')) = Some 0xFFFF0A000001" "is_v4 0xFFFF0A000001"
    "filters_sliceable demo_app" "\<not> address_bypassed default_configuration (Some demo_app) 0xFFFF0A000001"
    "address_allowed default_configuration (Some demo_app) 0xFFFF0A000001"
    "\<not> path_exempt ascii_lib demo_app (px_path (proxied_context Traefik False))"
    by code_simp+
  have users: "wf_context (demo_ldap_user gs)" "uc_authenticated (demo_ldap_user gs)" for gs
    by (simp_all add: demo_ldap_user_def wf_context_def)
  have admitted: "user_admitted ascii_lib pol demo_app (demo_ldap_user gs)" for gs pol
  proof -
    have "aus_block (app_users demo_app) = []" "trim_space (aus_allow (app_users demo_app)) \<noteq> []"
      "filter_accepts ascii_lib (aus_allow (app_users demo_app)) ''bob''" by code_simp+
    then show ?thesis
      by (simp add: demo_ldap_user_def user_admitted_def get_username_def get_base_context_def base_context.truncate_def)
  qed
  have groups: "group_admitted ascii_lib demo_app (demo_ldap_user [''admins''])"
    "\<not> group_admitted ascii_lib demo_app (demo_ldap_user [''staff''])"
    by code_simp+
  note decided = proxy_admits_exactly [where env = proxy_env and ord = rev and labels = "Some demo_labels" and px = "proxied_context Traefik False",
      unfolded proxy_env_simps(1,2), OF proxy_env_simps(3) [unfolded proxy_env_simps(1,2)]
      proxied_request_context(1) demo_acls facts(1-3)]
  have "\<exists>rs. proxy_handler proxy_env rev (Some demo_labels) ''traefik'' (Some (Some (demo_ldap_user gs))) (proxied_request ''curl'') =
      Returns rs \<and> (rs_status rs = 200 \<longleftrightarrow> group_admitted ascii_lib demo_app (demo_ldap_user gs))" for gs
    using decided [of "Some (Some (demo_ldap_user gs))"] users admitted facts by (auto simp: wf_gin)
  then show ?thesis using groups by blast
qed

section \<open>What the answers say\<close>

lemma use_browser_response_iff: "use_browser_response px \<longleftrightarrow> px_is_browser px \<and> px_proxy_type px \<noteq> Nginx"
  by (simp add: use_browser_response_def)

lemma remote_user_plain:
  "canonical_header_key ''Remote-User'' \<noteq> canonical_header_key ''x-tinyauth-location''" by code_simp

lemma empty_headers [simp]: "get_header k (rs_headers empty_response) = []"
  by (simp add: empty_response_def get_header_def)

text \<open>
  C18: Unless the labels of the app set the header themselves, an answer of the endpoint carries
  the header \<open>Remote-User\<close> only with the name of the authenticated user of the request, cleaned
  of control bytes, and only after the rule on users has admitted that user: bypassed addresses,
  exempt paths and refusals never vouch for anyone.
\<close>

theorem identity_only_of_admitted:
  assumes "get_proxy_context (ae_lib env) proxy rq = Some px"
    "get_access_controls ord (ae_config env) labels (px_host px) = Inr acls"
    "visits ord" "canonical_header_key ''Remote-User'' \<notin> canonical_header_key ` app_header_names acls"
    "proxy_handler env ord labels proxy ctx rq = Returns rs"
  shows "get_header ''Remote-User'' (rs_headers rs) = [] \<or>
    (\<exists>uc. new_from_gin ctx = Inr uc \<and> uc_authenticated uc \<and>
       get_header ''Remote-User'' (rs_headers rs) = sanitize_header (get_username uc) \<and>
       evaluate (ae_engine env) rule_user_allowed
         \<lparr>ac_acls = acls, ac_user_context = Some uc, ac_ip = parse_ip (rq_client_ip rq), ac_path = px_path px\<rparr> =
       Returns True)"
  using assms(5) remote_user_plain
  by (cases "new_from_gin ctx")
    (auto simp: proxy_handler_def assms(1,2) Let_def proxy_user_def let_through_other [OF assms(3,4)]
      identity_user_header forbid_def zero_user_context_def split: if_splits)

lemma admitted_run:
  obtains rs where "proxy_handler proxy_env rev (Some demo_labels) ''traefik''
      (Some (Some (demo_ldap_user [''admins'']))) (proxied_request ''curl'') = Returns rs"
    "get_header ''Remote-User'' (rs_headers rs) \<noteq> []"
proof -
  have "case proxy_handler proxy_env rev (Some demo_labels) ''traefik''
      (Some (Some (demo_ldap_user [''admins'']))) (proxied_request ''curl'') of
    Returns rs \<Rightarrow> get_header ''Remote-User'' (rs_headers rs) \<noteq> [] | Panics \<Rightarrow> False" by code_simp
  then show thesis by (auto split: outcome.splits intro: that)
qed

theorem identity_only_of_admitted_witness:
  "\<exists>rs. proxy_handler proxy_env rev (Some demo_labels) ''traefik''
      (Some (Some (demo_ldap_user [''admins'']))) (proxied_request ''curl'') = Returns rs \<and>
    get_header ''Remote-User'' (rs_headers rs) = ''bob''"
proof -
  obtain rs where rs: "proxy_handler proxy_env rev (Some demo_labels) ''traefik''
      (Some (Some (demo_ldap_user [''admins'']))) (proxied_request ''curl'') = Returns rs"
    "get_header ''Remote-User'' (rs_headers rs) \<noteq> []" by (rule admitted_run)
  have names: "canonical_header_key ''Remote-User'' \<notin> canonical_header_key ` app_header_names (Some demo_app)"
  proof -
    have "app_header_names (Some demo_app) = {''Authorization''}"
      by (simp add: app_header_names_def demo_app_def zero_app_def parse_headers_def zero_app_response_def)
    moreover have "canonical_header_key ''Remote-User'' \<noteq> canonical_header_key ''Authorization''" by code_simp
    ultimately show ?thesis by simp
  qed
  have name: "sanitize_header (get_username (demo_ldap_user gs)) = ''bob''" for gs
    by (simp add: demo_ldap_user_def get_username_def get_base_context_def base_context.truncate_def)
      code_simp
  have user: "new_from_gin (Some (Some (demo_ldap_user gs))) = Inr (demo_ldap_user gs)" for gs
    by (rule wf_gin) (simp add: demo_ldap_user_def wf_context_def)
  show ?thesis
    using identity_only_of_admitted [where env = proxy_env and ord = rev and labels = "Some demo_labels"
        and px = "proxied_context Traefik False" and ctx = "Some (Some (demo_ldap_user [''admins'']))",
        unfolded proxy_env_simps(1,2), OF proxied_request_context(1) demo_acls visits_rev names rs(1)] rs
    by (auto simp: user name)
qed

text \<open>
  C20: A request that neither the addresses nor the path settle and that carries no authenticated
  user is sent to the login page with a query that decodes to the address it asked for and the
  purpose of the login. A browser is redirected; nginx, which cannot follow a redirect here, and
  other clients get the status 401 with the same location in a header.
\<close>

theorem anonymous_sent_to_login:
  assumes "get_proxy_context (ae_lib env) proxy rq = Some px"
    "get_access_controls ord (ae_config env) labels (px_host px) = Inr acls"
    "actx = \<lparr>ac_acls = acls, ac_user_context = None, ac_ip = parse_ip (rq_client_ip rq), ac_path = px_path px\<rparr>"
    "evaluate (ae_engine env) rule_ip_bypassed actx = Returns False"
    "evaluate (ae_engine env) rule_auth_enabled actx = Returns False"
    "evaluate (ae_engine env) rule_ip_allowed actx = Returns True"
    "\<And>uc. new_from_gin ctx = Inr uc \<Longrightarrow> \<not> uc_authenticated uc"
  shows "\<exists>rs q. proxy_handler env ord labels proxy ctx rq = Returns rs \<and>
     decode_values q = Some [(''login_for'', ''app''),
       (''redirect_uri'', px_proto px @ ''://'' @ px_host px @ px_path px)] \<and>
     (if px_is_browser px \<and> px_proxy_type px \<noteq> Nginx
      then rs_status rs = 302 \<and> rs_body rs = RedirectTo (rt_app_url (ae_runtime env) @ ''/login?'' @ q)
      else rs_status rs = 401 \<and>
        get_header ''x-tinyauth-location'' (rs_headers rs) = rt_app_url (ae_runtime env) @ ''/login?'' @ q)"
proof -
  let ?q = "redirect_query (px_proto px @ ''://'' @ px_host px @ px_path px) ''app''"
  have user: "\<not> uc_authenticated (case new_from_gin ctx of Inl _ \<Rightarrow> zero_user_context | Inr c \<Rightarrow> c)"
    using assms(7) by (cases "new_from_gin ctx") (auto simp: zero_user_context_def)
  have "proxy_handler env ord labels proxy ctx rq = Returns
      (locate px (rt_app_url (ae_runtime env) @ ''/login?'' @ encode_values ?q) 401 ''Unauthorized'')"
    using assms(4-6) user by (simp add: proxy_handler_def assms(1-3) Let_def proxy_user_def)
  moreover have "sort_key fst ?q = [(''login_for'', ''app''),
      (''redirect_uri'', px_proto px @ ''://'' @ px_host px @ px_path px)]"
    by (simp add: redirect_query_def)
  ultimately show ?thesis
    by (intro exI [of _ "locate px (rt_app_url (ae_runtime env) @ ''/login?'' @ encode_values ?q) 401 ''Unauthorized''"]
        exI [of _ "encode_values ?q"]) (simp add: decode_encode_values locate_body use_browser_response_iff)
qed

theorem anonymous_sent_to_login_witness:
  "(\<exists>rs q. proxy_handler proxy_env rev (Some demo_labels) ''nginx'' None (proxied_request ''Gecko'') = Returns rs \<and>
     rs_status rs = 401 \<and>
     decode_values q = Some [(''login_for'', ''app''), (''redirect_uri'', ''https://app.x.io/x?a=1'')]) \<and>
   (\<exists>rs url. proxy_handler proxy_env rev (Some demo_labels) ''traefik'' None (proxied_request ''Gecko'') = Returns rs \<and>
     rs_status rs = 302 \<and> rs_body rs = RedirectTo url)"
proof -
  let ?rq = "proxied_request ''Gecko''"
  let ?actx = "\<lambda>px. \<lparr>ac_acls = Some demo_app, ac_user_context = None, ac_ip = parse_ip (rq_client_ip ?rq), ac_path = px_path px\<rparr>"
  have facts: "parse_ip (rq_client_ip ?rq) = Some 0xFFFF0A000001" "is_v4 0xFFFF0A000001"
    "\<not> address_bypassed default_configuration (Some demo_app) 0xFFFF0A000001"
    "address_allowed default_configuration (Some demo_app) 0xFFFF0A000001"
    "\<not> path_exempt ascii_lib demo_app ''/x?a=1''"
    by code_simp+
  note started = proxy_env_simps(3) [unfolded proxy_env_simps(1,2)]
  have rules: "evaluate (ae_engine proxy_env) rule_ip_bypassed (?actx (proxied_context p b)) = Returns False"
    "evaluate (ae_engine proxy_env) rule_auth_enabled (?actx (proxied_context p b)) = Returns False"
    "evaluate (ae_engine proxy_env) rule_ip_allowed (?actx (proxied_context p b)) = Returns True" for p b
    using address_rules [OF started _ facts(2)] auth_enabled_rule_exempt [OF started] facts
    by (simp_all add: proxied_context_def)
  note sent = anonymous_sent_to_login [where env = proxy_env and ord = rev and labels = "Some demo_labels" and ctx = None,
      unfolded proxy_env_simps(1,2), OF _ demo_acls refl rules]
  show ?thesis
    using sent [OF proxied_request_context(2)] sent [OF proxied_request_context(3)]
    by (auto simp: new_from_gin_def) (auto simp: proxied_context_def)
qed

end
