(* ===== verification/RequestContexts.thy ===== *)
theory RequestContexts
  imports Middleware
begin

text \<open>
  What the context of a request rests on: credentials of the request, a session that is alive and an
  email that is still accepted; and two places where basic authentication does less than it means to.
\<close>

section \<open>Properties\<close>


definition cookie_request :: http_request where
  "cookie_request = empty_request\<lparr>rq_path := ''/api/context/user'', rq_cookies := [(''s'', ''u1'')]\<rparr>"

definition basic_request :: "string \<Rightarrow> string \<Rightarrow> http_request" where
  "basic_request n p = cookie_request\<lparr>rq_cookies := [], rq_basic_auth := Some (n, p)\<rparr>"


lemma without_session_wf:
  assumes "without_session env ord now rq st = (Returns r, st')" "cr_value r = Some (Some uc)"
  shows "wf_context uc"
proof (cases "rq_basic_auth rq")
  case None
  with assms show ?thesis by (auto simp: without_session_def no_context_def wf_context_def split: option.splits)
next
  case (Some np)
  obtain n p where np: "np = (n, p)" by fastforce
  obtain q st1 where q: "basic_auth env ord now n p st = (q, st1)" by fastforce
  from assms Some np q obtain hs where "q = Inr (Some uc, hs)"
    by (cases q) (auto simp: without_session_def no_context_def)
  with q basic_auth_grants [of env ord now n p st uc hs st1] show ?thesis by (simp add: basic_grants_def)
qed

text \<open>
  C32: Every context the middleware stores names its provider's data: reading it back gives the
  same context, and its provider can be named without a fault.
\<close>

theorem stored_context_readable:
  assumes "context_middleware env ord now rq st = (Returns r, st')" "cr_value r = Some (Some uc)"
  shows "new_from_gin (cr_value r) = Inr uc \<and> get_provider_id uc \<noteq> Panics"
proof -
  have "wf_context uc"
  proof (cases "is_ignore_path (rq_method rq @ '' '' @ rq_path rq)")
    case True
    with assms show ?thesis by (auto simp: context_middleware_def no_context_def)
  next
    case path: False
    show ?thesis
    proof (cases "map_of (rq_cookies rq) (rt_session_cookie_name (ae_runtime env))")
      case None
      with assms(1) path without_session_wf [OF _ assms(2)] show ?thesis by (simp add: context_middleware_def)
    next
      case (Some u)
      obtain c st1 where c: "cookie_auth env ord now u (rq_client_ip rq) st = (c, st1)" by fastforce
      consider "c = Panics" | e where "c = Returns (Inl e)" | uc' ck where "c = Returns (Inr (uc', ck))"
        by (metis outcome.exhaust prod.exhaust sum.exhaust)
      then show ?thesis
      proof cases
        case 3
        with assms path Some c have "uc' = uc" by (auto simp: context_middleware_def)
        with 3 c have c: "cookie_auth env ord now u (rq_client_ip rq) st = (Returns (Inr (uc, ck)), st1)" by simp
        then obtain x st2 where "get_session env now u st = (Inr x, st2)"
          by (auto simp: cookie_auth_def split: prod.splits sum.splits)
        from cookie_auth_session [OF this c] show ?thesis by (simp add: context_of_session_def)
      qed (use assms(1) path Some c without_session_wf [OF _ assms(2)] in \<open>simp_all add: context_middleware_def\<close>)
    qed
  qed
  then show ?thesis using assms(2) wf_gin [of uc] wf_provider_id [of uc] by auto
qed

theorem stored_context_readable_witness:
  "\<exists>uc. fst (context_middleware demo_env rev 0 (basic_request ''ann'' ''pw'') demo_state)
       = Returns (no_context\<lparr>cr_value := Some (Some uc)\<rparr>) \<and> new_from_gin (Some (Some uc)) = Inr uc"
proof -
  let ?m = "context_middleware demo_env rev 0 (basic_request ''ann'' ''pw'') demo_state"
  have "case ?m of (Returns x, st) \<Rightarrow> (case cr_value x of Some (Some c) \<Rightarrow> cr_headers x = [] \<and> cr_cookies x = [] | _ \<Rightarrow> False) | _ \<Rightarrow> False"
    by code_simp
  then obtain r uc where m: "?m = (Returns r, snd ?m)" "cr_value r = Some (Some uc)" "cr_headers r = []" "cr_cookies r = []"
    by (cases ?m; cases "fst ?m") (auto split: option.splits)
  have "r = no_context\<lparr>cr_value := Some (Some uc)\<rparr>" using m by (cases r) (simp add: no_context_def)
  with stored_context_readable [OF m(1,2)] m(1,2) show ?thesis by (metis fst_conv)
qed

text \<open>
  Basic credentials of a local user with a second factor are refused, but the right password
  alone is recorded as a successful login: the failures counted so far, those of wrong codes
  included, are forgotten.
\<close>

theorem basic_auth_resets_failures:
  assumes "\<not> fst (is_account_locked env now n st)" "get_local_user (ae_runtime env) n = Some usr"
    "lib_bcrypt (ae_lib env) (user_password usr) p" "user_totp_secret usr \<noteq> []"
    "\<not> limiter_off (ae_config env)"
  shows "\<exists>st'. basic_auth env ord now n p st = (Inl BasicTotpUser, st') \<and>
     (\<forall>t. \<exists>e. cache_get t (as_login st') n = Some e \<and> la_failed_attempts e = 0)"
  using basic_auth_local [OF assms(1-4), of ord] record_success_entry [OF assms(5)]
  by blast

theorem basic_auth_resets_failures_witness:
  "\<exists>e. cache_get 5 (as_login (snd (basic_auth demo_env rev 4 ''tom'' ''pw2''
      (attempts_run demo_env rev [(0, ''tom'', False), (1, ''tom'', False)] demo_state)))) ''tom'' = Some e \<and>
    la_failed_attempts e = 0"
proof -
  let ?st = "attempts_run demo_env rev [(0, ''tom'', False), (1, ''tom'', False)] demo_state"
  have "\<not> fst (is_account_locked demo_env 4 ''tom'' ?st)"
    "get_local_user (ae_runtime demo_env) ''tom'' =
       Some \<lparr>user_username = ''tom'', user_password = ''pw2'', user_totp_secret = ''123'', user_attributes = zero_user_attributes\<rparr>"
    "lib_bcrypt (ae_lib demo_env) ''pw2'' ''pw2''" "\<not> limiter_off (ae_config demo_env)"
    by code_simp+
  with basic_auth_resets_failures [of demo_env 4 "''tom''" ?st _ "''pw2''" rev] show ?thesis by fastforce
qed

text \<open>
  C31: A session of an OAuth provider whose email is no longer accepted by the whitelist gives no
  context and is taken out of the store (any store that keeps the contract, unless its delete
  reports an error), whatever the rest of the request is.
\<close>

theorem revoked_email_ends_session:
  assumes repo: "session_repo (ae_ops env) good sess" "good (as_store st)"
    and g: "get_session env now u st = (Inr x, st1)"
    and p: "se_provider x \<notin> set reserved_provider_names"
    and s: "get_service (ae_broker env) (se_provider x) \<noteq> None"
    and w: "is_email_whitelisted env (se_provider x) (se_email x) = Returns False"
    and d: "fst (delete_session_op (ae_ops env) u (as_store st)) = None"
  shows "fst (cookie_auth env ord now u ip st) = Returns (Inl EmailNotWhitelisted) \<and>
     sess (as_store (snd (cookie_auth env ord now u ip st))) = (sess (as_store st))(u := None)"
proof -
  have "st1 = st" using session_repo.get_session_ok [OF repo(1) refl repo(2) g] by blast
  from p have "se_provider x \<notin> {''local'', ''ldap'', ''tailscale''}" by (simp add: reserved_provider_names_def)
  from oauth_session [OF this] obtain oc where o: "uc_provider (new_from_session x) = ProviderOAuth"
    "uc_oauth (new_from_session x) = Some oc" "bc_email oc = se_email x" "oc_id oc = se_provider x" by blast
  have c: "cookie_auth env ord now u ip st =
      (Returns (Inl EmailNotWhitelisted), snd (delete_session env now u st))"
    using s w by (auto simp: cookie_auth_def g o \<open>st1 = st\<close> Let_def)
  from d obtain s' where "delete_session_op (ae_ops env) u (as_store st) = (None, s')"
    by (cases "delete_session_op (ae_ops env) u (as_store st)") auto
  with session_repo.delete_ok [OF repo, of u s'] c show ?thesis by (simp add: delete_session_def)
qed

definition github_session :: session where
  "github_session = demo_session\<lparr>se_uuid := ''g1'', se_provider := ''github'', se_email := ''eve@x.io''\<rparr>"

definition github_state :: "memory_store auth_state" where
  "github_state = demo_state\<lparr>as_store := snd (mem_create_session github_session new_memory_store)\<rparr>"

definition listed_env :: "memory_store auth_env" where
  "listed_env = demo_env\<lparr>ae_runtime := demo_runtime\<lparr>rt_oauth_whitelist := [''ann@x.io'']\<rparr>\<rparr>"

theorem revoked_email_ends_session_witness:
  "mem_sess (as_store (snd (cookie_auth listed_env rev 50000000000 ''g1'' ''10.0.0.1'' github_state))) ''g1'' = None"
proof -
  have repo: "session_repo (ae_ops listed_env) mem_inv mem_sess"
    using demo_repo by (simp add: listed_env_def)
  have inv: "mem_inv (as_store github_state)"
    by (simp add: github_state_def mem_create_session_def mem_inv_def new_memory_store_def keyed_def)
  have g: "get_session listed_env 50000000000 ''g1'' github_state = (Inr github_session, github_state)"
    by code_simp
  have "get_service (ae_broker listed_env) (se_provider github_session) \<noteq> None"
    "is_email_whitelisted listed_env (se_provider github_session) (se_email github_session) = Returns False"
    "fst (delete_session_op (ae_ops listed_env) ''g1'' (as_store github_state)) = None"
    "se_provider github_session \<notin> set reserved_provider_names"
    by code_simp+
  with revoked_email_ends_session [OF repo inv g] show ?thesis by simp
qed

text \<open>
  Two ways to be the same LDAP user: a session asks the directory for the groups of the
  distinguished name the search found, basic authentication asks for those of the bare user
  name (unless they are cached under it).
\<close>

theorem basic_ldap_groups_by_name:
  assumes "basic_auth env ord now n p st = (Inr (Some uc, hs), st')" "uc_provider uc = ProviderLDAP"
    "ae_ldap env = Some ls" "cache_get now (as_ldap_groups st) n = None"
  shows "\<exists>d who. uc_ldap uc = Some d \<and> ldap_get_user_groups (ae_lib env) ls who n = Some (dc_groups d)"
proof -
  have none: "get_local_user (ae_runtime env) n = None"
    using basic_auth_grants [OF assms(1)] assms(2) by (auto simp: basic_grants_def split: option.splits)
  have r: "as_ldap_groups (record_login_attempt env ord now n True (st\<lparr>as_ldap_identity := w\<rparr>)) = as_ldap_groups st" for w
    by (simp add: record_login_attempt_def Let_def)
  from assms(1,3) none obtain w and user :: ldap_user and st3 where
    u: "get_ldap_user env ord now n (record_login_attempt env ord now n True (st\<lparr>as_ldap_identity := w\<rparr>)) = (Inr user, st3)"
    and c: "map_option dc_groups (uc_ldap uc) = Some (lu_groups user)"
    by (auto simp: basic_auth_def search_user_def check_user_password_def Let_def
        split: prod.splits if_splits option.splits sum.splits bool.splits)
  from u assms(3,4) r obtain who where "ldap_get_user_groups (ae_lib env) ls who n = Some (lu_groups user)"
    by (auto simp: get_ldap_user_def split: option.splits)
  with c show ?thesis by auto
qed

definition group_server :: ldap_server where
  "group_server = (demo_server [(''cn=svc'', ''pw''), (''cn=eve,dc=x'', ''secret'')])
     \<lparr>sv_search := (\<lambda>who r.
        if sr_filter r = ''(uid=eve)'' then Some [\<lparr>le_dn = ''cn=eve,dc=x'', le_attributes = []\<rparr>]
        else if sr_filter r = ''(&(objectclass=groupOfUniqueNames)(uniquemember=cn=eve,dc=x))''
        then Some [\<lparr>le_dn = ''cn=admins,dc=x'', le_attributes = []\<rparr>]
        else Some [])\<rparr>"

definition group_ldap :: ldap_service where
  "group_ldap = demo_ldap\<lparr>lv_server := group_server\<rparr>"

definition group_env :: "memory_store auth_env" where
  "group_env = demo_env\<lparr>ae_ldap := Some group_ldap\<rparr>"

theorem basic_ldap_groups_by_name_witness:
  "\<exists>uc st' d. basic_auth group_env rev 0 ''eve'' ''secret'' demo_state = (Inr (Some uc, []), st') \<and>
     uc_ldap uc = Some d \<and> dc_groups d = [] \<and>
     ldap_get_user_groups (ae_lib group_env) group_ldap (BoundAs ''cn=svc'') ''cn=eve,dc=x'' = Some [''admins'']"
proof -
  let ?b = "basic_auth group_env rev 0 ''eve'' ''secret'' demo_state"
  define uc where "uc = (case fst ?b of Inr (Some c, _) \<Rightarrow> c | _ \<Rightarrow> zero_user_context)"
  have b: "?b = (Inr (Some uc, []), snd ?b)" "uc_provider uc = ProviderLDAP"
    "cache_get 0 (as_ldap_groups demo_state) ''eve'' = None"
    unfolding uc_def by code_simp+
  have l: "ae_ldap group_env = Some group_ldap" by (simp add: group_env_def)
  have g: "ldap_get_user_groups (ae_lib group_env) group_ldap who ''eve'' = Some []" for who
    by (simp add: group_env_def demo_env_def ascii_lib_def group_ldap_def group_server_def
        ldap_get_user_groups_def Let_def)
  from basic_ldap_groups_by_name [OF b(1,2) l b(3)] g obtain d where "uc_ldap uc = Some d" "dc_groups d = []"
    by auto
  moreover have "ldap_get_user_groups (ae_lib group_env) group_ldap (BoundAs ''cn=svc'') ''cn=eve,dc=x'' = Some [''admins'']"
    by code_simp
  ultimately show ?thesis using b(1) by metis
qed

end
