(* ===== verification/UserLogins.thy ===== *)
theory UserLogins
  imports UserController
begin

text \<open>
  What a login of a local or LDAP user needs: the password, then the code of a second factor; what is
  refused and counted; and how the counter is reset between guesses of a code.
\<close>

section \<open>Properties\<close>

text \<open>What a login with a cookie in its answer has passed, and what it does after that.\<close>

lemma login_checked:
  assumes "login_handler env ord now fresh rq st = (rs, st')" "rs_cookies rs \<noteq> []"
  obtains req rem search st1 where "bind_login_request (ae_lib env) rq = Some req"
    "is_account_locked env now (lr_username req) st = (False, rem)" "search_user env st (lr_username req) = Inr search"
    "check_user_password env search (lr_password req) st = (None, st1)"
proof -
  from assms obtain req where req: "bind_login_request (ae_lib env) rq = Some req"
    by (auto simp: login_handler_def split: option.splits)
  let ?n = "lr_username req"
  obtain lk rem where "is_account_locked env now ?n st = (lk, rem)" by fastforce
  with assms req have lk: "is_account_locked env now ?n st = (False, rem)"
    by (cases lk) (auto simp: login_handler_def Let_def)
  have "\<exists>search. search_user env st ?n = Inr search"
  proof (cases "search_user env st ?n")
    case (Inl e)
    with assms req lk show ?thesis by (cases e) (auto simp: login_handler_def Let_def)
  qed simp
  then obtain search where s: "search_user env st ?n = Inr search" ..
  obtain e st1 where c: "check_user_password env search (lr_password req) st = (e, st1)" by fastforce
  with assms req lk s have "e = None" by (cases e) (auto simp: login_handler_def Let_def)
  with that req lk s c show thesis by simp
qed

lemma login_hands_out:
  assumes repo: "session_repo (ae_ops env) good sess" "good (as_store st)"
    and h: "login_handler env ord now fresh rq st = (rs, st')" "rs_cookies rs \<noteq> []"
    and passed: "bind_login_request (ae_lib env) rq = Some req" "is_account_locked env now (lr_username req) st = (False, rem)"
      "search_user env st (lr_username req) = Inr search" "check_user_password env search (lr_password req) st = (None, st1)"
  shows "\<exists>u x. fresh = Some u \<and> hands_out sess rs u x st st' \<and> se_username x = lr_username req \<and>
     (case get_local_user (ae_runtime env) (lr_username req) of
        Some usr \<Rightarrow> se_provider x = ''local'' \<and> (se_totp_pending x \<longleftrightarrow> user_totp_secret usr \<noteq> [])
      | None \<Rightarrow> se_provider x = ''ldap'' \<and> \<not> se_totp_pending x)"
proof -
  let ?n = "lr_username req"
  let ?row = "\<lambda>d. new_session_row (ae_config env) now (the fresh) d"
  note ok = search_check_ok [OF passed(3,4)]
  then have s1: "as_store st1 = as_store st" by blast
  with repo(2) have st1: "good (as_store st1)" by simp
  have finished: "fresh \<noteq> None \<and> hands_out sess rs (the fresh) (?row d) st st'"
    if "finish_login env ord now fresh ?n d st1 = (rs, st')" for d
    using session_repo.finish_login_ok [OF repo(1) refl st1 that h(2)] hands_out_store [OF s1] by auto
  show ?thesis
  proof (cases "get_local_user (ae_runtime env) ?n")
    case None
    with ok have t: "search_type search = UserLDAP" by (cases "search_type search") auto
    with h(1) passed None
    have "finish_login env ord now fresh ?n (login_session_data env ?n search None) st1 = (rs, st')"
      by (simp add: login_handler_def Let_def)
    from finished [OF this] ok None t show ?thesis
      by (intro exI [of _ "the fresh"] exI [of _ "?row (login_session_data env ?n search None)"]) simp
  next
    case (Some usr)
    with ok have t: "search_type search = UserLocal" by simp
    show ?thesis
    proof (cases "user_totp_secret usr = []")
      case True
      with h(1) passed t Some
      have "finish_login env ord now fresh ?n (login_session_data env ?n search (Some usr)) st1 = (rs, st')"
        by (simp add: login_handler_def Let_def)
      from finished [OF this] ok Some t True show ?thesis
        by (intro exI [of _ "the fresh"] exI [of _ "?row (login_session_data env ?n search (Some usr))"]) simp
    next
      case False
      let ?d = "local_session_data env usr True"
      obtain r st2 where cr: "create_session env now fresh ?d st1 = (r, st2)" by fastforce
      with h passed t Some False obtain ck where r: "r = Inr ck"
        by (cases r) (auto simp: login_handler_def Let_def)
      with h(1) passed t Some False cr have st': "st' = st2" "rs_status rs = 200" "rs_cookies rs = [ck]"
        by (auto simp: login_handler_def Let_def reply_defs)
      from session_repo.create_session_ok [OF repo(1) refl st1 cr [unfolded r]] obtain u where
        "fresh = Some u" "ck_value ck = u"
        "sess (as_store st2) = (sess (as_store st1))(u \<mapsto> new_session_row (ae_config env) now u ?d)" by blast
      with st' ok Some False get_local_user_name [OF Some] show ?thesis
        by (auto simp: hands_out_def intro!: exI [of _ "new_session_row (ae_config env) now u ?d"])
    qed
  qed
qed

text \<open>
  C23: Over every store that keeps the contract: a login answers with a cookie only when the
  account is not locked and the password belongs to the name; the cookie then names a new
  session of that name, and if the name is that of a local user with a second factor, the session
  waits for it.
\<close>

theorem login_session_needs_password:
  assumes repo: "session_repo (ae_ops env) good sess" "good (as_store st)"
    and h: "login_handler env ord now fresh rq st = (rs, st')" "rs_cookies rs \<noteq> []"
  shows "\<exists>req u x. bind_login_request (ae_lib env) rq = Some req \<and>
     \<not> fst (is_account_locked env now (lr_username req) st) \<and>
     password_ok env st (lr_username req) (lr_password req) \<and>
     fresh = Some u \<and> hands_out sess rs u x st st' \<and> se_username x = lr_username req \<and>
     (case get_local_user (ae_runtime env) (lr_username req) of
        Some usr \<Rightarrow> se_provider x = ''local'' \<and> (se_totp_pending x \<longleftrightarrow> user_totp_secret usr \<noteq> [])
      | None \<Rightarrow> se_provider x = ''ldap'' \<and> \<not> se_totp_pending x)"
proof -
  obtain req rem search st1 where passed: "bind_login_request (ae_lib env) rq = Some req"
    "is_account_locked env now (lr_username req) st = (False, rem)" "search_user env st (lr_username req) = Inr search"
    "check_user_password env search (lr_password req) st = (None, st1)" by (rule login_checked [OF h])
  from login_hands_out [OF repo h passed] search_check_ok [OF passed(3,4)] passed show ?thesis by auto
qed

theorem login_session_needs_password_witness:
  "\<exists>x. hands_out mem_sess (fst (login_handler demo_env rev 0 (Some ''u9'') (login_form ''tom'' ''pw2'') demo_state)) ''u9'' x
     demo_state (snd (login_handler demo_env rev 0 (Some ''u9'') (login_form ''tom'' ''pw2'') demo_state)) \<and>
   se_totp_pending x"
proof -
  let ?l = "login_handler demo_env rev 0 (Some ''u9'') (login_form ''tom'' ''pw2'') demo_state"
  obtain rs st' where l: "?l = (rs, st')" by fastforce
  have "rs_cookies (fst ?l) \<noteq> []" by code_simp
  with l have c: "rs_cookies rs \<noteq> []" by simp
  have u: "get_local_user (ae_runtime demo_env) ''tom'' =
     Some \<lparr>user_username = ''tom'', user_password = ''pw2'', user_totp_secret = ''123'', user_attributes = zero_user_attributes\<rparr>"
    by code_simp
  have b: "bind_login_request (ae_lib demo_env) (login_form ''tom'' ''pw2'') =
      Some \<lparr>lr_username = ''tom'', lr_password = ''pw2''\<rparr>" by code_simp
  from login_session_needs_password [OF demo_session_repo demo_state_inv l c] b u l show ?thesis by auto
qed

text \<open>
  The refusals of a login: a locked account is answered with 429 and nothing changes; a wrong
  password of a local user, or a name nobody has, is answered with 401 and one failed attempt is
  recorded. No refusal hands out a cookie.
\<close>

theorem login_refused:
  assumes "bind_login_request (ae_lib env) rq = Some req"
  shows "(fst (is_account_locked env now (lr_username req) st) \<longrightarrow>
       rs_status (fst (login_handler env ord now fresh rq st)) = 429 \<and>
       snd (login_handler env ord now fresh rq st) = st) \<and>
     (\<not> fst (is_account_locked env now (lr_username req) st) \<and>
      (case get_local_user (ae_runtime env) (lr_username req) of
         Some usr \<Rightarrow> \<not> lib_bcrypt (ae_lib env) (user_password usr) (lr_password req)
       | None \<Rightarrow> ae_ldap env = None) \<longrightarrow>
       login_handler env ord now fresh rq st =
         (unauthorized, record_login_attempt env ord now (lr_username req) False st)) \<and>
     (rs_status (fst (login_handler env ord now fresh rq st)) \<noteq> 200 \<longrightarrow>
       rs_cookies (fst (login_handler env ord now fresh rq st)) = [])"
proof (intro conjI impI)
  obtain lk rem where lk: "is_account_locked env now (lr_username req) st = (lk, rem)" by fastforce
  { assume "fst (is_account_locked env now (lr_username req) st)"
    with assms lk show "rs_status (fst (login_handler env ord now fresh rq st)) = 429"
      by (simp add: login_handler_def Let_def too_many_attempts_def reply_defs) }
  { assume "fst (is_account_locked env now (lr_username req) st)"
    with assms lk show "snd (login_handler env ord now fresh rq st) = st"
      by (simp add: login_handler_def Let_def) }
  { assume "\<not> fst (is_account_locked env now (lr_username req) st) \<and>
      (case get_local_user (ae_runtime env) (lr_username req) of
         Some usr \<Rightarrow> \<not> lib_bcrypt (ae_lib env) (user_password usr) (lr_password req)
       | None \<Rightarrow> ae_ldap env = None)"
    with assms lk show "login_handler env ord now fresh rq st =
         (unauthorized, record_login_attempt env ord now (lr_username req) False st)"
      by (cases "get_local_user (ae_runtime env) (lr_username req)")
        (simp_all add: login_handler_def search_user_def check_user_password_def Let_def) }
  { assume "rs_status (fst (login_handler env ord now fresh rq st)) \<noteq> 200"
    moreover have "rs_status (fst (finish_login env ord now fresh n d st1)) = 200 \<or>
        rs_cookies (fst (finish_login env ord now fresh n d st1)) = []" for n d st1
      by (simp add: finish_login_def reply_defs split: prod.split sum.split)
    ultimately show "rs_cookies (fst (login_handler env ord now fresh rq st)) = []"
      using assms lk
      by (auto simp: login_handler_def Let_def reply_defs
          split: sum.splits search_error.splits prod.splits option.splits user_search_type.splits if_splits) }
qed

theorem login_refused_witness:
  "rs_status (fst (login_handler demo_env rev 0 (Some ''u9'') (login_form ''ann'' ''nope'') demo_state)) = 401"
proof -
  have b: "bind_login_request (ae_lib demo_env) (login_form ''ann'' ''nope'') =
      Some \<lparr>lr_username = ''ann'', lr_password = ''nope''\<rparr>" by code_simp
  have "\<not> fst (is_account_locked demo_env 0 ''ann'' demo_state)"
    "\<not> lib_bcrypt (ae_lib demo_env) ''pw'' ''nope''"
    "get_local_user (ae_runtime demo_env) ''ann'' =
     Some \<lparr>user_username = ''ann'', user_password = ''pw'', user_totp_secret = [], user_attributes = zero_user_attributes\<rparr>"
    by code_simp+
  with login_refused [OF b, of 0 demo_state rev "Some ''u9''"] show ?thesis
    by (simp add: unauthorized_def reply_defs)
qed

text \<open>What a second factor with a cookie in its answer has passed.\<close>

lemma totp_checked:
  assumes "totp_handler env ord now fresh ctx rq st = (rs, st')" "rs_cookies rs \<noteq> []"
  obtains req uc rem usr where "bind_totp_request (ae_lib env) rq = Some req" "new_from_gin ctx = Inr uc"
    "totp_pending uc" "is_account_locked env now (get_username uc) st = (False, rem)"
    "get_local_user (ae_runtime env) (get_username uc) = Some usr"
    "lib_totp (ae_lib env) (tr_code req) (user_totp_secret usr)"
proof -
  from assms obtain req where req: "bind_totp_request (ae_lib env) rq = Some req"
    by (auto simp: totp_handler_def split: option.splits)
  have "\<exists>uc. new_from_gin ctx = Inr uc"
  proof (cases "new_from_gin ctx")
    case (Inl e)
    with assms req show ?thesis by (cases e) (auto simp: totp_handler_def)
  qed simp
  then obtain uc where uc: "new_from_gin ctx = Inr uc" ..
  with assms req have pending: "totp_pending uc" by (auto simp: totp_handler_def split: if_splits)
  let ?n = "get_username uc"
  obtain lk rem where "is_account_locked env now ?n st = (lk, rem)" by fastforce
  with assms req uc pending have lk: "is_account_locked env now ?n st = (False, rem)"
    by (cases lk) (auto simp: totp_handler_def Let_def)
  from assms req uc pending lk obtain usr where usr: "get_local_user (ae_runtime env) ?n = Some usr"
    by (auto simp: totp_handler_def Let_def split: option.splits)
  with assms req uc pending lk have "lib_totp (ae_lib env) (tr_code req) (user_totp_secret usr)"
    by (auto simp: totp_handler_def Let_def split: if_splits)
  with that req uc pending lk usr show thesis by blast
qed

text \<open>The waiting session is dropped first.\<close>

definition without_waiting :: "'s auth_env \<Rightarrow> int \<Rightarrow> string option \<Rightarrow> 's auth_state \<Rightarrow> 's auth_state" where
  "without_waiting env now ck st = (case ck of None \<Rightarrow> st | Some w \<Rightarrow> snd (delete_session env now w st))"

lemma without_waiting_ok:
  assumes repo: "session_repo (ae_ops env) good sess" "good (as_store st)"
  shows "good (as_store (without_waiting env now ck st))"
    "sess (as_store (without_waiting env now ck st)) v = Some y \<Longrightarrow> sess (as_store st) v = Some y"
    "ck = Some w \<Longrightarrow> fst (delete_session_op (ae_ops env) w (as_store st)) = None \<Longrightarrow>
       sess (as_store (without_waiting env now ck st)) w = None"
proof -
  have "flow good sess (\<lambda>_. False) st (without_waiting env now ck st)"
    using session_repo.delete_session_flow [OF repo(1) refl repo(2)] repo(2)
    by (simp add: without_waiting_def split: option.split)
  with repo(2) show "good (as_store (without_waiting env now ck st))" by (simp add: flow_def)
  show "sess (as_store (without_waiting env now ck st)) v = Some y \<Longrightarrow> sess (as_store st) v = Some y"
    using session_repo.delete_session_effect [OF repo(1) refl repo(2)]
    by (auto simp: without_waiting_def split: option.splits)
  assume k: "ck = Some w" and d: "fst (delete_session_op (ae_ops env) w (as_store st)) = None"
  obtain s' where "delete_session_op (ae_ops env) w (as_store st) = (None, s')"
    using d by (cases "delete_session_op (ae_ops env) w (as_store st)") auto
  with session_repo.delete_ok [OF repo, of w s'] k
  show "sess (as_store (without_waiting env now ck st)) w = None" by (simp add: without_waiting_def delete_session_def)
qed

text \<open>
  C22: Over every store that keeps the contract: the second factor hands out a session only to a
  request whose context waits for it, for an account that is not locked and with a code that the
  secret of that user accepts; the new session is complete and of the same user, every other
  session was there before, and the waiting session the cookie named is gone (unless the store
  reports an error for it).
\<close>

theorem totp_session_needs_code:
  assumes repo: "session_repo (ae_ops env) good sess" "good (as_store st)"
    and h: "totp_handler env ord now fresh ctx rq st = (rs, st')" "rs_cookies rs \<noteq> []"
  shows "\<exists>req uc usr u x. bind_totp_request (ae_lib env) rq = Some req \<and> ctx = Some (Some uc) \<and>
     totp_pending uc \<and> \<not> fst (is_account_locked env now (get_username uc) st) \<and>
     get_local_user (ae_runtime env) (get_username uc) = Some usr \<and>
     lib_totp (ae_lib env) (tr_code req) (user_totp_secret usr) \<and>
     fresh = Some u \<and> rs_status rs = 200 \<and> map ck_value (rs_cookies rs) = [u] \<and>
     sess (as_store st') u = Some x \<and> se_username x = get_username uc \<and> \<not> se_totp_pending x \<and>
     (\<forall>v y. v \<noteq> u \<longrightarrow> sess (as_store st') v = Some y \<longrightarrow> sess (as_store st) v = Some y) \<and>
     (\<forall>w. map_of (rq_cookies rq) (rt_session_cookie_name (ae_runtime env)) = Some w \<longrightarrow> w \<noteq> u \<longrightarrow>
        fst (delete_session_op (ae_ops env) w (as_store st)) = None \<longrightarrow> sess (as_store st') w = None)"
proof -
  obtain req uc rem usr where passed: "bind_totp_request (ae_lib env) rq = Some req" "new_from_gin ctx = Inr uc"
    "totp_pending uc" "is_account_locked env now (get_username uc) st = (False, rem)"
    "get_local_user (ae_runtime env) (get_username uc) = Some usr"
    "lib_totp (ae_lib env) (tr_code req) (user_totp_secret usr)" by (rule totp_checked [OF h])
  let ?ck = "map_of (rq_cookies rq) (rt_session_cookie_name (ae_runtime env))"
  let ?st1 = "without_waiting env now ?ck st"
  let ?st2 = "record_login_attempt env ord now (get_username uc) True ?st1"
  let ?d = "local_session_data env usr False"
  note waiting = without_waiting_ok [OF repo, where now = now and ck = ?ck]
  from waiting(1) have g2: "good (as_store ?st2)" by simp
  obtain r st3 where cr: "create_session env now fresh ?d ?st2 = (r, st3)" by fastforce
  have eq: "totp_handler env ord now fresh ctx rq st =
      (case create_session env now fresh ?d ?st2 of
         (Inl _, st3) \<Rightarrow> (server_error, st3)
       | (Inr ck, st3) \<Rightarrow> (reply_message 200 ''Login successful'' (with_cookie ck empty_response), st3))"
    using passed by (simp add: totp_handler_def Let_def without_waiting_def)
  with h cr obtain ck where r: "r = Inr ck" by (cases r) auto
  with h(1) cr eq have rs: "st' = st3" "rs_status rs = 200" "rs_cookies rs = [ck]" by (auto simp: reply_defs)
  from session_repo.create_session_ok [OF repo(1) refl g2 cr [unfolded r]] obtain u where
    u: "fresh = Some u" "ck_value ck = u"
    "sess (as_store st3) = (sess (as_store ?st2))(u \<mapsto> new_session_row (ae_config env) now u ?d)" by blast
  have s: "sess (as_store st') = (sess (as_store ?st1))(u \<mapsto> new_session_row (ae_config env) now u ?d)"
    using u rs by simp
  show ?thesis
    by (intro exI [of _ req] exI [of _ uc] exI [of _ usr] exI [of _ u]
        exI [of _ "new_session_row (ae_config env) now u ?d"] conjI allI impI)
      (use passed new_from_gin_Inr [OF passed(2)] u(1,2) rs(2,3) s waiting get_local_user_name [OF passed(5)] in
        \<open>auto split: if_splits\<close>)
qed

text \<open>A login of a user with a second factor, and the context of the waiting session.\<close>

definition waiting_session :: session where
  "waiting_session = demo_session\<lparr>se_uuid := ''w1'', se_username := ''tom'', se_totp_pending := True\<rparr>"

definition waiting_state :: "memory_store auth_state" where
  "waiting_state = demo_state\<lparr>as_store := snd (mem_create_session waiting_session new_memory_store)\<rparr>"

lemma waiting_inv: "mem_inv (as_store waiting_state)"
  by (simp add: waiting_state_def mem_create_session_def mem_inv_def new_memory_store_def keyed_def)

theorem totp_session_needs_code_witness:
  "mem_sess (as_store (snd (totp_handler demo_env rev 50000000000 (Some ''u2'')
      (Some (Some (new_from_session waiting_session))) (code_form ''w1'' ''123'') waiting_state))) ''w1'' = None"
proof -
  let ?l = "totp_handler demo_env rev 50000000000 (Some ''u2'')
      (Some (Some (new_from_session waiting_session))) (code_form ''w1'' ''123'') waiting_state"
  obtain rs st' where l: "?l = (rs, st')" by fastforce
  have "rs_cookies (fst ?l) \<noteq> []" by code_simp
  with l have c: "rs_cookies rs \<noteq> []" by simp
  have "map_of (rq_cookies (code_form ''w1'' ''123'')) (rt_session_cookie_name (ae_runtime demo_env)) = Some ''w1''"
    "fst (delete_session_op (ae_ops demo_env) ''w1'' (as_store waiting_state)) = None"
    by code_simp+
  with totp_session_needs_code [OF demo_session_repo waiting_inv l c] l show ?thesis by auto
qed

section \<open>Guessing codes\<close>

text \<open>The limiter holds nothing against an account, at any time.\<close>

definition clean_account :: "string \<Rightarrow> 's auth_state \<Rightarrow> bool" where
  "clean_account n st \<longleftrightarrow> \<not> as_lockdown_active st \<and>
     (\<forall>t. case cache_get t (as_login st) n of
            None \<Rightarrow> True
          | Some e \<Rightarrow> la_failed_attempts e = 0 \<and> la_locked_until e = zero_time)"

lemma clean_not_locked: "clean_account n st \<Longrightarrow> zero_time \<le> now \<Longrightarrow> \<not> fst (is_account_locked env now n st)"
  by (auto simp: clean_account_def is_account_locked_def is_in_lockdown_def split: option.splits
      dest: spec [of _ now])

lemma success_cleans:
  assumes "\<not> limiter_off (ae_config env)" "\<not> as_lockdown_active st"
  shows "clean_account n (record_login_attempt env ord now n True st)"
proof -
  have "case cache_get t (as_login (record_login_attempt env ord now n True st)) n of
      None \<Rightarrow> True | Some e \<Rightarrow> la_failed_attempts e = 0 \<and> la_locked_until e = zero_time" for t
    using record_success_entry [OF assms(1), of t ord now n st] by auto
  with assms(2) show ?thesis by (simp add: clean_account_def)
qed

lemma one_failure_unlocked:
  assumes "clean_account n st" "2 \<le> au_login_max_retries (cfg_auth (ae_config env))" "zero_time \<le> now"
  shows "\<not> fst (is_account_locked env now n (record_login_attempt env ord now n False st))"
proof -
  let ?st = "record_login_attempt env ord now n False st"
  have c: "case cache_get now (as_login st) n of None \<Rightarrow> True
      | Some e \<Rightarrow> la_failed_attempts e = 0 \<and> la_locked_until e = zero_time"
    using assms(1) by (simp add: clean_account_def)
  have "\<not> as_lockdown_active ?st" using assms(1) by (simp add: clean_account_def)
  moreover have "as_login ?st = as_login st \<or> (\<exists>e. cache_get now (as_login ?st) n = Some e \<and> la_locked_until e = zero_time)"
    using c assms(2)
    by (auto simp: record_login_attempt_def Let_def cache_get_set_same next_attempt_def split: option.splits)
  ultimately show ?thesis using c assms(3)
    by (auto simp: is_account_locked_def is_in_lockdown_def split: option.splits)
qed

text \<open>A wrong code, then the right password as basic credentials.\<close>

definition guess ::
  "'s auth_env \<Rightarrow> string visit_order \<Rightarrow> user_context \<Rightarrow> string \<Rightarrow> string \<Rightarrow> int \<times> http_request \<Rightarrow> 's auth_state \<Rightarrow> 's auth_state"
where
  "guess env ord uc n p g st =
     snd (basic_auth env ord (fst g) n p (snd (totp_handler env ord (fst g) None (Some (Some uc)) (snd g) st)))"

lemma guess_clean:
  assumes "clean_account n st" "\<not> limiter_off (ae_config env)"
    "2 \<le> au_login_max_retries (cfg_auth (ae_config env))" "zero_time \<le> t"
    "get_local_user (ae_runtime env) n = Some usr" "user_totp_secret usr \<noteq> []"
    "lib_bcrypt (ae_lib env) (user_password usr) p"
    "new_from_gin (Some (Some uc)) = Inr uc" "totp_pending uc" "get_username uc = n"
    "bind_totp_request (ae_lib env) rq = Some req" "\<not> lib_totp (ae_lib env) (tr_code req) (user_totp_secret usr)"
  shows "clean_account n (guess env ord uc n p (t, rq) st)"
proof -
  let ?st = "record_login_attempt env ord t n False st"
  have u: "\<not> fst (is_account_locked env t n st)" using assms(1,4) by (rule clean_not_locked)
  then obtain r where "is_account_locked env t n st = (False, r)"
    by (cases "is_account_locked env t n st") auto
  with assms(5,8-12) have "snd (totp_handler env ord t None (Some (Some uc)) rq st) = ?st"
    by (simp add: totp_handler_def Let_def)
  with basic_auth_local [OF one_failure_unlocked [OF assms(1,3,4)] assms(5,7,6)]
  have "guess env ord uc n p (t, rq) st = record_login_attempt env ord t n True ?st"
    by (simp add: guess_def)
  moreover have "\<not> as_lockdown_active ?st" using assms(1) by (simp add: clean_account_def)
  ultimately show ?thesis using success_cleans [OF assms(2)] by simp
qed

text \<open>
  Who knows the password of a user with a second factor can try any number of codes: with a
  request with basic credentials after each wrong code, the account is never locked (two retries
  or more configured, and the limiter holding nothing against the account at first).
\<close>

theorem code_guessing_never_locks:
  assumes "clean_account n st" "\<not> limiter_off (ae_config env)"
    "2 \<le> au_login_max_retries (cfg_auth (ae_config env))"
    "get_local_user (ae_runtime env) n = Some usr" "user_totp_secret usr \<noteq> []"
    "lib_bcrypt (ae_lib env) (user_password usr) p"
    "new_from_gin (Some (Some uc)) = Inr uc" "totp_pending uc" "get_username uc = n"
    "\<forall>(t, rq)\<in>set gs. zero_time \<le> t \<and> (\<exists>req. bind_totp_request (ae_lib env) rq = Some req \<and>
       \<not> lib_totp (ae_lib env) (tr_code req) (user_totp_secret usr))"
    "zero_time \<le> now"
  shows "\<not> fst (is_account_locked env now n (fold (guess env ord uc n p) gs st))"
proof -
  have "clean_account n (fold (guess env ord uc n p) gs st)"
    using assms(1,10)
  proof (induction gs arbitrary: st)
    case (Cons g gs)
    obtain t rq where g: "g = (t, rq)" by fastforce
    with Cons.prems(2) obtain req where "zero_time \<le> t" "bind_totp_request (ae_lib env) rq = Some req"
      "\<not> lib_totp (ae_lib env) (tr_code req) (user_totp_secret usr)" by auto
    from guess_clean [OF Cons.prems(1) assms(2,3) this(1) assms(4-9) this(2,3)] Cons.prems(2)
    show ?case by (simp add: g Cons.IH)
  qed simp
  then show ?thesis using assms(11) by (rule clean_not_locked)
qed

theorem code_guessing_never_locks_witness:
  "\<not> fst (is_account_locked demo_env 9 ''tom''
     (fold (guess demo_env rev (new_from_session waiting_session) ''tom'' ''pw2'')
       [(1, code_form ''w1'' ''0''), (2, code_form ''w1'' ''1''), (3, code_form ''w1'' ''2''), (4, code_form ''w1'' ''3'')]
       waiting_state))"
proof -
  let ?u = "\<lparr>user_username = ''tom'', user_password = ''pw2'', user_totp_secret = ''123'', user_attributes = zero_user_attributes\<rparr>"
  have c: "clean_account ''tom'' waiting_state"
    by (simp add: clean_account_def waiting_state_def demo_state_def)
  have h: "\<not> limiter_off (ae_config demo_env)" "2 \<le> au_login_max_retries (cfg_auth (ae_config demo_env))"
    "get_local_user (ae_runtime demo_env) ''tom'' = Some ?u" "user_totp_secret ?u \<noteq> []"
    "lib_bcrypt (ae_lib demo_env) (user_password ?u) ''pw2''"
    "new_from_gin (Some (Some (new_from_session waiting_session))) = Inr (new_from_session waiting_session)"
    "totp_pending (new_from_session waiting_session)" "get_username (new_from_session waiting_session) = ''tom''"
    by code_simp+
  have w: "\<exists>req. bind_totp_request (ae_lib demo_env) (code_form ''w1'' [d]) = Some req \<and>
       \<not> lib_totp (ae_lib demo_env) (tr_code req) ''123''" for d
    by (simp add: bind_totp_request_def bind_json_def code_form_def demo_env_def ascii_lib_def)
  show ?thesis
    by (rule code_guessing_never_locks [OF c h]) (use w in \<open>simp_all add: zero_time_def\<close>)
qed

end
