(* ===== verification/OAuthFlow.thy ===== *)
theory OAuthFlow
  imports Proxy SessionFlow
begin

text \<open>
  Logins with an OAuth provider, \<open>internal/controller/oauth_controller.go\<close>: the handler that
  starts one and hands out the address of the provider, and the callback that checks the state,
  exchanges the code, asks for the user and creates the session. The clock is read at every step
  of the callback (the provider is asked in between), so it takes a sequence of readings.
\<close>

section \<open>Requests\<close>

definition is_oidc_request :: "oauth_callback_params \<Rightarrow> bool" where
  "is_oidc_request params \<longleftrightarrow> cb_login_for params = ''oidc''"

definition bind_callback_params :: "http_request \<Rightarrow> oauth_callback_params" where
  "bind_callback_params rq =
     \<lparr>cb_login_for = first_value (rq_query rq) ''login_for'', cb_oidc_ticket = first_value (rq_query rq) ''oidc_ticket'',
      cb_oidc_scope = first_value (rq_query rq) ''oidc_scope'', cb_oidc_name = first_value (rq_query rq) ''oidc_name'',
      cb_redirect_uri = first_value (rq_query rq) ''redirect_uri''\<rparr>"

text \<open>\<open>query.Values\<close> of the parameters.\<close>

definition callback_query :: "oauth_callback_params \<Rightarrow> (string \<times> string) list" where
  "callback_query params =
     [(''login_for'', cb_login_for params), (''oidc_ticket'', cb_oidc_ticket params),
      (''oidc_scope'', cb_oidc_scope params), (''oidc_name'', cb_oidc_name params),
      (''redirect_uri'', cb_redirect_uri params)]"

text \<open>Where a login may send the browser afterwards.\<close>

definition effective_port :: "url \<Rightarrow> string" where
  "effective_port u =
     (if url_port u \<noteq> [] then url_port u else if url_scheme u = ''https'' then ''443'' else ''80'')"

definition is_redirect_safe :: "golib \<Rightarrow> config \<Rightarrow> runtime_config \<Rightarrow> string \<Rightarrow> bool" where
  "is_redirect_safe lib cfg rt redirect_uri =
     (case lib_parse_url lib redirect_uri of
        None \<Rightarrow> False
      | Some u \<Rightarrow>
          if url_scheme u = [] \<or> url_host u = [] then False
          else (case lib_parse_url lib (rt_app_url rt) of
                  None \<Rightarrow> False
                | Some au \<Rightarrow>
                    if url_scheme u \<noteq> url_scheme au then False
                    else if effective_port u \<noteq> effective_port au then False
                    else if lib_equal_fold lib (url_hostname u) (url_hostname au) then True
                    else if \<not> au_subdomains_enabled (cfg_auth cfg) then False
                    else suffix (''.'' @ lib_to_lower lib (rt_cookie_domain rt)) (lib_to_lower lib (url_hostname u))))"

text \<open>\<open>Context.SetCookie\<close>: the value is escaped, and neither an expiry nor a same-site mode is set.\<close>

definition oauth_cookie :: "'s auth_env \<Rightarrow> string \<Rightarrow> int \<Rightarrow> cookie" where
  "oauth_cookie env v max_age =
     \<lparr>ck_name = rt_oauth_session_cookie_name (ae_runtime env), ck_value = query_escape v, ck_path = ''/'',
      ck_domain = auth_cookie_domain env, ck_expires = zero_time, ck_max_age = max_age,
      ck_secure = au_secure_cookie (cfg_auth (ae_config env)), ck_http_only = True,
      ck_same_site = SameSiteDefault\<rparr>"

section \<open>Starting a login\<close>

definition oauth_url_handler ::
  "'s auth_env \<Rightarrow> string visit_order \<Rightarrow> int \<Rightarrow> string option \<Rightarrow> string \<Rightarrow> string \<Rightarrow> string \<Rightarrow> http_request \<Rightarrow>
     's auth_state \<Rightarrow> response \<times> 's auth_state"
where
  "oauth_url_handler env ord now fresh state verifier provider rq st =
     (if provider = [] then (bad_request, st)
      else
        let params = bind_callback_params rq;
            params = (if \<not> is_oidc_request params \<and>
                         \<not> is_redirect_safe (ae_lib env) (ae_config env) (ae_runtime env) (cb_redirect_uri params)
                      then params\<lparr>cb_redirect_uri := []\<rparr> else params)
        in case new_oauth_session env ord now provider params fresh state verifier st of
             (Inl _, st1) \<Rightarrow> (server_error, st1)
           | (Inr session_id, st1) \<Rightarrow>
               (case get_oauth_url env now session_id st1 of
                  Inl _ \<Rightarrow> (server_error, st1)
                | Inr auth_url \<Rightarrow>
                    (reply_json 200 (JObject [(''status'', JNumber 200), (''message'', JString ''OK''), (''url'', JString auth_url)])
                       (with_cookie (oauth_cookie env session_id 3600) empty_response), st1)))"

section \<open>The callback\<close>

definition display_name :: "golib \<Rightarrow> claims \<Rightarrow> string" where
  "display_name lib user =
     (if trim_space (cl_name user) \<noteq> [] then cl_name user
      else (case split_n 2 (CHR ''@'') (cl_email user) of
              [a, b] \<Rightarrow> capitalize lib a @ '' ('' @ b @ '')''
            | _ \<Rightarrow> capitalize lib (cl_email user)))"

definition login_name :: "claims \<Rightarrow> string" where
  "login_name user =
     (if trim_space (cl_preferred_username user) \<noteq> [] then cl_preferred_username user
      else replace_first (CHR ''@'') (CHR ''_'') (cl_email user))"

definition oauth_session_data :: "golib \<Rightarrow> oauth_service \<Rightarrow> claims \<Rightarrow> session" where
  "oauth_session_data lib svc user =
     zero_session\<lparr>se_username := login_name user, se_name := display_name lib user, se_email := cl_email user,
       se_provider := ov_id svc, se_oauth_groups := coalesce_to_string (cl_groups user),
       se_oauth_name := osc_name (ov_config svc), se_oauth_sub := cl_sub user\<rparr>"

text \<open>Where the browser goes once the session exists.\<close>

definition after_login_url :: "string \<Rightarrow> oauth_callback_params \<Rightarrow> string" where
  "after_login_url app_url params =
     (if is_oidc_request params then app_url @ ''/oidc/authorize?'' @ encode_values (callback_query params)
      else if cb_redirect_uri params \<noteq> []
      then app_url @ ''/continue?'' @ encode_values (redirect_query (cb_redirect_uri params) ''app'')
      else app_url)"

text \<open>The last step: the whitelist, the session and the redirect.\<close>

definition oauth_finish ::
  "'s auth_env \<Rightarrow> int \<Rightarrow> string option \<Rightarrow> oauth_pending_session \<Rightarrow> oauth_service \<Rightarrow> claims \<Rightarrow> response \<Rightarrow>
     's auth_state \<Rightarrow> response outcome \<times> 's auth_state"
where
  "oauth_finish env now fresh pending svc user rs st =
     (let app_url = rt_app_url (ae_runtime env)
      in case is_email_whitelisted env (ov_id svc) (cl_email user) of
           Panics \<Rightarrow> (Panics, st)
         | Returns ok \<Rightarrow>
             if \<not> ok then
               (Returns (reply_redirect 307 (app_url @ ''/unauthorized?'' @
                  encode_values (unauthorized_query (cl_email user) [] False [])) rs), st)
             else (case create_session env now fresh (oauth_session_data (ae_lib env) svc user) st of
                     (Inl _, st1) \<Rightarrow> (Returns (reply_redirect 307 (app_url @ ''/error'') rs), st1)
                   | (Inr ck, st1) \<Rightarrow>
                       (Returns (reply_redirect 307 (after_login_url app_url (op_callback_params pending)) (with_cookie ck rs)),
                        st1)))"

text \<open>What happens between the lookup of the pending session and its end, in whatever way it returns.\<close>

definition oauth_exchange ::
  "'s auth_env \<Rightarrow> (nat \<Rightarrow> int) \<Rightarrow> string option \<Rightarrow> string \<Rightarrow> http_request \<Rightarrow> string \<Rightarrow> oauth_pending_session \<Rightarrow>
     response \<Rightarrow> 's auth_state \<Rightarrow> response outcome \<times> 's auth_state"
where
  "oauth_exchange env clock fresh provider rq session_id pending rs st =
     (let failed = reply_redirect 307 (rt_app_url (ae_runtime env) @ ''/error'') rs
      in if first_value (rq_query rq) ''state'' \<noteq> op_state pending then (Returns failed, st)
         else (case get_oauth_token env (clock 1) session_id (first_value (rq_query rq) ''code'') st of
                 (Inl _, st1) \<Rightarrow> (Returns failed, st1)
               | (Inr _, st1) \<Rightarrow>
                   (case get_oauth_userinfo env (clock 2) session_id st1 of
                      Inl _ \<Rightarrow> (Returns failed, st1)
                    | Inr user \<Rightarrow>
                        if cl_email user = [] then (Returns failed, st1)
                        else (case get_oauth_service (clock 3) session_id st1 of
                                Inl _ \<Rightarrow> (Returns failed, st1)
                              | Inr svc \<Rightarrow>
                                  if ov_id svc \<noteq> provider then (Returns failed, st1)
                                  else oauth_finish env (clock 4) fresh pending svc user rs st1))))"

definition oauth_callback_handler ::
  "'s auth_env \<Rightarrow> (nat \<Rightarrow> int) \<Rightarrow> string option \<Rightarrow> string \<Rightarrow> http_request \<Rightarrow> 's auth_state \<Rightarrow>
     response outcome \<times> 's auth_state"
where
  "oauth_callback_handler env clock fresh provider rq st =
     (let failed = reply_redirect 307 (rt_app_url (ae_runtime env) @ ''/error'')
      in if provider = [] then (Returns bad_request, st)
         else (case map_of (rq_cookies rq) (rt_oauth_session_cookie_name (ae_runtime env)) of
                 None \<Rightarrow> (Returns (failed empty_response), st)
               | Some session_id \<Rightarrow>
                   let rs = with_cookie (oauth_cookie env [] (-1)) empty_response
                   in case get_oauth_pending_session (clock 0) session_id st of
                        Inl _ \<Rightarrow> (Returns (failed rs), st)
                      | Inr pending \<Rightarrow>
                          let (res, st1) = oauth_exchange env clock fresh provider rq session_id pending rs st
                          in (res, end_oauth_session session_id st1)))"

section \<open>Facts on the pending session\<close>

lemma cache_get_unique: "cache_get t cs k = Some v \<Longrightarrow> cache_get t' cs k = Some w \<Longrightarrow> v = w"
  by (simp add: cache_get_def split: option.splits if_splits)

lemma cache_get_updated:
  "cache_update now k v 0 cs = (True, cs') \<Longrightarrow> cache_get t cs' k = Some w \<Longrightarrow> w = v"
  by (auto simp: cache_update_def cache_get_def gm_update split: option.splits if_splits)

lemma pending_found:
  "get_oauth_pending_session now sid st = Inr p \<longleftrightarrow> cache_get now (as_oauth st) sid = Some p"
  by (auto simp: get_oauth_pending_session_def split: option.splits)

text \<open>Exchanging the code touches nothing but the token of the pending session.\<close>

lemma get_oauth_token_effect:
  assumes "get_oauth_token env now sid code st = (r, st1)"
  shows "as_store st1 = as_store st \<and> (\<forall>t k. k \<noteq> sid \<longrightarrow> cache_get t (as_oauth st1) k = cache_get t (as_oauth st) k) \<and>
     (\<forall>tok. r = Inr tok \<longrightarrow> (\<exists>p. cache_get now (as_oauth st) sid = Some p \<and>
        oauth_get_token (ae_world env) (op_service p) code (op_verifier p) = Some tok \<and>
        (\<forall>t q. cache_get t (as_oauth st1) sid = Some q \<longrightarrow> q = p\<lparr>op_token := Some tok\<rparr>)))"
  using assms cache_get_update [of now sid _ 0 "as_oauth st"] cache_get_updated [of now sid _ "as_oauth st"]
  by (auto simp: get_oauth_token_def split: option.splits prod.splits if_splits)

lemma oauth_finish_oauth: "oauth_finish env now fresh pending svc user rs st = (r, st') \<Longrightarrow> as_oauth st' = as_oauth st"
  by (auto simp: oauth_finish_def create_session_def Let_def split: outcome.splits if_splits prod.splits sum.splits option.splits)

lemma oauth_exchange_others:
  assumes "oauth_exchange env clock fresh provider rq sid pending rs st = (r, st')" "k \<noteq> sid"
  shows "cache_get t (as_oauth st') k = cache_get t (as_oauth st) k"
proof -
  obtain x st1 where g: "get_oauth_token env (clock 1) sid (first_value (rq_query rq) ''code'') st = (x, st1)"
    by fastforce
  have st1: "cache_get t (as_oauth st1) k = cache_get t (as_oauth st) k"
    using get_oauth_token_effect [OF g] assms(2) by blast
  from assms(1) g have "st' = st \<or> st' = st1 \<or>
      (\<exists>svc user. oauth_finish env (clock 4) fresh pending svc user rs st1 = (r, st'))"
    by (auto simp: oauth_exchange_def Let_def split: if_splits sum.splits)
  with st1 oauth_finish_oauth show ?thesis by metis
qed

text \<open>What a callback that reaches the last step has established.\<close>

definition callback_checked ::
  "'s auth_env \<Rightarrow> http_request \<Rightarrow> string \<Rightarrow> oauth_pending_session \<Rightarrow> claims \<Rightarrow> bool"
where
  "callback_checked env rq provider p user \<longleftrightarrow>
     first_value (rq_query rq) ''state'' = op_state p \<and>
     (case oauth_get_token (ae_world env) (op_service p) (first_value (rq_query rq) ''code'') (op_verifier p) of
        None \<Rightarrow> False
      | Some tok \<Rightarrow> oauth_get_userinfo (ae_world env) (op_service p) tok = Some user) \<and>
     cl_email user \<noteq> [] \<and> ov_id (op_service p) = provider"

lemma oauth_exchange_cases:
  assumes "oauth_exchange env clock fresh provider rq sid p rs st = (r, st')"
    "cache_get (clock 0) (as_oauth st) sid = Some p"
  shows "(r = Returns (reply_redirect 307 (rt_app_url (ae_runtime env) @ ''/error'') rs) \<and> as_store st' = as_store st) \<or>
    (\<exists>user st1. callback_checked env rq provider p user \<and> as_store st1 = as_store st \<and>
       oauth_finish env (clock 4) fresh p (op_service p) user rs st1 = (r, st'))"
proof -
  let ?code = "first_value (rq_query rq) ''code''"
  obtain x st1 where g: "get_oauth_token env (clock 1) sid ?code st = (x, st1)" by fastforce
  note eff = get_oauth_token_effect [OF g]
  show ?thesis
  proof (cases "first_value (rq_query rq) ''state'' = op_state p \<and> (\<exists>tok. x = Inr tok)")
    case False
    with assms(1) g eff show ?thesis
      by (auto simp: oauth_exchange_def Let_def split: if_splits sum.splits)
  next
    case True
    then obtain tok where x: "x = Inr tok" and state: "first_value (rq_query rq) ''state'' = op_state p" by blast
    from eff x obtain q where q: "cache_get (clock 1) (as_oauth st) sid = Some q"
      "oauth_get_token (ae_world env) (op_service q) ?code (op_verifier q) = Some tok"
      "\<And>t z. cache_get t (as_oauth st1) sid = Some z \<Longrightarrow> z = q\<lparr>op_token := Some tok\<rparr>" by blast
    have "q = p" using cache_get_unique [OF q(1) assms(2)] .
    note q = q [unfolded this]
    show ?thesis
      using assms(1) g x state q(2) eff
      by (auto simp: oauth_exchange_def Let_def get_oauth_userinfo_def get_oauth_service_def pending_found
          callback_checked_def split: if_splits sum.splits option.splits dest!: q(3))
  qed
qed

lemma callback_cases:
  assumes "oauth_callback_handler env clock fresh provider rq st = (r, st')"
  shows "st' = st \<and> (\<forall>sid. map_of (rq_cookies rq) (rt_oauth_session_cookie_name (ae_runtime env)) = Some sid \<longrightarrow>
        provider = [] \<or> cache_get (clock 0) (as_oauth st) sid = None) \<and>
      (\<exists>rs. r = Returns rs \<and> rs_body rs \<in> {rs_body bad_request, RedirectTo (rt_app_url (ae_runtime env) @ ''/error'')}) \<or>
    (\<exists>sid p st1. map_of (rq_cookies rq) (rt_oauth_session_cookie_name (ae_runtime env)) = Some sid \<and>
       cache_get (clock 0) (as_oauth st) sid = Some p \<and>
       oauth_exchange env clock fresh provider rq sid p (with_cookie (oauth_cookie env [] (-1)) empty_response) st = (r, st1) \<and>
       st' = end_oauth_session sid st1)"
  using assms
  by (auto simp: oauth_callback_handler_def Let_def pending_found get_oauth_pending_session_def reply_defs
      split: if_splits option.splits prod.splits)

lemma oauth_finish_body:
  assumes "oauth_finish env now fresh p svc user rs0 st = (Returns rs, st')"
  shows "(\<exists>q. rs_body rs = RedirectTo (rt_app_url (ae_runtime env) @ ''/unauthorized?'' @ q)) \<or>
    rs_body rs \<in> {RedirectTo (rt_app_url (ae_runtime env) @ ''/error''),
      RedirectTo (after_login_url (rt_app_url (ae_runtime env)) (op_callback_params p))}"
  using assms
  by (cases "is_email_whitelisted env (ov_id svc) (cl_email user)")
    (auto simp: oauth_finish_def Let_def reply_defs split: if_splits prod.splits sum.splits)

context session_repo
begin

lemma oauth_finish_session:
  assumes "ae_ops env = ops" "inv (as_store st)" "oauth_finish env now fresh p svc user rs0 st = (r, st')"
    "sess (as_store st') \<noteq> sess (as_store st)"
  shows "is_email_whitelisted env (ov_id svc) (cl_email user) = Returns True \<and>
    (\<exists>u. fresh = Some u \<and> sess (as_store st') =
       (sess (as_store st))(u \<mapsto> new_session_row (ae_config env) now u (oauth_session_data (ae_lib env) svc user)))"
proof -
  let ?d = "oauth_session_data (ae_lib env) svc user"
  obtain c st1 where c: "create_session env now fresh ?d st = (c, st1)" by fastforce
  from assms(3,4) c have w: "is_email_whitelisted env (ov_id svc) (cl_email user) = Returns True" "st' = st1"
    by (auto simp: oauth_finish_def Let_def split: outcome.splits if_splits sum.splits)
  with create_session_failed [OF assms(1,2)] c assms(4) obtain ck where "c = Inr ck" by (cases c) auto
  with create_session_ok [OF assms(1,2), of now fresh ?d ck st1] c w show ?thesis by auto
qed

end

end
