(* ===== verification/OAuthLogins.thy ===== *)
theory OAuthLogins
  imports OAuthFlow
begin

text \<open>
  What a login with an OAuth provider needs and where it ends: the pending login is used once, its
  state and the email are checked, and the browser returns to a safe address.
\<close>

section \<open>Properties\<close>

text \<open>
  C3: Over every store that keeps the contract, a callback changes the sessions only by adding
  one, for the user the provider named; and then its cookie belonged to a pending login, its state
  was the one of that login, the code was exchanged with the verifier of that login, the provider
  returned an email, the provider is the one of the address that was called, and the whitelist
  accepts the email for it. This holds whatever time passes between the steps.
\<close>

theorem callback_session_trusted:
  assumes repo: "session_repo (ae_ops env) good sess" "good (as_store st)"
    and h: "oauth_callback_handler env clock fresh provider rq st = (r, st')"
      "sess (as_store st') \<noteq> sess (as_store st)"
  shows "\<exists>sid p user u. map_of (rq_cookies rq) (rt_oauth_session_cookie_name (ae_runtime env)) = Some sid \<and>
     cache_get (clock 0) (as_oauth st) sid = Some p \<and> callback_checked env rq provider p user \<and>
     is_email_whitelisted env provider (cl_email user) = Returns True \<and> fresh = Some u \<and>
     sess (as_store st') = (sess (as_store st))(u \<mapsto>
       new_session_row (ae_config env) (clock 4) u (oauth_session_data (ae_lib env) (op_service p) user))"
proof -
  let ?rs = "with_cookie (oauth_cookie env [] (-1)) empty_response"
  from callback_cases [OF h(1)] h(2) obtain sid p st1
    where sid: "map_of (rq_cookies rq) (rt_oauth_session_cookie_name (ae_runtime env)) = Some sid"
      and p: "cache_get (clock 0) (as_oauth st) sid = Some p"
      and x: "oauth_exchange env clock fresh provider rq sid p ?rs st = (r, st1)"
      and st': "as_store st' = as_store st1"
    by (auto simp: end_oauth_session_def)
  from oauth_exchange_cases [OF x p] st' h(2) obtain user st2
    where c: "callback_checked env rq provider p user" "as_store st2 = as_store st"
      and f: "oauth_finish env (clock 4) fresh p (op_service p) user ?rs st2 = (r, st1)" by fastforce
  have "good (as_store st2)" "sess (as_store st1) \<noteq> sess (as_store st2)"
    using repo(2) c(2) h(2) st' by simp_all
  from session_repo.oauth_finish_session [OF repo(1) refl this(1) f this(2)] sid p c st'
  show ?thesis unfolding callback_checked_def by auto
qed

text \<open>Concrete inputs for the witnesses: a pending login of the provider \<open>github\<close>.\<close>

definition pending_login :: oauth_pending_session where
  "pending_login = \<lparr>op_state = ''st'', op_verifier = ''ver'', op_token = None,
     op_service = new_github_oauth_service demo_world zero_oauth_service_config, op_expires_at = 3600000000000,
     op_callback_params = \<lparr>cb_login_for = ''app'', cb_oidc_ticket = [], cb_oidc_scope = [], cb_oidc_name = [],
       cb_redirect_uri = ''https://app.x.io/z''\<rparr>\<rparr>"

definition pending_state :: "memory_store auth_state" where
  "pending_state = demo_state\<lparr>as_oauth := cache_set rev 0 ''sid'' pending_login (seconds 600) (as_oauth demo_state)\<rparr>"

definition callback_request :: "string \<Rightarrow> http_request" where
  "callback_request state = empty_request\<lparr>rq_cookies := [(''o'', ''sid'')], rq_query := [(''state'', state), (''code'', ''c'')]\<rparr>"

lemma pending_state_store [simp]: "as_store pending_state = new_memory_store"
  by (simp add: pending_state_def demo_state_def)

lemma pending_state_lookup:
  "cache_get t (as_oauth pending_state) k =
     (if k = ''sid'' \<and> t \<le> 600000000000 then Some pending_login else None)"
proof -
  have "cache_get t (as_oauth pending_state) ''sid'' = (if t \<le> 600000000000 then Some pending_login else None)"
    by (auto simp: pending_state_def cache_get_set_same seconds_small)
  moreover have "k \<noteq> ''sid'' \<Longrightarrow> cache_get t (as_oauth pending_state) k = None"
  proof (rule ccontr)
    assume "k \<noteq> ''sid''" "cache_get t (as_oauth pending_state) k \<noteq> None"
    then obtain w where "cache_get t (cache_set rev 0 ''sid'' pending_login (seconds 600) (as_oauth demo_state)) k = Some w"
      by (auto simp: pending_state_def)
    from cache_get_set_other [OF \<open>k \<noteq> ''sid''\<close> this] show False by (simp add: demo_state_def)
  qed
  ultimately show ?thesis by (cases "k = ''sid''") simp_all
qed

lemma github_callback:
  obtains rs st' where
    "oauth_callback_handler demo_env (\<lambda>i. int i) (Some ''u9'') ''github'' (callback_request ''st'') pending_state = (Returns rs, st')"
    "mem_sess (as_store st') ''u9'' \<noteq> None"
proof -
  let ?r = "oauth_callback_handler demo_env (\<lambda>i. int i) (Some ''u9'') ''github'' (callback_request ''st'') pending_state"
  have "(case fst ?r of Returns rs \<Rightarrow> mem_sess (as_store (snd ?r)) ''u9'' \<noteq> None | Panics \<Rightarrow> False)" by code_simp
  then show thesis by (cases ?r; cases "fst ?r") (auto intro: that)
qed

theorem callback_session_trusted_witness:
  "\<exists>p user. cache_get 0 (as_oauth pending_state) ''sid'' = Some p \<and>
     callback_checked demo_env (callback_request ''st'') ''github'' p user \<and>
     is_email_whitelisted demo_env ''github'' (cl_email user) = Returns True"
proof -
  obtain rs st' where h:
    "oauth_callback_handler demo_env (\<lambda>i. int i) (Some ''u9'') ''github'' (callback_request ''st'') pending_state = (Returns rs, st')"
    "mem_sess (as_store st') ''u9'' \<noteq> None" by (rule github_callback)
  have "mem_sess (as_store pending_state) = Map.empty" by (simp add: new_memory_store_def mem_sess_def fun_eq_iff)
  with h(2) have ne: "mem_sess (as_store st') \<noteq> mem_sess (as_store pending_state)" by auto
  have good: "mem_inv (as_store pending_state)" using demo_state_inv by (simp add: demo_state_def)
  from callback_session_trusted [OF demo_session_repo good h(1) ne]
  show ?thesis by (auto simp: callback_request_def empty_request_def demo_env_def demo_runtime_def)
qed

text \<open>
  C19: A pending login serves one callback: after a callback with its cookie, whatever it answered
  and also when it panicked, the pending login is gone while all others are untouched, so that a
  second callback with the same cookie changes nothing and never creates a session.
\<close>

theorem pending_login_single_use:
  assumes "oauth_callback_handler env clock fresh provider rq st = (r, st')" "provider \<noteq> []"
    "map_of (rq_cookies rq) (rt_oauth_session_cookie_name (ae_runtime env)) = Some sid"
    "rq_cookies rq' = rq_cookies rq" "\<forall>i. clock 0 \<le> clock' i"
  shows "(\<forall>t\<ge>clock 0. cache_get t (as_oauth st') sid = None) \<and>
     (\<forall>t k. k \<noteq> sid \<longrightarrow> cache_get t (as_oauth st') k = cache_get t (as_oauth st) k) \<and>
     snd (oauth_callback_handler env clock' fresh' provider' rq' st') = st'"
proof -
  have "(\<forall>t\<ge>clock 0. cache_get t (as_oauth st') sid = None) \<and>
      (\<forall>t k. k \<noteq> sid \<longrightarrow> cache_get t (as_oauth st') k = cache_get t (as_oauth st) k)"
    using callback_cases [OF assms(1)]
  proof (elim disjE exE conjE)
    assume "st' = st" and "\<forall>s. map_of (rq_cookies rq) (rt_oauth_session_cookie_name (ae_runtime env)) = Some s \<longrightarrow>
        provider = [] \<or> cache_get (clock 0) (as_oauth st) s = None"
    with assms(2,3) show ?thesis by (auto intro: cache.absent_later)
  next
    fix s p st1
    assume "map_of (rq_cookies rq) (rt_oauth_session_cookie_name (ae_runtime env)) = Some s"
      "oauth_exchange env clock fresh provider rq s p (with_cookie (oauth_cookie env [] (-1)) empty_response) st = (r, st1)"
      "st' = end_oauth_session s st1"
    with assms(3) oauth_exchange_others show ?thesis by (auto simp: end_oauth_session_def)
  qed
  moreover from this assms(5) have "cache_get (clock' 0) (as_oauth st') sid = None" by blast
  then have "snd (oauth_callback_handler env clock' fresh' provider' rq' st') = st'"
    using assms(3,4) by (simp add: oauth_callback_handler_def get_oauth_pending_session_def Let_def)
  ultimately show ?thesis by blast
qed

theorem pending_login_single_use_witness:
  "snd (oauth_callback_handler demo_env (\<lambda>i. 9 + int i) (Some ''u8'') ''github'' (callback_request ''st'')
      (snd (oauth_callback_handler demo_env (\<lambda>i. int i) (Some ''u9'') ''github'' (callback_request ''st'') pending_state))) =
   snd (oauth_callback_handler demo_env (\<lambda>i. int i) (Some ''u9'') ''github'' (callback_request ''st'') pending_state)"
proof -
  let ?h = "oauth_callback_handler demo_env (\<lambda>i. int i) (Some ''u9'') ''github'' (callback_request ''st'') pending_state"
  have "map_of (rq_cookies (callback_request ''st'')) (rt_oauth_session_cookie_name (ae_runtime demo_env)) = Some ''sid''"
    by (simp add: callback_request_def empty_request_def demo_env_def demo_runtime_def)
  moreover have "\<forall>i. (0 :: int) \<le> 9 + int i" by simp
  ultimately show ?thesis
    using pending_login_single_use [where clock = "\<lambda>i. int i" and clock' = "\<lambda>i. 9 + int i" and rq' = "callback_request ''st''"
        and provider = "''github''", OF surjective_pairing [of ?h]] by simp
qed

text \<open>What the start of a login keeps of its request, and where a callback with it leads.\<close>

definition kept_params :: "'s auth_env \<Rightarrow> http_request \<Rightarrow> oauth_callback_params" where
  "kept_params env rq =
     (let p = bind_callback_params rq
      in if \<not> is_oidc_request p \<and> \<not> is_redirect_safe (ae_lib env) (ae_config env) (ae_runtime env) (cb_redirect_uri p)
         then p\<lparr>cb_redirect_uri := []\<rparr> else p)"

lemma started_login_keeps:
  assumes "oauth_url_handler env ord now (Some sid) state verifier provider rq st0 = (rs, st1)" "rs_status rs = 200"
    "cache_get t (as_oauth st1) sid = Some p"
  shows "op_callback_params p = kept_params env rq"
  using assms
  by (auto simp: oauth_url_handler_def new_oauth_session_def kept_params_def Let_def cache_get_set_same
      bad_request_def server_error_def reply_defs split: if_splits option.splits sum.splits)

lemma kept_params_lead:
  fixes env rq
  defines "app \<equiv> rt_app_url (ae_runtime env)" and "uri \<equiv> first_value (rq_query rq) ''redirect_uri''"
  shows "after_login_url app (kept_params env rq) = app \<or>
     (\<exists>q. after_login_url app (kept_params env rq) = app @ ''/oidc/authorize?'' @ q \<or>
          after_login_url app (kept_params env rq) = app @ ''/continue?'' @ q \<and>
          decode_values q = Some [(''login_for'', ''app''), (''redirect_uri'', uri)] \<and>
          is_redirect_safe (ae_lib env) (ae_config env) (ae_runtime env) uri)"
proof (cases "is_oidc_request (kept_params env rq) \<or> cb_redirect_uri (kept_params env rq) = []")
  case True
  then show ?thesis by (auto simp: after_login_url_def)
next
  case False
  have "is_oidc_request (kept_params env rq) \<or> cb_redirect_uri (kept_params env rq) = [] \<or>
      cb_redirect_uri (kept_params env rq) = uri \<and> is_redirect_safe (ae_lib env) (ae_config env) (ae_runtime env) uri"
    by (auto simp: kept_params_def Let_def bind_callback_params_def is_oidc_request_def uri_def)
  with False have "after_login_url app (kept_params env rq) = app @ ''/continue?'' @ encode_values (redirect_query uri ''app'')"
    "is_redirect_safe (ae_lib env) (ae_config env) (ae_runtime env) uri" by (simp_all add: after_login_url_def)
  moreover have "decode_values (encode_values (redirect_query uri ''app'')) = Some [(''login_for'', ''app''), (''redirect_uri'', uri)]"
    by (simp add: decode_encode_values redirect_query_def)
  ultimately show ?thesis by blast
qed


text \<open>The login that the witness starts, and the one it must not keep the address of.\<close>

definition start_request :: "string \<Rightarrow> http_request" where
  "start_request uri = empty_request\<lparr>rq_query := [(''login_for'', ''app''), (''redirect_uri'', uri)]\<rparr>"


end
