(* ===== verification/Json.thy ===== *)
theory Json
  imports Http
begin

text \<open>
  The text of JSON values as \<open>encoding/json\<close> writes and reads it, used for the claims the
  program stores with an OIDC session and signs in its tokens: the escapes of the encoder, with
  those for HTML, and a parser that reads every text of the grammar whose numbers are integers.
  The last section shows that a value that was written is read back.
\<close>

section \<open>Writing\<close>

definition hex_lower :: "int \<Rightarrow> char" where
  "hex_lower n = digit_char n"

definition escape_byte :: "char \<Rightarrow> string" where
  "escape_byte c =
     (if c = CHR 0x22 \<or> c = CHR 0x5C then [CHR 0x5C, c]
      else if c = CHR 0x08 then [CHR 0x5C, CHR ''b'']
      else if c = CHR 0x0C then [CHR 0x5C, CHR ''f'']
      else if c = CHR 0x0A then [CHR 0x5C, CHR ''n'']
      else if c = CHR 0x0D then [CHR 0x5C, CHR ''r'']
      else if c = CHR 0x09 then [CHR 0x5C, CHR ''t'']
      else if byte_in 0 0x1F c \<or> c = CHR ''<'' \<or> c = CHR ''>'' \<or> c = CHR ''&''
      then [CHR 0x5C, CHR ''u'', CHR ''0'', CHR ''0'', hex_lower (of_char c div 16), hex_lower (of_char c mod 16)]
      else [c])"

text \<open>One rune, given by its encoding: the line separators U+2028 and U+2029 are escaped.\<close>

definition escape_rune :: "string \<Rightarrow> string" where
  "escape_rune r =
     (case r of
        [c] \<Rightarrow> escape_byte c
      | _ \<Rightarrow> if r = [CHR 0xE2, CHR 0x80, CHR 0xA8] then CHR 0x5C # ''u2028''
            else if r = [CHR 0xE2, CHR 0x80, CHR 0xA9] then CHR 0x5C # ''u2029''
            else r)"

function json_escape :: "string \<Rightarrow> string" where
  "json_escape [] = []"
| "json_escape (a # s) =
     (case rune_length (a # s) of
        None \<Rightarrow> (CHR 0x5C # ''ufffd'') @ json_escape s
      | Some n \<Rightarrow> escape_rune (take n (a # s)) @ json_escape (drop (n - 1) s))"
  by pat_completeness auto
termination
  by (relation "measure length") auto

definition json_string :: "string \<Rightarrow> string" where
  "json_string s = CHR 0x22 # json_escape s @ [CHR 0x22]"

fun json_text :: "json \<Rightarrow> string"
and json_items :: "json list \<Rightarrow> string"
and json_fields :: "(string \<times> json) list \<Rightarrow> string" where
  "json_text JNull = ''null''"
| "json_text (JBool b) = (if b then ''true'' else ''false'')"
| "json_text (JNumber n) = itoa n"
| "json_text (JString s) = json_string s"
| "json_text (JArray vs) = CHR ''['' # json_items vs @ '']''"
| "json_text (JObject fs) = CHR ''{'' # json_fields fs @ ''}''"
| "json_items [] = []"
| "json_items [v] = json_text v"
| "json_items (v # w # vs) = json_text v @ CHR '','' # json_items (w # vs)"
| "json_fields [] = []"
| "json_fields [(k, v)] = json_string k @ CHR '':'' # json_text v"
| "json_fields ((k, v) # f # fs) = json_string k @ CHR '':'' # json_text v @ CHR '','' # json_fields (f # fs)"

section \<open>Reading\<close>

definition json_space :: "char \<Rightarrow> bool" where
  "json_space c \<longleftrightarrow> c \<in> {CHR 0x20, CHR 0x09, CHR 0x0A, CHR 0x0D}"

definition skip_space :: "string \<Rightarrow> string" where
  "skip_space s = dropWhile json_space s"

fun hex4 :: "string \<Rightarrow> (int \<times> string) option" where
  "hex4 (a # b # c # d # s) =
     (case (hex_value a, hex_value b, hex_value c, hex_value d) of
        (Some w, Some x, Some y, Some z) \<Rightarrow> Some (((w * 16 + x) * 16 + y) * 16 + z, s)
      | _ \<Rightarrow> None)"
| "hex4 _ = None"

definition replacement :: string where
  "replacement = [CHR 0xEF, CHR 0xBF, CHR 0xBD]"

text \<open>The encoding of a rune; a surrogate has none.\<close>

definition utf8 :: "int \<Rightarrow> string" where
  "utf8 r =
     (if r < 0x80 then [char_of r]
      else if r < 0x800 then [char_of (0xC0 + r div 64), char_of (0x80 + r mod 64)]
      else if 0xD800 \<le> r \<and> r < 0xE000 \<or> 0x110000 \<le> r then replacement
      else if r < 0x10000
      then [char_of (0xE0 + r div 4096), char_of (0x80 + r div 64 mod 64), char_of (0x80 + r mod 64)]
      else [char_of (0xF0 + r div 262144), char_of (0x80 + r div 4096 mod 64), char_of (0x80 + r div 64 mod 64),
            char_of (0x80 + r mod 64)])"

definition simple_escape :: "char \<Rightarrow> char option" where
  "simple_escape c =
     (if c = CHR 0x22 \<or> c = CHR 0x5C \<or> c = CHR ''/'' then Some c
      else map_of [(CHR ''b'', CHR 0x08), (CHR ''f'', CHR 0x0C), (CHR ''n'', CHR 0x0A),
                   (CHR ''r'', CHR 0x0D), (CHR ''t'', CHR 0x09)] c)"

text \<open>
  The rune of an escape \<open>\u\<close>, whose digits follow, and what is left: two surrogates that belong
  together are one rune, any other surrogate is replaced.
\<close>

definition unicode_escape :: "string \<Rightarrow> (string \<times> string) option" where
  "unicode_escape s =
     (case hex4 s of
        None \<Rightarrow> None
      | Some (r, s1) \<Rightarrow>
          if 0xD800 \<le> r \<and> r < 0xDC00 \<and> take 2 s1 = [CHR 0x5C, CHR ''u''] then
            (case hex4 (drop 2 s1) of
               Some (q, s2) \<Rightarrow>
                 if 0xDC00 \<le> q \<and> q < 0xE000
                 then Some (utf8 (0x10000 + (r - 0xD800) * 1024 + (q - 0xDC00)), s2)
                 else Some (replacement, s1)
             | None \<Rightarrow> Some (replacement, s1))
          else Some (utf8 r, s1))"

text \<open>The rest of a string after its opening quote. The number bounds the characters read.\<close>

fun parse_chars :: "nat \<Rightarrow> string \<Rightarrow> (string \<times> string) option" where
  "parse_chars (Suc n) (c # s) =
     (if c = CHR 0x22 then Some ([], s)
      else if c = CHR 0x5C then
        (case s of
           [] \<Rightarrow> None
         | e # s1 \<Rightarrow>
             if e = CHR ''u'' then
               (case unicode_escape s1 of
                  None \<Rightarrow> None
                | Some (r, s2) \<Rightarrow> map_option (\<lambda>(x, y). (r @ x, y)) (parse_chars n s2))
             else (case simple_escape e of
                     None \<Rightarrow> None
                   | Some b \<Rightarrow> map_option (\<lambda>(x, y). (b # x, y)) (parse_chars n s1)))
      else if byte_in 0 0x1F c then None
      else (case rune_length (c # s) of
              None \<Rightarrow> map_option (\<lambda>(x, y). (replacement @ x, y)) (parse_chars n s)
            | Some k \<Rightarrow> map_option (\<lambda>(x, y). (take k (c # s) @ x, y)) (parse_chars n (drop (k - 1) s))))"
| "parse_chars n s = None"

definition parse_string :: "string \<Rightarrow> (string \<times> string) option" where
  "parse_string s = (case s of c # s1 \<Rightarrow> if c = CHR 0x22 then parse_chars (length s) s1 else None | [] \<Rightarrow> None)"

definition is_digit :: "char \<Rightarrow> bool" where
  "is_digit c \<longleftrightarrow> digit_value c \<noteq> None"

text \<open>An integer: no leading zero, and nothing of a fraction or an exponent after it.\<close>

definition parse_number :: "string \<Rightarrow> (int \<times> string) option" where
  "parse_number s =
     (let neg = (take 1 s = ''-''); s1 = (if neg then tl s else s);
          digits = takeWhile is_digit s1; rest = dropWhile is_digit s1
      in if rest \<noteq> [] \<and> hd rest \<in> {CHR ''.'', CHR ''e'', CHR ''E''} then None
         else if digits \<noteq> ''0'' \<and> take 1 digits = ''0'' then None
         else (case decimal digits of None \<Rightarrow> None | Some n \<Rightarrow> Some (if neg then - n else n, rest)))"

fun parse_value :: "nat \<Rightarrow> string \<Rightarrow> (json \<times> string) option"
and parse_items :: "nat \<Rightarrow> string \<Rightarrow> (json list \<times> string) option"
and parse_fields :: "nat \<Rightarrow> string \<Rightarrow> ((string \<times> json) list \<times> string) option" where
  "parse_value (Suc n) s =
     (let t = skip_space s in
      if take 4 t = ''null'' then Some (JNull, drop 4 t)
      else if take 4 t = ''true'' then Some (JBool True, drop 4 t)
      else if take 5 t = ''false'' then Some (JBool False, drop 5 t)
      else if take 1 t = [CHR 0x22] then map_option (\<lambda>(x, r). (JString x, r)) (parse_string t)
      else if take 1 t = ''['' then
        (if take 1 (skip_space (tl t)) = '']'' then Some (JArray [], tl (skip_space (tl t)))
         else map_option (\<lambda>(vs, r). (JArray vs, r)) (parse_items n (tl t)))
      else if take 1 t = ''{'' then
        (if take 1 (skip_space (tl t)) = ''}'' then Some (JObject [], tl (skip_space (tl t)))
         else map_option (\<lambda>(fs, r). (JObject fs, r)) (parse_fields n (tl t)))
      else map_option (\<lambda>(x, r). (JNumber x, r)) (parse_number t))"
| "parse_value 0 s = None"
| "parse_items (Suc n) s =
     (case parse_value n s of
        None \<Rightarrow> None
      | Some (v, r) \<Rightarrow>
          (case skip_space r of
             c # r1 \<Rightarrow> if c = CHR '']'' then Some ([v], r1)
                      else if c = CHR '','' then map_option (\<lambda>(vs, x). (v # vs, x)) (parse_items n r1)
                      else None
           | [] \<Rightarrow> None))"
| "parse_items 0 s = None"
| "parse_fields (Suc n) s =
     (case parse_string (skip_space s) of
        None \<Rightarrow> None
      | Some (k, r) \<Rightarrow>
          (case skip_space r of
             c # r1 \<Rightarrow>
               if c \<noteq> CHR '':'' then None
               else (case parse_value n r1 of
                       None \<Rightarrow> None
                     | Some (v, r2) \<Rightarrow>
                         (case skip_space r2 of
                            d # r3 \<Rightarrow>
                              if d = CHR ''}'' then Some ([(k, v)], r3)
                              else if d = CHR '','' then map_option (\<lambda>(fs, x). ((k, v) # fs, x)) (parse_fields n r3)
                              else None
                          | [] \<Rightarrow> None))
           | [] \<Rightarrow> None))"
| "parse_fields 0 s = None"

text \<open>A whole text: one value, then nothing but space. Every step of the parser reads a character.\<close>

definition json_parse :: "string \<Rightarrow> json option" where
  "json_parse s =
     (case parse_value (3 * length s + 3) s of
        Some (v, r) \<Rightarrow> if skip_space r = [] then Some v else None
      | None \<Rightarrow> None)"

section \<open>Reading what was written\<close>

function valid_utf8 :: "string \<Rightarrow> bool" where
  "valid_utf8 [] = True"
| "valid_utf8 (a # s) = (case rune_length (a # s) of None \<Rightarrow> False | Some n \<Rightarrow> valid_utf8 (drop (n - 1) s))"
  by pat_completeness auto
termination
  by (relation "measure length") auto

fun valid_json :: "json \<Rightarrow> bool" where
  "valid_json (JString s) = valid_utf8 s"
| "valid_json (JArray vs) = list_all valid_json vs"
| "valid_json (JObject fs) = list_all (\<lambda>(k, v). valid_utf8 k \<and> valid_json v) fs"
| "valid_json v = True"

lemma rune_length_bounds: "rune_length (a # s) = Some n \<Longrightarrow> 1 \<le> n \<and> n \<le> Suc (length s)"
  by (auto split: if_splits list.splits)

lemma rune_length_extend: "rune_length (a # s) = Some n \<Longrightarrow> rune_length (take n (a # s) @ r) = Some n"
  by (auto split: if_splits list.splits)

lemma rune_length_one: "rune_length (a # s) = Some 1 \<longleftrightarrow> byte_in 0 0x7F a"
  by (auto split: if_splits list.splits simp: byte_in_def)

lemma rune_length_more:
  "rune_length (a # s) = Some n \<Longrightarrow> n \<noteq> 1 \<Longrightarrow> 0x80 \<le> (of_char a :: int)"
  by (auto simp: byte_in_def split: if_splits list.splits)

lemma hex_value_lower: "0 \<le> n \<Longrightarrow> n < 16 \<Longrightarrow> hex_value (hex_lower n) = Some n"
  by (auto simp: hex_lower_def hex_value_def digit_char_def Let_def of_char_of)

lemma parse_escape_byte:
  assumes "byte_in 0 0x7F c"
  shows "parse_chars (Suc n) (escape_byte c @ r) = map_option (\<lambda>(x, y). (c # x, y)) (parse_chars n r)"
proof -
  consider "c \<in> {CHR 0x22, CHR 0x5C, CHR 0x08, CHR 0x0C, CHR 0x0A, CHR 0x0D, CHR 0x09}"
    | "c \<notin> {CHR 0x22, CHR 0x5C, CHR 0x08, CHR 0x0C, CHR 0x0A, CHR 0x0D, CHR 0x09}"
      "byte_in 0 0x1F c \<or> c = CHR ''<'' \<or> c = CHR ''>'' \<or> c = CHR ''&''"
    | "escape_byte c = [c]" "c \<noteq> CHR 0x22" "c \<noteq> CHR 0x5C" "\<not> byte_in 0 0x1F c"
    by (cases "c \<in> {CHR 0x22, CHR 0x5C, CHR 0x08, CHR 0x0C, CHR 0x0A, CHR 0x0D, CHR 0x09}";
        cases "byte_in 0 0x1F c \<or> c = CHR ''<'' \<or> c = CHR ''>'' \<or> c = CHR ''&''")
      (simp_all add: escape_byte_def)
  then show ?thesis
  proof cases
    case 1
    then show ?thesis by (elim insertE emptyE) (simp_all add: escape_byte_def simple_escape_def)
  next
    case 2
    have b: "0 \<le> (of_char c :: int)" "(of_char c :: int) < 128"
      using assms of_char_bounds [of c] by (simp_all add: byte_in_def)
    have h: "hex_value (hex_lower (of_char c div 16)) = Some (of_char c div 16)"
      "hex_value (hex_lower (of_char c mod 16)) = Some (of_char c mod 16)"
      "hex_value (CHR ''0'') = Some 0"
      using b by (simp_all add: hex_value_lower) (simp add: hex_value_def)
    have "unicode_escape ([CHR ''0'', CHR ''0'', hex_lower (of_char c div 16), hex_lower (of_char c mod 16)] @ r) = Some ([c], r)"
      using b by (simp add: unicode_escape_def h utf8_def)
    with 2 show ?thesis by (simp add: escape_byte_def)
  next
    case 3
    have "rune_length (c # r) = Some 1" using assms rune_length_one by blast
    with 3 show ?thesis by simp
  qed
qed

lemma parse_escape_rune:
  assumes "rune_length (a # s) = Some k"
  shows "parse_chars (Suc n) (escape_rune (take k (a # s)) @ r) =
     map_option (\<lambda>(x, y). (take k (a # s) @ x, y)) (parse_chars n r)"
proof (cases "k = 1")
  case True
  with assms have "byte_in 0 0x7F a" using rune_length_one by blast
  with True show ?thesis by (simp add: escape_rune_def parse_escape_byte)
next
  case False
  let ?t = "take k (a # s)"
  from rune_length_bounds [OF assms] False obtain b t where t: "?t = a # b # t" "length ?t = k"
    by (cases s; cases k; cases "k - 1") (auto simp: take_Cons')
  have a: "0x80 \<le> (of_char a :: int)" using rune_length_more [OF assms False] .
  show ?thesis
  proof (cases "?t = [CHR 0xE2, CHR 0x80, CHR 0xA8] \<or> ?t = [CHR 0xE2, CHR 0x80, CHR 0xA9]")
    case True
    moreover have "utf8 0x2028 = [CHR 0xE2, CHR 0x80, CHR 0xA8]" "utf8 0x2029 = [CHR 0xE2, CHR 0x80, CHR 0xA9]"
      by code_simp+
    ultimately show ?thesis
      by (elim disjE) (simp_all add: escape_rune_def unicode_escape_def hex_value_def)
  next
    case other: False
    have "rune_length (?t @ r) = Some k" using rune_length_extend [OF assms] .
    moreover have "a \<noteq> CHR 0x22" "a \<noteq> CHR 0x5C" "\<not> byte_in 0 0x1F a" using a by (auto simp: byte_in_def)
    moreover have "escape_rune ?t = ?t" using other t by (simp add: escape_rune_def)
    moreover have "k = Suc (Suc (length t))" using t by simp
    ultimately show ?thesis unfolding t(1) by (simp del: rune_length.simps)
  qed
qed

lemma parse_chars_escape:
  "valid_utf8 s \<Longrightarrow> length s < n \<Longrightarrow> parse_chars n (json_escape s @ CHR 0x22 # r) = Some (s, r)"
proof (induction s arbitrary: n rule: json_escape.induct)
  case 1
  then show ?case by (cases n) simp_all
next
  case (2 a s)
  then obtain k m where k: "rune_length (a # s) = Some k" and n: "n = Suc m"
    by (cases n; cases "rune_length (a # s)") auto
  note b = rune_length_bounds [OF k]
  have "parse_chars m (json_escape (drop (k - 1) s) @ CHR 0x22 # r) = Some (drop (k - 1) s, r)"
    using 2 k n b by (intro 2(2)) auto
  moreover have "take k (a # s) @ drop (k - 1) s = a # s"
    using b by (cases k) auto
  ultimately show ?case using k n parse_escape_rune [OF k] by (simp del: rune_length.simps)
qed

lemma json_escape_length: "length s \<le> length (json_escape s)"
proof (induction s rule: json_escape.induct)
  case (2 a s)
  show ?case
  proof (cases "rune_length (a # s)")
    case None
    with 2(1) show ?thesis by (simp del: rune_length.simps)
  next
    case (Some k)
    have "length r \<le> length (escape_rune r)" for r
      by (auto simp: escape_rune_def escape_byte_def split: list.split)
    from this [of "take k (a # s)"] 2(2) [OF Some] Some rune_length_bounds [OF Some] show ?thesis
      by (simp del: rune_length.simps)
  qed
qed simp

lemma parse_json_string: "valid_utf8 s \<Longrightarrow> parse_string (json_string s @ r) = Some (s, r)"
  using json_escape_length [of s] by (simp add: json_string_def parse_string_def parse_chars_escape)

text \<open>Integers.\<close>

lemma decimal_from_append:
  "decimal_from acc (xs @ [c]) =
     (case decimal_from acc xs of None \<Rightarrow> None | Some n \<Rightarrow> (case digit_value c of None \<Rightarrow> None | Some d \<Rightarrow> Some (10 * n + d)))"
  by (induction xs arbitrary: acc) (auto split: option.splits)

lemma numeral_digits:
  assumes "0 \<le> n"
  shows "decimal_from 0 (numeral_in 10 n) = Some n \<and> list_all is_digit (numeral_in 10 n) \<and>
     (\<exists>c cs. numeral_in 10 n = c # cs \<and> (c = CHR ''0'' \<longrightarrow> cs = []))"
  using assms
proof (induction "10 :: int" n rule: numeral_in.induct)
  case (1 n)
  show ?case
  proof (cases "n < 10")
    case True
    with 1(2) show ?thesis by (simp add: numeral_in.simps [of 10 n] is_digit_def)
  next
    case False
    then have ih: "decimal_from 0 (numeral_in 10 (n div 10)) = Some (n div 10)"
      "list_all is_digit (numeral_in 10 (n div 10))"
      "\<exists>c cs. numeral_in 10 (n div 10) = c # cs \<and> (c = CHR ''0'' \<longrightarrow> cs = [])"
      using 1 by auto
    from ih(3) obtain c cs where c: "numeral_in 10 (n div 10) = c # cs" by blast
    have "c \<noteq> CHR ''0''"
    proof
      assume "c = CHR ''0''"
      with ih(3) c have "numeral_in 10 (n div 10) = ''0''" by auto
      with ih(1) have "n div 10 = 0" by (simp add: digit_value_def)
      with False 1(2) show False by auto
    qed
    with ih(1,2) c False 1(2) show ?thesis
      by (simp add: numeral_in.simps [of 10 n] decimal_from_append is_digit_def)
        (simp add: decimal_from_append [of 0 "c # cs", simplified])
  qed
qed

definition number_end :: "string \<Rightarrow> bool" where
  "number_end r \<longleftrightarrow> (case r of [] \<Rightarrow> True | c # _ \<Rightarrow> \<not> is_digit c \<and> c \<notin> {CHR ''.'', CHR ''e'', CHR ''E''})"

lemma takeWhile_end: "list_all is_digit xs \<Longrightarrow> number_end r \<Longrightarrow>
    takeWhile is_digit (xs @ r) = xs \<and> dropWhile is_digit (xs @ r) = r"
  by (induction xs) (auto simp: number_end_def split: list.splits)

lemma parse_natural:
  assumes "0 \<le> n" "number_end r"
  shows "takeWhile is_digit (numeral_in 10 n @ r) = numeral_in 10 n" "dropWhile is_digit (numeral_in 10 n @ r) = r"
    "decimal (numeral_in 10 n) = Some n" "numeral_in 10 n = ''0'' \<or> take 1 (numeral_in 10 n) \<noteq> ''0''"
    "take 1 (numeral_in 10 n @ r) \<noteq> ''-''"
proof -
  from numeral_digits [OF assms(1)] obtain c cs where n: "decimal_from 0 (numeral_in 10 n) = Some n"
    "list_all is_digit (numeral_in 10 n)" "numeral_in 10 n = c # cs" "c = CHR ''0'' \<longrightarrow> cs = []" by blast
  show "takeWhile is_digit (numeral_in 10 n @ r) = numeral_in 10 n" "dropWhile is_digit (numeral_in 10 n @ r) = r"
    using takeWhile_end [OF n(2) assms(2)] by simp_all
  show "decimal (numeral_in 10 n) = Some n" using n by (simp add: decimal_def)
  show "numeral_in 10 n = ''0'' \<or> take 1 (numeral_in 10 n) \<noteq> ''0''" using n by auto
  have "is_digit c" using n by simp
  then show "take 1 (numeral_in 10 n @ r) \<noteq> ''-''" using n(3) by (auto simp: is_digit_def digit_value_def)
qed

lemma parse_itoa:
  assumes "number_end r"
  shows "parse_number (itoa n @ r) = Some (n, r)"
proof (cases "n < 0")
  case True
  then have "0 \<le> - n" by simp
  note p = parse_natural [OF this assms]
  have e: "\<not> (r \<noteq> [] \<and> hd r \<in> {CHR ''.'', CHR ''e'', CHR ''E''})"
    using assms by (auto simp: number_end_def split: list.splits)
  show ?thesis using True p(3,4) e
    by (auto simp: parse_number_def itoa_def Let_def p(1,2)
        simp del: dropWhile_eq_Nil_conv)
next
  case False
  then have "0 \<le> n" by simp
  note p = parse_natural [OF this assms]
  have e: "\<not> (r \<noteq> [] \<and> hd r \<in> {CHR ''.'', CHR ''e'', CHR ''E''})"
    using assms by (auto simp: number_end_def split: list.splits)
  show ?thesis using False p(3,4,5) e
    by (auto simp: parse_number_def itoa_def Let_def p(1,2)
        simp del: dropWhile_eq_Nil_conv)
qed

text \<open>How the text of a value begins.\<close>

lemma json_text_head:
  "\<exists>c cs. json_text v = c # cs \<and> \<not> json_space c \<and> c \<notin> {CHR '']'', CHR ''}''} \<and>
     (\<forall>n. v = JNumber n \<longrightarrow> c = CHR ''-'' \<or> is_digit c)"
proof (cases v)
  case (JNumber n)
  have "\<exists>c cs. itoa n = c # cs \<and> (c = CHR ''-'' \<or> is_digit c)"
    using numeral_digits [of "- n"] numeral_digits [of n] by (auto simp: itoa_def)
  with JNumber show ?thesis by (auto simp: is_digit_def digit_value_def json_space_def)
qed (auto simp: json_space_def json_string_def)

lemma skip_text: "skip_space (json_text v @ r) = json_text v @ r"
  using json_text_head [of v] by (auto simp: skip_space_def)

lemma items_head: "\<exists>c cs. json_items (v # vs) = c # cs \<and> \<not> json_space c \<and> c \<noteq> CHR '']''"
  using json_text_head [of v] by (cases vs) auto

lemma fields_head: "\<exists>cs. json_fields (f # fs) = CHR 0x22 # cs"
  by (cases f; cases fs) (auto simp: json_string_def)

lemma json_text_number: "0 < length (itoa n)"
  using json_text_head [of "JNumber n"] by auto

lemma parse_value_number:
  assumes "number_end r"
  shows "parse_value (Suc n) (itoa m @ r) = Some (JNumber m, r)"
proof -
  obtain c cs where c: "itoa m = c # cs" "c = CHR ''-'' \<or> is_digit c" "\<not> json_space c"
    using json_text_head [of "JNumber m"] by auto
  then have "c \<notin> {CHR ''n'', CHR ''t'', CHR ''f'', CHR 0x22, CHR ''['', CHR ''{''}"
    by (auto simp: is_digit_def digit_value_def)
  with c parse_itoa [OF assms, of m] show ?thesis by (simp add: skip_space_def)
qed

lemma number_end_delim [simp]: "number_end (CHR '','' # r)" "number_end (CHR '']'' # r)" "number_end (CHR ''}'' # r)" "number_end []"
  by (simp_all add: number_end_def is_digit_def digit_value_def)

lemma skip_delim [simp]: "skip_space (CHR '','' # r) = CHR '','' # r" "skip_space (CHR '']'' # r) = CHR '']'' # r"
  "skip_space (CHR ''}'' # r) = CHR ''}'' # r" "skip_space (CHR '':'' # r) = CHR '':'' # r"
  "skip_space (CHR 0x22 # r) = CHR 0x22 # r" "skip_space (json_string k @ r) = json_string k @ r" "skip_space [] = []"
  by (simp_all add: skip_space_def json_space_def json_string_def)

text \<open>The text of every value is read as the value, with what follows left over.\<close>

lemma parse_items_cons:
  assumes "parse_value n (json_text v @ r) = Some (v, r)"
  shows "parse_items (Suc n) (json_text v @ r) =
     (case skip_space r of
        c # r1 \<Rightarrow> if c = CHR '']'' then Some ([v], r1)
                 else if c = CHR '','' then map_option (\<lambda>(vs, x). (v # vs, x)) (parse_items n r1) else None
      | [] \<Rightarrow> None)"
  using assms by simp

lemma parse_json_text:
  "valid_json v \<Longrightarrow> number_end r \<Longrightarrow> 2 * length (json_text v) \<le> n \<Longrightarrow>
     parse_value n (json_text v @ r) = Some (v, r)"
  "list_all valid_json vs \<Longrightarrow> vs \<noteq> [] \<Longrightarrow> 2 * length (json_items vs) < n \<Longrightarrow>
     parse_items n (json_items vs @ CHR '']'' # r) = Some (vs, r)"
  "list_all (\<lambda>(k, v). valid_utf8 k \<and> valid_json v) fs \<Longrightarrow> fs \<noteq> [] \<Longrightarrow> 2 * length (json_fields fs) < n \<Longrightarrow>
     parse_fields n (json_fields fs @ CHR ''}'' # r) = Some (fs, r)"
proof (induction v and vs and fs arbitrary: n r and n r and n r rule: json_text_json_items_json_fields.induct)
  case 1
  then show ?case by (cases n) (simp_all add: skip_space_def json_space_def)
next
  case (2 b)
  then show ?case by (cases n; cases b) (simp_all add: skip_space_def json_space_def)
next
  case (3 m)
  then obtain k where "n = Suc k" using json_text_number [of m] by (cases n) simp_all
  with 3 show ?case by (simp only: json_text.simps parse_value_number)
next
  case (4 s)
  then obtain m where "n = Suc m" by (cases n) (simp_all add: json_string_def)
  with 4 parse_json_string [of s r] show ?case by (simp add: json_string_def)
next
  case (5 vs)
  show ?case
  proof (cases vs)
    case Nil
    with 5 show ?thesis by (cases n) (simp_all add: skip_space_def json_space_def)
  next
    case (Cons w ws)
    from 5(4) obtain m where m: "n = Suc m" "2 * length (json_items vs) < m" by (cases n) simp_all
    have "parse_items m (json_items vs @ CHR '']'' # r) = Some (vs, r)"
      using 5 m Cons by simp
    moreover obtain c cs where "json_items vs = c # cs" "\<not> json_space c" "c \<noteq> CHR '']''"
      using items_head Cons by blast
    ultimately show ?thesis using m by (simp add: skip_space_def json_space_def)
  qed
next
  case (6 fs)
  show ?case
  proof (cases fs)
    case Nil
    with 6 show ?thesis by (cases n) (simp_all add: skip_space_def json_space_def)
  next
    case (Cons w ws)
    from 6(4) obtain m where m: "n = Suc m" "2 * length (json_fields fs) < m" by (cases n) simp_all
    have "parse_fields m (json_fields fs @ CHR ''}'' # r) = Some (fs, r)"
      using 6 m Cons by simp
    moreover obtain cs where "json_fields fs = CHR 0x22 # cs" using fields_head Cons by blast
    ultimately show ?thesis using m by (simp add: skip_space_def json_space_def)
  qed
next
  case 7
  then show ?case by simp
next
  case (8 v)
  then obtain m where n: "n = Suc m" "2 * length (json_text v) \<le> m" by (cases n) simp_all
  with 8 have "parse_value m (json_text v @ CHR '']'' # r) = Some (v, CHR '']'' # r)" by simp
  from parse_items_cons [OF this] n show ?case by simp
next
  case (9 v w vs)
  let ?rest = "json_items (w # vs) @ CHR '']'' # r"
  from 9(5) obtain m where n: "n = Suc m" "2 * length (json_text v) \<le> m" "2 * length (json_items (w # vs)) < m"
    by (cases n) simp_all
  with 9 have "parse_value m (json_text v @ CHR '','' # ?rest) = Some (v, CHR '','' # ?rest)"
    "parse_items m ?rest = Some (w # vs, r)" by simp_all
  with parse_items_cons [OF this(1)] n show ?case by simp
next
  case 10
  then show ?case by simp
next
  case (11 k v)
  then obtain m where n: "n = Suc m" "2 * length (json_text v) \<le> m" by (cases n) (simp_all add: json_string_def)
  with 11 have "parse_value m (json_text v @ CHR ''}'' # r) = Some (v, CHR ''}'' # r)" by simp
  moreover have "parse_string (json_string k @ CHR '':'' # json_text v @ CHR ''}'' # r) = Some (k, CHR '':'' # json_text v @ CHR ''}'' # r)"
    using 11 by (intro parse_json_string) simp
  ultimately show ?case using n by simp
next
  case (12 k v f fs)
  let ?rest = "json_fields (f # fs) @ CHR ''}'' # r"
  from 12(5) obtain m where n: "n = Suc m" "2 * length (json_text v) \<le> m" "2 * length (json_fields (f # fs)) < m"
    by (cases n) (simp_all add: json_string_def)
  with 12 have "parse_value m (json_text v @ CHR '','' # ?rest) = Some (v, CHR '','' # ?rest)"
    "parse_fields m ?rest = Some (f # fs, r)" by simp_all
  moreover have "parse_string (json_string k @ CHR '':'' # json_text v @ CHR '','' # ?rest) = Some (k, CHR '':'' # json_text v @ CHR '','' # ?rest)"
    using 12 by (intro parse_json_string) simp
  ultimately show ?case using n by simp
qed

lemma json_round_trip: "valid_json v \<Longrightarrow> json_parse (json_text v) = Some v"
  using parse_json_text(1) [of v "[]" "3 * length (json_text v) + 3"] by (simp add: json_parse_def)

end
