(* ===== verification/Oidc.thy ===== *)
theory Oidc
  imports Json AuthSessions
begin

text \<open>
  The OpenID Connect provider, \<open>internal/service/oidc_service.go\<close>: its keys and clients, the
  checks of authorization requests, codes, tickets, access and refresh tokens, and the claims a
  scope gives. \<open>oidc_env\<close> holds what is fixed after startup, \<open>oidc_state\<close> the store and the three
  caches. Keys, signatures and tokens of the packages \<open>crypto\<close>, \<open>jose\<close> and \<open>jwt\<close> are parameters,
  collected in \<open>crypto\<close>; random bytes and the clock are arguments.
\<close>

section \<open>Data\<close>

definition supported_scopes :: "string list" where
  "supported_scopes = [''openid'', ''profile'', ''email'', ''phone'', ''address'', ''groups'']"

definition supported_response_types :: "string list" where
  "supported_response_types = [''code'']"

definition supported_grant_types :: "string list" where
  "supported_grant_types = [''authorization_code'', ''refresh_token'']"

definition supported_prompts :: "string list" where
  "supported_prompts = [''login'', ''none'']"

record claim_set =
  cs_iss :: string
  cs_aud :: string
  cs_sub :: string
  cs_iat :: int
  cs_exp :: int
  cs_auth_time :: int
  cs_name :: string
  cs_given_name :: string
  cs_family_name :: string
  cs_middle_name :: string
  cs_nickname :: string
  cs_profile :: string
  cs_picture :: string
  cs_website :: string
  cs_gender :: string
  cs_birthdate :: string
  cs_zoneinfo :: string
  cs_locale :: string
  cs_email :: string
  cs_email_verified :: bool
  cs_preferred_username :: string
  cs_groups :: "string list"
  cs_nonce :: string

record userinfo =
  uf_sub :: string
  uf_name :: string
  uf_given_name :: string
  uf_family_name :: string
  uf_middle_name :: string
  uf_nickname :: string
  uf_profile :: string
  uf_picture :: string
  uf_website :: string
  uf_gender :: string
  uf_birthdate :: string
  uf_zoneinfo :: string
  uf_locale :: string
  uf_email :: string
  uf_preferred_username :: string
  uf_groups :: "string list"
  uf_email_verified :: bool
  uf_phone_number :: string
  uf_phone_number_verified :: "bool option"
  uf_address :: "address_claim option"
  uf_updated_at :: int

definition zero_userinfo :: userinfo where
  "zero_userinfo =
     \<lparr>uf_sub = [], uf_name = [], uf_given_name = [], uf_family_name = [], uf_middle_name = [], uf_nickname = [],
      uf_profile = [], uf_picture = [], uf_website = [], uf_gender = [], uf_birthdate = [], uf_zoneinfo = [],
      uf_locale = [], uf_email = [], uf_preferred_username = [], uf_groups = [], uf_email_verified = False,
      uf_phone_number = [], uf_phone_number_verified = None, uf_address = None, uf_updated_at = 0\<rparr>"

record token_response =
  tr_access_token :: string
  tr_refresh_token :: string
  tr_token_type :: string
  tr_expires_in :: int
  tr_id_token :: string
  tr_scope :: string

record authorize_request =
  ar_scope :: string
  ar_response_type :: string
  ar_client_id :: string
  ar_redirect_uri :: string
  ar_state :: string
  ar_nonce :: string
  ar_code_challenge :: string
  ar_code_challenge_method :: string
  ar_prompt :: string
  ar_max_age :: string

record code_entry =
  co_code_hash :: string
  co_scope :: string
  co_redirect_uri :: string
  co_client_id :: string
  co_nonce :: string
  co_code_challenge :: string
  co_userinfo :: userinfo
  co_auth_time :: int

record used_code =
  ud_sub :: string

section \<open>The structs as JSON\<close>

text \<open>Fields in the order of the struct, those marked \<open>omitempty\<close> only when they are not zero.\<close>

definition some_string :: "string \<Rightarrow> string \<Rightarrow> (string \<times> json) list" where
  "some_string k v = (if v = [] then [] else [(k, JString v)])"

definition some_strings :: "string \<Rightarrow> string list \<Rightarrow> (string \<times> json) list" where
  "some_strings k vs = (if vs = [] then [] else [(k, JArray (map JString vs))])"

definition some_true :: "string \<Rightarrow> bool \<Rightarrow> (string \<times> json) list" where
  "some_true k b = (if b then [(k, JBool True)] else [])"

definition some_number :: "string \<Rightarrow> int \<Rightarrow> (string \<times> json) list" where
  "some_number k n = (if n = 0 then [] else [(k, JNumber n)])"

definition address_json :: "address_claim \<Rightarrow> json" where
  "address_json a = JObject
     (some_string ''formatted'' (ad_formatted a) @ some_string ''street_address'' (ad_street_address a) @
      some_string ''locality'' (ad_locality a) @ some_string ''region'' (ad_region a) @
      some_string ''postal_code'' (ad_postal_code a) @ some_string ''country'' (ad_country a))"

definition userinfo_json :: "userinfo \<Rightarrow> json" where
  "userinfo_json u = JObject
     ([(''sub'', JString (uf_sub u))] @
      some_string ''name'' (uf_name u) @ some_string ''given_name'' (uf_given_name u) @
      some_string ''family_name'' (uf_family_name u) @ some_string ''middle_name'' (uf_middle_name u) @
      some_string ''nickname'' (uf_nickname u) @ some_string ''profile'' (uf_profile u) @
      some_string ''picture'' (uf_picture u) @ some_string ''website'' (uf_website u) @
      some_string ''gender'' (uf_gender u) @ some_string ''birthdate'' (uf_birthdate u) @
      some_string ''zoneinfo'' (uf_zoneinfo u) @ some_string ''locale'' (uf_locale u) @
      some_string ''email'' (uf_email u) @ some_string ''preferred_username'' (uf_preferred_username u) @
      some_strings ''groups'' (uf_groups u) @ some_true ''email_verified'' (uf_email_verified u) @
      some_string ''phone_number'' (uf_phone_number u) @
      (case uf_phone_number_verified u of None \<Rightarrow> [] | Some b \<Rightarrow> [(''phone_number_verified'', JBool b)]) @
      (case uf_address u of None \<Rightarrow> [] | Some a \<Rightarrow> [(''address'', address_json a)]) @
      [(''updated_at'', JNumber (uf_updated_at u))])"

definition claim_set_json :: "claim_set \<Rightarrow> json" where
  "claim_set_json c = JObject
     ([(''iss'', JString (cs_iss c)), (''aud'', JString (cs_aud c)), (''sub'', JString (cs_sub c)),
       (''iat'', JNumber (cs_iat c)), (''exp'', JNumber (cs_exp c))] @
      some_number ''auth_time'' (cs_auth_time c) @ some_string ''name'' (cs_name c) @
      some_string ''given_name'' (cs_given_name c) @ some_string ''family_name'' (cs_family_name c) @
      some_string ''middle_name'' (cs_middle_name c) @ some_string ''nickname'' (cs_nickname c) @
      some_string ''profile'' (cs_profile c) @ some_string ''picture'' (cs_picture c) @
      some_string ''website'' (cs_website c) @ some_string ''gender'' (cs_gender c) @
      some_string ''birthdate'' (cs_birthdate c) @ some_string ''zoneinfo'' (cs_zoneinfo c) @
      some_string ''locale'' (cs_locale c) @ some_string ''email'' (cs_email c) @
      some_true ''email_verified'' (cs_email_verified c) @
      some_string ''preferred_username'' (cs_preferred_username c) @ some_strings ''groups'' (cs_groups c) @
      some_string ''nonce'' (cs_nonce c))"

definition token_response_json :: "token_response \<Rightarrow> json" where
  "token_response_json t = JObject
     [(''access_token'', JString (tr_access_token t)), (''refresh_token'', JString (tr_refresh_token t)),
      (''token_type'', JString (tr_token_type t)), (''expires_in'', JNumber (tr_expires_in t)),
      (''id_token'', JString (tr_id_token t)), (''scope'', JString (tr_scope t))]"

text \<open>
  \<open>json.Unmarshal\<close> of the other kinds of fields, as \<open>bind_field\<close> does it for strings: an integer
  must fit in 64 bits, null empties a slice or a pointer and leaves the rest.
\<close>

fun bind_bool :: "golib \<Rightarrow> string \<Rightarrow> (string \<times> json) list \<Rightarrow> bool \<Rightarrow> bool option" where
  "bind_bool lib name [] acc = Some acc"
| "bind_bool lib name ((k, v) # fs) acc =
     (if k = name \<or> lib_equal_fold lib k name
      then (case v of JBool b \<Rightarrow> bind_bool lib name fs b | JNull \<Rightarrow> bind_bool lib name fs acc | _ \<Rightarrow> None)
      else bind_bool lib name fs acc)"

fun bind_int :: "golib \<Rightarrow> string \<Rightarrow> (string \<times> json) list \<Rightarrow> int \<Rightarrow> int option" where
  "bind_int lib name [] acc = Some acc"
| "bind_int lib name ((k, v) # fs) acc =
     (if k = name \<or> lib_equal_fold lib k name
      then (case v of
              JNumber n \<Rightarrow> if i64 n = n then bind_int lib name fs n else None
            | JNull \<Rightarrow> bind_int lib name fs acc | _ \<Rightarrow> None)
      else bind_int lib name fs acc)"

fun bind_pointer ::
  "golib \<Rightarrow> (json \<Rightarrow> 'a option \<Rightarrow> 'a option) \<Rightarrow> string \<Rightarrow> (string \<times> json) list \<Rightarrow> 'a option \<Rightarrow> 'a option option"
where
  "bind_pointer lib dec name [] acc = Some acc"
| "bind_pointer lib dec name ((k, v) # fs) acc =
     (if k = name \<or> lib_equal_fold lib k name
      then (case v of
              JNull \<Rightarrow> bind_pointer lib dec name fs None
            | _ \<Rightarrow> (case dec v acc of None \<Rightarrow> None | Some x \<Rightarrow> bind_pointer lib dec name fs (Some x)))
      else bind_pointer lib dec name fs acc)"

definition decode_bool :: "json \<Rightarrow> bool option \<Rightarrow> bool option" where
  "decode_bool v old = (case v of JBool b \<Rightarrow> Some b | _ \<Rightarrow> None)"

fun decode_item :: "json \<Rightarrow> string option" where
  "decode_item (JString s) = Some s"
| "decode_item JNull = Some []"
| "decode_item _ = None"

definition decode_strings :: "json \<Rightarrow> string list option \<Rightarrow> string list option" where
  "decode_strings v old = (case v of JArray vs \<Rightarrow> all_some (map decode_item vs) | _ \<Rightarrow> None)"

definition decode_address :: "golib \<Rightarrow> json \<Rightarrow> address_claim option \<Rightarrow> address_claim option" where
  "decode_address lib v old =
     (let a = (case old of None \<Rightarrow> zero_address_claim | Some a \<Rightarrow> a)
      in case v of
           JObject fs \<Rightarrow>
             (case (bind_field lib ''formatted'' fs (ad_formatted a), bind_field lib ''street_address'' fs (ad_street_address a),
                    bind_field lib ''locality'' fs (ad_locality a), bind_field lib ''region'' fs (ad_region a),
                    bind_field lib ''postal_code'' fs (ad_postal_code a), bind_field lib ''country'' fs (ad_country a)) of
                (Some f, Some s, Some l, Some r, Some p, Some c) \<Rightarrow>
                  Some \<lparr>ad_formatted = f, ad_street_address = s, ad_locality = l, ad_region = r, ad_postal_code = p,
                        ad_country = c\<rparr>
              | _ \<Rightarrow> None)
         | _ \<Rightarrow> None)"

text \<open>The string fields of the struct, in its order.\<close>

definition userinfo_string_fields :: "string list" where
  "userinfo_string_fields =
     [''sub'', ''name'', ''given_name'', ''family_name'', ''middle_name'', ''nickname'', ''profile'', ''picture'',
      ''website'', ''gender'', ''birthdate'', ''zoneinfo'', ''locale'', ''email'', ''preferred_username'', ''phone_number'']"

definition userinfo_of_json :: "golib \<Rightarrow> json \<Rightarrow> userinfo option" where
  "userinfo_of_json lib v =
     (case v of
        JNull \<Rightarrow> Some zero_userinfo
      | JObject fs \<Rightarrow>
          (case (all_some (map (\<lambda>n. bind_field lib n fs []) userinfo_string_fields),
                 bind_pointer lib decode_strings ''groups'' fs None, bind_bool lib ''email_verified'' fs False,
                 bind_pointer lib decode_bool ''phone_number_verified'' fs None,
                 bind_pointer lib (decode_address lib) ''address'' fs None, bind_int lib ''updated_at'' fs 0) of
             (Some [s0, s1, s2, s3, s4, s5, s6, s7, s8, s9, s10, s11, s12, s13, s14, s15], Some gs, Some ev, Some pv, Some ad, Some n) \<Rightarrow>
               Some \<lparr>uf_sub = s0, uf_name = s1, uf_given_name = s2, uf_family_name = s3, uf_middle_name = s4,
                     uf_nickname = s5, uf_profile = s6, uf_picture = s7, uf_website = s8, uf_gender = s9,
                     uf_birthdate = s10, uf_zoneinfo = s11, uf_locale = s12, uf_email = s13,
                     uf_preferred_username = s14, uf_groups = (case gs of None \<Rightarrow> [] | Some xs \<Rightarrow> xs),
                     uf_email_verified = ev, uf_phone_number = s15, uf_phone_number_verified = pv,
                     uf_address = ad, uf_updated_at = n\<rparr>
           | _ \<Rightarrow> None)
      | _ \<Rightarrow> None)"

definition marshal_userinfo :: "userinfo \<Rightarrow> string" where
  "marshal_userinfo u = json_text (userinfo_json u)"

definition unmarshal_userinfo :: "golib \<Rightarrow> string \<Rightarrow> userinfo option" where
  "unmarshal_userinfo lib text = (case json_parse text of None \<Rightarrow> None | Some v \<Rightarrow> userinfo_of_json lib v)"

section \<open>Keys and startup\<close>

record rsa_public =
  rp_modulus :: int
  rp_exponent :: int

record rsa_private =
  rk_public :: rsa_public
  rk_secret :: int

datatype public_key = RsaKey rsa_public | OtherKey

datatype file_answer = FileContents string | FileMissing | FileUnreadable

type_synonym file_system = "string \<Rightarrow> file_answer"

text \<open>
  \<open>cr_generate\<close> is \<open>rsa.GenerateKey\<close>, the \<open>marshal\<close> and \<open>parse\<close> fields are the encodings of the
  package \<open>x509\<close>, \<open>cr_make_dir\<close> and \<open>cr_can_write\<close> say whether the directory of a path can be made
  and the file be written, \<open>cr_sign\<close> signs a payload under extra headers, \<open>cr_marshal_jwk\<close> writes
  a public key with its id, and \<open>cr_parse_jwt\<close> splits a token in its header, its claims and its
  signature without checking it.
\<close>

record crypto =
  cr_generate :: "rsa_private option"
  cr_marshal_private :: "rsa_private \<Rightarrow> string option"
  cr_marshal_public :: "rsa_public \<Rightarrow> string option"
  cr_make_dir :: "string \<Rightarrow> bool"
  cr_can_write :: "string \<Rightarrow> bool"
  cr_pem_encode :: "string \<Rightarrow> string \<Rightarrow> string"
  cr_pem_decode :: "string \<Rightarrow> (string \<times> string) option"
  cr_parse_private :: "string \<Rightarrow> rsa_private option"
  cr_parse_pkcs1_public :: "string \<Rightarrow> rsa_public option"
  cr_parse_pkix_public :: "string \<Rightarrow> public_key option"
  cr_sign :: "rsa_private \<Rightarrow> (string \<times> string) list \<Rightarrow> string \<Rightarrow> string option"
  cr_marshal_jwk :: "rsa_public \<Rightarrow> string \<Rightarrow> string option"
  cr_parse_jwt :: "string \<Rightarrow> ((string \<times> json) list \<times> (string \<times> json) list \<times> string) option"

record 's oidc_env =
  oe_lib :: golib
  oe_crypto :: crypto
  oe_config :: config
  oe_runtime :: runtime_config
  oe_ops :: "'s store_ops"
  oe_clients :: "(string, oidc_client_config) gomap"
  oe_private_key :: rsa_private
  oe_public_key :: rsa_public
  oe_issuer :: string

record 's oidc_state =
  od_store :: 's
  od_code :: "code_entry cache_store"
  od_used_code :: "used_code cache_store"
  od_authorize :: "authorize_request cache_store"

datatype startup_error =
    BadAppUrl
  | IssuerNotHttps
  | KeyPathsMissing
  | KeyFileUnreadable
  | KeyGenerationFailed
  | KeyMarshalFailed
  | KeyDirectoryFailed
  | KeyWriteFailed
  | KeyDecodeFailed
  | KeyParseFailed
  | KeyTypeUnsupported
  | KeyNotRsa
  | KeysDoNotPair

definition write_key :: "crypto \<Rightarrow> string \<Rightarrow> string \<Rightarrow> file_system \<Rightarrow> startup_error option \<times> file_system" where
  "write_key cr path content fs =
     (if \<not> cr_make_dir cr path then (Some KeyDirectoryFailed, fs)
      else if \<not> cr_can_write cr path then (Some KeyWriteFailed, fs)
      else (None, fs(path := FileContents content)))"

definition load_private_key :: "crypto \<Rightarrow> string \<Rightarrow> file_system \<Rightarrow> (startup_error + rsa_private) \<times> file_system" where
  "load_private_key cr path fs =
     (case fs path of
        FileUnreadable \<Rightarrow> (Inl KeyFileUnreadable, fs)
      | FileMissing \<Rightarrow>
          (case cr_generate cr of
             None \<Rightarrow> (Inl KeyGenerationFailed, fs)
           | Some key \<Rightarrow>
               (case cr_marshal_private cr key of
                  None \<Rightarrow> (Inl KeyMarshalFailed, fs)
                | Some der \<Rightarrow>
                    (case write_key cr path (cr_pem_encode cr ''RSA PRIVATE KEY'' der) fs of
                       (Some e, fs1) \<Rightarrow> (Inl e, fs1)
                     | (None, fs1) \<Rightarrow> (Inr key, fs1))))
      | FileContents content \<Rightarrow>
          (case cr_pem_decode cr content of
             None \<Rightarrow> (Inl KeyDecodeFailed, fs)
           | Some (kind, bytes) \<Rightarrow>
               (case cr_parse_private cr bytes of None \<Rightarrow> (Inl KeyParseFailed, fs) | Some key \<Rightarrow> (Inr key, fs))))"

definition load_public_key ::
  "crypto \<Rightarrow> string \<Rightarrow> rsa_private \<Rightarrow> file_system \<Rightarrow> (startup_error + public_key) \<times> file_system"
where
  "load_public_key cr path private fs =
     (case fs path of
        FileUnreadable \<Rightarrow> (Inl KeyFileUnreadable, fs)
      | FileMissing \<Rightarrow>
          (case cr_marshal_public cr (rk_public private) of
             None \<Rightarrow> (Inl KeyMarshalFailed, fs)
           | Some der \<Rightarrow>
               (case write_key cr path (cr_pem_encode cr ''RSA PUBLIC KEY'' der) fs of
                  (Some e, fs1) \<Rightarrow> (Inl e, fs1)
                | (None, fs1) \<Rightarrow> (Inr (RsaKey (rk_public private)), fs1)))
      | FileContents content \<Rightarrow>
          (case cr_pem_decode cr content of
             None \<Rightarrow> (Inl KeyDecodeFailed, fs)
           | Some (kind, bytes) \<Rightarrow>
               if kind = ''RSA PUBLIC KEY'' then
                 (case cr_parse_pkcs1_public cr bytes of None \<Rightarrow> (Inl KeyParseFailed, fs) | Some k \<Rightarrow> (Inr (RsaKey k), fs))
               else if kind = ''PUBLIC KEY'' then
                 (case cr_parse_pkix_public cr bytes of None \<Rightarrow> (Inl KeyParseFailed, fs) | Some k \<Rightarrow> (Inr k, fs))
               else (Inl KeyTypeUnsupported, fs)))"

text \<open>The clients by the id they authenticate with, visited in an order the runtime chooses.\<close>

fun collect_clients ::
  "golib \<Rightarrow> (string, oidc_client_config) gomap \<Rightarrow> string list \<Rightarrow> (string, oidc_client_config) gomap \<Rightarrow>
     (string, oidc_client_config) gomap"
where
  "collect_clients lib configured [] m = m"
| "collect_clients lib configured (n # ns) m =
     (case map_of configured n of
        None \<Rightarrow> collect_clients lib configured ns m
      | Some client \<Rightarrow>
          let c = client\<lparr>occ_id := n\<rparr>;
              c = (if occ_name c = [] then c\<lparr>occ_name := capitalize lib (occ_id c)\<rparr> else c)
          in collect_clients lib configured ns (AList.update (occ_client_id c) c m))"

definition load_client_secret :: "golib \<Rightarrow> oidc_client_config \<Rightarrow> oidc_client_config" where
  "load_client_secret lib client =
     (let secret = get_secret lib (occ_client_secret client) (occ_client_secret_file client);
          c = (if secret \<noteq> [] then client\<lparr>occ_client_secret := secret\<rparr> else client)
      in c\<lparr>occ_client_secret_file := []\<rparr>)"

definition new_oidc_state :: "'s \<Rightarrow> 's oidc_state" where
  "new_oidc_state store =
     \<lparr>od_store = store, od_code = new_cache_store 256, od_used_code = new_cache_store 256,
      od_authorize = new_cache_store 256\<rparr>"

text \<open>\<open>None\<close> when no client is configured; the files as they are afterwards.\<close>

definition new_oidc_service ::
  "golib \<Rightarrow> crypto \<Rightarrow> config \<Rightarrow> runtime_config \<Rightarrow> 's store_ops \<Rightarrow> string visit_order \<Rightarrow> file_system \<Rightarrow>
     (startup_error + 's oidc_env option) \<times> file_system"
where
  "new_oidc_service lib cr cfg rt ops ord fs =
     (let oidc = cfg_oidc cfg in
      if oic_clients oidc = [] then (Inr None, fs)
      else (case lib_parse_url lib (rt_app_url rt) of
              None \<Rightarrow> (Inl BadAppUrl, fs)
            | Some u \<Rightarrow>
                if url_scheme u \<noteq> ''https'' then (Inl IssuerNotHttps, fs)
                else if trim_space (oic_private_key_path oidc) = [] \<or> trim_space (oic_public_key_path oidc) = []
                then (Inl KeyPathsMissing, fs)
                else (case load_private_key cr (oic_private_key_path oidc) fs of
                        (Inl e, fs1) \<Rightarrow> (Inl e, fs1)
                      | (Inr private, fs1) \<Rightarrow>
                          (case load_public_key cr (oic_public_key_path oidc) private fs1 of
                             (Inl e, fs2) \<Rightarrow> (Inl e, fs2)
                           | (Inr OtherKey, fs2) \<Rightarrow> (Inl KeyNotRsa, fs2)
                           | (Inr (RsaKey public), fs2) \<Rightarrow>
                               if rp_modulus public \<noteq> rp_modulus (rk_public private) \<or>
                                  rp_exponent public \<noteq> rp_exponent (rk_public private)
                               then (Inl KeysDoNotPair, fs2)
                               else
                                 (Inr (Some
                                    \<lparr>oe_lib = lib, oe_crypto = cr, oe_config = cfg, oe_runtime = rt, oe_ops = ops,
                                     oe_clients = map (\<lambda>(k, c). (k, load_client_secret lib c))
                                       (collect_clients lib (oic_clients oidc) (ord (gm_keys (oic_clients oidc))) []),
                                     oe_private_key = private, oe_public_key = public,
                                     oe_issuer = url_scheme u @ ''://'' @ url_host u\<rparr>), fs2)))))"

text \<open>One tick of the two cleanup routines; an error of the store is only logged.\<close>

definition oidc_cleanup_tick :: "'s oidc_env \<Rightarrow> int \<Rightarrow> 's oidc_state \<Rightarrow> 's oidc_state" where
  "oidc_cleanup_tick env now st =
     st\<lparr>od_store := snd (delete_expired_oidc_sessions_op (oe_ops env)
          \<lparr>de_token_expires_at = unix now, de_refresh_token_expires_at = unix now\<rparr> (od_store st))\<rparr>"

definition oidc_sweep_tick :: "string visit_order \<Rightarrow> int \<Rightarrow> 's oidc_state \<Rightarrow> 's oidc_state" where
  "oidc_sweep_tick ord now st =
     st\<lparr>od_code := cache_sweep ord now (od_code st), od_used_code := cache_sweep ord now (od_used_code st),
        od_authorize := cache_sweep ord now (od_authorize st)\<rparr>"

definition get_issuer :: "'s oidc_env \<Rightarrow> string" where
  "get_issuer env = oe_issuer env"

definition get_client :: "'s oidc_env \<Rightarrow> string \<Rightarrow> oidc_client_config option" where
  "get_client env cid = map_of (oe_clients env) cid"

section \<open>Authorization requests\<close>

definition validate_authorize_params :: "'s oidc_env \<Rightarrow> authorize_request \<Rightarrow> string option" where
  "validate_authorize_params env req =
     (case get_client env (ar_client_id req) of
        None \<Rightarrow> Some ''access_denied''
      | Some client \<Rightarrow>
          if ar_redirect_uri req \<notin> set (occ_trusted_redirect_uris client) then Some ''invalid_request_uri''
          else if trim_space (ar_scope req) = [] then Some ''invalid_scope''
          else if list_ex (\<lambda>scope. trim_space scope = []) (split_on (CHR '' '') (ar_scope req)) then Some ''invalid_scope''
          else if ar_response_type req \<notin> set supported_response_types then Some ''unsupported_response_type''
          else if ar_code_challenge req \<noteq> [] \<and> ar_code_challenge_method req \<noteq> [] \<and>
                  ar_code_challenge_method req \<noteq> ''S256'' \<and> ar_code_challenge_method req \<noteq> ''plain''
          then Some ''invalid_request''
          else None)"

definition filter_scopes :: "string list \<Rightarrow> string list" where
  "filter_scopes scopes = filter_slice (\<lambda>scope. scope \<in> set supported_scopes) scopes"

definition validate_grant_type :: "string \<Rightarrow> string option" where
  "validate_grant_type grant = (if grant \<in> set supported_grant_types then None else Some ''unsupported_grant_type'')"

definition create_authorize_ticket ::
  "string visit_order \<Rightarrow> int \<Rightarrow> string \<Rightarrow> authorize_request \<Rightarrow> 's oidc_state \<Rightarrow> string \<times> 's oidc_state"
where
  "create_authorize_ticket ord now random req st =
     (let ticket = generate_string random
      in (ticket, st\<lparr>od_authorize := cache_set ord now ticket req (seconds 600) (od_authorize st)\<rparr>))"

definition get_authorize_request :: "int \<Rightarrow> string \<Rightarrow> 's oidc_state \<Rightarrow> authorize_request option" where
  "get_authorize_request now ticket st = cache_get now (od_authorize st) ticket"

definition delete_authorize_ticket :: "string \<Rightarrow> 's oidc_state \<Rightarrow> 's oidc_state" where
  "delete_authorize_ticket ticket st = st\<lparr>od_authorize := cache_delete ticket (od_authorize st)\<rparr>"

text \<open>Only unsigned request objects are read; a claim that is not a string counts as empty.\<close>

definition string_claim :: "(string \<times> json) list \<Rightarrow> string \<Rightarrow> string" where
  "string_claim claims k = (case map_of claims k of Some (JString s) \<Rightarrow> s | _ \<Rightarrow> [])"

definition decode_authorize_jwt :: "'s oidc_env \<Rightarrow> string \<Rightarrow> authorize_request option" where
  "decode_authorize_jwt env token =
     (case cr_parse_jwt (oe_crypto env) token of
        None \<Rightarrow> None
      | Some (header, claims, signature) \<Rightarrow>
          if map_of header ''alg'' \<noteq> Some (JString ''none'') \<or> signature \<noteq> [] then None
          else
            let get = string_claim claims
            in Some \<lparr>ar_scope = get ''scope'', ar_response_type = get ''response_type'', ar_client_id = get ''client_id'',
                     ar_redirect_uri = get ''redirect_uri'', ar_state = get ''state'', ar_nonce = get ''nonce'',
                     ar_code_challenge = get ''code_challenge'', ar_code_challenge_method = get ''code_challenge_method'',
                     ar_prompt = get ''prompt'', ar_max_age = []\<rparr>)"

definition get_prompt :: "string \<Rightarrow> string list" where
  "get_prompt prompt =
     (if prompt = [] then [] else filter_slice (\<lambda>p. p \<in> set supported_prompts) (split_on (CHR '' '') prompt))"

section \<open>Codes\<close>

definition hex_string :: "string \<Rightarrow> string" where
  "hex_string s = concat (map (\<lambda>c. [hex_lower (of_char c div 16), hex_lower (of_char c mod 16)]) s)"

definition oidc_hash :: "golib \<Rightarrow> string \<Rightarrow> string" where
  "oidc_hash lib token = hex_string (lib_sha256 lib token)"

definition hash_and_encode_pkce :: "golib \<Rightarrow> string \<Rightarrow> string" where
  "hash_and_encode_pkce lib verifier = base64_raw_url (lib_sha256 lib verifier)"

definition validate_pkce :: "golib \<Rightarrow> string \<Rightarrow> string \<Rightarrow> bool" where
  "validate_pkce lib challenge verifier =
     (if challenge = [] then True else challenge = hash_and_encode_pkce lib verifier)"

definition create_sub :: "golib \<Rightarrow> user_context \<Rightarrow> string \<Rightarrow> string" where
  "create_sub lib uc client_id = generate_uuid lib (get_username uc @ '':'' @ client_id)"

text \<open>The claims of the user of a request; reading the attributes or groups needs their pointer.\<close>

definition userinfo_from_context :: "int \<Rightarrow> user_context \<Rightarrow> string \<Rightarrow> userinfo" where
  "userinfo_from_context now uc sub =
     (let u0 = zero_userinfo\<lparr>uf_sub := sub, uf_name := get_name uc, uf_email := get_email uc,
                 uf_preferred_username := get_username uc, uf_updated_at := unix now\<rparr>;
          u1 = (case uc_local uc of
                  Some l \<Rightarrow>
                    if is_local uc then
                      let a = lc_attributes l
                      in u0\<lparr>uf_given_name := ua_given_name a, uf_family_name := ua_family_name a,
                            uf_middle_name := ua_middle_name a, uf_nickname := ua_nickname a, uf_profile := ua_profile a,
                            uf_picture := ua_picture a, uf_website := ua_website a, uf_gender := ua_gender a,
                            uf_birthdate := ua_birthdate a, uf_zoneinfo := ua_zoneinfo a, uf_locale := ua_locale a,
                            uf_phone_number := ua_phone_number a, uf_address := Some (ua_address a)\<rparr>
                    else u0
                | None \<Rightarrow> u0);
          u2 = (case uc_ldap uc of Some d \<Rightarrow> if is_ldap uc then u1\<lparr>uf_groups := dc_groups d\<rparr> else u1 | None \<Rightarrow> u1)
      in case uc_oauth uc of Some oa \<Rightarrow> if is_oauth uc then u2\<lparr>uf_groups := oc_groups oa\<rparr> else u2 | None \<Rightarrow> u2)"

definition create_code ::
  "'s oidc_env \<Rightarrow> string visit_order \<Rightarrow> int \<Rightarrow> string \<Rightarrow> authorize_request \<Rightarrow> user_context \<Rightarrow> 's oidc_state \<Rightarrow>
     string \<times> 's oidc_state"
where
  "create_code env ord now random req uc st =
     (let lib = oe_lib env; code = generate_string random; sub = create_sub lib uc (ar_client_id req);
          entry = \<lparr>co_code_hash = oidc_hash lib code,
                   co_scope = join_with '' '' (filter_scopes (split_on (CHR '' '') (ar_scope req))),
                   co_redirect_uri = ar_redirect_uri req, co_client_id = ar_client_id req, co_nonce = ar_nonce req,
                   co_code_challenge =
                     (if ar_code_challenge req = [] then []
                      else if ar_code_challenge_method req = ''S256'' then ar_code_challenge req
                      else hash_and_encode_pkce lib (ar_code_challenge req)),
                   co_userinfo = userinfo_from_context now uc sub, co_auth_time = uc_auth_time uc\<rparr>
      in (code, st\<lparr>od_code := cache_set ord now (co_code_hash entry) entry (seconds 60) (od_code st)\<rparr>))"

text \<open>The lookup and the removal are one critical section.\<close>

definition get_code_entry ::
  "int \<Rightarrow> string \<Rightarrow> string \<Rightarrow> 's oidc_state \<Rightarrow> code_entry option \<times> 's oidc_state"
where
  "get_code_entry now code_hash client_id st =
     (case cache_get now (od_code st) code_hash of
        None \<Rightarrow> (None, st)
      | Some entry \<Rightarrow>
          if co_client_id entry \<noteq> client_id then (None, st)
          else (Some entry, st\<lparr>od_code := cache_delete code_hash (od_code st)\<rparr>))"

definition is_code_used :: "int \<Rightarrow> string \<Rightarrow> 's oidc_state \<Rightarrow> string option" where
  "is_code_used now code_hash st = map_option ud_sub (cache_get now (od_used_code st) code_hash)"

definition mark_code_as_used :: "string visit_order \<Rightarrow> int \<Rightarrow> string \<Rightarrow> string \<Rightarrow> 's oidc_state \<Rightarrow> 's oidc_state" where
  "mark_code_as_used ord now code_hash sub st =
     st\<lparr>od_used_code := cache_set ord now code_hash \<lparr>ud_sub = sub\<rparr> (seconds 120) (od_used_code st)\<rparr>"

section \<open>Claims and tokens\<close>

definition compile_userinfo :: "userinfo \<Rightarrow> string \<Rightarrow> userinfo" where
  "compile_userinfo user scope =
     (let scopes = split_on (CHR '' '') scope;
          u0 = zero_userinfo\<lparr>uf_sub := uf_sub user, uf_updated_at := uf_updated_at user\<rparr>;
          u1 = (if ''profile'' \<in> set scopes
                then u0\<lparr>uf_name := uf_name user, uf_preferred_username := uf_preferred_username user,
                        uf_given_name := uf_given_name user, uf_family_name := uf_family_name user,
                        uf_middle_name := uf_middle_name user, uf_nickname := uf_nickname user,
                        uf_profile := uf_profile user, uf_picture := uf_picture user, uf_website := uf_website user,
                        uf_gender := uf_gender user, uf_birthdate := uf_birthdate user, uf_zoneinfo := uf_zoneinfo user,
                        uf_locale := uf_locale user\<rparr>
                else u0);
          u2 = (if ''email'' \<in> set scopes
                then u1\<lparr>uf_email := uf_email user, uf_email_verified := uf_email user \<noteq> []\<rparr> else u1);
          u3 = (if ''groups'' \<in> set scopes then u2\<lparr>uf_groups := uf_groups user\<rparr> else u2);
          u4 = (if ''phone'' \<in> set scopes
                then u3\<lparr>uf_phone_number := uf_phone_number user,
                        uf_phone_number_verified := Some (uf_phone_number user \<noteq> [])\<rparr> else u3)
      in if ''address'' \<in> set scopes then u4\<lparr>uf_address := uf_address user\<rparr> else u4)"

text \<open>The id of the public key, and the key set with it.\<close>

definition key_id :: "golib \<Rightarrow> string \<Rightarrow> string" where
  "key_id lib der = base64_with url_alphabet ''='' (lib_sha256 lib der)"

definition get_jwk :: "'s oidc_env \<Rightarrow> string option" where
  "get_jwk env =
     (case cr_marshal_public (oe_crypto env) (oe_public_key env) of
        None \<Rightarrow> None
      | Some der \<Rightarrow> cr_marshal_jwk (oe_crypto env) (oe_public_key env) (key_id (oe_lib env) der))"

definition id_token_claims ::
  "'s oidc_env \<Rightarrow> int \<Rightarrow> string \<Rightarrow> userinfo \<Rightarrow> string \<Rightarrow> string \<Rightarrow> int option \<Rightarrow> claim_set"
where
  "id_token_claims env now client_id user scope nonce auth_time =
     (let u = compile_userinfo user scope
      in \<lparr>cs_iss = oe_issuer env, cs_aud = client_id, cs_sub = uf_sub user, cs_iat = unix now,
          cs_exp = unix (now + seconds (au_session_expiry (cfg_auth (oe_config env)))),
          cs_auth_time = (case auth_time of None \<Rightarrow> 0 | Some t \<Rightarrow> t), cs_name = uf_name u,
          cs_given_name = [], cs_family_name = [], cs_middle_name = [], cs_nickname = [], cs_profile = [],
          cs_picture = [], cs_website = [], cs_gender = [], cs_birthdate = [], cs_zoneinfo = [], cs_locale = [],
          cs_email = uf_email u, cs_email_verified = uf_email_verified u,
          cs_preferred_username = uf_preferred_username u, cs_groups = uf_groups u, cs_nonce = nonce\<rparr>)"

definition generate_id_token ::
  "'s oidc_env \<Rightarrow> int \<Rightarrow> string \<Rightarrow> userinfo \<Rightarrow> string \<Rightarrow> string \<Rightarrow> int option \<Rightarrow> string option"
where
  "generate_id_token env now client_id user scope nonce auth_time =
     (case cr_marshal_public (oe_crypto env) (oe_public_key env) of
        None \<Rightarrow> None
      | Some der \<Rightarrow>
          cr_sign (oe_crypto env) (oe_private_key env)
            [(''typ'', ''jwt''), (''jku'', oe_issuer env @ ''/.well-known/jwks.json''), (''kid'', key_id (oe_lib env) der)]
            (json_text (claim_set_json (id_token_claims env now client_id user scope nonce auth_time))))"

datatype oidc_error =
    ErrTokenNotFound
  | ErrTokenExpired
  | ErrInvalidClient
  | IdTokenFailed
  | UserinfoUnreadable
  | OidcStoreError store_error

definition token_lifetimes :: "'s oidc_env \<Rightarrow> int \<Rightarrow> int \<times> int" where
  "token_lifetimes env now =
     (let expiry = au_session_expiry (cfg_auth (oe_config env))
      in (unix (now + seconds expiry), unix (now + seconds (i64 (expiry * 2)))))"

text \<open>Commas of a scope are shown as spaces.\<close>

definition make_token_response :: "'s oidc_env \<Rightarrow> string \<Rightarrow> string \<Rightarrow> string \<Rightarrow> string \<Rightarrow> token_response" where
  "make_token_response env access refresh id_token scope =
     \<lparr>tr_access_token = access, tr_refresh_token = refresh, tr_token_type = ''Bearer'',
      tr_expires_in = au_session_expiry (cfg_auth (oe_config env)), tr_id_token = id_token,
      tr_scope = replace_char (CHR '','') (CHR '' '') scope\<rparr>"

definition generate_access_token ::
  "'s oidc_env \<Rightarrow> int \<Rightarrow> string \<times> string \<Rightarrow> string \<Rightarrow> code_entry \<Rightarrow> 's oidc_state \<Rightarrow>
     (oidc_error + token_response) \<times> 's oidc_state"
where
  "generate_access_token env now random client_id entry st =
     (case generate_id_token env now client_id (co_userinfo entry) (co_scope entry) (co_nonce entry) (Some (co_auth_time entry)) of
        None \<Rightarrow> (Inl IdTokenFailed, st)
      | Some id_token \<Rightarrow>
          let access = generate_string (fst random); refresh = generate_string (snd random);
              (expires, refresh_expires) = token_lifetimes env now
          in case create_oidc_session_op (oe_ops env)
                    \<lparr>os_sub = uf_sub (co_userinfo entry), os_access_token_hash = oidc_hash (oe_lib env) access,
                     os_refresh_token_hash = oidc_hash (oe_lib env) refresh, os_scope = co_scope entry,
                     os_client_id = client_id, os_token_expires_at = expires,
                     os_refresh_token_expires_at = refresh_expires, os_nonce = co_nonce entry,
                     os_userinfo_json = marshal_userinfo (co_userinfo entry)\<rparr> (od_store st) of
               (Inl e, s') \<Rightarrow> (Inl (OidcStoreError e), st\<lparr>od_store := s'\<rparr>)
             | (Inr _, s') \<Rightarrow>
                 (Inr (make_token_response env access refresh id_token (co_scope entry)), st\<lparr>od_store := s'\<rparr>))"

definition refresh_access_token ::
  "'s oidc_env \<Rightarrow> int \<Rightarrow> string \<times> string \<Rightarrow> string \<Rightarrow> string \<Rightarrow> 's oidc_state \<Rightarrow>
     (oidc_error + token_response) \<times> 's oidc_state"
where
  "refresh_access_token env now random refresh_token client_id st =
     (case get_oidc_session_by_refresh_token_hash_op (oe_ops env) (oidc_hash (oe_lib env) refresh_token) (od_store st) of
        Inl e \<Rightarrow> (Inl (if e = ErrNotFound then ErrTokenNotFound else OidcStoreError e), st)
      | Inr entry \<Rightarrow>
          if os_refresh_token_expires_at entry < unix now then (Inl ErrTokenExpired, st)
          else if os_client_id entry \<noteq> client_id then (Inl ErrInvalidClient, st)
          else (case unmarshal_userinfo (oe_lib env) (os_userinfo_json entry) of
                  None \<Rightarrow> (Inl UserinfoUnreadable, st)
                | Some user \<Rightarrow>
                    (case generate_id_token env now (os_client_id entry) user (os_scope entry) (os_nonce entry) None of
                       None \<Rightarrow> (Inl IdTokenFailed, st)
                     | Some id_token \<Rightarrow>
                         let access = generate_string (fst random); refresh = generate_string (snd random);
                             (expires, refresh_expires) = token_lifetimes env now
                         in case update_oidc_session_op (oe_ops env)
                                   (entry\<lparr>os_access_token_hash := oidc_hash (oe_lib env) access,
                                          os_refresh_token_hash := oidc_hash (oe_lib env) refresh,
                                          os_token_expires_at := expires,
                                          os_refresh_token_expires_at := refresh_expires\<rparr>) (od_store st) of
                              (Inl e, s') \<Rightarrow> (Inl (OidcStoreError e), st\<lparr>od_store := s'\<rparr>)
                            | (Inr _, s') \<Rightarrow>
                                (Inr (make_token_response env access refresh id_token (os_scope entry)),
                                 st\<lparr>od_store := s'\<rparr>))))"

definition get_session_by_token ::
  "'s oidc_env \<Rightarrow> int \<Rightarrow> string \<Rightarrow> 's oidc_state \<Rightarrow> (oidc_error + oidc_session) \<times> 's oidc_state"
where
  "get_session_by_token env now token_hash st =
     (case get_oidc_session_by_access_token_hash_op (oe_ops env) token_hash (od_store st) of
        Inl e \<Rightarrow> (Inl (if e = ErrNotFound then ErrTokenNotFound else OidcStoreError e), st)
      | Inr entry \<Rightarrow>
          if os_token_expires_at entry < unix now then
            (if os_refresh_token_expires_at entry < unix now then
               (case delete_oidc_session_by_sub_op (oe_ops env) (os_sub entry) (od_store st) of
                  (Some e, s') \<Rightarrow> (Inl (OidcStoreError e), st\<lparr>od_store := s'\<rparr>)
                | (None, s') \<Rightarrow> (Inl ErrTokenExpired, st\<lparr>od_store := s'\<rparr>))
             else (Inl ErrTokenExpired, st))
          else (Inr entry, st))"

definition delete_session_by_sub ::
  "'s oidc_env \<Rightarrow> string \<Rightarrow> 's oidc_state \<Rightarrow> store_error option \<times> 's oidc_state"
where
  "delete_session_by_sub env sub st =
     (let (e, s') = delete_oidc_session_by_sub_op (oe_ops env) sub (od_store st) in (e, st\<lparr>od_store := s'\<rparr>))"

definition delete_old_session ::
  "'s oidc_env \<Rightarrow> string \<Rightarrow> 's oidc_state \<Rightarrow> store_error option \<times> 's oidc_state"
where
  "delete_old_session env sub st =
     (let (e, s') = delete_oidc_session_by_sub_op (oe_ops env) sub (od_store st)
      in (if e = Some ErrNotFound then None else e, st\<lparr>od_store := s'\<rparr>))"

section \<open>The claims of a scope\<close>

abbreviation has_scope :: "string \<Rightarrow> string \<Rightarrow> bool" where
  "has_scope s k \<equiv> k \<in> set (split_on (CHR '' '') s)"

lemma compile_userinfo_eq:
  "compile_userinfo u s =
     \<lparr>uf_sub = uf_sub u,
      uf_name = (if has_scope s ''profile'' then uf_name u else []),
      uf_given_name = (if has_scope s ''profile'' then uf_given_name u else []),
      uf_family_name = (if has_scope s ''profile'' then uf_family_name u else []),
      uf_middle_name = (if has_scope s ''profile'' then uf_middle_name u else []),
      uf_nickname = (if has_scope s ''profile'' then uf_nickname u else []),
      uf_profile = (if has_scope s ''profile'' then uf_profile u else []),
      uf_picture = (if has_scope s ''profile'' then uf_picture u else []),
      uf_website = (if has_scope s ''profile'' then uf_website u else []),
      uf_gender = (if has_scope s ''profile'' then uf_gender u else []),
      uf_birthdate = (if has_scope s ''profile'' then uf_birthdate u else []),
      uf_zoneinfo = (if has_scope s ''profile'' then uf_zoneinfo u else []),
      uf_locale = (if has_scope s ''profile'' then uf_locale u else []),
      uf_email = (if has_scope s ''email'' then uf_email u else []),
      uf_preferred_username = (if has_scope s ''profile'' then uf_preferred_username u else []),
      uf_groups = (if has_scope s ''groups'' then uf_groups u else []),
      uf_email_verified = (has_scope s ''email'' \<and> uf_email u \<noteq> []),
      uf_phone_number = (if has_scope s ''phone'' then uf_phone_number u else []),
      uf_phone_number_verified = (if has_scope s ''phone'' then Some (uf_phone_number u \<noteq> []) else None),
      uf_address = (if has_scope s ''address'' then uf_address u else None),
      uf_updated_at = uf_updated_at u\<rparr>"
  by (cases "has_scope s ''profile''"; cases "has_scope s ''email''"; cases "has_scope s ''groups''";
      cases "has_scope s ''phone''"; cases "has_scope s ''address''")
    (simp_all add: compile_userinfo_def zero_userinfo_def)

lemma compile_userinfo_twice: "compile_userinfo (compile_userinfo u s) s = compile_userinfo u s"
  by (simp add: compile_userinfo_eq)

end
