(* ===== verification/OidcClaims.thy ===== *)
theory OidcClaims
  imports Oidc
begin

text \<open>
  The claims the provider keeps with a session as text: what was stored is read back, so that a
  refreshed token and the userinfo endpoint speak of the user the code was issued for; and the
  claims a scope lets out.
\<close>

section \<open>Fields and their names\<close>

definition userinfo_names :: "string list" where
  "userinfo_names =
     [''sub'', ''name'', ''given_name'', ''family_name'', ''middle_name'', ''nickname'', ''profile'', ''picture'',
      ''website'', ''gender'', ''birthdate'', ''zoneinfo'', ''locale'', ''email'', ''preferred_username'', ''groups'',
      ''email_verified'', ''phone_number'', ''phone_number_verified'', ''address'', ''updated_at'']"

definition address_names :: "string list" where
  "address_names = [''formatted'', ''street_address'', ''locality'', ''region'', ''postal_code'', ''country'']"

text \<open>\<open>strings.EqualFold\<close> tells the names of the fields apart.\<close>

definition tells_apart :: "golib \<Rightarrow> string list \<Rightarrow> bool" where
  "tells_apart lib names \<longleftrightarrow> (\<forall>a\<in>set names. \<forall>b\<in>set names. lib_equal_fold lib a b \<longrightarrow> a = b)"

definition plain_fields :: "golib \<Rightarrow> string list \<Rightarrow> (string \<times> json) list \<Rightarrow> bool" where
  "plain_fields lib names fs \<longleftrightarrow> tells_apart lib names \<and> subseq (map fst fs) names \<and> distinct names"

lemma subseq_keys:
  assumes "subseq xs ns" "distinct ns"
  shows "distinct xs" "set xs \<subseteq> set ns"
proof -
  from assms(1) obtain N where "xs = nths ns N" by (auto simp: subseq_conv_nths)
  with assms(2) show "distinct xs" "set xs \<subseteq> set ns" by (simp_all add: distinct_nthsI set_nths_subset)
qed

lemma plain_fields_cons:
  assumes "plain_fields lib names ((k, v) # fs)" "n \<in> set names"
  shows "k = n \<or> lib_equal_fold lib k n \<longleftrightarrow> k = n" "plain_fields lib names fs" "map_of fs k = None"
proof -
  have k: "k \<in> set names" "distinct (k # map fst fs)" "subseq (map fst fs) names"
    using assms(1) subseq_keys [of "map fst ((k, v) # fs)" names]
    by (auto simp: plain_fields_def dest: subseq_Cons')
  then show "k = n \<or> lib_equal_fold lib k n \<longleftrightarrow> k = n" "plain_fields lib names fs"
    using assms by (auto simp: plain_fields_def tells_apart_def)
  from k(2) show "map_of fs k = None" by (simp add: map_of_eq_None_iff)
qed

text \<open>With plain fields every binding is a lookup.\<close>

lemma bind_field_lookup:
  "plain_fields lib names fs \<Longrightarrow> n \<in> set names \<Longrightarrow>
     bind_field lib n fs acc = (case map_of fs n of
        None \<Rightarrow> Some acc | Some (JString s) \<Rightarrow> Some s | Some JNull \<Rightarrow> Some acc | Some _ \<Rightarrow> None)"
proof (induction fs arbitrary: acc)
  case (Cons f fs)
  obtain k v where f: "f = (k, v)" by fastforce
  note p = plain_fields_cons [OF Cons(2) [unfolded f] Cons(3)]
  show ?case using Cons(1) [OF p(2) Cons(3)] p(1,3) by (auto simp: f split: json.splits)
qed simp

lemma bind_bool_lookup:
  "plain_fields lib names fs \<Longrightarrow> n \<in> set names \<Longrightarrow>
     bind_bool lib n fs acc = (case map_of fs n of
        None \<Rightarrow> Some acc | Some (JBool b) \<Rightarrow> Some b | Some JNull \<Rightarrow> Some acc | Some _ \<Rightarrow> None)"
proof (induction fs arbitrary: acc)
  case (Cons f fs)
  obtain k v where f: "f = (k, v)" by fastforce
  note p = plain_fields_cons [OF Cons(2) [unfolded f] Cons(3)]
  show ?case using Cons(1) [OF p(2) Cons(3)] p(1,3) by (auto simp: f split: json.splits)
qed simp

lemma bind_int_lookup:
  "plain_fields lib names fs \<Longrightarrow> n \<in> set names \<Longrightarrow>
     bind_int lib n fs acc = (case map_of fs n of
        None \<Rightarrow> Some acc | Some (JNumber x) \<Rightarrow> if i64 x = x then Some x else None
      | Some JNull \<Rightarrow> Some acc | Some _ \<Rightarrow> None)"
proof (induction fs arbitrary: acc)
  case (Cons f fs)
  obtain k v where f: "f = (k, v)" by fastforce
  note p = plain_fields_cons [OF Cons(2) [unfolded f] Cons(3)]
  show ?case using Cons(1) [OF p(2) Cons(3)] p(1,3) by (auto simp: f split: json.splits)
qed simp

lemma bind_pointer_lookup:
  "plain_fields lib names fs \<Longrightarrow> n \<in> set names \<Longrightarrow>
     bind_pointer lib dec n fs acc = (case map_of fs n of
        None \<Rightarrow> Some acc | Some JNull \<Rightarrow> Some None | Some v \<Rightarrow> map_option Some (dec v acc))"
proof (induction fs arbitrary: acc)
  case (Cons f fs)
  obtain k v where f: "f = (k, v)" by fastforce
  note p = plain_fields_cons [OF Cons(2) [unfolded f] Cons(3)]
  show ?case using Cons(1) [OF p(2) Cons(3)] p(1,3) by (auto simp: f split: json.splits option.splits)
qed simp

lemmas bind_lookups = bind_field_lookup bind_bool_lookup bind_int_lookup bind_pointer_lookup

section \<open>The fields of the structs\<close>

lemma some_fields_map:
  "map_of (some_string k v) n = (if k = n \<and> v \<noteq> [] then Some (JString v) else None)"
  "map_of (some_strings k vs) n = (if k = n \<and> vs \<noteq> [] then Some (JArray (map JString vs)) else None)"
  "map_of (some_true k b) n = (if k = n \<and> b then Some (JBool True) else None)"
  by (simp_all add: some_string_def some_strings_def some_true_def)

lemma subseq_some:
  "subseq ys ns \<Longrightarrow> subseq (map fst (some_string k v) @ ys) (k # ns)"
  "subseq ys ns \<Longrightarrow> subseq (map fst (some_strings k vs) @ ys) (k # ns)"
  "subseq ys ns \<Longrightarrow> subseq (map fst (some_true k b) @ ys) (k # ns)"
  "subseq ys ns \<Longrightarrow> subseq (map fst (case x of None \<Rightarrow> [] | Some a \<Rightarrow> [(k, g a)]) @ ys) (k # ns)"
  by (auto simp: some_string_def some_strings_def some_true_def split: option.split)

lemma subseq_last: "subseq (map fst (some_string k v)) [k]"
  by (simp add: some_string_def)

definition json_fields_of :: "json \<Rightarrow> (string \<times> json) list" where
  "json_fields_of v = (case v of JObject fs \<Rightarrow> fs | _ \<Rightarrow> [])"

lemma address_fields:
  assumes "tells_apart lib address_names"
  shows "plain_fields lib address_names (json_fields_of (address_json a))"
  using assms
  by (auto simp: plain_fields_def address_json_def json_fields_of_def address_names_def
      intro!: subseq_some subseq_last)

lemma userinfo_fields:
  assumes "tells_apart lib userinfo_names"
  shows "plain_fields lib userinfo_names (json_fields_of (userinfo_json u))"
  unfolding plain_fields_def
proof (intro conjI assms)
  show "subseq (map fst (json_fields_of (userinfo_json u))) userinfo_names"
    unfolding userinfo_json_def json_fields_of_def userinfo_names_def json.case map_append append_Nil append_Cons list.map fst_conv
    by (intro subseq_some subseq_Cons2 subseq_order.refl)
  show "distinct userinfo_names" by (simp add: userinfo_names_def)
qed

lemma skip_field:
  "map_of (some_string k v @ ys) n = (if k = n \<and> v \<noteq> [] then Some (JString v) else map_of ys n)"
  "map_of (some_strings k vs @ ys) n = (if k = n \<and> vs \<noteq> [] then Some (JArray (map JString vs)) else map_of ys n)"
  "map_of (some_true k b @ ys) n = (if k = n \<and> b then Some (JBool True) else map_of ys n)"
  "map_of ((case x of None \<Rightarrow> [] | Some a \<Rightarrow> [(k, g a)]) @ ys) n =
     (if k = n \<and> x \<noteq> None then Some (g (the x)) else map_of ys n)"
  by (auto simp: some_string_def some_strings_def some_true_def split: option.split)

lemma address_field_values:
  "map_of (json_fields_of (address_json a)) ''formatted'' = (if ad_formatted a = [] then None else Some (JString (ad_formatted a)))"
  "map_of (json_fields_of (address_json a)) ''street_address'' =
     (if ad_street_address a = [] then None else Some (JString (ad_street_address a)))"
  "map_of (json_fields_of (address_json a)) ''locality'' = (if ad_locality a = [] then None else Some (JString (ad_locality a)))"
  "map_of (json_fields_of (address_json a)) ''region'' = (if ad_region a = [] then None else Some (JString (ad_region a)))"
  "map_of (json_fields_of (address_json a)) ''postal_code'' = (if ad_postal_code a = [] then None else Some (JString (ad_postal_code a)))"
  "map_of (json_fields_of (address_json a)) ''country'' = (if ad_country a = [] then None else Some (JString (ad_country a)))"
  by (simp_all add: address_json_def json_fields_of_def skip_field some_fields_map del: map_of_append)

lemma bound_string:
  "plain_fields lib names fs \<Longrightarrow> n \<in> set names \<Longrightarrow>
     map_of fs n = (if v = [] then None else Some (JString v)) \<Longrightarrow> bind_field lib n fs [] = Some v"
  by (simp add: bind_field_lookup)

lemma decode_address_json:
  assumes "tells_apart lib address_names"
  shows "decode_address lib (address_json a) None = Some a"
proof -
  obtain fs where fs: "address_json a = JObject fs" by (simp add: address_json_def)
  then have f: "json_fields_of (address_json a) = fs" by (simp add: json_fields_of_def)
  note b = bound_string [OF address_fields [OF assms, of a, unfolded f]]
  have "bind_field lib ''formatted'' fs [] = Some (ad_formatted a)"
    "bind_field lib ''street_address'' fs [] = Some (ad_street_address a)"
    "bind_field lib ''locality'' fs [] = Some (ad_locality a)" "bind_field lib ''region'' fs [] = Some (ad_region a)"
    "bind_field lib ''postal_code'' fs [] = Some (ad_postal_code a)" "bind_field lib ''country'' fs [] = Some (ad_country a)"
    by (rule b, simp add: address_names_def, rule address_field_values [of a, unfolded f])+
  then show ?thesis by (simp add: decode_address_def Let_def zero_address_claim_def fs)
qed

lemma userinfo_field_values:
  "map_of (json_fields_of (userinfo_json u)) ''sub'' = Some (JString (uf_sub u))"
  "map_of (json_fields_of (userinfo_json u)) ''groups'' = (if uf_groups u = [] then None else Some (JArray (map JString (uf_groups u))))"
  "map_of (json_fields_of (userinfo_json u)) ''email_verified'' = (if uf_email_verified u then Some (JBool True) else None)"
  "map_of (json_fields_of (userinfo_json u)) ''phone_number_verified'' =
     (if uf_phone_number_verified u = None then None else Some (JBool (the (uf_phone_number_verified u))))"
  "map_of (json_fields_of (userinfo_json u)) ''address'' =
     (if uf_address u = None then None else Some (address_json (the (uf_address u))))"
  "map_of (json_fields_of (userinfo_json u)) ''updated_at'' = Some (JNumber (uf_updated_at u))"
  by (simp_all add: userinfo_json_def json_fields_of_def skip_field del: map_of_append)

lemma userinfo_string_values:
  "list_all (\<lambda>(n, v). map_of (json_fields_of (userinfo_json u)) n = (if v = [] then None else Some (JString v)))
     [(''name'', uf_name u), (''given_name'', uf_given_name u), (''family_name'', uf_family_name u),
      (''middle_name'', uf_middle_name u), (''nickname'', uf_nickname u), (''profile'', uf_profile u),
      (''picture'', uf_picture u), (''website'', uf_website u), (''gender'', uf_gender u),
      (''birthdate'', uf_birthdate u), (''zoneinfo'', uf_zoneinfo u), (''locale'', uf_locale u),
      (''email'', uf_email u), (''preferred_username'', uf_preferred_username u),
      (''phone_number'', uf_phone_number u)]"
  by (simp add: userinfo_json_def json_fields_of_def skip_field del: map_of_append)

lemma decode_string_items: "all_some (map (decode_item \<circ> JString) xs) = Some xs"
  by (induction xs) simp_all

text \<open>The claims as the program can have them: the time fits in 64 bits, the groups are not an empty slice.\<close>

lemma userinfo_json_decodes:
  assumes "tells_apart lib userinfo_names" "tells_apart lib address_names" "i64 (uf_updated_at u) = uf_updated_at u"
  shows "userinfo_of_json lib (userinfo_json u) = Some u"
proof -
  obtain fs where fs: "userinfo_json u = JObject fs" by (simp add: userinfo_json_def)
  then have f: "json_fields_of (userinfo_json u) = fs" by (simp add: json_fields_of_def)
  note plain = userinfo_fields [OF assms(1), of u, unfolded f]
  note vals = userinfo_field_values [of u, unfolded f]
  have sub: "bind_field lib ''sub'' fs [] = Some (uf_sub u)"
    using bind_field_lookup [OF plain] vals(1) by (simp add: userinfo_names_def)
  have strings: "map (\<lambda>n. bind_field lib n fs []) userinfo_string_fields =
      map Some [uf_sub u, uf_name u, uf_given_name u, uf_family_name u, uf_middle_name u, uf_nickname u, uf_profile u,
        uf_picture u, uf_website u, uf_gender u, uf_birthdate u, uf_zoneinfo u, uf_locale u, uf_email u,
        uf_preferred_username u, uf_phone_number u]"
    using userinfo_string_values [of u, unfolded f] sub
    by (simp add: userinfo_string_fields_def bind_field_lookup [OF plain] userinfo_names_def)
  have others: "bind_pointer lib decode_strings ''groups'' fs None = Some (if uf_groups u = [] then None else Some (uf_groups u))"
    "bind_bool lib ''email_verified'' fs False = Some (uf_email_verified u)"
    "bind_pointer lib decode_bool ''phone_number_verified'' fs None = Some (uf_phone_number_verified u)"
    "bind_pointer lib (decode_address lib) ''address'' fs None = Some (uf_address u)"
    "bind_int lib ''updated_at'' fs 0 = Some (uf_updated_at u)"
    using vals assms(3) decode_address_json [OF assms(2)]
    by (auto simp: bind_lookups [OF plain] userinfo_names_def decode_strings_def decode_string_items decode_bool_def
        address_json_def split: option.splits)
  show ?thesis unfolding userinfo_of_json_def fs json.case strings others
    by (simp add: all_some_map [of _ _ "\<lambda>x. x"])
qed

section \<open>What was stored is read back\<close>

text \<open>Every text among the claims is valid UTF-8; the encoder replaces other bytes.\<close>

definition valid_address :: "address_claim \<Rightarrow> bool" where
  "valid_address a \<longleftrightarrow> list_all valid_utf8
     [ad_formatted a, ad_street_address a, ad_locality a, ad_region a, ad_postal_code a, ad_country a]"

definition valid_userinfo :: "userinfo \<Rightarrow> bool" where
  "valid_userinfo u \<longleftrightarrow>
     list_all valid_utf8
       [uf_sub u, uf_name u, uf_given_name u, uf_family_name u, uf_middle_name u, uf_nickname u, uf_profile u,
        uf_picture u, uf_website u, uf_gender u, uf_birthdate u, uf_zoneinfo u, uf_locale u, uf_email u,
        uf_preferred_username u, uf_phone_number u] \<and>
     list_all valid_utf8 (uf_groups u) \<and>
     (case uf_address u of None \<Rightarrow> True | Some a \<Rightarrow> valid_address a) \<and>
     i64 (uf_updated_at u) = uf_updated_at u"

definition valid_field :: "string \<times> json \<Rightarrow> bool" where
  "valid_field f \<longleftrightarrow> valid_utf8 (fst f) \<and> valid_json (snd f)"

lemma valid_object: "valid_json (JObject fs) = list_all valid_field fs"
  by (simp add: valid_field_def [abs_def] split_def)

lemma valid_some_fields:
  "list_all valid_field (some_string k v) \<longleftrightarrow> v = [] \<or> valid_utf8 k \<and> valid_utf8 v"
  "list_all valid_field (some_strings k vs) \<longleftrightarrow> vs = [] \<or> valid_utf8 k \<and> list_all valid_utf8 vs"
  "list_all valid_field (some_true k b) \<longleftrightarrow> \<not> b \<or> valid_utf8 k"
  by (simp_all add: some_string_def some_strings_def some_true_def valid_field_def list_all_iff)

lemma names_valid: "list_all valid_utf8 (userinfo_names @ address_names)"
  by code_simp

lemma valid_address_json: "valid_address a \<Longrightarrow> valid_json (address_json a)"
  using names_valid
  by (simp only: address_json_def valid_object list_all_append valid_some_fields valid_address_def
      address_names_def userinfo_names_def list.pred_inject) simp

lemma valid_userinfo_json:
  assumes "valid_userinfo u"
  shows "valid_json (userinfo_json u)"
proof -
  have address: "list_all valid_field (case uf_address u of None \<Rightarrow> [] | Some a \<Rightarrow> [(''address'', address_json a)])"
    using assms names_valid valid_address_json
    by (auto simp: valid_userinfo_def valid_field_def userinfo_names_def simp del: valid_utf8.simps split: option.splits)
  have phone: "list_all valid_field (case uf_phone_number_verified u of None \<Rightarrow> [] | Some b \<Rightarrow> [(''phone_number_verified'', JBool b)])"
    using names_valid by (simp add: valid_field_def userinfo_names_def del: valid_utf8.simps split: option.split)
  have "valid_field (''sub'', JString (uf_sub u))" "valid_field (''updated_at'', JNumber (uf_updated_at u))"
    using assms names_valid by (simp_all add: valid_userinfo_def valid_field_def userinfo_names_def del: valid_utf8.simps)
  then show ?thesis using assms names_valid address phone
    unfolding userinfo_json_def valid_object list_all_append valid_some_fields valid_userinfo_def userinfo_names_def
    by (simp del: valid_utf8.simps)
qed

text \<open>
  C10: The claims stored with a session are the claims of the user: when the comparison of field
  names without regard to case tells the names of the struct apart, reading the stored text gives
  back the claims it was written from, for every user whose texts are valid UTF-8; quotes, control
  characters and the characters that HTML gives a meaning included.
\<close>

theorem stored_claims_read_back:
  assumes "tells_apart lib userinfo_names" "tells_apart lib address_names" "valid_userinfo u"
  shows "unmarshal_userinfo lib (marshal_userinfo u) = Some u"
  using userinfo_json_decodes [OF assms(1,2)] json_round_trip [OF valid_userinfo_json [OF assms(3)]] assms(3)
  by (simp add: unmarshal_userinfo_def marshal_userinfo_def valid_userinfo_def)

definition demo_userinfo :: userinfo where
  "demo_userinfo = zero_userinfo\<lparr>uf_sub := ''s1'', uf_name := ''A <b> \"n\"'', uf_groups := [''x'', ''y''],
     uf_email_verified := True, uf_address := Some (zero_address_claim\<lparr>ad_locality := ''Rome''\<rparr>), uf_updated_at := 1700000000\<rparr>"

lemma ascii_lib_apart: "tells_apart ascii_lib userinfo_names" "tells_apart ascii_lib address_names"
  by code_simp+

theorem stored_claims_read_back_witness:
  "unmarshal_userinfo ascii_lib (marshal_userinfo demo_userinfo) = Some demo_userinfo"
proof -
  have "valid_userinfo demo_userinfo"
    by (simp add: valid_userinfo_def demo_userinfo_def zero_userinfo_def valid_address_def zero_address_claim_def byte_in_def)
  then show ?thesis by (rule stored_claims_read_back [OF ascii_lib_apart])
qed

end
