(* ===== verification/OidcController.thy ===== *)
theory OidcController
  imports OidcClaims OAuthFlow
begin

text \<open>
  The endpoints of the OpenID Connect provider, \<open>internal/controller/oidc_controller.go\<close>: the
  authorization request that ends at the consent page, its completion that issues a code, the
  token endpoint and the userinfo endpoint. \<open>None\<close> in place of the service is a program without
  clients. A request with a body that is not JSON is read as a form.
\<close>

section \<open>Errors of an authorization\<close>

record authorize_error_params =
  ep_reason_public :: string
  ep_callback :: string
  ep_callback_error :: string
  ep_state :: string
  ep_json :: bool

definition screen_error :: "string \<Rightarrow> authorize_error_params" where
  "screen_error reason =
     \<lparr>ep_reason_public = reason, ep_callback = [], ep_callback_error = [], ep_state = [], ep_json = False\<rparr>"

definition callback_error :: "authorize_request \<Rightarrow> string \<Rightarrow> string \<Rightarrow> authorize_error_params" where
  "callback_error req err reason =
     \<lparr>ep_reason_public = reason, ep_callback = ar_redirect_uri req, ep_callback_error = err,
      ep_state = ar_state req, ep_json = False\<rparr>"

text \<open>The page of the application that shows an error.\<close>

definition error_page :: "'s oidc_env option \<Rightarrow> runtime_config \<Rightarrow> string" where
  "error_page oidc rt = (case oidc of Some env \<Rightarrow> get_issuer env | None \<Rightarrow> rt_app_url rt) @ ''/error?''"

definition authorize_error :: "'s oidc_env option \<Rightarrow> runtime_config \<Rightarrow> authorize_error_params \<Rightarrow> response" where
  "authorize_error oidc rt p =
     (let url = (if ep_callback p \<noteq> []
                 then ep_callback p @ ''?'' @
                   encode_values [(''error'', ep_callback_error p), (''error_description'', ep_reason_public p),
                     (''state'', ep_state p)]
                 else error_page oidc rt @ encode_values [(''error'', ep_reason_public p)])
      in if ep_json p
         then reply_json 200 (JObject [(''status'', JNumber 200), (''redirect_uri'', JString url)]) empty_response
         else reply_redirect 302 url empty_response)"

section \<open>The authorization request\<close>

definition bind_authorize_request :: "(string \<times> string) list \<Rightarrow> authorize_request" where
  "bind_authorize_request vs =
     \<lparr>ar_scope = first_value vs ''scope'', ar_response_type = first_value vs ''response_type'',
      ar_client_id = first_value vs ''client_id'', ar_redirect_uri = first_value vs ''redirect_uri'',
      ar_state = first_value vs ''state'', ar_nonce = first_value vs ''nonce'',
      ar_code_challenge = first_value vs ''code_challenge'',
      ar_code_challenge_method = first_value vs ''code_challenge_method'',
      ar_prompt = first_value vs ''prompt'', ar_max_age = first_value vs ''max_age''\<rparr>"

text \<open>The values of the body come before those of the address.\<close>

definition form_values :: "http_request \<Rightarrow> (string \<times> string) list" where
  "form_values rq = rq_form rq @ rq_query rq"

definition resolve_normal_params :: "http_request \<Rightarrow> authorize_request" where
  "resolve_normal_params rq =
     bind_authorize_request (if rq_method rq = ''POST'' then form_values rq else rq_query rq)"

definition request_object :: "http_request \<Rightarrow> string" where
  "request_object rq =
     (let raw = first_value (rq_query rq) ''request''
      in if raw = [] \<and> rq_method rq = ''POST'' then first_value (rq_form rq) ''request'' else raw)"

definition resolve_authorize_request :: "'s oidc_env \<Rightarrow> http_request \<Rightarrow> authorize_request option" where
  "resolve_authorize_request env rq =
     (if request_object rq \<noteq> [] then decode_authorize_jwt env (request_object rq)
      else Some (resolve_normal_params rq))"

text \<open>\<open>strconv.Atoi\<close>: an optional sign, digits, and a value of 64 bits.\<close>

definition atoi :: "string \<Rightarrow> int option" where
  "atoi s =
     (let digits = (if take 1 s \<in> {''-'', ''+''} then tl s else s)
      in case decimal digits of
           None \<Rightarrow> None
         | Some n \<Rightarrow> let v = (if take 1 s = ''-'' then - n else n) in if i64 v = v then Some v else None)"

definition authorize_screen_query :: "string \<Rightarrow> string \<Rightarrow> string \<Rightarrow> string \<Rightarrow> (string \<times> string) list" where
  "authorize_screen_query ticket scope name prompt =
     [(''login_for'', ''oidc''), (''oidc_ticket'', ticket), (''oidc_scope'', scope), (''oidc_name'', name)] @
     (if prompt = [] then [] else [(''oidc_prompt'', prompt)])"

text \<open>The session of the user is older than the request allows.\<close>

definition too_old :: "int \<Rightarrow> int \<Rightarrow> user_context \<Rightarrow> bool" where
  "too_old now max_age uc \<longleftrightarrow> uc_authenticated uc \<and> uc_auth_time uc * 1000000000 + seconds max_age < now"

definition authorize_checked ::
  "'s oidc_env \<Rightarrow> runtime_config \<Rightarrow> string visit_order \<Rightarrow> int \<Rightarrow> string \<Rightarrow> gin_value \<Rightarrow> authorize_request \<Rightarrow>
     oidc_client_config \<Rightarrow> 's oidc_state \<Rightarrow> response \<times> 's oidc_state"
where
  "authorize_checked env rt ord now random ctx req client st =
     (let err = (\<lambda>e reason. authorize_error (Some env) rt (callback_error req e reason));
          prompts = get_prompt (ar_prompt req)
      in if ''none'' \<in> set prompts \<and> 1 < length prompts
         then (err ''invalid_request'' ''The prompt parameters are invalid'', st)
         else if (case new_from_gin ctx of Inl _ \<Rightarrow> True | Inr uc \<Rightarrow> \<not> uc_authenticated uc) \<and> ''none'' \<in> set prompts
         then (err ''login_required'' ''The user is not logged in'', st)
         else
           let (ticket, st1) = create_authorize_ticket ord now random req st;
               prompt = (if ''login'' \<in> set prompts then ''login'' else if ''none'' \<in> set prompts then ''none'' else []);
               consent = (\<lambda>p. reply_redirect 302 (get_issuer env @ ''/oidc/authorize?'' @
                            encode_values (authorize_screen_query ticket (ar_scope req) (occ_name client) p)) empty_response)
           in case new_from_gin ctx of
                Inl _ \<Rightarrow> (consent prompt, st1)
              | Inr uc \<Rightarrow>
                  if ar_max_age req = [] then (consent prompt, st1)
                  else (case atoi (ar_max_age req) of
                          None \<Rightarrow> (err ''invalid_request'' ''The max_age parameter is invalid'', st1)
                        | Some max_age \<Rightarrow> (consent (if too_old now max_age uc then ''login'' else prompt), st1)))"

definition authorize_handler ::
  "'s oidc_env option \<Rightarrow> runtime_config \<Rightarrow> string visit_order \<Rightarrow> int \<Rightarrow> string \<Rightarrow> gin_value \<Rightarrow> http_request \<Rightarrow>
     's oidc_state \<Rightarrow> response \<times> 's oidc_state"
where
  "authorize_handler oidc rt ord now random ctx rq st =
     (case oidc of
        None \<Rightarrow> (authorize_error oidc rt (screen_error ''This instance is not configured for OIDC''), st)
      | Some env \<Rightarrow>
          (case resolve_authorize_request env rq of
             None \<Rightarrow> (authorize_error oidc rt (screen_error ''The authorization request is invalid''), st)
           | Some req \<Rightarrow>
               (case get_client env (ar_client_id req) of
                  None \<Rightarrow> (authorize_error oidc rt (screen_error ''The client ID is invalid''), st)
                | Some client \<Rightarrow>
                    (case validate_authorize_params env req of
                       Some e \<Rightarrow>
                         (authorize_error oidc rt
                            (if e \<noteq> ''invalid_request_uri'' then callback_error req e ''Invalid request parameters''
                             else screen_error ''The provided redirect URI is not trusted''), st)
                     | None \<Rightarrow> authorize_checked env rt ord now random ctx req client st))))"

section \<open>Completing an authorization\<close>

definition callback_params :: "string \<Rightarrow> string \<Rightarrow> (string \<times> string) list" where
  "callback_params code state = (''code'', code) # (if state = [] then [] else [(''state'', state)])"

text \<open>The last step, once the ticket is known: the old session goes, a code is issued.\<close>

definition complete_authorization ::
  "'s oidc_env \<Rightarrow> runtime_config \<Rightarrow> string visit_order \<Rightarrow> int \<Rightarrow> string \<Rightarrow> user_context \<Rightarrow> authorize_request \<Rightarrow>
     's oidc_state \<Rightarrow> response \<times> 's oidc_state"
where
  "complete_authorization env rt ord now random uc req st =
     (case delete_old_session env (create_sub (oe_lib env) uc (ar_client_id req)) st of
        (Some _, st1) \<Rightarrow>
          (authorize_error (Some env) rt
             ((callback_error req ''server_error'' ''Failed to delete old sessions'')\<lparr>ep_json := True\<rparr>), st1)
      | (None, st1) \<Rightarrow>
          let (code, st2) = create_code env ord now random req uc st1
          in (reply_json 200
                (JObject [(''status'', JNumber 200),
                   (''redirect_uri'', JString (ar_redirect_uri req @ ''?'' @ encode_values (callback_params code (ar_state req))))])
                empty_response, st2))"

text \<open>A body that cannot be bound has already been answered with the status 400.\<close>

definition authorize_complete_handler ::
  "'s oidc_env option \<Rightarrow> runtime_config \<Rightarrow> string visit_order \<Rightarrow> int \<Rightarrow> string \<Rightarrow> gin_value \<Rightarrow> http_request \<Rightarrow>
     's oidc_state \<Rightarrow> response \<times> 's oidc_state"
where
  "authorize_complete_handler oidc rt ord now random ctx rq st =
     (let err = (\<lambda>reason. authorize_error oidc rt ((screen_error reason)\<lparr>ep_json := True\<rparr>))
      in case oidc of
           None \<Rightarrow> (err ''This instance is not configured for OIDC'', st)
         | Some env \<Rightarrow>
             (case new_from_gin ctx of
                Inl _ \<Rightarrow> (err ''The user is not logged in'', st)
              | Inr uc \<Rightarrow>
                  if \<not> uc_authenticated uc then (err ''The user is not logged in'', st)
                  else (case bind_json (oe_lib env) [''ticket''] (rq_json rq) of
                          Some [ticket] \<Rightarrow>
                            if ticket = [] then ((err ''The client provided an invalid authorization request'')\<lparr>rs_status := 400\<rparr>, st)
                            else (case get_authorize_request now ticket st of
                                    None \<Rightarrow> (err ''The authorization request has expired or is invalid'', st)
                                  | Some req \<Rightarrow>
                                      complete_authorization env rt ord now random uc req (delete_authorize_ticket ticket st))
                        | _ \<Rightarrow> ((err ''The client provided an invalid authorization request'')\<lparr>rs_status := 400\<rparr>, st))))"

section \<open>The token endpoint\<close>

record token_request =
  tq_grant_type :: string
  tq_code :: string
  tq_redirect_uri :: string
  tq_refresh_token :: string
  tq_client_secret :: string
  tq_client_id :: string
  tq_code_verifier :: string

definition token_request_of :: "string list \<Rightarrow> token_request option" where
  "token_request_of vs =
     (case vs of
        [g, c, r, t, s, i, v] \<Rightarrow>
          if g = [] then None
          else Some \<lparr>tq_grant_type = g, tq_code = c, tq_redirect_uri = r, tq_refresh_token = t, tq_client_secret = s,
                     tq_client_id = i, tq_code_verifier = v\<rparr>
      | _ \<Rightarrow> None)"

text \<open>The struct has no names for JSON, so there its fields go by their own.\<close>

definition bind_token_request :: "golib \<Rightarrow> http_request \<Rightarrow> token_request option" where
  "bind_token_request lib rq =
     (if rq_content_type rq = ''application/json'' then
        Option.bind (bind_json lib [''GrantType'', ''Code'', ''RedirectURI'', ''RefreshToken'', ''ClientSecret'', ''ClientID'',
          ''CodeVerifier''] (rq_json rq)) token_request_of
      else token_request_of (map (first_value (form_values rq))
             [''grant_type'', ''code'', ''redirect_uri'', ''refresh_token'', ''client_secret'', ''client_id'', ''code_verifier'']))"

definition error_json :: "int \<Rightarrow> string \<Rightarrow> response \<Rightarrow> response" where
  "error_json status err rs = reply_json status (JObject [(''error'', JString err)]) rs"

definition token_error :: "string \<Rightarrow> response" where
  "token_error err = error_json 400 err empty_response"

text \<open>The credentials of the form, or else those of the request, \<open>None\<close> when there are none.\<close>

definition client_credentials :: "token_request \<Rightarrow> http_request \<Rightarrow> (string \<times> string) option" where
  "client_credentials req rq =
     (if tq_client_id req = [] \<or> tq_client_secret req = [] then rq_basic_auth rq
      else Some (tq_client_id req, tq_client_secret req))"

definition token_success :: "token_response \<Rightarrow> response" where
  "token_success t =
     reply_json 200 (token_response_json t)
       (with_header ''pragma'' ''no-cache'' (with_header ''cache-control'' ''no-store'' empty_response))"

definition code_grant ::
  "'s oidc_env \<Rightarrow> string visit_order \<Rightarrow> int \<Rightarrow> string \<times> string \<Rightarrow> token_request \<Rightarrow> string \<Rightarrow> 's oidc_state \<Rightarrow>
     response \<times> 's oidc_state"
where
  "code_grant env ord now random req client_id st =
     (let h = oidc_hash (oe_lib env) (tq_code req)
      in case get_code_entry now h client_id st of
           (None, st1) \<Rightarrow>
             (case is_code_used now h st1 of
                None \<Rightarrow> (token_error ''invalid_grant'', st1)
              | Some sub \<Rightarrow> (token_error ''invalid_grant'', snd (delete_session_by_sub env sub st1)))
         | (Some entry, st1) \<Rightarrow>
             let st2 = mark_code_as_used ord now h (uf_sub (co_userinfo entry)) st1
             in if co_redirect_uri entry \<noteq> tq_redirect_uri req then (token_error ''invalid_grant'', st2)
                else if \<not> validate_pkce (oe_lib env) (co_code_challenge entry) (tq_code_verifier req)
                then (token_error ''invalid_grant'', st2)
                else (case generate_access_token env now random client_id entry st2 of
                        (Inl _, st3) \<Rightarrow> (token_error ''server_error'', st3)
                      | (Inr t, st3) \<Rightarrow> (token_success t, st3)))"

definition refresh_grant ::
  "'s oidc_env \<Rightarrow> int \<Rightarrow> string \<times> string \<Rightarrow> token_request \<Rightarrow> string \<Rightarrow> 's oidc_state \<Rightarrow> response \<times> 's oidc_state"
where
  "refresh_grant env now random req client_id st =
     (case refresh_access_token env now random (tq_refresh_token req) client_id st of
        (Inl e, st1) \<Rightarrow>
          (token_error (if e = ErrTokenExpired \<or> e = ErrInvalidClient then ''invalid_grant'' else ''server_error''), st1)
      | (Inr t, st1) \<Rightarrow> (token_success t, st1))"

definition token_handler ::
  "'s oidc_env option \<Rightarrow> string visit_order \<Rightarrow> int \<Rightarrow> string \<times> string \<Rightarrow> http_request \<Rightarrow> 's oidc_state \<Rightarrow>
     response \<times> 's oidc_state"
where
  "token_handler oidc ord now random rq st =
     (case oidc of
        None \<Rightarrow> (error_json 500 ''server_error'' empty_response, st)
      | Some env \<Rightarrow>
          (case bind_token_request (oe_lib env) rq of
             None \<Rightarrow> (token_error ''invalid_request'', st)
           | Some req \<Rightarrow>
               (case validate_grant_type (tq_grant_type req) of
                  Some e \<Rightarrow> (token_error e, st)
                | None \<Rightarrow>
                    (case client_credentials req rq of
                       None \<Rightarrow>
                         (error_json 400 ''invalid_client''
                            (with_header ''www-authenticate'' ''Basic realm=\"Tinyauth OIDC Token Endpoint\"'' empty_response), st)
                     | Some (cid, secret) \<Rightarrow>
                         (case get_client env cid of
                            None \<Rightarrow> (token_error ''invalid_client'', st)
                          | Some client \<Rightarrow>
                              if occ_client_secret client \<noteq> secret then (token_error ''invalid_client'', st)
                              else if tq_grant_type req = ''authorization_code''
                              then code_grant env ord now random req (occ_client_id client) st
                              else refresh_grant env now random req cid st)))))"

section \<open>The userinfo endpoint\<close>

text \<open>The token of a request, or the status and the error it is answered with.\<close>

definition bearer_token :: "golib \<Rightarrow> http_request \<Rightarrow> (int \<times> string) + string" where
  "bearer_token lib rq =
     (let authorization = get_header ''Authorization'' (rq_headers rq)
      in if authorization \<noteq> [] then
           (case cut_at (CHR '' '') authorization of
              None \<Rightarrow> Inl (401, ''invalid_request'')
            | Some (kind, token) \<Rightarrow>
                if lib_to_lower lib kind \<noteq> ''bearer'' then Inl (401, ''invalid_request'') else Inr token)
         else if rq_method rq = ''POST'' then
           (if rq_content_type rq \<noteq> ''application/x-www-form-urlencoded'' then Inl (400, ''invalid_request'')
            else if first_value (rq_form rq) ''access_token'' = [] then Inl (401, ''invalid_request'')
            else Inr (first_value (rq_form rq) ''access_token''))
         else Inl (401, ''invalid_request''))"

definition userinfo_handler ::
  "'s oidc_env option \<Rightarrow> int \<Rightarrow> http_request \<Rightarrow> 's oidc_state \<Rightarrow> response \<times> 's oidc_state"
where
  "userinfo_handler oidc now rq st =
     (case oidc of
        None \<Rightarrow> (error_json 500 ''server_error'' empty_response, st)
      | Some env \<Rightarrow>
          (case bearer_token (oe_lib env) rq of
             Inl (status, e) \<Rightarrow> (error_json status e empty_response, st)
           | Inr token \<Rightarrow>
               (case get_session_by_token env now (oidc_hash (oe_lib env) token) st of
                  (Inl e, st1) \<Rightarrow>
                    (error_json 401 (if e = ErrTokenNotFound then ''invalid_grant'' else ''server_error'') empty_response, st1)
                | (Inr entry, st1) \<Rightarrow>
                    if ''openid'' \<notin> set (split_on (CHR '' '') (os_scope entry))
                    then (error_json 401 ''invalid_scope'' empty_response, st1)
                    else (case unmarshal_userinfo (oe_lib env) (os_userinfo_json entry) of
                            None \<Rightarrow> (error_json 401 ''server_error'' empty_response, st1)
                          | Some user \<Rightarrow>
                              (reply_json 200 (userinfo_json (compile_userinfo user (os_scope entry))) empty_response, st1)))))"

end
