(* ===== verification/OidcTokens.thy ===== *)
theory OidcTokens
  imports OidcController
begin

text \<open>
  The token and userinfo endpoints of the provider over every store that keeps the contract
  \<open>oidc_repo\<close>: which rows of tokens each call reads, writes and removes. What follows for clients and
  users is in \<open>OidcGrants\<close>, the life of codes and tickets in \<open>OidcHistory\<close> and \<open>OidcCodes\<close>.
\<close>

section \<open>The endpoints\<close>

lemma error_status [simp]:
  "rs_status (token_error e) = 400" "rs_status (error_json s e rs) = s" "rs_status (token_success t) = 200"
  by (simp_all add: token_error_def error_json_def token_success_def reply_defs)

lemma error_no_token [simp]: "rs_body (error_json s e rs) = JsonBody (JObject [(''error'', JString e)])"
  by (simp add: error_json_def reply_defs)

lemma get_code_entry_effect:
  assumes "get_code_entry now h cid st = (r, st')"
  shows "od_store st' = od_store st \<and> od_used_code st' = od_used_code st \<and> od_authorize st' = od_authorize st \<and>
     (case r of
        None \<Rightarrow> st' = st
      | Some e \<Rightarrow> cache_get now (od_code st) h = Some e \<and> co_client_id e = cid \<and>
          od_code st' = cache_delete h (od_code st))"
  using assms by (auto simp: get_code_entry_def split: option.splits if_splits)

lemma client_credentials_ok:
  "token_handler (Some env) ord now random rq st = (rs, st') \<Longrightarrow> rs_status rs = 200 \<Longrightarrow>
   \<exists>req cid client. bind_token_request (oe_lib env) rq = Some req \<and>
     client_credentials req rq = Some (cid, occ_client_secret client) \<and> get_client env cid = Some client \<and>
     (tq_grant_type req = ''authorization_code'' \<and>
        code_grant env ord now random req (occ_client_id client) st = (rs, st') \<or>
      tq_grant_type req = ''refresh_token'' \<and> refresh_grant env now random req cid st = (rs, st'))"
  by (auto simp: token_handler_def validate_grant_type_def supported_grant_types_def
      split: option.splits prod.splits if_splits)

lemma code_grant_ok:
  assumes "code_grant env ord now random req cid st = (rs, st')" "rs_status rs = 200"
  obtains e st2 t where "cache_get now (od_code st) (oidc_hash (oe_lib env) (tq_code req)) = Some e"
    "co_client_id e = cid" "co_redirect_uri e = tq_redirect_uri req"
    "validate_pkce (oe_lib env) (co_code_challenge e) (tq_code_verifier req)" "od_store st2 = od_store st"
    "od_code st2 = cache_delete (oidc_hash (oe_lib env) (tq_code req)) (od_code st)"
    "od_used_code st2 = cache_set ord now (oidc_hash (oe_lib env) (tq_code req)) \<lparr>ud_sub = uf_sub (co_userinfo e)\<rparr>
       (seconds 120) (od_used_code st)"
    "generate_access_token env now random cid e st2 = (Inr t, st')" "rs = token_success t"
proof -
  let ?h = "oidc_hash (oe_lib env) (tq_code req)"
  obtain x st1 where g: "get_code_entry now ?h cid st = (x, st1)" by fastforce
  note eff = get_code_entry_effect [OF g]
  from assms g obtain e where x: "x = Some e"
    by (cases x) (auto simp: code_grant_def Let_def split: option.splits)
  let ?st2 = "mark_code_as_used ord now ?h (uf_sub (co_userinfo e)) st1"
  have s2: "od_store ?st2 = od_store st" "od_code ?st2 = cache_delete ?h (od_code st)"
    "od_used_code ?st2 = cache_set ord now ?h \<lparr>ud_sub = uf_sub (co_userinfo e)\<rparr> (seconds 120) (od_used_code st)"
    using eff x by (simp_all add: mark_code_as_used_def)
  have uri: "co_redirect_uri e = tq_redirect_uri req"
    using assms g x by (rule_tac ccontr) (auto simp: code_grant_def Let_def)
  have pkce: "validate_pkce (oe_lib env) (co_code_challenge e) (tq_code_verifier req)"
    using assms g x uri by (rule_tac ccontr) (auto simp: code_grant_def Let_def)
  obtain r st3 where t: "generate_access_token env now random cid e ?st2 = (r, st3)" by fastforce
  have "st3 = st' \<and> (\<exists>t. r = Inr t \<and> rs = token_success t)"
    using assms g x uri pkce t by (cases r) (auto simp: code_grant_def Let_def)
  with that eff x s2 uri pkce t show thesis by auto
qed

lemma generate_access_token_caches:
  assumes "generate_access_token env now random cid e st = (r, st')"
  shows "od_code st' = od_code st \<and> od_used_code st' = od_used_code st \<and> od_authorize st' = od_authorize st"
  using assms by (auto simp: generate_access_token_def Let_def split: option.splits prod.splits sum.splits)

lemma refresh_access_token_caches:
  assumes "refresh_access_token env now random tok cid st = (r, st')"
  shows "od_code st' = od_code st \<and> od_used_code st' = od_used_code st \<and> od_authorize st' = od_authorize st"
  using assms by (auto simp: refresh_access_token_def Let_def split: option.splits prod.splits sum.splits if_splits)

text \<open>The row a redeemed code leaves behind.\<close>

definition issued_session ::
  "'s oidc_env \<Rightarrow> int \<Rightarrow> string \<times> string \<Rightarrow> string \<Rightarrow> code_entry \<Rightarrow> oidc_session"
where
  "issued_session env now random cid e =
     \<lparr>os_sub = uf_sub (co_userinfo e),
      os_access_token_hash = oidc_hash (oe_lib env) (generate_string (fst random)),
      os_refresh_token_hash = oidc_hash (oe_lib env) (generate_string (snd random)), os_scope = co_scope e,
      os_client_id = cid, os_token_expires_at = fst (token_lifetimes env now),
      os_refresh_token_expires_at = snd (token_lifetimes env now), os_nonce = co_nonce e,
      os_userinfo_json = marshal_userinfo (co_userinfo e)\<rparr>"

definition refreshed_session ::
  "'s oidc_env \<Rightarrow> int \<Rightarrow> string \<times> string \<Rightarrow> oidc_session \<Rightarrow> oidc_session"
where
  "refreshed_session env now random old =
     old\<lparr>os_access_token_hash := oidc_hash (oe_lib env) (generate_string (fst random)),
         os_refresh_token_hash := oidc_hash (oe_lib env) (generate_string (snd random)),
         os_token_expires_at := fst (token_lifetimes env now),
         os_refresh_token_expires_at := snd (token_lifetimes env now)\<rparr>"

context oidc_repo
begin

lemma generate_access_token_ok:
  assumes "oe_ops env = ops" "inv (od_store st)" "generate_access_token env now random cid e st = (Inr t, st')"
  shows "osess (od_store st) (uf_sub (co_userinfo e)) = None \<and>
     osess (od_store st') = (osess (od_store st))(uf_sub (co_userinfo e) \<mapsto> issued_session env now random cid e)"
proof -
  let ?row = "issued_session env now random cid e"
  obtain idt where "generate_id_token env now cid (co_userinfo e) (co_scope e) (co_nonce e) (Some (co_auth_time e)) = Some idt"
    using assms(3) by (auto simp: generate_access_token_def split: option.splits)
  moreover obtain x s' where c: "create_oidc_session_op ops ?row (od_store st) = (x, s')" by fastforce
  ultimately obtain y where "x = Inr y" "od_store st' = s'"
    using assms(1,3) by (auto simp: generate_access_token_def issued_session_def Let_def split: prod.splits sum.splits)
  with ocreate_ok [OF assms(2), of ?row] c show ?thesis by (auto simp: issued_session_def)
qed

lemma generate_access_token_good:
  assumes "oe_ops env = ops" "inv (od_store st)" "generate_access_token env now random cid e st = (r, st')"
  shows "inv (od_store st')"
  using assms ocreate_inv [OF assms(2)]
  by (auto simp: generate_access_token_def Let_def split: option.splits prod.splits sum.splits) (metis snd_conv)+

lemma generate_access_token_err:
  assumes "oe_ops env = ops" "inv (od_store st)" "generate_access_token env now random cid e st = (Inl x, st')"
  shows "osess (od_store st') = osess (od_store st)"
  using assms ocreate_err [OF assms(2)]
  by (auto simp: generate_access_token_def Let_def split: option.splits prod.splits sum.splits)

text \<open>The row a refresh leaves in place of the old one.\<close>

lemma refresh_access_token_ok:
  assumes "oe_ops env = ops" "inv (od_store st)" "refresh_access_token env now random tok cid st = (Inr t, st')"
  obtains old where "osess (od_store st) (os_sub old) = Some old"
    "os_refresh_token_hash old = oidc_hash (oe_lib env) tok" "unix now \<le> os_refresh_token_expires_at old"
    "os_client_id old = cid"
    "osess (od_store st') = (osess (od_store st))(os_sub old \<mapsto> refreshed_session env now random old)"
proof -
  obtain old where g: "get_oidc_session_by_refresh_token_hash_op ops (oidc_hash (oe_lib env) tok) (od_store st) = Inr old"
    using assms(1,3) by (auto simp: refresh_access_token_def split: sum.splits)
  have live: "unix now \<le> os_refresh_token_expires_at old" "os_client_id old = cid"
    using assms(1,3) g by (auto simp: refresh_access_token_def split: if_splits)
  obtain x s' where u: "update_oidc_session_op ops (refreshed_session env now random old) (od_store st) = (x, s')" by fastforce
  with assms(1,3) g live obtain y where "x = Inr y" "od_store st' = s'"
    by (auto simp: refresh_access_token_def refreshed_session_def Let_def
        split: option.splits prod.splits sum.splits)
  with oupdate_ok [OF assms(2), of "refreshed_session env now random old"] u
  have "osess (od_store st') = (osess (od_store st))(os_sub old \<mapsto> refreshed_session env now random old)"
    by (simp add: refreshed_session_def)
  with that oget_refresh [OF assms(2) g] live show thesis by blast
qed

lemma refresh_access_token_err:
  assumes "oe_ops env = ops" "inv (od_store st)" "refresh_access_token env now random tok cid st = (Inl x, st')"
  shows "osess (od_store st') = osess (od_store st)"
  using assms oupdate_err [OF assms(2)]
  by (auto simp: refresh_access_token_def Let_def split: option.splits prod.splits sum.splits if_splits)

lemma code_grant_rows:
  assumes ops: "oe_ops env = ops" and inv: "inv (od_store st)"
    and g: "code_grant env ord now random req cid st = (rs, st')"
    and new: "osess (od_store st') k = Some row" "osess (od_store st) k \<noteq> Some row"
  shows "\<exists>e. cache_get now (od_code st) (oidc_hash (oe_lib env) (tq_code req)) = Some e \<and> co_client_id e = cid \<and>
     co_redirect_uri e = tq_redirect_uri req \<and> validate_pkce (oe_lib env) (co_code_challenge e) (tq_code_verifier req) \<and>
     row = issued_session env now random cid e"
proof -
  let ?h = "oidc_hash (oe_lib env) (tq_code req)"
  obtain x st1 where c: "get_code_entry now ?h cid st = (x, st1)" by fastforce
  note eff = get_code_entry_effect [OF c]
  have gone: "osess (od_store (snd (delete_session_by_sub env s st1))) k \<noteq> Some row" for s
    using odelete_only [OF inv, of s k row] new(2) eff ops by (auto simp: delete_session_by_sub_def split: prod.splits)
  from g c new eff gone obtain e where x: "x = Some e"
    by (cases x) (auto simp: code_grant_def Let_def split: option.splits)
  let ?st2 = "mark_code_as_used ord now ?h (uf_sub (co_userinfo e)) st1"
  have s2: "od_store ?st2 = od_store st" using eff by (simp add: mark_code_as_used_def)
  have uri: "co_redirect_uri e = tq_redirect_uri req" and
    pkce: "validate_pkce (oe_lib env) (co_code_challenge e) (tq_code_verifier req)"
    using g c x new s2 by (auto simp: code_grant_def Let_def split: if_splits)
  obtain r st3 where t: "generate_access_token env now random cid e ?st2 = (r, st3)" by fastforce
  then have st': "st' = st3" using g c x uri pkce by (cases r) (auto simp: code_grant_def Let_def)
  show ?thesis
  proof (cases r)
    case (Inl y)
    with t st' generate_access_token_err [OF ops, of ?st2] inv s2 new show ?thesis by auto
  next
    case (Inr y)
    with t st' generate_access_token_ok [OF ops, of ?st2] inv s2
    have "osess (od_store st') = (osess (od_store st))(uf_sub (co_userinfo e) \<mapsto> issued_session env now random cid e)" by simp
    with new have "row = issued_session env now random cid e" by (auto split: if_splits)
    with eff x uri pkce show ?thesis by auto
  qed
qed

lemma refresh_grant_rows:
  assumes ops: "oe_ops env = ops" and inv: "inv (od_store st)"
    and g: "refresh_grant env now random req cid st = (rs, st')"
    and new: "osess (od_store st') k = Some row" "osess (od_store st) k \<noteq> Some row"
  shows "\<exists>old. osess (od_store st) k = Some old \<and> os_refresh_token_hash old = oidc_hash (oe_lib env) (tq_refresh_token req) \<and>
     unix now \<le> os_refresh_token_expires_at old \<and> os_client_id old = cid \<and> row = refreshed_session env now random old"
proof -
  obtain r st1 where t: "refresh_access_token env now random (tq_refresh_token req) cid st = (r, st1)" by fastforce
  with g have st': "st' = st1" by (auto simp: refresh_grant_def split: sum.splits)
  show ?thesis
  proof (cases r)
    case (Inl y)
    with t st' refresh_access_token_err [OF ops inv] new show ?thesis by auto
  next
    case (Inr y)
    with t have "refresh_access_token env now random (tq_refresh_token req) cid st = (Inr y, st1)" by simp
    then obtain old where old: "osess (od_store st) (os_sub old) = Some old" "os_client_id old = cid"
      "os_refresh_token_hash old = oidc_hash (oe_lib env) (tq_refresh_token req)" "unix now \<le> os_refresh_token_expires_at old"
      and st1: "osess (od_store st1) = (osess (od_store st))(os_sub old \<mapsto> refreshed_session env now random old)"
      by (rule refresh_access_token_ok [OF ops inv])
    from st1 st' new have "k = os_sub old \<and> row = refreshed_session env now random old" by (auto split: if_splits)
    with old show ?thesis by blast
  qed
qed

lemma token_rows:
  assumes ops: "oe_ops env = ops" and inv: "inv (od_store st)"
    and g: "token_handler (Some env) ord now random rq st = (rs, st')"
    and new: "osess (od_store st') k = Some row" "osess (od_store st) k \<noteq> Some row"
  obtains req cid client where "bind_token_request (oe_lib env) rq = Some req"
    "client_credentials req rq = Some (cid, occ_client_secret client)" "get_client env cid = Some client"
    "tq_grant_type req = ''authorization_code'' \<and> code_grant env ord now random req (occ_client_id client) st = (rs, st') \<or>
     tq_grant_type req = ''refresh_token'' \<and> refresh_grant env now random req cid st = (rs, st')"
proof -
  from new have "st' \<noteq> st" by auto
  with g have "\<exists>req cid client. bind_token_request (oe_lib env) rq = Some req \<and>
    client_credentials req rq = Some (cid, occ_client_secret client) \<and> get_client env cid = Some client \<and>
    (tq_grant_type req = ''authorization_code'' \<and> code_grant env ord now random req (occ_client_id client) st = (rs, st') \<or>
     tq_grant_type req = ''refresh_token'' \<and> refresh_grant env now random req cid st = (rs, st'))"
    by (auto simp: token_handler_def validate_grant_type_def supported_grant_types_def
        split: option.splits prod.splits if_splits)
  with that show thesis by blast
qed

end

section \<open>A provider with one client\<close>

definition demo_key :: rsa_private where
  "demo_key = \<lparr>rk_public = \<lparr>rp_modulus = 3233, rp_exponent = 17\<rparr>, rk_secret = 413\<rparr>"

definition demo_crypto :: crypto where
  "demo_crypto = \<lparr>cr_generate = Some demo_key, cr_marshal_private = (\<lambda>k. Some ''priv''), cr_marshal_public = (\<lambda>k. Some ''pub''),
     cr_make_dir = (\<lambda>p. True), cr_can_write = (\<lambda>p. True), cr_pem_encode = (\<lambda>kind der. kind @ '':'' @ der),
     cr_pem_decode = cut_at (CHR '':''), cr_parse_private = (\<lambda>b. if b = ''priv'' then Some demo_key else None),
     cr_parse_pkcs1_public = (\<lambda>b. if b = ''pub'' then Some (rk_public demo_key) else None),
     cr_parse_pkix_public = (\<lambda>b. None), cr_sign = (\<lambda>k hs payload. Some payload),
     cr_marshal_jwk = (\<lambda>k kid. Some kid), cr_parse_jwt = (\<lambda>t. None)\<rparr>"

definition demo_client :: oidc_client_config where
  "demo_client = \<lparr>occ_id = ''wiki'', occ_client_id = ''cid'', occ_client_secret = ''sec'', occ_client_secret_file = [],
     occ_trusted_redirect_uris = [''https://w.io/cb''], occ_name = ''Wiki''\<rparr>"

definition demo_provider :: "memory_store oidc_env" where
  "demo_provider = \<lparr>oe_lib = ascii_lib, oe_crypto = demo_crypto, oe_config = default_configuration, oe_runtime = demo_runtime,
     oe_ops = memory_ops id, oe_clients = [(''cid'', demo_client)], oe_private_key = demo_key,
     oe_public_key = rk_public demo_key, oe_issuer = ''https://auth.x.io''\<rparr>"

definition demo_authorize :: authorize_request where
  "demo_authorize = \<lparr>ar_scope = ''openid email'', ar_response_type = ''code'', ar_client_id = ''cid'',
     ar_redirect_uri = ''https://w.io/cb'', ar_state = ''st'', ar_nonce = ''n'', ar_code_challenge = ''v'',
     ar_code_challenge_method = ''plain'', ar_prompt = [], ar_max_age = []\<rparr>"

definition code_issued :: "memory_store oidc_state" where
  "code_issued = snd (create_code demo_provider id 0 ''rnd'' demo_authorize demo_oauth_user (new_oidc_state new_memory_store))"

definition redeem_request :: "string \<Rightarrow> http_request" where
  "redeem_request verifier = empty_request\<lparr>rq_method := ''POST'',
     rq_form := [(''grant_type'', ''authorization_code''), (''code'', generate_string ''rnd''),
       (''redirect_uri'', ''https://w.io/cb''), (''client_id'', ''cid''), (''client_secret'', ''sec''),
       (''code_verifier'', verifier)]\<rparr>"

definition code_redeemed :: "response \<times> memory_store oidc_state" where
  "code_redeemed = token_handler (Some demo_provider) id 1 (''a1'', ''r1'') (redeem_request ''v'') code_issued"

definition bearer_request :: "string \<Rightarrow> http_request" where
  "bearer_request token = empty_request\<lparr>rq_headers := [(''Authorization'', ''Bearer '' @ token)]\<rparr>"

end
