(* ===== verification/OidcGrants.thy ===== *)
theory OidcGrants
  imports OidcTokens
begin

text \<open>
  What the tokens of the provider guarantee: they are only for a client that proved its secret and
  showed a live grant, a replayed code costs its session, and the userinfo endpoint answers within
  the scope of a live token.
\<close>

section \<open>Grants\<close>

text \<open>
  C6: A row of tokens appears, or changes, at the token endpoint only for a client that proved its
  secret, and only in two ways: for a live code issued to that client, sent with the redirect URI
  it was issued for and with the verifier of its challenge, and then it holds the claims and the
  scope of the code; or for a refresh token of that client that has not expired, and then the
  hashes and the expiries of its row are replaced, so that the old tokens find it no more.
\<close>

theorem tokens_only_for_grants:
  assumes "oidc_repo (oe_ops env) good sess osess" "good (od_store st)"
    "token_handler (Some env) ord now random rq st = (rs, st')"
    "osess (od_store st') k = Some row" "osess (od_store st) k \<noteq> Some row"
  shows "\<exists>req cid client. bind_token_request (oe_lib env) rq = Some req \<and> get_client env cid = Some client \<and>
     client_credentials req rq = Some (cid, occ_client_secret client) \<and>
     (tq_grant_type req = ''authorization_code'' \<and>
      (\<exists>e. cache_get now (od_code st) (oidc_hash (oe_lib env) (tq_code req)) = Some e \<and>
           co_client_id e = occ_client_id client \<and> co_redirect_uri e = tq_redirect_uri req \<and>
           validate_pkce (oe_lib env) (co_code_challenge e) (tq_code_verifier req) \<and>
           row = issued_session env now random (occ_client_id client) e) \<or>
      tq_grant_type req = ''refresh_token'' \<and>
      (\<exists>old. osess (od_store st) k = Some old \<and> os_client_id old = cid \<and>
           os_refresh_token_hash old = oidc_hash (oe_lib env) (tq_refresh_token req) \<and>
           unix now \<le> os_refresh_token_expires_at old \<and> row = refreshed_session env now random old))"
proof -
  obtain req cid client where r: "bind_token_request (oe_lib env) rq = Some req"
    "client_credentials req rq = Some (cid, occ_client_secret client)" "get_client env cid = Some client"
    and g: "tq_grant_type req = ''authorization_code'' \<and> code_grant env ord now random req (occ_client_id client) st = (rs, st') \<or>
     tq_grant_type req = ''refresh_token'' \<and> refresh_grant env now random req cid st = (rs, st')"
    by (rule oidc_repo.token_rows [OF assms(1) refl assms(2-5)])
  from g show ?thesis
  proof (elim disjE conjE)
    assume "tq_grant_type req = ''authorization_code''"
      "code_grant env ord now random req (occ_client_id client) st = (rs, st')"
    with oidc_repo.code_grant_rows [OF assms(1) refl assms(2) _ assms(4,5)] r show ?thesis by metis
  next
    assume "tq_grant_type req = ''refresh_token''" "refresh_grant env now random req cid st = (rs, st')"
    with oidc_repo.refresh_grant_rows [OF assms(1) refl assms(2) _ assms(4,5)] r show ?thesis by metis
  qed
qed


lemma bearer_token_status: "bearer_token lib rq = Inl (s, e) \<Longrightarrow> s \<noteq> 200"
  by (auto simp: bearer_token_def Let_def split: option.splits if_splits)

text \<open>
  C8: The userinfo endpoint answers a request only for an access token that is in the store and has
  not expired, whose scope has openid; it changes nothing then, and what it tells is limited by the
  scope: the profile, the email, the groups, the phone number and the address only when the scope
  names them.
\<close>

theorem userinfo_within_scope:
  assumes "oidc_repo (oe_ops env) good sess osess" "good (od_store st)"
    "userinfo_handler (Some env) now rq st = (rs, st')" "rs_status rs = 200"
  shows "st' = st \<and> (\<exists>token row user u. bearer_token (oe_lib env) rq = Inr token \<and>
     osess (od_store st) (os_sub row) = Some row \<and> os_access_token_hash row = oidc_hash (oe_lib env) token \<and>
     unix now \<le> os_token_expires_at row \<and> has_scope (os_scope row) ''openid'' \<and>
     unmarshal_userinfo (oe_lib env) (os_userinfo_json row) = Some user \<and> rs_body rs = JsonBody (userinfo_json u) \<and>
     uf_sub u = uf_sub user \<and>
     (uf_email u, uf_groups u, uf_phone_number u) =
       (if has_scope (os_scope row) ''email'' then uf_email user else [],
        if has_scope (os_scope row) ''groups'' then uf_groups user else [],
        if has_scope (os_scope row) ''phone'' then uf_phone_number user else []) \<and>
     uf_address u = (if has_scope (os_scope row) ''address'' then uf_address user else None) \<and>
     [uf_name u, uf_given_name u, uf_family_name u, uf_middle_name u, uf_nickname u, uf_profile u, uf_picture u,
      uf_website u, uf_gender u, uf_birthdate u, uf_zoneinfo u, uf_locale u, uf_preferred_username u] =
       (if has_scope (os_scope row) ''profile''
        then [uf_name user, uf_given_name user, uf_family_name user, uf_middle_name user, uf_nickname user,
              uf_profile user, uf_picture user, uf_website user, uf_gender user, uf_birthdate user,
              uf_zoneinfo user, uf_locale user, uf_preferred_username user]
        else replicate 13 []))"
proof -
  from assms(3,4) obtain token row user where b: "bearer_token (oe_lib env) rq = Inr token"
    "get_session_by_token env now (oidc_hash (oe_lib env) token) st = (Inr row, st')"
    "has_scope (os_scope row) ''openid''" "unmarshal_userinfo (oe_lib env) (os_userinfo_json row) = Some user"
    "rs = reply_json 200 (userinfo_json (compile_userinfo user (os_scope row))) empty_response"
    by (auto simp: userinfo_handler_def reply_defs split: sum.splits prod.splits option.splits if_splits dest: bearer_token_status)
  from b(2) have s: "get_oidc_session_by_access_token_hash_op (oe_ops env) (oidc_hash (oe_lib env) token) (od_store st) = Inr row"
    "unix now \<le> os_token_expires_at row" "st' = st"
    by (auto simp: get_session_by_token_def split: sum.splits prod.splits option.splits if_splits)
  note row = oidc_repo.oget_access [OF assms(1,2) s(1)]
  have body: "rs_body rs = JsonBody (userinfo_json (compile_userinfo user (os_scope row)))"
    using b(5) by (simp add: reply_defs)
  let ?u = "compile_userinfo user (os_scope row)"
  have u: "uf_sub ?u = uf_sub user"
    "(uf_email ?u, uf_groups ?u, uf_phone_number ?u) =
       (if has_scope (os_scope row) ''email'' then uf_email user else [],
        if has_scope (os_scope row) ''groups'' then uf_groups user else [],
        if has_scope (os_scope row) ''phone'' then uf_phone_number user else [])"
    "uf_address ?u = (if has_scope (os_scope row) ''address'' then uf_address user else None)"
    unfolding compile_userinfo_eq by simp_all
  have p: "[uf_name ?u, uf_given_name ?u, uf_family_name ?u, uf_middle_name ?u, uf_nickname ?u, uf_profile ?u, uf_picture ?u,
      uf_website ?u, uf_gender ?u, uf_birthdate ?u, uf_zoneinfo ?u, uf_locale ?u, uf_preferred_username ?u] =
       (if has_scope (os_scope row) ''profile''
        then [uf_name user, uf_given_name user, uf_family_name user, uf_middle_name user, uf_nickname user,
              uf_profile user, uf_picture user, uf_website user, uf_gender user, uf_birthdate user,
              uf_zoneinfo user, uf_locale user, uf_preferred_username user]
        else replicate 13 [])"
    unfolding compile_userinfo_eq by (cases "has_scope (os_scope row) ''profile''") (simp_all add: numeral_eq_Suc)
  from b(1,3,4) row s body u p show ?thesis by blast
qed

text \<open>
  A user has at most one row of tokens with a client: while it stands, another code of the same
  user and client is consumed without giving tokens, whatever else is right about the request.
\<close>

theorem second_code_refused:
  assumes "oidc_repo (oe_ops env) good sess osess" "good (od_store st)"
    "cache_get now (od_code st) (oidc_hash (oe_lib env) (tq_code req)) = Some e"
    "osess (od_store st) (uf_sub (co_userinfo e)) \<noteq> None"
  shows "rs_status (fst (code_grant env ord now random req cid st)) = 400"
proof (rule ccontr)
  assume "rs_status (fst (code_grant env ord now random req cid st)) \<noteq> 400"
  then have "rs_status (fst (code_grant env ord now random req cid st)) = 200"
    by (auto simp: code_grant_def Let_def split: prod.splits option.splits sum.splits)
  from code_grant_ok [OF surjective_pairing this] obtain st2 t where
    "od_store st2 = od_store st" "generate_access_token env now random cid e st2 = (Inr t, snd (code_grant env ord now random req cid st))"
    using assms(3) by (metis option.inject)
  with oidc_repo.generate_access_token_ok [OF assms(1) refl, of st2] assms(2,4) show False by simp
qed

section \<open>A run of the provider\<close>

lemma redeemed_run:
  "case code_redeemed of (r, st) \<Rightarrow> rs_status r = 200 \<and> ms_oidc_sessions (od_store st) \<noteq> [] \<and> mem_inv (od_store st) \<and>
     rs_status (fst (userinfo_handler (Some demo_provider) 2 (bearer_request (generate_string ''a1'')) st)) = 200"
  by code_simp

lemma redeemed: "rs_status (fst code_redeemed) = 200" "ms_oidc_sessions (od_store (snd code_redeemed)) \<noteq> []"
  "mem_inv (od_store (snd code_redeemed))"
  using redeemed_run by (simp_all add: case_prod_unfold)

lemma redeemed_view:
  "rs_status (fst (userinfo_handler (Some demo_provider) 2 (bearer_request (generate_string ''a1'')) (snd code_redeemed))) = 200"
  using redeemed_run by (simp add: case_prod_unfold)

lemma provider_repo: "oidc_repo (oe_ops demo_provider) mem_inv mem_sess mem_osess"
  by (simp add: demo_provider_def memory_oidc_repo)

lemma issued_store: "od_store code_issued = new_memory_store" "mem_inv (od_store code_issued)"
  by (simp_all add: code_issued_def create_code_def Let_def new_oidc_state_def)

definition redeem_params :: token_request where
  "redeem_params = \<lparr>tq_grant_type = ''authorization_code'', tq_code = generate_string ''rnd'',
     tq_redirect_uri = ''https://w.io/cb'', tq_refresh_token = [], tq_client_secret = ''sec'',
     tq_client_id = ''cid'', tq_code_verifier = ''v''\<rparr>"

lemma redeem_bound: "bind_token_request ascii_lib (redeem_request ''v'') = Some redeem_params"
  by code_simp

theorem tokens_only_for_grants_witness:
  "\<exists>e k. cache_get 1 (od_code code_issued) (oidc_hash ascii_lib (generate_string ''rnd'')) = Some e \<and>
     mem_osess (od_store (snd code_redeemed)) k = Some (issued_session demo_provider 1 (''a1'', ''r1'') ''cid'' e)"
proof -
  have "mem_osess (od_store (snd code_redeemed)) \<noteq> Map.empty"
    using redeemed(2) by (simp add: mem_osess_def)
  then obtain k row where row: "mem_osess (od_store (snd code_redeemed)) k = Some row" by (auto simp: fun_eq_iff)
  have none: "mem_osess (od_store code_issued) k = None" by (simp add: issued_store mem_osess_def new_memory_store_def)
  have handled: "token_handler (Some demo_provider) id 1 (''a1'', ''r1'') (redeem_request ''v'') code_issued = (fst code_redeemed, snd code_redeemed)"
    by (simp add: code_redeemed_def)
  from tokens_only_for_grants [OF provider_repo issued_store(2) handled row] none redeem_bound
  show ?thesis using row
    by (auto simp: demo_provider_def get_client_def demo_client_def redeem_params_def split: if_splits)
qed


theorem userinfo_within_scope_witness:
  "\<exists>row. mem_osess (od_store (snd code_redeemed)) (os_sub row) = Some row \<and> has_scope (os_scope row) ''openid'' \<and>
     os_access_token_hash row = oidc_hash ascii_lib (generate_string ''a1'')"
proof -
  let ?r = "userinfo_handler (Some demo_provider) 2 (bearer_request (generate_string ''a1'')) (snd code_redeemed)"
  note good = redeemed(3)
  have "bearer_token ascii_lib (bearer_request (generate_string ''a1'')) = Inr (generate_string ''a1'')" by code_simp
  then show ?thesis
    using userinfo_within_scope [OF provider_repo good surjective_pairing [of ?r] redeemed_view]
    by (auto simp: demo_provider_def)
qed

end
