(* ===== verification/OidcHistory.thy ===== *)
theory OidcHistory
  imports OidcTokens
begin

text \<open>
  The life of tickets and codes over whole histories. A step of \<open>oidc_step\<close> is one request to the
  provider or one tick of its two cleanup routines, at any time and with any random bytes; its
  label says whether a code was issued or redeemed. Nothing is assumed of the store here, and
  nothing of the clock: it may even run backwards.
\<close>

section \<open>Steps\<close>

datatype oidc_label = Issues string | Redeems string | Moves

text \<open>Whether the answer of the token endpoint gives tokens for a code, and for which.\<close>

definition token_label :: "golib \<Rightarrow> http_request \<Rightarrow> response \<Rightarrow> oidc_label" where
  "token_label lib rq rs =
     (case bind_token_request lib rq of
        Some req \<Rightarrow>
          if rs_status rs = 200 \<and> tq_grant_type req = ''authorization_code'' then Redeems (oidc_hash lib (tq_code req))
          else Moves
      | None \<Rightarrow> Moves)"

inductive oidc_step ::
  "'s oidc_env \<Rightarrow> runtime_config \<Rightarrow> 's oidc_state \<Rightarrow> oidc_label \<Rightarrow> 's oidc_state \<Rightarrow> bool"
  for env :: "'s oidc_env" and rt :: runtime_config
where
  authorize: "authorize_handler (Some env) rt ord now random ctx rq st = (rs, st') \<Longrightarrow> oidc_step env rt st Moves st'"
| complete: "authorize_complete_handler (Some env) rt ord now random ctx rq st = (rs, st') \<Longrightarrow>
    oidc_step env rt st (Issues (oidc_hash (oe_lib env) (generate_string random))) st'"
| token: "token_handler (Some env) ord now randoms rq st = (rs, st') \<Longrightarrow>
    oidc_step env rt st (token_label (oe_lib env) rq rs) st'"
| userinfo: "userinfo_handler (Some env) now rq st = (rs, st') \<Longrightarrow> oidc_step env rt st Moves st'"
| cleanup: "oidc_step env rt st Moves (oidc_cleanup_tick env now st)"
| sweep: "oidc_step env rt st Moves (oidc_sweep_tick ord now st)"

inductive oidc_run ::
  "'s oidc_env \<Rightarrow> runtime_config \<Rightarrow> 's oidc_state \<Rightarrow> oidc_label list \<Rightarrow> 's oidc_state \<Rightarrow> bool"
  for env :: "'s oidc_env" and rt :: runtime_config
where
  run_Nil: "oidc_run env rt st [] st"
| run_snoc: "oidc_run env rt st ls st1 \<Longrightarrow> oidc_step env rt st1 l st2 \<Longrightarrow> oidc_run env rt st (ls @ [l]) st2"

section \<open>What a step does to the caches\<close>

text \<open>The stored values of a cache, expired or not.\<close>

definition held :: "'v cache_store \<Rightarrow> string \<Rightarrow> 'v option" where
  "held cs k = map_option ce_value (map_of (cs_cache cs) k)"

lemma held_get: "cache_get now cs k = Some v \<Longrightarrow> held cs k = Some v"
  by (auto simp: cache_get_def held_def split: option.splits if_splits)

lemma held_new [simp]: "held (new_cache_store n) k = None"
  by (simp add: held_def new_cache_store_def)

lemma held_delete [simp]: "held (cache_delete j cs) k = (if k = j then None else held cs k)"
  by (simp add: held_def gm_delete)

lemma held_set: "held (cache_set ord now j v ttl cs) k = Some w \<Longrightarrow> k = j \<and> w = v \<or> k \<noteq> j \<and> held cs k = Some w"
  by (auto simp: held_def cache_set_lookup dest: make_room_lookup split: if_splits)

lemma held_set_None: "k \<noteq> j \<Longrightarrow> held cs k = None \<Longrightarrow> held (cache_set ord now j v ttl cs) k = None"
  by (metis held_set not_None_eq)

lemma held_sweep: "held (cache_sweep ord now cs) k = Some w \<Longrightarrow> held cs k = Some w"
  by (auto simp: held_def cache_sweep_def sweep_keys_lookup split: option.splits if_splits)

lemma code_grant_caches:
  assumes "code_grant env ord now random req cid st = (rs, st')"
  shows "od_authorize st' = od_authorize st \<and>
     (od_code st' = od_code st \<and> rs_status rs \<noteq> 200 \<or>
      od_code st' = cache_delete (oidc_hash (oe_lib env) (tq_code req)) (od_code st) \<and>
      held (od_code st) (oidc_hash (oe_lib env) (tq_code req)) \<noteq> None)"
proof -
  let ?h = "oidc_hash (oe_lib env) (tq_code req)"
  obtain x st1 where g: "get_code_entry now ?h cid st = (x, st1)" by fastforce
  note eff = get_code_entry_effect [OF g]
  show ?thesis
  proof (cases x)
    case None
    with assms g eff show ?thesis
      by (auto simp: code_grant_def Let_def delete_session_by_sub_def split: option.splits prod.splits)
  next
    case (Some e)
    have "od_code st' = od_code st1 \<and> od_authorize st' = od_authorize st1"
      using assms g Some
      by (auto simp: code_grant_def Let_def mark_code_as_used_def split: prod.splits sum.splits if_splits
          dest!: generate_access_token_caches)
    with Some eff show ?thesis by (auto dest: held_get)
  qed
qed

lemma token_handler_caches:
  assumes "token_handler (Some env) ord now random rq st = (rs, st')"
  shows "od_authorize st' = od_authorize st \<and>
     (od_code st' = od_code st \<and> token_label (oe_lib env) rq rs = Moves \<or>
      (\<exists>h. od_code st' = cache_delete h (od_code st) \<and> held (od_code st) h \<noteq> None \<and>
         token_label (oe_lib env) rq rs \<in> {Redeems h, Moves}))"
proof (cases "bind_token_request (oe_lib env) rq")
  case None
  with assms show ?thesis by (simp add: token_handler_def token_label_def)
next
  case (Some req)
  with assms consider "st' = st" "rs_status rs \<noteq> 200"
    | cid where "tq_grant_type req = ''authorization_code''" "code_grant env ord now random req cid st = (rs, st')"
    | cid where "tq_grant_type req = ''refresh_token''" "refresh_grant env now random req cid st = (rs, st')"
    by (auto simp: token_handler_def validate_grant_type_def supported_grant_types_def
        split: option.splits prod.splits if_splits)
  then show ?thesis
  proof cases
    case 2
    from code_grant_caches [OF this(2)] Some 2 show ?thesis by (auto simp: token_label_def)
  next
    case 3
    then have "od_code st' = od_code st \<and> od_authorize st' = od_authorize st"
      by (auto simp: refresh_grant_def split: prod.splits sum.splits dest!: refresh_access_token_caches)
    with Some 3 show ?thesis by (simp add: token_label_def)
  qed (simp add: token_label_def Some)
qed

lemma authorize_handler_effect:
  assumes "authorize_handler (Some env) rt ord now random ctx rq st = (rs, st')"
  shows "st' = st \<or> (\<exists>req. validate_authorize_params env req = None \<and>
     st' = st\<lparr>od_authorize := cache_set ord now (generate_string random) req (seconds 600) (od_authorize st)\<rparr>)"
  using assms
  by (auto simp: authorize_handler_def authorize_checked_def create_authorize_ticket_def Let_def
      split: option.splits sum.splits if_splits)

lemma complete_effect:
  assumes "authorize_complete_handler (Some env) rt ord now random ctx rq st = (rs, st')"
  shows "st' = st \<or> (\<exists>ticket req uc. get_authorize_request now ticket st = Some req \<and>
     complete_authorization env rt ord now random uc req (delete_authorize_ticket ticket st) = (rs, st'))"
  using assms
  by (auto simp: authorize_complete_handler_def Let_def split: option.splits sum.splits list.splits if_splits)

lemma complete_authorization_caches:
  assumes "complete_authorization env rt ord now random uc req st = (rs, st')"
  shows "od_authorize st' = od_authorize st \<and> (od_code st' = od_code st \<or>
     (\<exists>e. od_code st' = cache_set ord now (oidc_hash (oe_lib env) (generate_string random)) e (seconds 60) (od_code st) \<and>
          co_redirect_uri e = ar_redirect_uri req \<and> co_client_id e = ar_client_id req))"
  using assms
  by (auto simp: complete_authorization_def delete_old_session_def create_code_def Let_def
      split: option.splits prod.splits if_splits)

lemma userinfo_caches:
  assumes "userinfo_handler (Some env) now rq st = (rs, st')"
  shows "od_code st' = od_code st \<and> od_authorize st' = od_authorize st"
  using assms
  by (auto simp: userinfo_handler_def get_session_by_token_def split: option.splits prod.splits sum.splits if_splits)

end
