(* ===== verification/OidcCodes.thy ===== *)
theory OidcCodes
  imports OidcHistory
begin

text \<open>
  The life of codes and tickets over every history of the provider: a code is redeemed at most as often
  as it was issued, and the browser is sent only to addresses of the client that asked.
\<close>

section \<open>A code is redeemed once\<close>

lemma step_count:
  assumes "oidc_step env rt st l st'"
  shows "(if l = Redeems h then 1 else 0) + (if held (od_code st') h \<noteq> None then 1 else 0 :: nat) \<le>
     (if l = Issues h then 1 else 0) + (if held (od_code st) h \<noteq> None then 1 else 0)"
  using assms
proof cases
  case authorize
  with authorize_handler_effect [OF authorize(2)] show ?thesis by auto
next
  case (complete ord now random ctx rq rs)
  let ?c = "oidc_hash (oe_lib env) (generate_string random)"
  have "od_code st' = od_code st \<or> (\<exists>e. od_code st' = cache_set ord now ?c e (seconds 60) (od_code st))"
    using complete_effect [OF complete(2)] complete_authorization_caches
    by (fastforce simp: delete_authorize_ticket_def)
  then show ?thesis using complete(1) by (auto dest: held_set simp: held_set_None)
next
  case (token ord now randoms rq rs)
  from token_handler_caches [OF token(2)] token(1) show ?thesis by (auto split: if_splits)
next
  case userinfo
  with userinfo_caches [OF userinfo(2)] show ?thesis by simp
next
  case cleanup
  then show ?thesis by (simp add: oidc_cleanup_tick_def)
next
  case sweep
  then show ?thesis by (auto simp: oidc_sweep_tick_def dest: held_sweep)
qed

lemma run_count:
  assumes "oidc_run env rt st0 ls st"
  shows "count_list ls (Redeems h) + (if held (od_code st) h \<noteq> None then 1 else 0 :: nat) \<le>
     count_list ls (Issues h) + (if held (od_code st0) h \<noteq> None then 1 else 0)"
  using assms
proof (induction rule: oidc_run.induct)
  case (run_snoc st ls st1 l st2)
  from step_count [OF run_snoc(2), of h] run_snoc(3) show ?case
    by (cases "l = Redeems h"; cases "l = Issues h") (simp_all split: if_splits)
qed simp

text \<open>
  C5: Over every history of requests and cleanups, whatever the times at which they happen, a code
  is redeemed at most as often as it was issued; as this holds at every point of the history, a
  code that is issued once gives tokens at most once, and never before it is issued.
\<close>

theorem code_redeemed_once:
  assumes "oidc_run env rt (new_oidc_state s) ls st"
  shows "count_list ls (Redeems h) \<le> count_list ls (Issues h)"
  using run_count [OF assms, of h] by (simp add: new_oidc_state_def)

section \<open>Codes and errors stay with the client\<close>

definition trusted_by :: "'s oidc_env \<Rightarrow> string \<Rightarrow> string \<Rightarrow> bool" where
  "trusted_by env cid uri \<longleftrightarrow>
     (case get_client env cid of None \<Rightarrow> False | Some client \<Rightarrow> uri \<in> set (occ_trusted_redirect_uris client))"

definition tickets_trusted :: "'s oidc_env \<Rightarrow> 's oidc_state \<Rightarrow> bool" where
  "tickets_trusted env st \<longleftrightarrow>
     (\<forall>k req. held (od_authorize st) k = Some req \<longrightarrow> trusted_by env (ar_client_id req) (ar_redirect_uri req)) \<and>
     (\<forall>k e. held (od_code st) k = Some e \<longrightarrow> trusted_by env (co_client_id e) (co_redirect_uri e))"

lemma valid_params_trusted:
  "validate_authorize_params env req = None \<Longrightarrow> trusted_by env (ar_client_id req) (ar_redirect_uri req)"
  by (auto simp: validate_authorize_params_def trusted_by_def split: option.splits if_splits)

lemma step_trusted:
  assumes "oidc_step env rt st l st'" "tickets_trusted env st"
  shows "tickets_trusted env st'"
  using assms(1)
proof cases
  case authorize
  from authorize_handler_effect [OF authorize(2)] assms(2) show ?thesis
    by (auto simp: tickets_trusted_def dest!: held_set valid_params_trusted)
next
  case (complete ord now random ctx rq rs)
  from complete_effect [OF complete(2)] show ?thesis
  proof (elim disjE exE conjE)
    fix ticket req uc
    assume t: "get_authorize_request now ticket st = Some req"
      and c: "complete_authorization env rt ord now random uc req (delete_authorize_ticket ticket st) = (rs, st')"
    from t assms(2) have "trusted_by env (ar_client_id req) (ar_redirect_uri req)"
      by (auto simp: get_authorize_request_def tickets_trusted_def dest: held_get)
    with complete_authorization_caches [OF c] assms(2) show ?thesis
      by (auto simp: tickets_trusted_def delete_authorize_ticket_def dest!: held_set)
  qed (use assms(2) in simp)
next
  case (token ord now randoms rq rs)
  from token_handler_caches [OF token(2)] assms(2) show ?thesis by (auto simp: tickets_trusted_def split: if_splits)
next
  case userinfo
  with userinfo_caches [OF userinfo(2)] assms(2) show ?thesis by (simp add: tickets_trusted_def)
next
  case cleanup
  with assms(2) show ?thesis by (simp add: oidc_cleanup_tick_def tickets_trusted_def)
next
  case sweep
  with assms(2) show ?thesis by (auto simp: oidc_sweep_tick_def tickets_trusted_def dest: held_sweep)
qed

lemma run_trusted: "oidc_run env rt st0 ls st \<Longrightarrow> tickets_trusted env st0 \<Longrightarrow> tickets_trusted env st"
  by (induction rule: oidc_run.induct) (auto simp: step_trusted)

lemma new_trusted: "tickets_trusted env (new_oidc_state s)"
  by (simp add: tickets_trusted_def new_oidc_state_def)

definition answers_url :: "response \<Rightarrow> string \<Rightarrow> bool" where
  "answers_url rs url \<longleftrightarrow>
     rs_body rs = RedirectTo url \<or> rs_body rs = JsonBody (JObject [(''status'', JNumber 200), (''redirect_uri'', JString url)])"

definition stays :: "'s oidc_env \<Rightarrow> string \<Rightarrow> bool" where
  "stays env url \<longleftrightarrow>
     (\<exists>q. url \<in> {get_issuer env @ ''/error?'' @ q, get_issuer env @ ''/oidc/authorize?'' @ q} \<or>
       (\<exists>cid uri. trusted_by env cid uri \<and> url = uri @ ''?'' @ q))"

lemma authorize_error_stays:
  assumes "answers_url (authorize_error (Some env) rt p) url" "ep_callback p = [] \<or> trusted_by env cid (ep_callback p)"
  shows "stays env url"
proof (cases "ep_callback p = []")
  case True
  with assms(1) have "\<exists>q. url = get_issuer env @ ''/error?'' @ q"
    by (auto simp: answers_url_def authorize_error_def error_page_def Let_def reply_defs split: if_splits)
  then show ?thesis by (auto simp: stays_def)
next
  case False
  with assms(1) have "\<exists>q. url = ep_callback p @ ''?'' @ q"
    by (auto simp: answers_url_def authorize_error_def Let_def reply_defs split: if_splits)
  with False assms(2) show ?thesis by (auto simp: stays_def)
qed

lemma validate_error_trusted:
  assumes "validate_authorize_params env req = Some e" "e \<noteq> ''invalid_request_uri''" "get_client env (ar_client_id req) = Some c"
  shows "trusted_by env (ar_client_id req) (ar_redirect_uri req)"
  using assms by (auto simp: validate_authorize_params_def trusted_by_def split: if_splits)

lemma consent_stays:
  "answers_url (reply_redirect 302 (get_issuer env @ ''/oidc/authorize?'' @ q) empty_response) url \<Longrightarrow> stays env url"
  by (auto simp: answers_url_def stays_def reply_redirect_def)

lemma authorize_checked_stays:
  assumes "authorize_checked env rt ord now random ctx req client st = (rs, st')" "answers_url rs url"
    "trusted_by env (ar_client_id req) (ar_redirect_uri req)"
  shows "stays env url"
proof -
  have "(\<exists>e reason. rs = authorize_error (Some env) rt (callback_error req e reason)) \<or>
      (\<exists>q. rs = reply_redirect 302 (get_issuer env @ ''/oidc/authorize?'' @ q) empty_response)"
    using assms(1) unfolding authorize_checked_def create_authorize_ticket_def Let_def prod.case
    by (simp split: if_splits sum.splits option.splits) blast+
  with assms(2,3) show ?thesis
    by (auto simp: callback_error_def intro: consent_stays authorize_error_stays [where cid = "ar_client_id req"])
qed

lemma authorize_handler_stays:
  assumes "authorize_handler (Some env) rt ord now random ctx rq st = (rs, st')" "answers_url rs url"
  shows "stays env url"
proof -
  have screen: "answers_url (authorize_error (Some env) rt (screen_error r)) url \<Longrightarrow> stays env url" for r
    by (rule authorize_error_stays) (auto simp: screen_error_def)
  have return: "answers_url (authorize_error (Some env) rt (callback_error req e r)) url \<Longrightarrow>
      trusted_by env (ar_client_id req) (ar_redirect_uri req) \<Longrightarrow> stays env url" for req e r
    by (rule authorize_error_stays) (auto simp: callback_error_def)
  show ?thesis
  proof (cases "resolve_authorize_request env rq")
    case None
    with assms screen show ?thesis by (auto simp: authorize_handler_def)
  next
    case req: (Some req)
    show ?thesis
    proof (cases "get_client env (ar_client_id req)")
      case None
      with assms req screen show ?thesis by (auto simp: authorize_handler_def)
    next
      case client: (Some client)
      show ?thesis
      proof (cases "validate_authorize_params env req")
        case None
        with assms req client have "authorize_checked env rt ord now random ctx req client st = (rs, st')"
          by (simp add: authorize_handler_def)
        from authorize_checked_stays [OF this assms(2) valid_params_trusted [OF None]] show ?thesis .
      next
        case (Some e)
        with assms req client screen return validate_error_trusted [OF Some _ client] show ?thesis
          by (auto simp: authorize_handler_def split: if_splits)
      qed
    qed
  qed
qed

lemma complete_stays:
  assumes "authorize_complete_handler (Some env) rt ord now random ctx rq st = (rs, st')" "answers_url rs url"
    "tickets_trusted env st"
  shows "stays env url"
proof -
  have screen: "answers_url (authorize_error (Some env) rt (screen_error r\<lparr>ep_json := True\<rparr>)) url \<Longrightarrow> stays env url"
    "answers_url (authorize_error (Some env) rt (screen_error r\<lparr>ep_json := True\<rparr>)\<lparr>rs_status := 400\<rparr>) url \<Longrightarrow> stays env url" for r
    by (rule authorize_error_stays [where p = "screen_error r\<lparr>ep_json := True\<rparr>"], auto simp: screen_error_def answers_url_def)+
  have last: "stays env url" if c: "complete_authorization env rt ord now random uc req st1 = (rs, st')"
    and t: "trusted_by env (ar_client_id req) (ar_redirect_uri req)" for uc req st1
  proof -
    have "rs = authorize_error (Some env) rt (callback_error req ''server_error'' ''Failed to delete old sessions''\<lparr>ep_json := True\<rparr>) \<or>
        (\<exists>q. rs = reply_json 200 (JObject [(''status'', JNumber 200), (''redirect_uri'', JString (ar_redirect_uri req @ ''?'' @ q))]) empty_response)"
      using c by (auto simp: complete_authorization_def Let_def split: prod.splits option.splits)
    then show ?thesis
    proof (elim disjE exE)
      assume "rs = authorize_error (Some env) rt (callback_error req ''server_error'' ''Failed to delete old sessions''\<lparr>ep_json := True\<rparr>)"
      with assms(2) t show ?thesis by (auto intro!: authorize_error_stays simp: callback_error_def)
    next
      fix q assume "rs = reply_json 200 (JObject [(''status'', JNumber 200), (''redirect_uri'', JString (ar_redirect_uri req @ ''?'' @ q))]) empty_response"
      with assms(2) t show ?thesis by (auto simp: answers_url_def reply_defs stays_def)
    qed
  qed
  have ticket: "get_authorize_request now k st = Some req \<Longrightarrow> trusted_by env (ar_client_id req) (ar_redirect_uri req)" for k req
    using assms(3) by (auto simp: get_authorize_request_def tickets_trusted_def dest: held_get)
  have "(\<exists>r. rs \<in> {authorize_error (Some env) rt (screen_error r\<lparr>ep_json := True\<rparr>),
        authorize_error (Some env) rt (screen_error r\<lparr>ep_json := True\<rparr>)\<lparr>rs_status := 400\<rparr>}) \<or>
      (\<exists>k req uc. get_authorize_request now k st = Some req \<and>
         complete_authorization env rt ord now random uc req (delete_authorize_ticket k st) = (rs, st'))"
    using assms(1) unfolding authorize_complete_handler_def Let_def option.case
    by (simp split: sum.splits if_splits option.splits list.splits) blast+
  with screen last ticket assms(2) show ?thesis by blast
qed

text \<open>
  C7: Nothing of an authorization leaves for a foreign site: after every history of the provider,
  the browser is sent by an authorization request, and told to go by its completion, only to a page
  of the application itself or to a redirect URI that some client trusts, with its query appended;
  and every code held belongs to a client that trusts the redirect URI it was issued for.
\<close>

theorem authorization_stays_with_client:
  assumes "oidc_run env rt (new_oidc_state s) ls st"
    "authorize_handler (Some env) rt ord now random ctx rq st = (rs, st') \<or>
     authorize_complete_handler (Some env) rt ord now random ctx rq st = (rs, st')"
    "rs_body rs = RedirectTo url \<or> rs_body rs = JsonBody (JObject [(''status'', JNumber 200), (''redirect_uri'', JString url)])"
  shows "(\<exists>q. url \<in> {get_issuer env @ ''/error?'' @ q, get_issuer env @ ''/oidc/authorize?'' @ q} \<or>
       (\<exists>cid uri. trusted_by env cid uri \<and> url = uri @ ''?'' @ q)) \<and>
     (\<forall>now' h cid e st2. get_code_entry now' h cid st = (Some e, st2) \<longrightarrow> trusted_by env cid (co_redirect_uri e))"
proof -
  note inv = run_trusted [OF assms(1) new_trusted]
  have "get_code_entry now' h cid st = (Some e, st2) \<Longrightarrow> trusted_by env cid (co_redirect_uri e)" for now' h cid e st2
    using inv by (auto simp: get_code_entry_def tickets_trusted_def dest: held_get split: option.splits if_splits)
  moreover have "stays env url"
    using assms(2) authorize_handler_stays complete_stays [OF _ _ inv] assms(3) [folded answers_url_def] by blast
  then have "\<exists>q. url \<in> {get_issuer env @ ''/error?'' @ q, get_issuer env @ ''/oidc/authorize?'' @ q} \<or>
       (\<exists>cid uri. trusted_by env cid uri \<and> url = uri @ ''?'' @ q)" by (simp add: stays_def)
  ultimately show ?thesis by blast
qed

section \<open>A history\<close>

definition consent_request :: http_request where
  "consent_request = empty_request\<lparr>rq_query := [(''scope'', ''openid email''), (''response_type'', ''code''),
     (''client_id'', ''cid''), (''redirect_uri'', ''https://w.io/cb''), (''state'', ''st'')]\<rparr>"

definition complete_request :: "string \<Rightarrow> http_request" where
  "complete_request ticket = empty_request\<lparr>rq_method := ''POST'', rq_content_type := ''application/json'',
     rq_json := Some (JObject [(''ticket'', JString ticket)])\<rparr>"

definition after_consent :: "response \<times> memory_store oidc_state" where
  "after_consent = authorize_handler (Some demo_provider) demo_runtime id 0 ''tkt'' (Some (Some demo_oauth_user)) consent_request
     (new_oidc_state new_memory_store)"

definition after_complete :: "response \<times> memory_store oidc_state" where
  "after_complete = authorize_complete_handler (Some demo_provider) demo_runtime id 1 ''rnd'' (Some (Some demo_oauth_user))
     (complete_request (generate_string ''tkt'')) (snd after_consent)"

definition after_token :: "response \<times> memory_store oidc_state" where
  "after_token = token_handler (Some demo_provider) id 2 (''a1'', ''r1'') (redeem_request ''v'') (snd after_complete)"

lemma demo_history:
  "oidc_run demo_provider demo_runtime (new_oidc_state new_memory_store)
     ([] @ [Moves] @ [Issues (oidc_hash ascii_lib (generate_string ''rnd''))] @ [token_label ascii_lib (redeem_request ''v'') (fst after_token)])
     (snd after_token)"
proof -
  have lib: "oe_lib demo_provider = ascii_lib" by (simp add: demo_provider_def)
  have "oidc_run demo_provider demo_runtime (new_oidc_state new_memory_store) ([] @ [Moves]) (snd after_consent)"
    unfolding after_consent_def by (rule run_snoc [OF run_Nil], rule authorize, rule surjective_pairing)
  then have "oidc_run demo_provider demo_runtime (new_oidc_state new_memory_store)
      (([] @ [Moves]) @ [Issues (oidc_hash ascii_lib (generate_string ''rnd''))]) (snd after_complete)"
    unfolding lib [symmetric] after_complete_def by (rule run_snoc [OF _ oidc_step.complete [OF surjective_pairing]])
  then have "oidc_run demo_provider demo_runtime (new_oidc_state new_memory_store)
      ((([] @ [Moves]) @ [Issues (oidc_hash ascii_lib (generate_string ''rnd''))]) @
        [token_label ascii_lib (redeem_request ''v'') (fst after_token)]) (snd after_token)"
    unfolding lib [symmetric] after_token_def by (rule run_snoc [OF _ oidc_step.token [OF surjective_pairing]])
  then show ?thesis by simp
qed

lemma history_answers:
  "token_label ascii_lib (redeem_request ''v'') (fst after_token) = Redeems (oidc_hash ascii_lib (generate_string ''rnd''))"
  "rs_body (fst after_consent) = RedirectTo (''https://auth.x.io/oidc/authorize?'' @
     encode_values [(''login_for'', ''oidc''), (''oidc_ticket'', generate_string ''tkt''),
       (''oidc_scope'', ''openid email''), (''oidc_name'', ''Wiki'')])"
  "rs_body (fst after_complete) = JsonBody (JObject [(''status'', JNumber 200),
     (''redirect_uri'', JString (''https://w.io/cb?code='' @ generate_string ''rnd'' @ ''&state=st''))])"
  by code_simp+

theorem code_redeemed_once_witness:
  "\<exists>ls. oidc_run demo_provider demo_runtime (new_oidc_state new_memory_store) ls (snd after_token) \<and>
     count_list ls (Redeems (oidc_hash ascii_lib (generate_string ''rnd''))) = 1 \<and>
     1 \<le> count_list ls (Issues (oidc_hash ascii_lib (generate_string ''rnd'')))"
proof -
  let ?h = "oidc_hash ascii_lib (generate_string ''rnd'')"
  note run = demo_history [unfolded history_answers(1)]
  have "count_list ([] @ [Moves] @ [Issues ?h] @ [Redeems ?h]) (Redeems ?h) = 1" by simp
  with run code_redeemed_once [OF run, of ?h] show ?thesis by metis
qed

theorem authorization_stays_with_client_witness:
  "\<exists>q cid uri. trusted_by demo_provider cid uri \<and>
     ''https://w.io/cb?code='' @ generate_string ''rnd'' @ ''&state=st'' = uri @ ''?'' @ q"
proof -
  have run: "oidc_run demo_provider demo_runtime (new_oidc_state new_memory_store) ([] @ [Moves]) (snd after_consent)"
    unfolding after_consent_def by (rule run_snoc [OF run_Nil], rule authorize, rule surjective_pairing)
  have handled: "authorize_complete_handler (Some demo_provider) demo_runtime id 1 ''rnd'' (Some (Some demo_oauth_user))
     (complete_request (generate_string ''tkt'')) (snd after_consent) = (fst after_complete, snd after_complete)"
    by (simp add: after_complete_def)
  from authorization_stays_with_client [OF run disjI2 [OF handled] disjI2 [OF history_answers(3)]]
  show ?thesis by (auto simp: demo_provider_def get_issuer_def)
qed

end
