(* ===== verification/Pages.thy ===== *)
theory Pages
  imports OidcTokens
begin

text \<open>
  The small endpoints and the middlewares around them: the context of the user and of the
  application (\<open>internal/controller/context_controller.go\<close>), the health check, the files of the
  resources directory, the well-known documents of the OpenID Connect provider and WebFinger
  (\<open>health_controller.go\<close>, \<open>resources_controller.go\<close>, \<open>well_known_controller.go\<close>), the middleware
  that serves the frontend and the level at which a request is logged
  (\<open>internal/middleware/ui_middleware.go\<close>, \<open>zerolog_middleware.go\<close>). Serving a file is left to the
  standard library, the answer says which file and from where.
\<close>

section \<open>Contexts\<close>

record ucr_auth =
  ucr_authenticated :: bool
  ucr_username :: string
  ucr_name :: string
  ucr_email :: string
  ucr_provider_id :: string

record user_context_response =
  ucr_status :: int
  ucr_message :: string
  ucr_auth :: ucr_auth
  ucr_oauth_active :: bool
  ucr_oauth_display_name :: string
  ucr_totp_pending :: bool
  ucr_node_name :: string

definition user_context_json :: "user_context_response \<Rightarrow> json" where
  "user_context_json u = JObject
     [(''status'', JNumber (ucr_status u)), (''message'', JString (ucr_message u)),
      (''auth'', JObject
         [(''authenticated'', JBool (ucr_authenticated (ucr_auth u))), (''username'', JString (ucr_username (ucr_auth u))),
          (''name'', JString (ucr_name (ucr_auth u))), (''email'', JString (ucr_email (ucr_auth u))),
          (''providerId'', JString (ucr_provider_id (ucr_auth u)))]),
      (''oauth'', JObject [(''active'', JBool (ucr_oauth_active u)), (''displayName'', JString (ucr_oauth_display_name u))]),
      (''totp'', JObject [(''pending'', JBool (ucr_totp_pending u))]),
      (''tailscale'', JObject (some_string ''nodeName'' (ucr_node_name u)))]"

definition user_context_handler :: "gin_value \<Rightarrow> response outcome" where
  "user_context_handler ctx =
     (case new_from_gin ctx of
        Inl _ \<Rightarrow>
          Returns (reply_json 200 (user_context_json
            \<lparr>ucr_status = 401, ucr_message = ''Unauthorized'',
             ucr_auth = \<lparr>ucr_authenticated = False, ucr_username = [], ucr_name = [], ucr_email = [], ucr_provider_id = []\<rparr>,
             ucr_oauth_active = False, ucr_oauth_display_name = [], ucr_totp_pending = False, ucr_node_name = []\<rparr>) empty_response)
      | Inr uc \<Rightarrow>
          (case get_provider_id uc of
             Panics \<Rightarrow> Panics
           | Returns pid \<Rightarrow>
               Returns (reply_json 200 (user_context_json
                 \<lparr>ucr_status = 200, ucr_message = ''Success'',
                  ucr_auth = \<lparr>ucr_authenticated = uc_authenticated uc, ucr_username = get_username uc,
                    ucr_name = get_name uc, ucr_email = get_email uc, ucr_provider_id = pid\<rparr>,
                  ucr_oauth_active = is_oauth uc, ucr_oauth_display_name = oauth_name uc,
                  ucr_totp_pending = totp_pending uc, ucr_node_name = tailscale_node_name uc\<rparr>) empty_response)))"

definition provider_json :: "provider \<Rightarrow> json" where
  "provider_json p = JObject
     [(''name'', JString (prov_name p)), (''id'', JString (prov_id p)), (''oauth'', JBool (prov_oauth p))]"

definition app_context_handler :: "config \<Rightarrow> runtime_config \<Rightarrow> response" where
  "app_context_handler cfg rt = reply_json 200 (JObject
     [(''status'', JNumber 200), (''message'', JString ''Success''),
      (''auth'', JObject [(''providers'', JArray (map provider_json (rt_configured_providers rt)))]),
      (''oauth'', JObject [(''autoRedirect'', JString (oac_auto_redirect (cfg_oauth cfg)))]),
      (''ui'', JObject
         [(''title'', JString (ui_title (cfg_ui cfg))),
          (''forgotPasswordMessage'', JString (ui_forgot_password_message (cfg_ui cfg))),
          (''backgroundImage'', JString (ui_background_image (cfg_ui cfg))),
          (''warningsEnabled'', JBool (ui_warnings_enabled (cfg_ui cfg)))]),
      (''app'', JObject
         [(''appUrl'', JString (rt_app_url rt)), (''cookieDomain'', JString (rt_cookie_domain rt)),
          (''subdomainsEnabled'', JBool (au_subdomains_enabled (cfg_auth cfg)))])]) empty_response"

section \<open>Health and resources\<close>

definition health_handler :: response where
  "health_handler = reply_message 200 ''Healthy'' empty_response"

datatype file_reply = Replies response | ServesFile string string

text \<open>The file server gets the path without the prefix \<open>/resources\<close>.\<close>

definition resources_handler :: "config \<Rightarrow> http_request \<Rightarrow> file_reply" where
  "resources_handler cfg rq =
     (if rs_path (cfg_resources cfg) = [] then Replies (reply_message 404 ''Resource not found'' empty_response)
      else if \<not> rs_enabled (cfg_resources cfg) then Replies (reply_message 403 ''Resources are disabled'' empty_response)
      else ServesFile (rs_path (cfg_resources cfg)) (drop (length ''/resources'') (rq_path rq)))"

section \<open>Well-known documents\<close>

definition openid_connect_rel :: string where
  "openid_connect_rel = ''http://openid.net/specs/connect/1.0/issuer''"

definition claims_supported :: "string list" where
  "claims_supported =
     [''sub'', ''updated_at'', ''name'', ''preferred_username'', ''email'', ''email_verified'', ''groups'', ''phone_number'',
      ''phone_number_verified'', ''address'', ''given_name'', ''family_name'', ''middle_name'', ''nickname'', ''profile'',
      ''picture'', ''website'', ''gender'', ''birthdate'', ''zoneinfo'', ''locale'']"

definition json_strings_of :: "string list \<Rightarrow> json" where
  "json_strings_of vs = JArray (map JString vs)"

definition openid_configuration_fields :: "string \<Rightarrow> (string \<times> json) list" where
  "openid_configuration_fields issuer =
     [(''issuer'', JString issuer), (''authorization_endpoint'', JString (issuer @ ''/authorize'')),
      (''token_endpoint'', JString (issuer @ ''/api/oidc/token'')),
      (''userinfo_endpoint'', JString (issuer @ ''/api/oidc/userinfo'')),
      (''jwks_uri'', JString (issuer @ ''/.well-known/jwks.json'')),
      (''scopes_supported'', json_strings_of supported_scopes),
      (''response_types_supported'', json_strings_of supported_response_types),
      (''grant_types_supported'', json_strings_of supported_grant_types),
      (''subject_types_supported'', json_strings_of [''pairwise'']),
      (''id_token_signing_alg_values_supported'', json_strings_of [''RS256'']),
      (''token_endpoint_auth_methods_supported'', json_strings_of [''client_secret_basic'', ''client_secret_post'']),
      (''claims_supported'', json_strings_of claims_supported),
      (''service_documentation'', JString ''https://tinyauth.app/docs/guides/oidc''),
      (''request_parameter_supported'', JBool True),
      (''request_object_signing_alg_values_supported'', json_strings_of [''none''])]"

definition oidc_not_configured :: response where
  "oidc_not_configured = reply_message 500 ''OIDC service not configured'' empty_response"

definition openid_configuration_handler :: "'s oidc_env option \<Rightarrow> response" where
  "openid_configuration_handler oidc =
     (case oidc of
        None \<Rightarrow> oidc_not_configured
      | Some env \<Rightarrow> reply_json 200 (JObject (openid_configuration_fields (get_issuer env))) empty_response)"

definition jwks_handler :: "'s oidc_env option \<Rightarrow> response" where
  "jwks_handler oidc =
     (case oidc of
        None \<Rightarrow> oidc_not_configured
      | Some env \<Rightarrow>
          (case get_jwk env of
             None \<Rightarrow> reply_message 500 ''failed to get JWK'' empty_response
           | Some jwk \<Rightarrow>
               (with_header ''content-type'' ''application/json'' empty_response)
                 \<lparr>rs_body := TextBody (''{\"keys\":['' @ jwk @ '']}'')\<rparr>))"

definition validate_webfinger_resource :: "golib \<Rightarrow> string \<Rightarrow> bool" where
  "validate_webfinger_resource lib resource =
     (case cut_at (CHR '':'') resource of
        None \<Rightarrow> False
      | Some (kind, rest) \<Rightarrow>
          if kind = ''acct'' then
            count_list rest (CHR ''@'') = 1 \<and>
            (case cut_at (CHR ''@'') rest of
               None \<Rightarrow> False
             | Some (username, domain) \<Rightarrow> username \<noteq> [] \<and> domain \<noteq> [])
          else if kind = ''https'' \<or> kind = ''http'' then
            (case lib_parse_url lib resource of None \<Rightarrow> False | Some u \<Rightarrow> url_host u \<noteq> [])
          else False)"

definition webfinger_handler :: "golib \<Rightarrow> 's oidc_env option \<Rightarrow> http_request \<Rightarrow> response" where
  "webfinger_handler lib oidc rq =
     (let rs = with_header ''Access-Control-Allow-Origin'' ''*''
                 (with_header ''Content-Type'' ''application/jrd+json'' empty_response);
          resource = first_value (rq_query rq) ''resource'';
          rel = map snd (filter (\<lambda>(k, _). k = ''rel'') (rq_query rq))
      in if \<not> validate_webfinger_resource lib resource then reply_message 400 ''invalid resource'' rs
         else reply_json 200
           (JObject [(''subject'', JString resource),
              (''links'', JArray
                 (case oidc of
                    None \<Rightarrow> []
                  | Some env \<Rightarrow>
                      if rel = [] \<or> openid_connect_rel \<in> set rel
                      then [JObject [(''rel'', JString openid_connect_rel), (''href'', JString (get_issuer env))]]
                      else []))]) rs)"

section \<open>The frontend and the log\<close>

text \<open>
  What the middleware of the frontend does: hand the request on, answer it and let the other
  handlers run too, or serve a file of the frontend with a lifetime in seconds and stop. \<open>stat\<close>
  says whether the frontend has a file; errors other than a missing file keep the path.
\<close>

datatype file_stat = StatFound | StatMissing | StatError

datatype ui_action = PassOn | RobotsTxt | ServesUi string int

definition ui_middleware :: "(string \<Rightarrow> file_stat) \<Rightarrow> string \<Rightarrow> ui_action" where
  "ui_middleware stat request_path =
     (let path = (if take 1 request_path = ''/'' then tl request_path else request_path);
          first = takeWhile (\<lambda>c. c \<noteq> CHR ''/'') path
      in if first \<in> {''api'', ''resources'', ''.well-known'', ''authorize''} then PassOn
         else if first = ''robots.txt'' then RobotsTxt
         else if stat path = StatMissing then ServesUi ''/'' (15 * 60)
         else if take 7 path = ''assets/'' then ServesUi request_path (30 * 24 * 60 * 60)
         else ServesUi request_path (15 * 60))"

definition robots_txt :: response where
  "robots_txt = (with_header ''Content-Type'' ''text/plain'' empty_response)
     \<lparr>rs_body := TextBody (''User-agent: *'' @ [CHR 0x0A] @ ''Disallow: /'' @ [CHR 0x0A])\<rparr>"

definition logger_skip_paths_prefix :: "string list" where
  "logger_skip_paths_prefix = [''GET /api/healthz'', ''HEAD /api/healthz'', ''GET /favicon.ico'']"

definition log_path :: "string \<Rightarrow> bool" where
  "log_path path \<longleftrightarrow> \<not> list_ex (\<lambda>p. take (length p) path = p) logger_skip_paths_prefix"

datatype log_level = LevelDebug | LevelInfo | LevelWarn | LevelError

definition request_log_level :: "string \<Rightarrow> string \<Rightarrow> int \<Rightarrow> log_level" where
  "request_log_level method path code =
     (if log_path (method @ '' '' @ path) then
        (if 400 \<le> code \<and> code < 500 then LevelWarn else if 500 \<le> code then LevelError else LevelInfo)
      else LevelDebug)"

section \<open>What the documents promise\<close>

lemma generate_id_token_parts:
  assumes "generate_id_token env now cid user scope nonce at = Some tok"
  obtains der where "cr_marshal_public (oe_crypto env) (oe_public_key env) = Some der"
    "cr_sign (oe_crypto env) (oe_private_key env)
       [(''typ'', ''jwt''), (''jku'', oe_issuer env @ ''/.well-known/jwks.json''), (''kid'', key_id (oe_lib env) der)]
       (json_text (claim_set_json (id_token_claims env now cid user scope nonce at))) = Some tok"
  using assms by (auto simp: generate_id_token_def split: option.splits)



text \<open>Every claim of the userinfo endpoint is one the discovery document lists.\<close>

lemma some_fields_named:
  "list_all (\<lambda>f. fst f \<in> S) (some_string k v) \<longleftrightarrow> v = [] \<or> k \<in> S"
  "list_all (\<lambda>f. fst f \<in> S) (some_strings k vs) \<longleftrightarrow> vs = [] \<or> k \<in> S"
  "list_all (\<lambda>f. fst f \<in> S) (some_true k b) \<longleftrightarrow> \<not> b \<or> k \<in> S"
  by (simp_all add: some_string_def some_strings_def some_true_def)

lemma userinfo_names_advertised: "list_all (\<lambda>k. k \<in> set claims_supported) userinfo_names"
  by code_simp

theorem claims_are_advertised:
  "\<exists>fs. userinfo_json u = JObject fs \<and> list_all (\<lambda>f. fst f \<in> set claims_supported) fs"
proof -
  let ?P = "\<lambda>f. fst f \<in> set claims_supported"
  note names = userinfo_names_advertised [unfolded userinfo_names_def list.pred_inject]
  have "list_all ?P (case uf_phone_number_verified u of None \<Rightarrow> [] | Some b \<Rightarrow> [(''phone_number_verified'', JBool b)])"
    "list_all ?P (case uf_address u of None \<Rightarrow> [] | Some a \<Rightarrow> [(''address'', address_json a)])"
    using names by (auto split: option.split)
  then have "case userinfo_json u of JObject fs \<Rightarrow> list_all ?P fs | _ \<Rightarrow> True" using names
    unfolding userinfo_json_def json.case
    by (simp only: list_all_append list.pred_inject some_fields_named fst_conv simp_thms)
  moreover have "\<exists>fs. userinfo_json u = JObject fs" by (simp add: userinfo_json_def)
  ultimately show ?thesis by (auto split: json.splits)
qed

text \<open>An account resource is accepted exactly when it is a user and a domain around one at sign.\<close>

lemma cut_at_iff: "cut_at c s = Some (a, b) \<longleftrightarrow> s = a @ c # b \<and> c \<notin> set a"
proof (induction s arbitrary: a)
  case (Cons x s)
  then show ?case by (cases a) (auto split: if_splits)
qed simp

theorem webfinger_account:
  "validate_webfinger_resource lib (''acct:'' @ s) \<longleftrightarrow>
     (\<exists>u d. s = u @ ''@'' @ d \<and> u \<noteq> [] \<and> d \<noteq> [] \<and> CHR ''@'' \<notin> set u \<and> CHR ''@'' \<notin> set d)"
proof -
  have c: "cut_at (CHR '':'') (''acct:'' @ s) = Some (''acct'', s)" by (simp add: cut_at_iff)
  show ?thesis
  proof (cases "cut_at (CHR ''@'') s")
    case None
    then have "CHR ''@'' \<notin> set s" by (induction s) (auto split: if_splits)
    with c None show ?thesis by (auto simp: validate_webfinger_resource_def)
  next
    case (Some ud)
    obtain u d where ud: "ud = (u, d)" by fastforce
    with Some have s: "s = u @ CHR ''@'' # d" "CHR ''@'' \<notin> set u" by (simp_all add: cut_at_iff)
    have "count_list s (CHR ''@'') = 1 \<longleftrightarrow> CHR ''@'' \<notin> set d"
      using s by (simp add: count_list_0_iff)
    moreover have "s = u' @ CHR ''@'' # d' \<and> CHR ''@'' \<notin> set u' \<longleftrightarrow> u' = u \<and> d' = d" for u' d'
      using Some ud cut_at_iff [of "CHR ''@''" s u' d'] s by auto
    ultimately show ?thesis using c Some ud by (auto simp: validate_webfinger_resource_def)
  qed
qed

end
