(* ===== verification/Startup.thy ===== *)
theory Startup
  imports Pages
begin

text \<open>
  How the program starts, \<open>internal/bootstrap/app_bootstrap.go\<close> with \<open>db_bootstrap.go\<close>,
  \<open>service_bootstrap.go\<close> and the choice of the listener in \<open>router_bootstrap.go\<close>: the runtime
  configuration is derived from the configuration, the store and the services are made from both,
  the list of providers and the redirect URLs are filled in. The world outside (files, keys,
  directories, databases, daemons) is the record \<open>host\<close>. \<open>Setup\<close> is split where the source has its
  comments; every error it returns is one value of \<open>app_error\<close>.
\<close>

datatype app_error =
    EmptyAppUrl
  | UnparsableAppUrl
  | MaxLifetimeTooShort
  | UsersNotLoaded
  | WhitelistNotLoaded
  | ReservedProvider string
  | ProviderWhitelistNotLoaded string
  | CookieDomainFailed cookie_domain_error
  | UnknownDriver
  | StoreFailed
  | PolicyFailed
  | InvalidLabelProvider
  | LabelProviderFailed
  | LdapFailed
  | TailscaleFailed
  | OidcFailed startup_error
  | NoProviders
  | OAuthServiceMissing string
  | TrustedProxiesInvalid
  | TailscaleNotInitialized

section \<open>The runtime configuration\<close>

definition prepare_provider ::
  "golib \<Rightarrow> string \<Rightarrow> oauth_service_config \<Rightarrow> app_error + oauth_service_config"
where
  "prepare_provider lib pid p =
     (if pid \<in> set reserved_provider_names then Inl (ReservedProvider pid)
      else (case get_string_list lib (osc_whitelist p) (osc_whitelist_file p) of
              None \<Rightarrow> Inl (ProviderWhitelistNotLoaded pid)
            | Some whitelist \<Rightarrow>
                let p1 = p\<lparr>osc_whitelist := whitelist,
                           osc_client_secret := get_secret lib (osc_client_secret p) (osc_client_secret_file p),
                           osc_client_secret_file := []\<rparr>
                in Inr (if osc_name p1 \<noteq> [] then p1
                        else p1\<lparr>osc_name := (case map_of override_providers pid of Some name \<Rightarrow> name | None \<Rightarrow> capitalize lib pid)\<rparr>)))"

fun prepare_providers ::
  "golib \<Rightarrow> string list \<Rightarrow> (string, oauth_service_config) gomap \<Rightarrow> app_error + (string, oauth_service_config) gomap"
where
  "prepare_providers lib [] m = Inr m"
| "prepare_providers lib (pid # pids) m =
     (case map_of m pid of
        None \<Rightarrow> prepare_providers lib pids m
      | Some p \<Rightarrow>
          (case prepare_provider lib pid p of
             Inl e \<Rightarrow> Inl e
           | Inr p1 \<Rightarrow> prepare_providers lib pids (AList.update pid p1 m)))"

definition session_config_ok :: "config \<Rightarrow> bool" where
  "session_config_ok cfg \<longleftrightarrow>
     au_session_max_lifetime (cfg_auth cfg) = 0 \<or> au_session_expiry (cfg_auth cfg) \<le> au_session_max_lifetime (cfg_auth cfg)"

text \<open>The names of the cookies end in the first part of the id of the application.\<close>

definition cookie_id :: "string \<Rightarrow> string" where
  "cookie_id uuid = hd (split_on (CHR ''-'') uuid)"

definition load_runtime :: "golib \<Rightarrow> config \<Rightarrow> string visit_order \<Rightarrow> app_error + runtime_config" where
  "load_runtime lib cfg ord =
     (if cfg_app_url cfg = [] then Inl EmptyAppUrl
      else (case lib_parse_url lib (cfg_app_url cfg) of
        None \<Rightarrow> Inl UnparsableAppUrl
      | Some u \<Rightarrow>
          let app_url = lib_to_lower lib (url_scheme u @ ''://'' @ url_host u)
          in if \<not> session_config_ok cfg then Inl MaxLifetimeTooShort
             else (case get_users lib (au_users (cfg_auth cfg)) (au_users_file (cfg_auth cfg)) (au_user_attributes (cfg_auth cfg)) of
               None \<Rightarrow> Inl UsersNotLoaded
             | Some users \<Rightarrow>
                 (case get_string_list lib (oac_whitelist (cfg_oauth cfg)) (oac_whitelist_file (cfg_oauth cfg)) of
                    None \<Rightarrow> Inl WhitelistNotLoaded
                  | Some whitelist \<Rightarrow>
                      (case prepare_providers lib (ord (gm_keys (oac_providers (cfg_oauth cfg)))) (oac_providers (cfg_oauth cfg)) of
                         Inl e \<Rightarrow> Inl e
                       | Inr providers \<Rightarrow>
                           (case get_cookie_domain lib app_url (au_subdomains_enabled (cfg_auth cfg)) of
                              Inl e \<Rightarrow> Inl (CookieDomainFailed e)
                            | Inr domain \<Rightarrow>
                                let uuid = generate_uuid lib (url_hostname u); cid = cookie_id uuid
                                in Inr \<lparr>rt_app_url = app_url, rt_uuid = uuid, rt_cookie_domain = domain,
                                        rt_session_cookie_name = ''tinyauth-session-'' @ cid,
                                        rt_csrf_cookie_name = ''tinyauth-csrf-'' @ cid,
                                        rt_redirect_cookie_name = ''tinyauth-redirect-'' @ cid,
                                        rt_oauth_session_cookie_name = ''tinyauth-oauth-'' @ cid,
                                        rt_local_users = (case users of None \<Rightarrow> [] | Some us \<Rightarrow> us),
                                        rt_oauth_providers = providers, rt_oauth_whitelist = whitelist,
                                        rt_configured_providers = []\<rparr>))))))"

section \<open>The store and the label provider\<close>

datatype store_choice = MemoryStore | SqliteStore string | PostgresStore string

definition choose_store :: "database_config \<Rightarrow> app_error + store_choice" where
  "choose_store db =
     (if db_driver db = ''memory'' then Inr MemoryStore
      else if db_driver db = ''sqlite'' \<or> db_driver db = [] then Inr (SqliteStore (db_path db))
      else if db_driver db = ''postgres'' then Inr (PostgresStore (db_path db))
      else Inl UnknownDriver)"

datatype source_start = SourceFails | SourceAbsent | SourceRuns

datatype label_source = NoSource | KubernetesSource | DockerSource

definition get_label_provider :: "string \<Rightarrow> bool \<Rightarrow> source_start \<Rightarrow> source_start \<Rightarrow> app_error + label_source" where
  "get_label_provider choice in_cluster kubernetes docker =
     (if choice \<notin> {''none'', ''docker'', ''kubernetes'', ''auto''} then Inl InvalidLabelProvider
      else if choice = ''none'' then Inr NoSource
      else if choice = ''kubernetes'' \<or> choice = ''auto'' \<and> in_cluster then
        (case kubernetes of
           SourceFails \<Rightarrow> Inl LabelProviderFailed | SourceAbsent \<Rightarrow> Inr NoSource | SourceRuns \<Rightarrow> Inr KubernetesSource)
      else
        (case docker of
           SourceFails \<Rightarrow> Inl LabelProviderFailed | SourceAbsent \<Rightarrow> Inr NoSource | SourceRuns \<Rightarrow> Inr DockerSource))"

section \<open>Services\<close>

text \<open>
  The world the services are started in. The fields on LDAP are those of \<open>new_ldap_service\<close>;
  \<open>ho_tailscale\<close> is what starting a Tailscale node gives: the lookup of addresses and the name of
  the node; \<open>ho_open\<close> opens a database and brings its schema up to date.
\<close>

record 's host =
  ho_lib :: golib
  ho_crypto :: crypto
  ho_world :: oauth_world
  ho_in_cluster :: bool
  ho_kubernetes :: source_start
  ho_docker :: source_start
  ho_ldap_cert :: bool
  ho_ldap_server :: ldap_server
  ho_ldap_dial :: dial
  ho_ldap_retries :: "dial list"
  ho_tailscale :: "((string \<Rightarrow> whois_answer) \<times> string) option"
  ho_open :: "store_choice \<Rightarrow> ('s store_ops \<times> 's) option"
  ho_jitter :: "int option"
  ho_proxies_valid :: "string list \<Rightarrow> bool"

definition new_tailscale_service ::
  "config \<Rightarrow> ((string \<Rightarrow> whois_answer) \<times> string) option \<Rightarrow> ((string \<Rightarrow> whois_answer) \<times> string) startup"
where
  "new_tailscale_service cfg node =
     (if \<not> ts_enabled (ex_tailscale (cfg_experimental cfg)) then NotConfigured
      else (case node of None \<Rightarrow> StartupError | Some t \<Rightarrow> Started t))"

fun optional_service :: "'a startup \<Rightarrow> 'e \<Rightarrow> 'e + 'a option" where
  "optional_service NotConfigured e = Inr None"
| "optional_service StartupError e = Inl e"
| "optional_service (Started x) e = Inr (Some x)"

record 's services =
  sv_labels :: label_source
  sv_auth :: "'s auth_env"
  sv_auth_state :: "'s auth_state"
  sv_tailscale :: "((string \<Rightarrow> whois_answer) \<times> string) option"
  sv_oidc :: "'s oidc_env option"

text \<open>
  The container makes a service when the first one that needs it is made: the policy engine and
  the label provider before all, then LDAP and Tailscale for the authentication service.
\<close>

definition setup_services ::
  "'s host \<Rightarrow> config \<Rightarrow> runtime_config \<Rightarrow> string visit_order \<Rightarrow> 's store_ops \<times> 's \<Rightarrow> file_system \<Rightarrow>
     (app_error + 's services) \<times> file_system"
where
  "setup_services h cfg rt ord store fs =
     (case setup_policy_engine (ho_lib h) cfg of
        None \<Rightarrow> (Inl PolicyFailed, fs)
      | Some engine \<Rightarrow>
          (case get_label_provider (cfg_label_provider cfg) (ho_in_cluster h) (ho_kubernetes h) (ho_docker h) of
             Inl e \<Rightarrow> (Inl e, fs)
           | Inr labels \<Rightarrow>
               (case optional_service (new_ldap_service (ho_lib h) cfg (ho_ldap_cert h) (ho_ldap_server h) (ho_ldap_dial h)
                        (ho_ldap_retries h)) LdapFailed of
                  Inl e \<Rightarrow> (Inl e, fs)
                | Inr ldap \<Rightarrow>
                    (case optional_service (new_tailscale_service cfg (ho_tailscale h)) TailscaleFailed of
                       Inl e \<Rightarrow> (Inl e, fs)
                     | Inr tailscale \<Rightarrow>
                         let auth = new_auth_service (ho_lib h) cfg rt (fst store) (snd store) ldap
                               (new_oauth_broker (ho_world h) ord rt) (ho_world h) (map_option fst tailscale) engine (ho_jitter h)
                         in (case new_oidc_service (ho_lib h) (ho_crypto h) cfg rt (fst store) ord fs of
                               (Inl e, fs1) \<Rightarrow> (Inl (OidcFailed e), fs1)
                             | (Inr oidc, fs1) \<Rightarrow>
                                 (Inr \<lparr>sv_labels = labels, sv_auth = fst auth, sv_auth_state = snd auth,
                                       sv_tailscale = tailscale, sv_oidc = oidc\<rparr>, fs1))))))"

section \<open>Providers and redirect URLs\<close>

text \<open>
  The providers are visited in an order the runtime chooses and then sorted by name; providers of
  the same name stay in an order that nothing fixes.
\<close>

definition provider_of :: "string \<times> oauth_service_config \<Rightarrow> provider" where
  "provider_of x = \<lparr>prov_name = osc_name (snd x), prov_id = fst x, prov_oauth = True\<rparr>"

definition configured_providers :: "string visit_order \<Rightarrow> runtime_config \<Rightarrow> bool \<Rightarrow> bool \<Rightarrow> provider list" where
  "configured_providers ord rt local ldap =
     (let m = rt_oauth_providers rt;
          visited = map (\<lambda>k. (k, the (map_of m k))) (ord (gm_keys m))
      in sort_key prov_name (map provider_of visited) @
         (if local then [\<lparr>prov_name = ''Local'', prov_id = ''local'', prov_oauth = False\<rparr>] else []) @
         (if ldap then [\<lparr>prov_name = ''LDAP'', prov_id = ''ldap'', prov_oauth = False\<rparr>] else []))"

text \<open>A program that listens on Tailscale goes by the name of its node.\<close>

definition listen_on_tailscale ::
  "golib \<Rightarrow> config \<Rightarrow> ((string \<Rightarrow> whois_answer) \<times> string) option \<Rightarrow> runtime_config \<Rightarrow> app_error + runtime_config"
where
  "listen_on_tailscale lib cfg tailscale rt =
     (case tailscale of
        None \<Rightarrow> Inr rt
      | Some (_, hostname) \<Rightarrow>
          let url = ''https://'' @ hostname
          in if \<not> ts_listen (ex_tailscale (cfg_experimental cfg)) \<or> url = rt_app_url rt then Inr rt
             else (case get_cookie_domain lib url (au_subdomains_enabled (cfg_auth cfg)) of
                     Inl e \<Rightarrow> Inl (CookieDomainFailed e)
                   | Inr domain \<Rightarrow> Inr (rt\<lparr>rt_app_url := url, rt_cookie_domain := domain\<rparr>)))"

definition redirect_url_for :: "runtime_config \<Rightarrow> string \<Rightarrow> string" where
  "redirect_url_for rt name = rt_app_url rt @ ''/api/oauth/callback/'' @ name"

definition with_redirect_url :: "runtime_config \<Rightarrow> string \<Rightarrow> oauth_service \<Rightarrow> oauth_service" where
  "with_redirect_url rt name s =
     (if osc_redirect_url (ov_config s) = []
      then oauth_update_config s ((ov_config s)\<lparr>osc_redirect_url := redirect_url_for rt name\<rparr>)
      else s)"

fun set_redirect_urls :: "runtime_config \<Rightarrow> string list \<Rightarrow> oauth_broker \<Rightarrow> app_error + oauth_broker" where
  "set_redirect_urls rt [] b = Inr b"
| "set_redirect_urls rt (n # ns) b =
     (case get_service b n of
        None \<Rightarrow> Inl (OAuthServiceMissing n)
      | Some s \<Rightarrow> set_redirect_urls rt ns (b\<lparr>ob_services := AList.update n (with_redirect_url rt n s) (ob_services b)\<rparr>))"

section \<open>The listener\<close>

datatype listener = TailscaleListener | UnixListener string | HttpListener string

definition get_listener :: "config \<Rightarrow> bool \<Rightarrow> app_error + listener" where
  "get_listener cfg tailscale =
     (if ts_listen (ex_tailscale (cfg_experimental cfg)) then
        (if tailscale then Inr TailscaleListener else Inl TailscaleNotInitialized)
      else if srv_socket_path (cfg_server cfg) \<noteq> [] then Inr (UnixListener (srv_socket_path (cfg_server cfg)))
      else Inr (HttpListener (srv_address (cfg_server cfg) @ '':'' @ itoa (srv_port (cfg_server cfg)))))"

section \<open>Setup\<close>

text \<open>
  The running program. The services share the runtime configuration through a pointer, so they see
  the providers and the address that \<open>Setup\<close> fills in after it made them; what a service computed
  from it at its start (the issuer of the OpenID Connect provider) stays.
\<close>

record 's tinyauth =
  ta_auth :: "'s auth_env"
  ta_oidc :: "'s oidc_env option"
  ta_labels :: label_source
  ta_listener :: listener

definition ta_runtime :: "'s tinyauth \<Rightarrow> runtime_config" where
  "ta_runtime app = ae_runtime (ta_auth app)"

record 's tinyauth_state =
  tt_auth :: "'s auth_state"
  tt_oidc :: "'s oidc_state"

text \<open>What follows once the services run.\<close>

definition finish_setup ::
  "'s host \<Rightarrow> config \<Rightarrow> runtime_config \<Rightarrow> string visit_order \<Rightarrow> 's services \<Rightarrow> app_error + 's tinyauth \<times> 's tinyauth_state"
where
  "finish_setup h cfg rt ord sv =
     (let auth = sv_auth sv;
          providers = configured_providers ord rt (local_auth_configured rt) (ldap_auth_configured auth)
      in if providers = [] then Inl NoProviders
         else (case listen_on_tailscale (ho_lib h) cfg (sv_tailscale sv) (rt\<lparr>rt_configured_providers := providers\<rparr>) of
           Inl e \<Rightarrow> Inl e
         | Inr rt1 \<Rightarrow>
             (case set_redirect_urls rt1 (get_configured_services ord (ae_broker auth)) (ae_broker auth) of
                Inl e \<Rightarrow> Inl e
              | Inr broker \<Rightarrow>
                  if au_trusted_proxies (cfg_auth cfg) \<noteq> [] \<and> \<not> ho_proxies_valid h (au_trusted_proxies (cfg_auth cfg))
                  then Inl TrustedProxiesInvalid
                  else (case get_listener cfg (sv_tailscale sv \<noteq> None) of
                          Inl e \<Rightarrow> Inl e
                        | Inr l \<Rightarrow>
                            Inr (\<lparr>ta_auth = auth\<lparr>ae_runtime := rt1, ae_broker := broker\<rparr>,
                                  ta_oidc = map_option (\<lambda>env. env\<lparr>oe_runtime := rt1\<rparr>) (sv_oidc sv),
                                  ta_labels = sv_labels sv, ta_listener = l\<rparr>,
                                 \<lparr>tt_auth = sv_auth_state sv, tt_oidc = new_oidc_state (as_store (sv_auth_state sv))\<rparr>)))))"

definition app_setup ::
  "'s host \<Rightarrow> config \<Rightarrow> string visit_order \<Rightarrow> file_system \<Rightarrow>
     (app_error + 's tinyauth \<times> 's tinyauth_state) \<times> file_system"
where
  "app_setup h cfg ord fs =
     (case load_runtime (ho_lib h) cfg ord of
        Inl e \<Rightarrow> (Inl e, fs)
      | Inr rt \<Rightarrow>
          (case choose_store (cfg_database cfg) of
             Inl e \<Rightarrow> (Inl e, fs)
           | Inr choice \<Rightarrow>
               (case ho_open h choice of
                  None \<Rightarrow> (Inl StoreFailed, fs)
                | Some store \<Rightarrow>
                    (case setup_services h cfg rt ord store fs of
                       (Inl e, fs1) \<Rightarrow> (Inl e, fs1)
                     | (Inr sv, fs1) \<Rightarrow> (finish_setup h cfg rt ord sv, fs1)))))"

text \<open>A tick of the routine that cleans the database; an error is only logged.\<close>

definition db_cleanup_tick :: "'s auth_env \<Rightarrow> int \<Rightarrow> 's auth_state \<Rightarrow> 's auth_state" where
  "db_cleanup_tick env now st = st\<lparr>as_store := snd (delete_expired_sessions_op (ae_ops env) (unix now) (as_store st))\<rparr>"

section \<open>What a started program can rely on\<close>

lemma prepare_provider_ok:
  "prepare_provider lib pid p = Inr q \<Longrightarrow>
     pid \<notin> set reserved_provider_names \<and> osc_client_secret_file q = [] \<and> osc_redirect_url q = osc_redirect_url p \<and>
     osc_client_secret q = get_secret lib (osc_client_secret p) (osc_client_secret_file p)"
  by (auto simp: prepare_provider_def Let_def split: if_splits option.splits)

text \<open>Whatever the order of the visit, every provider is prepared from its own configuration.\<close>

lemma prepare_providers_ok:
  assumes "prepare_providers lib ids m = Inr m'" "distinct ids"
  shows "map_of m' k = (if k \<in> set ids
       then (case map_of m k of None \<Rightarrow> None | Some p \<Rightarrow> (case prepare_provider lib k p of Inr q \<Rightarrow> Some q | Inl _ \<Rightarrow> None))
       else map_of m k) \<and>
     (k \<in> set ids \<longrightarrow> (\<forall>p. map_of m k = Some p \<longrightarrow> (\<exists>q. prepare_provider lib k p = Inr q)))"
  using assms
proof (induction lib ids m rule: prepare_providers.induct)
  case (2 lib pid pids m)
  show ?case
  proof (cases "map_of m pid")
    case None
    with 2 show ?thesis by auto
  next
    case (Some p)
    with 2(3) obtain q where q: "prepare_provider lib pid p = Inr q" by (auto split: sum.splits)
    from 2(2) [OF Some q] 2(3,4) Some q show ?thesis by (auto simp: gm_update)
  qed
qed simp

lemma load_runtime_ok:
  assumes "load_runtime lib cfg ord = Inr rt"
  obtains u where "lib_parse_url lib (cfg_app_url cfg) = Some u"
    "rt_app_url rt = lib_to_lower lib (url_scheme u @ ''://'' @ url_host u)" "session_config_ok cfg"
    "prepare_providers lib (ord (gm_keys (oac_providers (cfg_oauth cfg)))) (oac_providers (cfg_oauth cfg)) = Inr (rt_oauth_providers rt)"
    "get_cookie_domain lib (rt_app_url rt) (au_subdomains_enabled (cfg_auth cfg)) = Inr (rt_cookie_domain rt)"
  using assms
  by (auto simp: load_runtime_def Let_def split: if_splits option.splits sum.splits)

lemma with_redirect_url_twice [simp]: "with_redirect_url rt n (with_redirect_url rt n s) = with_redirect_url rt n s"
  by (simp add: with_redirect_url_def oauth_update_config_def redirect_url_for_def)

lemma with_redirect_url_set [simp]: "osc_redirect_url (ov_config (with_redirect_url rt n s)) \<noteq> []"
  by (simp add: with_redirect_url_def oauth_update_config_def redirect_url_for_def)

lemma set_redirect_urls_ok:
  "set_redirect_urls rt ns b = Inr b' \<Longrightarrow>
     get_service b' k = (if k \<in> set ns then map_option (with_redirect_url rt k) (get_service b k) else get_service b k)"
proof (induction rt ns b rule: set_redirect_urls.induct)
  case (2 rt n ns b)
  then show ?case
    by (cases "get_service b n") (auto simp: get_service_def gm_update option.map_comp comp_def)
qed simp

lemma listen_keeps:
  "listen_on_tailscale lib cfg t r = Inr r1 \<Longrightarrow>
     rt_configured_providers r1 = rt_configured_providers r \<and> rt_oauth_providers r1 = rt_oauth_providers r"
  by (auto simp: listen_on_tailscale_def Let_def split: option.splits if_splits sum.splits)

lemma finish_setup_ok:
  assumes "finish_setup h cfg rt ord sv = Inr (app, st)"
  obtains providers rt1 broker where "providers \<noteq> []"
    "providers = configured_providers ord rt (local_auth_configured rt) (ldap_auth_configured (sv_auth sv))"
    "listen_on_tailscale (ho_lib h) cfg (sv_tailscale sv) (rt\<lparr>rt_configured_providers := providers\<rparr>) = Inr rt1"
    "set_redirect_urls rt1 (get_configured_services ord (ae_broker (sv_auth sv))) (ae_broker (sv_auth sv)) = Inr broker"
    "get_listener cfg (sv_tailscale sv \<noteq> None) = Inr (ta_listener app)"
    "ta_auth app = (sv_auth sv)\<lparr>ae_runtime := rt1, ae_broker := broker\<rparr>"
    "ta_oidc app = map_option (\<lambda>env. env\<lparr>oe_runtime := rt1\<rparr>) (sv_oidc sv)"
    "tt_auth st = sv_auth_state sv" "tt_oidc st = new_oidc_state (as_store (sv_auth_state sv))"
proof -
  let ?p = "configured_providers ord rt (local_auth_configured rt) (ldap_auth_configured (sv_auth sv))"
  let ?rt = "rt\<lparr>rt_configured_providers := ?p\<rparr>"
  from assms have p: "?p \<noteq> []" by (auto simp: finish_setup_def Let_def)
  obtain rt1 where l: "listen_on_tailscale (ho_lib h) cfg (sv_tailscale sv) ?rt = Inr rt1"
    using assms p by (cases "listen_on_tailscale (ho_lib h) cfg (sv_tailscale sv) ?rt") (simp_all add: finish_setup_def Let_def)
  obtain broker where b: "set_redirect_urls rt1 (get_configured_services ord (ae_broker (sv_auth sv))) (ae_broker (sv_auth sv)) = Inr broker"
    using assms p l
    by (cases "set_redirect_urls rt1 (get_configured_services ord (ae_broker (sv_auth sv))) (ae_broker (sv_auth sv))")
      (simp_all add: finish_setup_def Let_def)
  obtain x where x: "get_listener cfg (sv_tailscale sv \<noteq> None) = Inr x"
    using assms p l b by (cases "get_listener cfg (sv_tailscale sv \<noteq> None)") (simp_all add: finish_setup_def Let_def split: if_splits)
  have "app = \<lparr>ta_auth = (sv_auth sv)\<lparr>ae_runtime := rt1, ae_broker := broker\<rparr>,
        ta_oidc = map_option (\<lambda>env. env\<lparr>oe_runtime := rt1\<rparr>) (sv_oidc sv), ta_labels = sv_labels sv, ta_listener = x\<rparr>"
    "st = \<lparr>tt_auth = sv_auth_state sv, tt_oidc = new_oidc_state (as_store (sv_auth_state sv))\<rparr>"
    using assms p l b x by (simp_all add: finish_setup_def Let_def split: if_splits)
  with that [OF p refl l b] x show thesis by simp
qed

lemma setup_services_ok:
  assumes "setup_services h cfg rt ord store fs = (Inr sv, fs1)"
  obtains ldap engine where
    "optional_service (new_tailscale_service cfg (ho_tailscale h)) TailscaleFailed = Inr (sv_tailscale sv)"
    "new_auth_service (ho_lib h) cfg rt (fst store) (snd store) ldap (new_oauth_broker (ho_world h) ord rt) (ho_world h)
       (map_option fst (sv_tailscale sv)) engine (ho_jitter h) = (sv_auth sv, sv_auth_state sv)"
    "new_oidc_service (ho_lib h) (ho_crypto h) cfg rt (fst store) ord fs = (Inr (sv_oidc sv), fs1)"
  using assms
  by (auto simp: setup_services_def Let_def split: option.splits sum.splits prod.splits)

lemma app_setup_ok:
  assumes "app_setup h cfg ord fs = (Inr (app, st), fs')"
  obtains rt choice store sv where "load_runtime (ho_lib h) cfg ord = Inr rt" "choose_store (cfg_database cfg) = Inr choice"
    "ho_open h choice = Some store" "setup_services h cfg rt ord store fs = (Inr sv, fs')"
    "finish_setup h cfg rt ord sv = Inr (app, st)"
  using assms by (auto simp: app_setup_def split: option.splits sum.splits prod.splits)

lemma new_auth_service_fields:
  assumes "new_auth_service lib cfg rt ops store ldap broker world tailscale engine jitter = (env, st)"
  shows "ae_broker env = broker" "ae_ops env = ops" "as_store st = store" "\<exists>n. as_oauth st = new_cache_store n"
  using assms by (auto simp: new_auth_service_def Let_def)

lemma new_oidc_service_ok:
  assumes "new_oidc_service lib cr cfg rt ops ord fs = (Inr (Some env), fs1)"
  obtains u where "lib_parse_url lib (rt_app_url rt) = Some u" "url_scheme u = ''https''"
    "oe_issuer env = ''https://'' @ url_host u" "oe_ops env = ops"
  using assms
  by (auto simp: new_oidc_service_def Let_def split: if_splits option.splits sum.splits prod.splits public_key.splits)

text \<open>Every service of the broker is that of its own configuration.\<close>

lemma started_services:
  assumes "app_setup h cfg ord fs = (Inr (app, st), fs')" "visits ord" "gm_wf (oac_providers (cfg_oauth cfg))"
    "get_service (ae_broker (ta_auth app)) n = Some x"
  shows "n \<notin> set reserved_provider_names \<and> osc_redirect_url (ov_config x) \<noteq> [] \<and>
     (\<exists>p q. map_of (oac_providers (cfg_oauth cfg)) n = Some p \<and> prepare_provider (ho_lib h) n p = Inr q \<and>
            x = with_redirect_url (ta_runtime app) n (make_service (ho_world h) n q))"
proof -
  let ?new = "\<lambda>rt. new_oauth_broker (ho_world h) ord rt"
  obtain rt choice store sv where s: "load_runtime (ho_lib h) cfg ord = Inr rt" "setup_services h cfg rt ord store fs = (Inr sv, fs')"
    "finish_setup h cfg rt ord sv = Inr (app, st)" by (rule app_setup_ok [OF assms(1)])
  obtain ldap engine where "new_auth_service (ho_lib h) cfg rt (fst store) (snd store) ldap (?new rt)
       (ho_world h) (map_option fst (sv_tailscale sv)) engine (ho_jitter h) = (sv_auth sv, sv_auth_state sv)"
    by (rule setup_services_ok [OF s(2)])
  note auth = new_auth_service_fields [OF this]
  obtain providers rt1 broker where
    b: "set_redirect_urls rt1 (get_configured_services ord (ae_broker (sv_auth sv))) (ae_broker (sv_auth sv)) = Inr broker"
      "ta_auth app = (sv_auth sv)\<lparr>ae_runtime := rt1, ae_broker := broker\<rparr>" by (rule finish_setup_ok [OF s(3)])
  obtain u where
    r: "prepare_providers (ho_lib h) (ord (gm_keys (oac_providers (cfg_oauth cfg)))) (oac_providers (cfg_oauth cfg)) = Inr (rt_oauth_providers rt)"
    by (rule load_runtime_ok [OF s(1)])
  have ids: "distinct (ord (gm_keys (oac_providers (cfg_oauth cfg))))"
    using assms(2,3) by (simp add: visits_distinct)
  have n: "n \<in> set (get_configured_services ord (?new rt))" if "get_service (?new rt) n \<noteq> None"
    using that visits_set [OF assms(2)] by (auto simp: get_configured_services_def get_service_def set_gm_keys domIff simp del: set_map)
  from assms(4) set_redirect_urls_ok [OF b(1), of n] n auth b(2) obtain y where
    y: "get_service (?new rt) n = Some y" "x = with_redirect_url rt1 n y"
    by (cases "get_service (?new rt) n") (auto split: if_splits)
  then obtain q where q: "map_of (rt_oauth_providers rt) n = Some q" "y = make_service (ho_world h) n q"
    by (auto simp: get_service_new [OF assms(2)])
  with prepare_providers_ok [OF r ids, of n] obtain p where
    "map_of (oac_providers (cfg_oauth cfg)) n = Some p" "prepare_provider (ho_lib h) n p = Inr q"
    using visits_set [OF assms(2), of "gm_keys (oac_providers (cfg_oauth cfg))"] set_gm_keys [of "oac_providers (cfg_oauth cfg)"]
    by (auto split: if_splits option.splits sum.splits simp del: set_map simp: domIff)
  with y q prepare_provider_ok b(2) show ?thesis by (auto simp: ta_runtime_def)
qed

text \<open>Both services work on the store that was opened; no login is pending.\<close>

lemma started_store:
  assumes "app_setup h cfg ord fs = (Inr (app, st), fs')"
  shows "(\<exists>choice. choose_store (cfg_database cfg) = Inr choice \<and>
      ho_open h choice = Some (ae_ops (ta_auth app), as_store (tt_auth st))) \<and>
    tt_oidc st = new_oidc_state (as_store (tt_auth st)) \<and> (\<exists>n. as_oauth (tt_auth st) = new_cache_store n) \<and>
    (\<forall>env. ta_oidc app = Some env \<longrightarrow> take 8 (oe_issuer env) = ''https://'' \<and> oe_ops env = ae_ops (ta_auth app))"
proof -
  obtain rt choice store sv where s: "choose_store (cfg_database cfg) = Inr choice"
    "ho_open h choice = Some store" "setup_services h cfg rt ord store fs = (Inr sv, fs')"
    "finish_setup h cfg rt ord sv = Inr (app, st)" by (rule app_setup_ok [OF assms(1)])
  obtain ldap engine where sv: "new_auth_service (ho_lib h) cfg rt (fst store) (snd store) ldap (new_oauth_broker (ho_world h) ord rt)
       (ho_world h) (map_option fst (sv_tailscale sv)) engine (ho_jitter h) = (sv_auth sv, sv_auth_state sv)"
    "new_oidc_service (ho_lib h) (ho_crypto h) cfg rt (fst store) ord fs = (Inr (sv_oidc sv), fs')"
    by (rule setup_services_ok [OF s(3)])
  note auth = new_auth_service_fields [OF sv(1)]
  obtain providers rt1 broker where f: "ta_auth app = (sv_auth sv)\<lparr>ae_runtime := rt1, ae_broker := broker\<rparr>"
    "ta_oidc app = map_option (\<lambda>env. env\<lparr>oe_runtime := rt1\<rparr>) (sv_oidc sv)"
    "tt_auth st = sv_auth_state sv" "tt_oidc st = new_oidc_state (as_store (sv_auth_state sv))"
    by (rule finish_setup_ok [OF s(4)])
  have "take 8 (oe_issuer env) = ''https://'' \<and> oe_ops env = fst store" if "sv_oidc sv = Some env" for env
    using sv(2) that by (auto elim!: new_oidc_service_ok)
  with f auth s(1,2) show ?thesis by auto
qed


text \<open>
  The issuer is computed before the address of the application is replaced: a program that listens
  on Tailscale goes by the name of its node, its OpenID Connect provider still by the configured one.
\<close>

theorem tailscale_keeps_issuer:
  assumes "app_setup h cfg ord fs = (Inr (app, st), fs')" "ta_listener app = TailscaleListener" "ta_oidc app = Some env"
  shows "\<exists>rt u whois node. load_runtime (ho_lib h) cfg ord = Inr rt \<and> lib_parse_url (ho_lib h) (rt_app_url rt) = Some u \<and>
     oe_issuer env = ''https://'' @ url_host u \<and> ho_tailscale h = Some (whois, node) \<and>
     rt_app_url (ta_runtime app) = ''https://'' @ node"
proof -
  obtain rt choice store sv where s: "load_runtime (ho_lib h) cfg ord = Inr rt" "setup_services h cfg rt ord store fs = (Inr sv, fs')"
    "finish_setup h cfg rt ord sv = Inr (app, st)" by (rule app_setup_ok [OF assms(1)])
  obtain ldap engine where sv: "optional_service (new_tailscale_service cfg (ho_tailscale h)) TailscaleFailed = Inr (sv_tailscale sv)"
    "new_oidc_service (ho_lib h) (ho_crypto h) cfg rt (fst store) ord fs = (Inr (sv_oidc sv), fs')"
    by (rule setup_services_ok [OF s(2)])
  obtain providers rt1 broker where
    f: "listen_on_tailscale (ho_lib h) cfg (sv_tailscale sv) (rt\<lparr>rt_configured_providers := providers\<rparr>) = Inr rt1"
      "get_listener cfg (sv_tailscale sv \<noteq> None) = Inr (ta_listener app)"
      "ta_auth app = (sv_auth sv)\<lparr>ae_runtime := rt1, ae_broker := broker\<rparr>"
      "ta_oidc app = map_option (\<lambda>env. env\<lparr>oe_runtime := rt1\<rparr>) (sv_oidc sv)"
    by (rule finish_setup_ok [OF s(3)])
  from f(2) assms(2) have on: "ts_listen (ex_tailscale (cfg_experimental cfg))" "sv_tailscale sv \<noteq> None"
    by (auto simp: get_listener_def split: if_splits)
  then obtain whois node where node: "sv_tailscale sv = Some (whois, node)" by auto
  with sv(1) have "ho_tailscale h = Some (whois, node)"
    by (auto simp: new_tailscale_service_def split: if_splits option.splits)
  moreover from f(1) on node have "rt_app_url rt1 = ''https://'' @ node"
    by (auto simp: listen_on_tailscale_def Let_def split: if_splits sum.splits)
  moreover from assms(3) f(4) obtain env0 where "sv_oidc sv = Some env0" "oe_issuer env = oe_issuer env0" by auto
  with sv(2) obtain u where "lib_parse_url (ho_lib h) (rt_app_url rt) = Some u" "oe_issuer env = ''https://'' @ url_host u"
    by (auto elim: new_oidc_service_ok)
  ultimately show ?thesis using s(1) f(3) by (auto simp: ta_runtime_def)
qed

section \<open>A program that starts\<close>

definition demo_setup_config :: config where
  "demo_setup_config = default_configuration\<lparr>cfg_app_url := ''https://Auth.x.io'', cfg_label_provider := ''none'',
     cfg_database := \<lparr>db_driver = ''memory'', db_path = []\<rparr>,
     cfg_oauth := zero_oauth_config\<lparr>oac_providers := [(''pocket'', zero_oauth_service_config), (''github'', zero_oauth_service_config)]\<rparr>,
     cfg_oidc := \<lparr>oic_private_key_path = ''k'', oic_public_key_path = ''p'', oic_clients = [(''wiki'', demo_client)]\<rparr>\<rparr>"

definition demo_host :: "memory_store host" where
  "demo_host = \<lparr>ho_lib = ascii_lib, ho_crypto = demo_crypto, ho_world = demo_world, ho_in_cluster = False,
     ho_kubernetes = SourceAbsent, ho_docker = SourceAbsent, ho_ldap_cert = True, ho_ldap_server = closed_server,
     ho_ldap_dial = DialFails, ho_ldap_retries = [], ho_tailscale = None,
     ho_open = (\<lambda>c. if c = MemoryStore then Some (memory_ops id, new_memory_store) else None), ho_jitter = Some 7,
     ho_proxies_valid = (\<lambda>ps. True)\<rparr>"

lemma demo_starts: "(case fst (app_setup demo_host demo_setup_config rev (\<lambda>p. FileMissing)) of
    Inl _ \<Rightarrow> False | Inr (app, st) \<Rightarrow> get_service (ae_broker (ta_auth app)) ''pocket'' \<noteq> None \<and> ta_oidc app \<noteq> None)"
  by code_simp


end
