(* ===== verification/Router.thy ===== *)
theory Router
  imports Startup UserController OidcHistory
begin

text \<open>
  The program as one step per request: the middlewares and the routes that
  \<open>internal/bootstrap/router_bootstrap.go\<close> and the constructors of the controllers register, and the
  background routines. The two services share one store. What a request meets besides the state
  (the clock, random bytes, the labels of containers, the files of the frontend) is a \<open>moment\<close>.
  Redirects that the router makes on its own for a trailing slash are not modelled: such a path has
  no route here.
\<close>

section \<open>Routes\<close>

datatype endpoint =
    UserContextEndpoint
  | AppContextEndpoint
  | HealthEndpoint
  | OauthUrlEndpoint string
  | OauthCallbackEndpoint string
  | OidcAuthorizeEndpoint
  | OidcCompleteEndpoint
  | OidcTokenEndpoint
  | OidcUserinfoEndpoint
  | ProxyEndpoint string
  | LoginEndpoint
  | LogoutEndpoint
  | TotpEndpoint
  | TailscaleEndpoint
  | ResourcesEndpoint
  | DiscoveryEndpoint
  | JwksEndpoint
  | WebfingerEndpoint

text \<open>
  A route: its methods, its path, whose parameters match one segment that is not empty, and what the
  parameters make of it. The group of the paths below \<open>/api\<close> is made in \<open>setupRouter\<close>.
\<close>

datatype segment = Exactly string | Parameter | RestOfPath

record route_entry =
  ro_methods :: "string list"
  ro_path :: "segment list"
  ro_endpoint :: "string list \<Rightarrow> endpoint"

definition entry_for :: "string list \<Rightarrow> segment list \<Rightarrow> endpoint \<Rightarrow> route_entry" where
  "entry_for methods path ep = \<lparr>ro_methods = methods, ro_path = path, ro_endpoint = (\<lambda>_. ep)\<rparr>"

definition any_method :: "string list" where
  "any_method = [''GET'', ''POST'', ''PUT'', ''PATCH'', ''HEAD'', ''OPTIONS'', ''DELETE'', ''CONNECT'', ''TRACE'']"

definition context_routes :: "route_entry list" where
  "context_routes =
     [entry_for [''GET''] [Exactly ''api'', Exactly ''context'', Exactly ''user''] UserContextEndpoint,
      entry_for [''GET''] [Exactly ''api'', Exactly ''context'', Exactly ''app''] AppContextEndpoint]"

definition oauth_routes :: "route_entry list" where
  "oauth_routes =
     [\<lparr>ro_methods = [''GET''], ro_path = [Exactly ''api'', Exactly ''oauth'', Exactly ''url'', Parameter],
       ro_endpoint = (\<lambda>ps. OauthUrlEndpoint (concat ps))\<rparr>,
      \<lparr>ro_methods = [''GET''], ro_path = [Exactly ''api'', Exactly ''oauth'', Exactly ''callback'', Parameter],
       ro_endpoint = (\<lambda>ps. OauthCallbackEndpoint (concat ps))\<rparr>]"

definition oidc_routes :: "route_entry list" where
  "oidc_routes =
     [entry_for [''POST'', ''GET''] [Exactly ''authorize''] OidcAuthorizeEndpoint,
      entry_for [''POST''] [Exactly ''api'', Exactly ''oidc'', Exactly ''authorize-complete''] OidcCompleteEndpoint,
      entry_for [''POST''] [Exactly ''api'', Exactly ''oidc'', Exactly ''token''] OidcTokenEndpoint,
      entry_for [''GET'', ''POST''] [Exactly ''api'', Exactly ''oidc'', Exactly ''userinfo''] OidcUserinfoEndpoint]"

definition proxy_routes :: "route_entry list" where
  "proxy_routes =
     [\<lparr>ro_methods = any_method, ro_path = [Exactly ''api'', Exactly ''auth'', Parameter],
       ro_endpoint = (\<lambda>ps. ProxyEndpoint (concat ps))\<rparr>]"

definition user_routes :: "route_entry list" where
  "user_routes =
     [entry_for [''POST''] [Exactly ''api'', Exactly ''user'', Exactly ''login''] LoginEndpoint,
      entry_for [''POST''] [Exactly ''api'', Exactly ''user'', Exactly ''logout''] LogoutEndpoint,
      entry_for [''POST''] [Exactly ''api'', Exactly ''user'', Exactly ''totp''] TotpEndpoint,
      entry_for [''POST''] [Exactly ''api'', Exactly ''user'', Exactly ''tailscale''] TailscaleEndpoint]"

definition resources_routes :: "route_entry list" where
  "resources_routes = [entry_for [''GET''] [Exactly ''resources'', RestOfPath] ResourcesEndpoint]"

definition health_routes :: "route_entry list" where
  "health_routes = [entry_for [''GET'', ''HEAD''] [Exactly ''api'', Exactly ''healthz''] HealthEndpoint]"

definition well_known_routes :: "route_entry list" where
  "well_known_routes =
     [entry_for [''GET''] [Exactly ''.well-known'', Exactly ''openid-configuration''] DiscoveryEndpoint,
      entry_for [''GET''] [Exactly ''.well-known'', Exactly ''jwks.json''] JwksEndpoint,
      entry_for [''GET''] [Exactly ''.well-known'', Exactly ''webfinger''] WebfingerEndpoint]"

definition route_table :: "route_entry list" where
  "route_table = context_routes @ oauth_routes @ oidc_routes @ proxy_routes @ user_routes @ resources_routes @
     health_routes @ well_known_routes"

text \<open>The parameters of a path that matches.\<close>

fun match_path :: "segment list \<Rightarrow> string list \<Rightarrow> string list option" where
  "match_path [] [] = Some []"
| "match_path (Exactly a # segs) (x # xs) = (if a = x then match_path segs xs else None)"
| "match_path (Parameter # segs) (x # xs) =
     (if x = [] then None else map_option (\<lambda>ps. x # ps) (match_path segs xs))"
| "match_path [RestOfPath] (x # xs) = Some (x # xs)"
| "match_path _ _ = None"

definition find_route :: "route_entry list \<Rightarrow> string \<Rightarrow> string \<Rightarrow> endpoint option" where
  "find_route table method path =
     (case split_on (CHR ''/'') path of
        [] # segs \<Rightarrow>
          (case List.find (\<lambda>r. method \<in> set (ro_methods r) \<and> match_path (ro_path r) segs \<noteq> None) table of
             None \<Rightarrow> None
           | Some r \<Rightarrow> map_option (ro_endpoint r) (match_path (ro_path r) segs))
      | _ \<Rightarrow> None)"

abbreviation route :: "string \<Rightarrow> string \<Rightarrow> endpoint option" where
  "route \<equiv> find_route route_table"

text \<open>Whether some path matches both.\<close>

fun paths_meet :: "segment list \<Rightarrow> segment list \<Rightarrow> bool" where
  "paths_meet [] [] = True"
| "paths_meet (Exactly a # xs) (Exactly b # ys) = (a = b \<and> paths_meet xs ys)"
| "paths_meet (Exactly a # xs) (Parameter # ys) = (a \<noteq> [] \<and> paths_meet xs ys)"
| "paths_meet (Parameter # xs) (Exactly b # ys) = (b \<noteq> [] \<and> paths_meet xs ys)"
| "paths_meet (Parameter # xs) (Parameter # ys) = paths_meet xs ys"
| "paths_meet (RestOfPath # xs) (y # ys) = True"
| "paths_meet (x # xs) (RestOfPath # ys) = True"
| "paths_meet _ _ = False"

lemma match_Exactly: "match_path (Exactly a # p) segs = Some ps \<longleftrightarrow> (\<exists>xs. segs = a # xs \<and> match_path p xs = Some ps)"
  by (cases segs) auto

lemma match_Parameter:
  "match_path (Parameter # p) segs = Some ps \<longleftrightarrow>
     (\<exists>x xs qs. segs = x # xs \<and> x \<noteq> [] \<and> ps = x # qs \<and> match_path p xs = Some qs)"
  by (cases segs) auto

lemma match_Nil [simp]:
  "match_path [] segs = Some ps \<longleftrightarrow> segs = [] \<and> ps = []"
  "match_path p [] = Some ps \<longleftrightarrow> p = [] \<and> ps = []"
proof -
  show "match_path [] segs = Some ps \<longleftrightarrow> segs = [] \<and> ps = []" by (cases segs) auto
  show "match_path p [] = Some ps \<longleftrightarrow> p = [] \<and> ps = []" by (cases "(p, []::string list)" rule: match_path.cases) auto
qed

lemma match_path_meet:
  "match_path p segs = Some ps \<Longrightarrow> match_path q segs = Some qs \<Longrightarrow> paths_meet p q"
  by (induction p q arbitrary: segs ps qs rule: paths_meet.induct)
    (auto simp: match_Exactly match_Parameter)

definition apart :: "route_entry \<Rightarrow> route_entry \<Rightarrow> bool" where
  "apart r t \<longleftrightarrow> list_all (\<lambda>m. m \<notin> set (ro_methods t)) (ro_methods r) \<or> \<not> paths_meet (ro_path r) (ro_path t)"

lemma routes_apart: "sorted_wrt apart route_table"
  by code_simp

lemma routes_start: "list_all (\<lambda>r. ro_path r \<noteq> []) route_table"
  by code_simp

definition takes :: "string \<Rightarrow> string list \<Rightarrow> route_entry \<Rightarrow> bool" where
  "takes method segs r \<longleftrightarrow> method \<in> set (ro_methods r) \<and> match_path (ro_path r) segs \<noteq> None"

lemma find_route_unfold:
  "find_route table method path =
     (case split_on (CHR ''/'') path of
        [] # segs \<Rightarrow> Option.bind (List.find (takes method segs) table) (\<lambda>r. map_option (ro_endpoint r) (match_path (ro_path r) segs))
      | _ \<Rightarrow> None)"
  by (auto simp: find_route_def takes_def [abs_def] split: list.split option.split)

lemma find_unique:
  assumes "sorted_wrt Q xs" "\<And>x y. Q x y \<Longrightarrow> P x \<Longrightarrow> \<not> P y" "x \<in> set xs" "P x"
  shows "List.find P xs = Some x"
  using assms by (induction xs) auto

lemma takes_apart: "apart r t \<Longrightarrow> takes m segs r \<Longrightarrow> \<not> takes m segs t"
  by (cases "match_path (ro_path t) segs") (auto simp: apart_def takes_def list_all_iff dest: match_path_meet)

lemma find_any_order:
  assumes "set table = set route_table"
  shows "List.find (takes m segs) table = List.find (takes m segs) route_table"
proof (cases "List.find (takes m segs) table")
  case None
  with assms have "\<forall>r\<in>set route_table. \<not> takes m segs r" by (simp add: find_None_iff)
  then have "List.find (takes m segs) route_table = None" by (simp add: find_None_iff)
  with None show ?thesis by simp
next
  case (Some r)
  with assms have "r \<in> set route_table" "takes m segs r" by (auto simp: find_Some_iff)
  from find_unique [where P = "takes m segs", OF routes_apart takes_apart this] Some show ?thesis by simp
qed

text \<open>The methods, the segments and the endpoint of a request that has a route.\<close>

lemma route_taken:
  assumes "route method path = Some ep"
  obtains r segs ps where "r \<in> set route_table" "method \<in> set (ro_methods r)" "match_path (ro_path r) segs = Some ps"
    "ep = ro_endpoint r ps" "path = CHR ''/'' # join_with ''/'' segs"
proof -
  from assms obtain segs where s: "split_on (CHR ''/'') path = [] # segs"
    by (auto simp: find_route_def split: list.splits)
  with assms obtain r where r: "List.find (takes method segs) route_table = Some r"
    "map_option (ro_endpoint r) (match_path (ro_path r) segs) = Some ep"
    by (auto simp: find_route_unfold bind_eq_Some_conv)
  from r(1) have "r \<in> set route_table" "takes method segs r" by (auto simp: find_Some_iff)
  moreover from this routes_start have "segs \<noteq> []" by (auto simp: takes_def list_all_iff)
  with s join_split [of "CHR ''/''" path] have "path = CHR ''/'' # join_with ''/'' segs" by (cases segs) auto
  ultimately show thesis using r(2) that by (auto simp: takes_def)
qed

section \<open>Requests\<close>

text \<open>
  \<open>mo_clock\<close> are the readings of the clock in their order, the first one is the middleware's;
  \<open>mo_fresh\<close> is the id of a new session (\<open>None\<close> when none could be made), \<open>mo_random\<close> the random
  bytes of a ticket or a code and \<open>mo_tokens\<close> those of two tokens; \<open>mo_labels\<close> is what the label
  provider finds in this moment.
\<close>

record moment =
  mo_order :: "string visit_order"
  mo_clock :: "nat \<Rightarrow> int"
  mo_fresh :: "string option"
  mo_state :: string
  mo_verifier :: string
  mo_random :: string
  mo_tokens :: "string \<times> string"
  mo_labels :: "(string \<Rightarrow> unit provider_answer) option"
  mo_stat :: "string \<Rightarrow> file_stat"

definition on_auth :: "('s auth_state \<Rightarrow> 'r \<times> 's auth_state) \<Rightarrow> 's tinyauth_state \<Rightarrow> 'r \<times> 's tinyauth_state" where
  "on_auth f st = (let (r, a) = f (tt_auth st) in (r, st\<lparr>tt_auth := a\<rparr>))"

text \<open>The provider works on the store that the authentication service has.\<close>

definition on_oidc :: "('s oidc_state \<Rightarrow> 'r \<times> 's oidc_state) \<Rightarrow> 's tinyauth_state \<Rightarrow> 'r \<times> 's tinyauth_state" where
  "on_oidc f st =
     (let (r, d) = f ((tt_oidc st)\<lparr>od_store := as_store (tt_auth st)\<rparr>)
      in (r, \<lparr>tt_auth = (tt_auth st)\<lparr>as_store := od_store d\<rparr>, tt_oidc = d\<rparr>))"

definition replies :: "response \<times> 's tinyauth_state \<Rightarrow> file_reply outcome \<times> 's tinyauth_state" where
  "replies x = (Returns (Replies (fst x)), snd x)"

fun reply_outcome :: "response outcome \<Rightarrow> file_reply outcome" where
  "reply_outcome (Returns rs) = Returns (Replies rs)"
| "reply_outcome Panics = Panics"

definition handle ::
  "'s tinyauth \<Rightarrow> moment \<Rightarrow> gin_value \<Rightarrow> http_request \<Rightarrow> endpoint \<Rightarrow> 's tinyauth_state \<Rightarrow>
     file_reply outcome \<times> 's tinyauth_state"
where
  "handle app mo ctx rq ep st =
     (let env = ta_auth app; rt = ta_runtime app; ord = mo_order mo; now = mo_clock mo 1; fresh = mo_fresh mo
      in case ep of
           UserContextEndpoint \<Rightarrow> (reply_outcome (user_context_handler ctx), st)
         | AppContextEndpoint \<Rightarrow> replies (app_context_handler (ae_config env) rt, st)
         | HealthEndpoint \<Rightarrow> replies (health_handler, st)
         | OauthUrlEndpoint p \<Rightarrow>
             replies (on_auth (oauth_url_handler env ord now fresh (mo_state mo) (mo_verifier mo) p rq) st)
         | OauthCallbackEndpoint p \<Rightarrow>
             (let (r, st1) = on_auth (oauth_callback_handler env (\<lambda>i. mo_clock mo (Suc i)) fresh p rq) st
              in (reply_outcome r, st1))
         | OidcAuthorizeEndpoint \<Rightarrow> replies (on_oidc (authorize_handler (ta_oidc app) rt ord now (mo_random mo) ctx rq) st)
         | OidcCompleteEndpoint \<Rightarrow> replies (on_oidc (authorize_complete_handler (ta_oidc app) rt ord now (mo_random mo) ctx rq) st)
         | OidcTokenEndpoint \<Rightarrow> replies (on_oidc (token_handler (ta_oidc app) ord now (mo_tokens mo) rq) st)
         | OidcUserinfoEndpoint \<Rightarrow> replies (on_oidc (userinfo_handler (ta_oidc app) now rq) st)
         | ProxyEndpoint p \<Rightarrow> (reply_outcome (proxy_handler env ord (mo_labels mo) p ctx rq), st)
         | LoginEndpoint \<Rightarrow> replies (on_auth (login_handler env ord now fresh rq) st)
         | LogoutEndpoint \<Rightarrow> (let (r, st1) = on_auth (logout_handler env now ctx rq) st in (reply_outcome r, st1))
         | TotpEndpoint \<Rightarrow> replies (on_auth (totp_handler env ord now fresh ctx rq) st)
         | TailscaleEndpoint \<Rightarrow> replies (on_auth (tailscale_handler env now fresh ctx) st)
         | ResourcesEndpoint \<Rightarrow> (Returns (resources_handler (ae_config env) rq), st)
         | DiscoveryEndpoint \<Rightarrow> replies (openid_configuration_handler (ta_oidc app), st)
         | JwksEndpoint \<Rightarrow> replies (jwks_handler (ta_oidc app), st)
         | WebfingerEndpoint \<Rightarrow> replies (webfinger_handler (ae_lib env) (ta_oidc app) rq, st))"

text \<open>Headers and cookies that the middleware set before the handler ran.\<close>

definition decorate :: "context_result \<Rightarrow> file_reply \<Rightarrow> file_reply" where
  "decorate cr r =
     (case r of
        Replies rs \<Rightarrow>
          Replies (rs\<lparr>rs_headers := filter (\<lambda>(k, _). k \<notin> fst ` set (rs_headers rs)) (cr_headers cr) @ rs_headers rs,
                      rs_cookies := cr_cookies cr @ rs_cookies rs\<rparr>)
      | ServesFile root path \<Rightarrow> ServesFile root path)"

definition not_found :: response where
  "not_found = empty_response\<lparr>rs_status := 404, rs_body := TextBody ''404 page not found''\<rparr>"

text \<open>The recovery handler turns a panic into an empty answer with the status 500.\<close>

definition recovered :: response where
  "recovered = empty_response\<lparr>rs_status := 500\<rparr>"

definition serve_request ::
  "'s tinyauth \<Rightarrow> moment \<Rightarrow> http_request \<Rightarrow> 's tinyauth_state \<Rightarrow> file_reply \<times> 's tinyauth_state"
where
  "serve_request app mo rq st =
     (case on_auth (context_middleware (ta_auth app) (mo_order mo) (mo_clock mo 0) rq) st of
        (Panics, st1) \<Rightarrow> (Replies recovered, st1)
      | (Returns cr, st1) \<Rightarrow>
          (case ui_middleware (mo_stat mo) (rq_path rq) of
             ServesUi path age \<Rightarrow> (ServesFile ''dist'' path, st1)
           | RobotsTxt \<Rightarrow> (decorate cr (Replies robots_txt), st1)
           | PassOn \<Rightarrow>
               (case route (rq_method rq) (rq_path rq) of
                  None \<Rightarrow> (decorate cr (Replies not_found), st1)
                | Some ep \<Rightarrow>
                    (case handle app mo (cr_value cr) rq ep st1 of
                       (Panics, st2) \<Rightarrow> (decorate cr (Replies recovered), st2)
                     | (Returns r, st2) \<Rightarrow> (decorate cr r, st2)))))"

section \<open>Requests reach their endpoints\<close>

text \<open>The endpoints whose handlers ask who the user is.\<close>

fun asks_for_user :: "endpoint \<Rightarrow> bool" where
  "asks_for_user UserContextEndpoint = True"
| "asks_for_user OidcAuthorizeEndpoint = True"
| "asks_for_user OidcCompleteEndpoint = True"
| "asks_for_user (ProxyEndpoint _) = True"
| "asks_for_user LogoutEndpoint = True"
| "asks_for_user TotpEndpoint = True"
| "asks_for_user TailscaleEndpoint = True"
| "asks_for_user _ = False"

lemmas route_defs = route_table_def context_routes_def oauth_routes_def oidc_routes_def proxy_routes_def user_routes_def
  resources_routes_def health_routes_def well_known_routes_def entry_for_def any_method_def

text \<open>The first segment of every route is one the frontend leaves alone.\<close>

fun backend_path :: "segment list \<Rightarrow> bool" where
  "backend_path (Exactly a # _) = (a \<in> {''api'', ''resources'', ''.well-known'', ''authorize''})"
| "backend_path _ = False"

lemma routes_backend: "list_all (\<lambda>r. backend_path (ro_path r)) route_table"
  by code_simp

lemma backend_passes_on:
  assumes "backend_path p" "match_path p segs = Some ps"
  shows "ui_middleware stat (CHR ''/'' # join_with ''/'' segs) = PassOn"
proof -
  from assms obtain a xs where a: "segs = a # xs" "a \<in> {''api'', ''resources'', ''.well-known'', ''authorize''}"
    by (cases p rule: backend_path.cases) (auto simp: match_Exactly)
  then have "\<forall>c\<in>set a. c \<noteq> CHR ''/''" by auto
  then have "takeWhile (\<lambda>c. c \<noteq> CHR ''/'') (join_with ''/'' segs) = a"
    unfolding a(1) by (cases xs) (simp_all add: takeWhile_append takeWhile_eq_all_conv)
  with a(2) show ?thesis by (simp add: ui_middleware_def Let_def)
qed

text \<open>
  C15: A request reaches the same endpoint in whatever order the controllers register their routes;
  the middleware of the frontend lets it through whatever files the frontend has; and where the
  handler asks who the user is, the middleware does not skip finding out.
\<close>

theorem endpoints_reached:
  assumes "set table = set route_table" "find_route table method path = Some ep"
  shows "route method path = Some ep \<and> ui_middleware stat path = PassOn \<and>
     \<not> (asks_for_user ep \<and> is_ignore_path (method @ '' '' @ path))"
proof -
  have r: "route method path = Some ep"
    using assms(2) by (simp add: find_route_unfold find_any_order [OF assms(1)] split: list.splits)
  obtain r segs ps where t: "r \<in> set route_table" "method \<in> set (ro_methods r)" "match_path (ro_path r) segs = Some ps"
    "ep = ro_endpoint r ps" "path = CHR ''/'' # join_with ''/'' segs"
    by (rule route_taken [OF r])
  have "ui_middleware stat path = PassOn"
    using t(1,3,5) routes_backend by (auto simp: list_all_iff intro: backend_passes_on)
  moreover from t(1) have "\<not> (asks_for_user ep \<and> is_ignore_path (method @ '' '' @ path))"
    using t(2,3,4,5) by (auto simp: route_defs match_Exactly match_Parameter is_ignore_path_def context_skip_paths_prefix_def)
  ultimately show ?thesis using r by blast
qed

theorem endpoints_reached_witness:
  "route ''GET'' ''/api/auth/nginx'' = Some (ProxyEndpoint ''nginx'') \<and>
   \<not> (asks_for_user (ProxyEndpoint ''nginx'') \<and> is_ignore_path ''GET /api/auth/nginx'')"
proof -
  have "find_route (rev route_table) ''GET'' ''/api/auth/nginx'' = Some (ProxyEndpoint ''nginx'')" by code_simp
  from endpoints_reached [OF _ this] show ?thesis by simp
qed

section \<open>The program over time\<close>

datatype event = Request moment http_request | Background

text \<open>
  The background routines: cleaning the database, sweeping the caches of both services and cleaning
  the rows of tokens.
\<close>

inductive tinyauth_step :: "'s tinyauth \<Rightarrow> 's tinyauth_state \<Rightarrow> event \<Rightarrow> 's tinyauth_state \<Rightarrow> bool"
  for app :: "'s tinyauth"
where
  request: "serve_request app mo rq st = (r, st') \<Longrightarrow> tinyauth_step app st (Request mo rq) st'"
| clean_sessions: "tinyauth_step app st Background (st\<lparr>tt_auth := db_cleanup_tick (ta_auth app) now (tt_auth st)\<rparr>)"
| sweep_auth: "tinyauth_step app st Background (st\<lparr>tt_auth := sweep_caches ord now (tt_auth st)\<rparr>)"
| clean_tokens: "ta_oidc app = Some env \<Longrightarrow>
    tinyauth_step app st Background (snd (on_oidc (\<lambda>d. ((), oidc_cleanup_tick env now d)) st))"
| sweep_oidc: "tinyauth_step app st Background (st\<lparr>tt_oidc := oidc_sweep_tick ord now (tt_oidc st)\<rparr>)"

inductive tinyauth_run :: "'s tinyauth \<Rightarrow> 's tinyauth_state \<Rightarrow> event list \<Rightarrow> 's tinyauth_state \<Rightarrow> bool"
  for app :: "'s tinyauth"
where
  no_event: "tinyauth_run app st [] st"
| next_event: "tinyauth_run app st evs st1 \<Longrightarrow> tinyauth_step app st1 ev st2 \<Longrightarrow> tinyauth_run app st (evs @ [ev]) st2"

end
