(* ===== verification/SessionOrigins.thy ===== *)
theory SessionOrigins
  imports Router
begin

text \<open>
  Where the stored sessions come from. Each handler that can store a session is shown to store only
  sessions that its request has earned: by a password, a code, an address of the Tailscale network
  or the account at an OAuth provider. The other handlers, the middleware and the background
  routines store none. Together: every session of a running program was there when it started or
  goes back to requests that earned it.
\<close>

section \<open>The handlers of the user controller\<close>

text \<open>What a login request earns: the session of the name whose password it holds.\<close>

definition logged_in_by :: "'s auth_env \<Rightarrow> 's auth_state \<Rightarrow> http_request \<Rightarrow> session \<Rightarrow> bool" where
  "logged_in_by env st rq x \<longleftrightarrow>
     (\<exists>req. bind_login_request (ae_lib env) rq = Some req \<and> lr_username req = se_username x \<and>
        password_ok env st (se_username x) (lr_password req) \<and>
        (case get_local_user (ae_runtime env) (se_username x) of
           Some usr \<Rightarrow> se_provider x = ''local'' \<and> (se_totp_pending x \<longleftrightarrow> user_totp_secret usr \<noteq> [])
         | None \<Rightarrow> se_provider x = ''ldap''))"

definition code_by :: "'s auth_env \<Rightarrow> http_request \<Rightarrow> user_context \<Rightarrow> session \<Rightarrow> bool" where
  "code_by env rq uc x \<longleftrightarrow> totp_pending uc \<and> get_username uc = se_username x \<and> se_provider x = ''local'' \<and>
     \<not> se_totp_pending x \<and>
     (\<exists>req usr. bind_totp_request (ae_lib env) rq = Some req \<and>
        get_local_user (ae_runtime env) (se_username x) = Some usr \<and>
        lib_totp (ae_lib env) (tr_code req) (user_totp_secret usr))"

text \<open>A context of a cookie waits for a code only if its session does.\<close>

lemma cookie_context:
  assumes g: "get_session env now u st = (Inr x, st1)"
    and c: "cookie_auth env ord now u ip st = (Returns (Inr (uc, ck)), st')"
  shows "(totp_pending uc \<longrightarrow> se_provider x = ''local'' \<and> se_totp_pending x \<and> se_username x = get_username uc) \<and>
     (\<forall>t. uc_tailscale uc = Some t \<longrightarrow> middleware_whois env ip = Some (Some t))"
proof -
  have name: "uc_provider uc = ProviderLocal \<Longrightarrow> get_username uc = se_username x"
    using cookie_auth_session [OF g c] by (simp add: context_of_session_def)
  note simps = cookie_auth_def [of env ord now u ip st] g new_from_session_def Let_def totp_pending_def zero_user_context_def
  consider "se_provider x = ''local''" | "se_provider x = ''ldap''" | "se_provider x = ''tailscale''"
    | "se_provider x \<notin> {''local'', ''ldap'', ''tailscale''}" by blast
  then show ?thesis
  proof cases
    case 1
    with c name show ?thesis by (auto simp: simps split: if_splits option.splits dest!: refreshed_context)
  next
    case 2
    with c show ?thesis by (auto simp: simps split: if_splits option.splits sum.splits prod.splits dest!: refreshed_context)
  next
    case 3
    with c show ?thesis by (auto simp: simps split: if_splits option.splits dest!: refreshed_context)
  next
    case 4
    with c show ?thesis by (auto simp: simps split: if_splits option.splits outcome.splits dest!: refreshed_context)
  qed
qed

context session_repo
begin

lemma finish_login_flow:
  assumes "ae_ops env = ops" "inv (as_store st)"
    "\<And>u. fresh = Some u \<Longrightarrow> P (new_session_row (ae_config env) now u d)"
  shows "flow inv sess P st (snd (finish_login env ord now fresh n d st))"
proof -
  obtain r st1 where c: "create_session env now fresh d st = (r, st1)" by fastforce
  with create_session_flow [OF assms(1,2), of fresh P now d] assms(3) have "flow inv sess P st st1" by simp
  with c show ?thesis by (cases r) (simp_all add: finish_login_def flow_def)
qed

lemma login_flow:
  assumes "ae_ops env = ops" "inv (as_store st)"
  shows "flow inv sess (logged_in_by env st rq) st (snd (login_handler env ord now fresh rq st))"
proof (cases "bind_login_request (ae_lib env) rq")
  case None
  with assms show ?thesis by (simp add: login_handler_def)
next
  case (Some req)
  let ?n = "lr_username req" and ?F = "flow inv sess (logged_in_by env st rq) st"
  obtain lk rem where lk: "is_account_locked env now ?n st = (lk, rem)" by fastforce
  show ?thesis
  proof (cases "lk \<or> (\<exists>e. search_user env st ?n = Inl e)")
    case True
    with Some lk assms show ?thesis
      by (auto simp: login_handler_def Let_def flow_def split: search_error.split)
  next
    case False
    then obtain search where s: "search_user env st ?n = Inr search" and lk': "\<not> lk"
      by (cases "search_user env st ?n") auto
    obtain e st1 where c: "check_user_password env search (lr_password req) st = (e, st1)" by fastforce
    with check_password_store [of env search "lr_password req" st] have s1: "as_store st1 = as_store st" by simp
    show ?thesis
    proof (cases e)
      case (Some e')
      with \<open>bind_login_request _ _ = _\<close> lk lk' s c s1 assms show ?thesis
        by (simp add: login_handler_def Let_def flow_def)
    next
      case None
      note ok = search_check_ok [OF s c [unfolded None]]
      have i1: "inv (as_store st1)" using assms(2) s1 by simp
      note h = login_handler_def [of env ord now fresh rq st] \<open>bind_login_request _ _ = _\<close> lk lk' s c None Let_def
      show ?thesis
      proof (cases "get_local_user (ae_runtime env) ?n")
        case None
        with ok have t: "search_type search = UserLDAP" by (cases "search_type search") auto
        have "flow inv sess (logged_in_by env st rq) st1
            (snd (finish_login env ord now fresh ?n (login_session_data env ?n search None) st1))"
          using finish_login_flow [OF assms(1) i1] ok None t Some by (simp add: logged_in_by_def)
        then show ?thesis using s1 t \<open>get_local_user _ _ = _\<close> by (simp add: h flow_def)
      next
        case (Some usr)
        with ok have t: "search_type search = UserLocal" by simp
        note name = get_local_user_name [OF Some]
        show ?thesis
        proof (cases "user_totp_secret usr = []")
          case True
          have "flow inv sess (logged_in_by env st rq) st1
              (snd (finish_login env ord now fresh ?n (login_session_data env ?n search (Some usr)) st1))"
            using finish_login_flow [OF assms(1) i1] ok Some t True \<open>bind_login_request _ _ = _\<close>
            by (simp add: logged_in_by_def)
          then show ?thesis using s1 t Some True by (simp add: h flow_def)
        next
          case False
          obtain r st2 where cr: "create_session env now fresh (local_session_data env usr True) st1 = (r, st2)" by fastforce
          have "flow inv sess (logged_in_by env st rq) st1
              (snd (create_session env now fresh (local_session_data env usr True) st1))"
            using create_session_flow [OF assms(1) i1] ok Some False name \<open>bind_login_request _ _ = _\<close>
            by (simp add: logged_in_by_def)
          then show ?thesis using s1 t Some False cr by (cases r) (simp_all add: h flow_def)
        qed
      qed
    qed
  qed
qed

lemma totp_flow:
  assumes "ae_ops env = ops" "inv (as_store st)"
  shows "flow inv sess (\<lambda>x. \<exists>uc. ctx = Some (Some uc) \<and> code_by env rq uc x) st
     (snd (totp_handler env ord now fresh ctx rq st))"
    (is "flow inv sess ?P st _")
proof (cases "bind_totp_request (ae_lib env) rq")
  case None
  with assms show ?thesis by (simp add: totp_handler_def)
next
  case (Some req)
  note req = this
  show ?thesis
  proof (cases "new_from_gin ctx")
    case (Inl e)
    with req assms show ?thesis by (cases e) (simp_all add: totp_handler_def)
  next
    case (Inr uc)
    note ctx = new_from_gin_Inr [OF this]
    let ?n = "get_username uc"
    obtain lk rem where lk: "is_account_locked env now ?n st = (lk, rem)" by fastforce
    note h = totp_handler_def [of env ord now fresh ctx rq st] req Inr lk Let_def
    show ?thesis
    proof (cases "totp_pending uc \<and> \<not> lk \<and> (\<exists>usr. get_local_user (ae_runtime env) ?n = Some usr \<and>
        lib_totp (ae_lib env) (tr_code req) (user_totp_secret usr))")
      case False
      then show ?thesis using assms(2)
        by (cases "totp_pending uc"; cases lk; cases "get_local_user (ae_runtime env) ?n") (simp_all add: h flow_def)
    next
      case True
      then obtain usr where usr: "get_local_user (ae_runtime env) ?n = Some usr"
        "lib_totp (ae_lib env) (tr_code req) (user_totp_secret usr)" by blast
      let ?st1 = "case map_of (rq_cookies rq) (rt_session_cookie_name (ae_runtime env)) of
          None \<Rightarrow> st | Some uuid \<Rightarrow> snd (delete_session env now uuid st)"
      let ?st2 = "record_login_attempt env ord now ?n True ?st1" and ?d = "local_session_data env usr False"
      have f1: "flow inv sess ?P st ?st1"
        using assms delete_session_flow [OF assms] by (simp split: option.split)
      have i2: "inv (as_store ?st2)" using flow_inv [OF f1] by simp
      have "?P (new_session_row (ae_config env) now u ?d)" for u
        using usr True get_local_user_name [OF usr(1)] by (simp add: code_by_def req ctx)
      then have "flow inv sess ?P ?st2 (snd (create_session env now fresh ?d ?st2))"
        by (rule create_session_flow [OF assms(1) i2])
      then have f2: "flow inv sess ?P ?st1 (snd (create_session env now fresh ?d ?st2))"
        by (simp add: flow_def)
      have "expiry_free ?P" by (simp add: expiry_free_def code_by_def)
      from flow_trans [OF f1 f2 this]
      have f: "flow inv sess ?P st (snd (create_session env now fresh ?d ?st2))" .
      obtain r st3 where c: "create_session env now fresh ?d ?st2 = (r, st3)" by fastforce
      have "snd (totp_handler env ord now fresh ctx rq st) = st3"
        using True usr c by (cases r) (simp_all add: h)
      with f c show ?thesis by simp
    qed
  qed
qed

lemma logout_flow:
  assumes "ae_ops env = ops" "inv (as_store st)"
  shows "flow inv sess P st (snd (logout_handler env now ctx rq st))"
proof (cases "map_of (rq_cookies rq) (rt_session_cookie_name (ae_runtime env))")
  case None
  with assms show ?thesis by (simp add: logout_handler_def Let_def)
next
  case (Some u)
  obtain ck st1 where d: "delete_session env now u st = (ck, st1)" by fastforce
  with delete_session_flow [OF assms, of P now u] Some show ?thesis
    by (simp add: logout_handler_def Let_def split: sum.split)
qed

lemma tailscale_flow:
  assumes "ae_ops env = ops" "inv (as_store st)"
  shows "flow inv sess (\<lambda>x. \<exists>uc t. ctx = Some (Some uc) \<and> uc_tailscale uc = Some t \<and>
       se_username x = bc_username t \<and> se_provider x = ''tailscale'') st
     (snd (tailscale_handler env now fresh ctx st))"
proof (cases "new_from_gin ctx")
  case (Inl e)
  with assms show ?thesis by (simp add: tailscale_handler_def)
next
  case (Inr uc)
  note ctx = new_from_gin_Inr [OF this]
  show ?thesis
  proof (cases "uc_tailscale uc")
    case None
    with Inr assms show ?thesis by (simp add: tailscale_handler_def)
  next
    case (Some t)
    let ?d = "zero_session\<lparr>se_username := bc_username t, se_name := bc_name t, se_email := bc_email t, se_provider := ''tailscale''\<rparr>"
    obtain r st1 where c: "create_session env now fresh ?d st = (r, st1)" by fastforce
    with create_session_flow [OF assms, of fresh _ now ?d] Some Inr ctx show ?thesis
      by (cases r) (simp_all add: tailscale_handler_def Let_def)
  qed
qed

text \<open>The contexts that the middleware makes, as far as the handlers rely on them.\<close>

lemma middleware_context:
  assumes "ae_ops env = ops" "inv (as_store st)"
    "context_middleware env ord now rq st = (Returns cr, st1)" "cr_value cr = Some (Some uc)"
  shows "(totp_pending uc \<longrightarrow> (\<exists>v x. sess (as_store st) v = Some x \<and> se_provider x = ''local'' \<and>
        se_totp_pending x \<and> se_username x = get_username uc)) \<and>
     (\<forall>t. uc_tailscale uc = Some t \<longrightarrow> middleware_whois env (rq_client_ip rq) = Some (Some t))"
proof -
  have basic: "\<not> totp_pending uc \<and> (\<forall>t. uc_tailscale uc = Some t \<longrightarrow> middleware_whois env (rq_client_ip rq) = Some (Some t))"
    if "without_session env ord now rq st0 = (Returns cr, st1)" for st0
  proof (cases "rq_basic_auth rq")
    case None
    with that assms(4) show ?thesis
      by (auto simp: without_session_def totp_pending_def no_context_def zero_user_context_def split: option.splits)
  next
    case (Some np)
    obtain n p where np: "np = (n, p)" by fastforce
    obtain r st2 where b: "basic_auth env ord now n p st0 = (r, st2)" by fastforce
    with that Some np assms(4) obtain hs where r: "r = Inr (Some uc, hs)"
      by (cases r) (auto simp: without_session_def no_context_def)
    from b r show ?thesis
      by (auto simp: basic_auth_def Let_def totp_pending_def zero_user_context_def
          split: prod.splits if_splits sum.splits option.splits user_search_type.splits)
  qed
  show ?thesis
  proof (cases "map_of (rq_cookies rq) (rt_session_cookie_name (ae_runtime env))")
    case None
    with assms(3,4) basic [of st] show ?thesis
      by (auto simp: context_middleware_def no_context_def split: if_splits)
  next
    case (Some u)
    obtain c st2 where c: "cookie_auth env ord now u (rq_client_ip rq) st = (c, st2)" by fastforce
    with Some assms(3,4) consider e where "c = Returns (Inl e)" "without_session env ord now rq st2 = (Returns cr, st1)"
      | ck where "c = Returns (Inr (uc, ck))"
      by (cases c) (auto simp: context_middleware_def no_context_def split: if_splits sum.splits)
    then show ?thesis
    proof cases
      case 1
      with basic show ?thesis by blast
    next
      case 2
      from c 2 obtain x st3 where g: "get_session env now u st = (Inr x, st3)"
        by (auto simp: cookie_auth_def split: prod.splits sum.splits)
      have x: "sess (as_store st) u = Some x" using get_session_ok [OF assms(1,2) g] by blast
      from cookie_context [OF g] c 2 have "(totp_pending uc \<longrightarrow> se_provider x = ''local'' \<and> se_totp_pending x \<and>
          se_username x = get_username uc) \<and>
        (\<forall>t. uc_tailscale uc = Some t \<longrightarrow> middleware_whois env (rq_client_ip rq) = Some (Some t))" by blast
      with x show ?thesis by blast
    qed
  qed
qed

text \<open>A callback stores a session only of a provider that its pending login was started with.\<close>

lemma callback_flow:
  assumes "ae_ops env = ops" "inv (as_store st)"
    "oauth_callback_handler env clock fresh provider rq st = (r, st')"
  shows "flow inv sess (\<lambda>x. se_provider x = provider \<and> is_email_whitelisted env provider (se_email x) = Returns True \<and>
     (\<exists>k p. held (as_oauth st) k = Some p \<and> ov_id (op_service p) = provider)) st st'"
    (is "flow inv sess ?P st st'")
  using callback_cases [OF assms(3)]
proof (elim disjE exE conjE)
  fix sid p st1
  let ?rs = "with_cookie (oauth_cookie env [] (-1)) empty_response"
  assume found: "cache_get (clock 0) (as_oauth st) sid = Some p" and st': "st' = end_oauth_session sid st1"
    and x: "oauth_exchange env clock fresh provider rq sid p ?rs st = (r, st1)"
  have s: "as_store st' = as_store st1" using st' by (simp add: end_oauth_session_def)
  from oauth_exchange_cases [OF x found] show ?thesis
  proof (elim disjE exE conjE)
    assume "as_store st1 = as_store st"
    with s assms(2) show ?thesis by (simp add: flow_store)
  next
    fix user st2
    assume ck: "callback_checked env rq provider p user" and s2: "as_store st2 = as_store st"
      and f: "oauth_finish env (clock 4) fresh p (op_service p) user ?rs st2 = (r, st1)"
    let ?d = "oauth_session_data (ae_lib env) (op_service p) user"
    have i2: "inv (as_store st2)" using assms(2) s2 by simp
    have id: "ov_id (op_service p) = provider" using ck by (simp add: callback_checked_def)
    have "flow inv sess ?P st2 st1"
    proof (cases "is_email_whitelisted env provider (cl_email user) = Returns True")
      case True
      have "?P (new_session_row (ae_config env) (clock 4) u ?d)" for u
        using True id held_get [OF found] by (auto simp: oauth_session_data_def)
      from create_session_flow [where P = ?P, OF assms(1) i2 this]
      have "flow inv sess ?P st2 (snd (create_session env (clock 4) fresh ?d st2))" .
      with f True id show ?thesis by (auto simp: oauth_finish_def Let_def split: prod.splits sum.splits)
    next
      case False
      with f id i2 show ?thesis by (auto simp: oauth_finish_def Let_def split: outcome.splits if_splits)
    qed
    with s s2 show ?thesis by (simp add: flow_def)
  qed
qed (simp add: assms(2))

end

section \<open>The pending logins at OAuth providers\<close>

lemma held_update:
  "cache_update now k v ttl cs = (ok, cs') \<Longrightarrow> held cs' j = Some w \<Longrightarrow> held cs j = Some w \<or> j = k \<and> w = v"
  by (auto simp: cache_update_def held_def gm_update Let_def split: option.splits if_splits)

text \<open>Every pending login is one at a service of the broker.\<close>

definition pending_known :: "'s auth_env \<Rightarrow> 's auth_state \<Rightarrow> bool" where
  "pending_known env st \<longleftrightarrow>
     (\<forall>k p. held (as_oauth st) k = Some p \<longrightarrow> get_service (ae_broker env) (ov_id (op_service p)) \<noteq> None)"

text \<open>A service of the broker is found by its own id, which no other kind of login uses.\<close>

definition services_named :: "'s auth_env \<Rightarrow> bool" where
  "services_named env \<longleftrightarrow>
     (\<forall>n s. get_service (ae_broker env) n = Some s \<longrightarrow> ov_id s = n \<and> n \<notin> set reserved_provider_names)"

lemma pending_known_same: "as_oauth st' = as_oauth st \<Longrightarrow> pending_known env st' = pending_known env st"
  by (simp add: pending_known_def)

lemma pending_known_started:
  assumes "services_named env" "pending_known env st"
    "oauth_url_handler env ord now fresh state verifier provider rq st = (rs, st')"
  shows "pending_known env st' \<and> as_store st' = as_store st"
proof -
  have *: "st1 = st \<or> (\<exists>k p. get_service (ae_broker env) (ov_id (op_service p)) \<noteq> None \<and>
      st1 = st\<lparr>as_oauth := cache_set ord now k p (seconds 600) (as_oauth st)\<rparr>)"
    if "new_oauth_session env ord now provider params fresh state verifier st = (r, st1)" for params r st1
    using that assms(1) by (force simp: new_oauth_session_def services_named_def Let_def split: option.splits)
  from assms(3) have "st' = st \<or> (\<exists>params r. new_oauth_session env ord now provider params fresh state verifier st = (r, st'))"
    by (auto simp: oauth_url_handler_def Let_def split: if_splits prod.splits sum.splits)
  with * have "st' = st \<or> (\<exists>k p. get_service (ae_broker env) (ov_id (op_service p)) \<noteq> None \<and>
      st' = st\<lparr>as_oauth := cache_set ord now k p (seconds 600) (as_oauth st)\<rparr>)" by blast
  with assms(2) show ?thesis by (auto simp: pending_known_def dest!: held_set)
qed

lemma pending_known_token:
  assumes "pending_known env st" "get_oauth_token env now sid code st = (r, st')"
  shows "pending_known env st'"
  using assms by (auto simp: get_oauth_token_def pending_known_def dest!: held_update held_get split: option.splits prod.splits if_splits)

lemma pending_known_callback:
  assumes "pending_known env st" "oauth_callback_handler env clock fresh provider rq st = (r, st')"
  shows "pending_known env st'"
proof -
  have "pending_known env st1" if x: "oauth_exchange env clock fresh provider rq sid p rs st = (r, st1)" for sid p rs st1
  proof -
    obtain y st2 where g: "get_oauth_token env (clock 1) sid (first_value (rq_query rq) ''code'') st = (y, st2)" by fastforce
    have k: "pending_known env st2" by (rule pending_known_token [OF assms(1) g])
    from x g have "st1 = st \<or> st1 = st2 \<or> (\<exists>svc user. oauth_finish env (clock 4) fresh p svc user rs st2 = (r, st1))"
      by (auto simp: oauth_exchange_def Let_def split: if_splits sum.splits)
    with k assms(1) oauth_finish_oauth pending_known_same show ?thesis by metis
  qed
  then have "\<lbrakk>oauth_exchange env clock fresh provider rq sid p rs st = (r, st1); st' = end_oauth_session sid st1\<rbrakk> \<Longrightarrow> ?thesis"
    for sid p rs st1 by (fastforce simp: end_oauth_session_def pending_known_def split: if_splits)
  with callback_cases [OF assms(2)] assms(1) show ?thesis by blast
qed

end
