(* ===== verification/SystemSessions.thy ===== *)
theory SystemSessions
  imports SessionOrigins
begin

text \<open>
  The sessions of the whole program over time: the invariant of a run, which ties the store, the
  pending logins and the requests served so far, and what each handler does to it. The theorem that
  every stored session was earned is in \<open>System\<close>.
\<close>

section \<open>What leaves the pending logins alone\<close>

lemma record_attempt_oauth [simp]: "as_oauth (record_login_attempt env ord now who ok st) = as_oauth st"
  by (simp add: record_login_attempt_def Let_def)

lemma check_password_oauth [simp]: "as_oauth (snd (check_user_password env search p st)) = as_oauth st"
  by (simp add: check_user_password_def split: user_search_type.split option.split prod.split bool.split)

lemma get_ldap_user_oauth [simp]: "as_oauth (snd (get_ldap_user env ord now dn st)) = as_oauth st"
  by (simp add: get_ldap_user_def split: option.split)

lemma create_session_oauth [simp]: "as_oauth (snd (create_session env now fresh d st)) = as_oauth st"
  by (simp add: create_session_def Let_def split: option.split prod.split sum.split)

lemma delete_session_oauth [simp]: "as_oauth (snd (delete_session env now u st)) = as_oauth st"
  by (simp add: delete_session_def Let_def split: prod.split)

lemma get_session_oauth [simp]: "as_oauth (snd (get_session env now u st)) = as_oauth st"
  by (simp add: get_session_def drop_session_def split: sum.split prod.split option.split)

lemma refresh_session_oauth [simp]: "as_oauth (snd (refresh_session env now u st)) = as_oauth st"
  by (simp add: refresh_session_def Let_def split: sum.split prod.split)

lemma oauth_of_snd: "f = (r, st') \<Longrightarrow> as_oauth (snd f) = as_oauth st \<Longrightarrow> as_oauth st' = as_oauth st"
  by simp

lemmas pending_unchanged =
  check_password_oauth [THEN oauth_of_snd [rotated]] get_ldap_user_oauth [THEN oauth_of_snd [rotated]]
  create_session_oauth [THEN oauth_of_snd [rotated]] delete_session_oauth [THEN oauth_of_snd [rotated]]
  get_session_oauth [THEN oauth_of_snd [rotated]] refresh_session_oauth [THEN oauth_of_snd [rotated]]

lemma finish_login_oauth [simp]: "as_oauth (snd (finish_login env ord now fresh n d st)) = as_oauth st"
  by (auto simp: finish_login_def dest!: pending_unchanged split: prod.split sum.split)

lemma login_oauth [simp]: "as_oauth (snd (login_handler env ord now fresh rq st)) = as_oauth st"
  by (auto simp: login_handler_def Let_def dest!: pending_unchanged
      split: option.split prod.split sum.split search_error.split user_search_type.split)

lemma totp_oauth [simp]: "as_oauth (snd (totp_handler env ord now fresh ctx rq st)) = as_oauth st"
  by (auto simp: totp_handler_def Let_def dest!: pending_unchanged
      split: option.split prod.split sum.split context_error.split)

lemma logout_oauth [simp]: "as_oauth (snd (logout_handler env now ctx rq st)) = as_oauth st"
  by (auto simp: logout_handler_def Let_def dest!: pending_unchanged split: option.split prod.split sum.split)

lemma tailscale_oauth [simp]: "as_oauth (snd (tailscale_handler env now fresh ctx st)) = as_oauth st"
  by (auto simp: tailscale_handler_def Let_def dest!: pending_unchanged split: option.split prod.split sum.split)

lemma refreshed_oauth [simp]: "as_oauth (snd (refreshed env now u uc st)) = as_oauth st"
  by (auto simp: refreshed_def dest!: pending_unchanged split: prod.split sum.split)

lemma cookie_auth_oauth [simp]: "as_oauth (snd (cookie_auth env ord now u ip st)) = as_oauth st"
  using cookie_auth_limiter [of st env ord now u ip] by (simp add: same_limiter_def)

lemma basic_auth_oauth [simp]: "as_oauth (snd (basic_auth env ord now n p st)) = as_oauth st"
  by (auto simp: basic_auth_def Let_def dest!: pending_unchanged
      split: prod.split sum.split user_search_type.split option.split)

lemma without_session_oauth [simp]: "as_oauth (snd (without_session env ord now rq st)) = as_oauth st"
proof (cases "rq_basic_auth rq")
  case (Some np)
  obtain n p where "np = (n, p)" by fastforce
  moreover obtain q st1 where "basic_auth env ord now n p st = (q, st1)" by fastforce
  ultimately show ?thesis using Some basic_auth_oauth [of env ord now n p st]
    by (cases q) (auto simp: without_session_def)
qed (simp add: without_session_def split: option.split)

lemma middleware_oauth [simp]: "as_oauth (snd (context_middleware env ord now rq st)) = as_oauth st"
proof -
  have "as_oauth st1 = as_oauth st" if "cookie_auth env ord now u ip st = (c, st1)" for u ip c st1
    using cookie_auth_oauth [of env ord now u ip st] that by simp
  then show ?thesis
    by (auto simp: context_middleware_def split: prod.split sum.split option.split outcome.split)
qed

section \<open>The provider leaves the sessions alone\<close>

context two_tables
begin

definition same_sessions :: "'a oidc_state \<Rightarrow> 'a oidc_state \<Rightarrow> bool" where
  "same_sessions d d' \<longleftrightarrow> inv (od_store d') \<and> sess (od_store d') = sess (od_store d)"

lemma same_sessions_refl: "inv (od_store d) \<Longrightarrow> same_sessions d d"
  by (simp add: same_sessions_def)

lemma same_sessions_store: "od_store d1 = od_store d \<Longrightarrow> inv (od_store d) \<Longrightarrow> same_sessions d d1"
  by (simp add: same_sessions_def)

lemma same_sessions_trans: "same_sessions d d1 \<Longrightarrow> same_sessions d1 d2 \<Longrightarrow> same_sessions d d2"
  by (simp add: same_sessions_def)

lemma delete_by_sub_apart:
  assumes "oe_ops env = ops" "inv (od_store d)"
  shows "same_sessions d (snd (delete_session_by_sub env sub d))" "same_sessions d (snd (delete_old_session env sub d))"
  using assms odelete_inv [OF assms(2)] odelete_sess [OF assms(2)]
  by (simp_all add: same_sessions_def delete_session_by_sub_def delete_old_session_def split_beta)

lemma generate_access_apart:
  assumes "oe_ops env = ops" "inv (od_store d)"
  shows "same_sessions d (snd (generate_access_token env now random cid entry d))"
proof -
  have "same_sessions d (d\<lparr>od_store := s'\<rparr>)" if "create_oidc_session_op ops a (od_store d) = (r, s')" for a r s'
    using ocreate_inv [OF assms(2), of a] ocreate_sess [OF assms(2), of a] that by (simp add: same_sessions_def)
  then show ?thesis using assms
    by (auto simp: generate_access_token_def Let_def same_sessions_refl split: option.split prod.split sum.split)
qed

lemma refresh_access_apart:
  assumes "oe_ops env = ops" "inv (od_store d)"
  shows "same_sessions d (snd (refresh_access_token env now random rt cid d))"
proof -
  have "same_sessions d (d\<lparr>od_store := s'\<rparr>)" if "update_oidc_session_op ops a (od_store d) = (r, s')" for a r s'
    using oupdate_inv [OF assms(2), of a] oupdate_sess [OF assms(2), of a] that by (simp add: same_sessions_def)
  then show ?thesis using assms
    by (auto simp: refresh_access_token_def Let_def same_sessions_refl split: option.split prod.split sum.split)
qed

lemma session_by_token_apart:
  assumes "oe_ops env = ops" "inv (od_store d)"
  shows "same_sessions d (snd (get_session_by_token env now h d))"
proof -
  have "same_sessions d (d\<lparr>od_store := s'\<rparr>)" if "delete_oidc_session_by_sub_op ops k (od_store d) = (r, s')" for k r s'
    using odelete_inv [OF assms(2), of k] odelete_sess [OF assms(2), of k] that by (simp add: same_sessions_def)
  then show ?thesis using assms
    by (auto simp: get_session_by_token_def same_sessions_refl split: sum.split prod.split option.split)
qed

lemma cleanup_apart:
  assumes "oe_ops env = ops" "inv (od_store d)"
  shows "same_sessions d (oidc_cleanup_tick env now d)"
  using assms oexpire_inv [OF assms(2)] oexpire_sess [OF assms(2)]
  by (simp add: same_sessions_def oidc_cleanup_tick_def)

lemma authorize_apart:
  assumes "inv (od_store d)"
  shows "same_sessions d (snd (authorize_handler oidc rt ord now random ctx rq d))"
proof -
  have "od_store (snd (authorize_handler oidc rt ord now random ctx rq d)) = od_store d"
    by (simp add: authorize_handler_def authorize_checked_def create_authorize_ticket_def Let_def
        split: option.split sum.split prod.split)
  then show ?thesis using assms by (rule same_sessions_store)
qed

lemma complete_apart:
  assumes "\<And>env. oidc = Some env \<Longrightarrow> oe_ops env = ops" "inv (od_store d)"
  shows "same_sessions d (snd (authorize_complete_handler oidc rt ord now random ctx rq d))"
proof -
  have "same_sessions d (snd (complete_authorization env rt ord now random uc req (delete_authorize_ticket ticket d)))"
    if "oe_ops env = ops" for env uc req ticket
  proof -
    let ?d = "delete_authorize_ticket ticket d"
    obtain e d1 where o: "delete_old_session env (create_sub (oe_lib env) uc (ar_client_id req)) ?d = (e, d1)" by fastforce
    with delete_by_sub_apart(2) [OF that, of ?d "create_sub (oe_lib env) uc (ar_client_id req)"] assms(2)
    have "same_sessions d d1" by (simp add: same_sessions_def delete_authorize_ticket_def)
    then show ?thesis using o
      by (cases e) (simp_all add: complete_authorization_def create_code_def Let_def same_sessions_def)
  qed
  with assms show ?thesis
    by (auto simp: authorize_complete_handler_def Let_def same_sessions_refl split: option.split sum.split list.split)
qed

lemma code_grant_apart:
  assumes "oe_ops env = ops" "inv (od_store d)"
  shows "same_sessions d (snd (code_grant env ord now random req cid d))"
proof -
  let ?h = "oidc_hash (oe_lib env) (tq_code req)"
  obtain x d1 where g: "get_code_entry now ?h cid d = (x, d1)" by fastforce
  then have d1: "od_store d1 = od_store d" by (auto simp: get_code_entry_def split: option.splits if_splits)
  show ?thesis
  proof (cases x)
    case None
    have "same_sessions d (snd (delete_session_by_sub env sub d1))" for sub
      using delete_by_sub_apart(1) [OF assms(1), of d1 sub] assms(2) d1 by (simp add: same_sessions_def)
    with None g d1 assms(2) show ?thesis
      by (auto simp: code_grant_def Let_def same_sessions_store split: option.split)
  next
    case (Some entry)
    let ?d2 = "mark_code_as_used ord now ?h (uf_sub (co_userinfo entry)) d1"
    have d2: "od_store ?d2 = od_store d" using d1 by (simp add: mark_code_as_used_def)
    obtain r d3 where t: "generate_access_token env now random cid entry ?d2 = (r, d3)" by fastforce
    with generate_access_apart [OF assms(1), of ?d2 now random cid entry] assms(2) d2
    have "same_sessions d d3" by (simp add: same_sessions_def)
    with Some g t d2 assms(2) show ?thesis
      by (cases r) (simp_all add: code_grant_def Let_def same_sessions_store)
  qed
qed

lemma token_apart:
  assumes "\<And>env. oidc = Some env \<Longrightarrow> oe_ops env = ops" "inv (od_store d)"
  shows "same_sessions d (snd (token_handler oidc ord now random rq d))"
proof -
  have "same_sessions d (snd (refresh_grant env now random req cid d))" if "oe_ops env = ops" for env req cid
    using refresh_access_apart [OF that assms(2), of now random "tq_refresh_token req" cid]
    by (auto simp: refresh_grant_def split: prod.split sum.split)
  with assms code_grant_apart show ?thesis
    by (auto simp: token_handler_def same_sessions_refl split: option.split prod.split)
qed

lemma userinfo_apart:
  assumes "\<And>env. oidc = Some env \<Longrightarrow> oe_ops env = ops" "inv (od_store d)"
  shows "same_sessions d (snd (userinfo_handler oidc now rq d))"
proof (cases oidc)
  case (Some env)
  have "same_sessions d d1" if "get_session_by_token env now h d = (r, d1)" for h r d1
    using session_by_token_apart [OF assms(1) [OF Some] assms(2), of now h] that by simp
  with Some assms(2) show ?thesis
    by (auto simp: userinfo_handler_def same_sessions_refl split: option.split sum.split prod.split)
qed (simp add: userinfo_handler_def same_sessions_refl assms(2))

end

end
