(* ===== verification/System.thy ===== *)
theory System
  imports SystemSessions
begin

text \<open>
  The whole program over time: what one request or one background routine does to the stored
  sessions and the pending logins, and the theorem that every stored session was earned by the
  requests before, from the configuration the program was started with.
\<close>

section \<open>What a request earns\<close>

definition password_by :: "'s auth_env \<Rightarrow> http_request \<Rightarrow> string \<Rightarrow> bool" where
  "password_by env rq n \<longleftrightarrow>
     (\<exists>req. bind_login_request (ae_lib env) rq = Some req \<and> lr_username req = n \<and>
        (case get_local_user (ae_runtime env) n of
           Some usr \<Rightarrow> lib_bcrypt (ae_lib env) (user_password usr) (lr_password req)
         | None \<Rightarrow> \<exists>ls dn. ae_ldap env = Some ls \<and> fst (ldap_bind ls dn (lr_password req))))"

text \<open>A session that one request earns on its own, at the endpoint of its kind of login.\<close>

definition earns :: "'s auth_env \<Rightarrow> http_request \<Rightarrow> session \<Rightarrow> bool" where
  "earns env rq x \<longleftrightarrow>
     (case route (rq_method rq) (rq_path rq) of
        Some LoginEndpoint \<Rightarrow>
          password_by env rq (se_username x) \<and>
          (case get_local_user (ae_runtime env) (se_username x) of
             Some usr \<Rightarrow> se_provider x = ''local'' \<and> (se_totp_pending x \<longleftrightarrow> user_totp_secret usr \<noteq> [])
           | None \<Rightarrow> se_provider x = ''ldap'')
      | Some TailscaleEndpoint \<Rightarrow>
          se_provider x = ''tailscale'' \<and>
          (\<exists>t. middleware_whois env (rq_client_ip rq) = Some (Some t) \<and> se_username x = bc_username t)
      | Some (OauthCallbackEndpoint p) \<Rightarrow>
          se_provider x = p \<and> get_service (ae_broker env) p \<noteq> None \<and>
          is_email_whitelisted env p (se_email x) = Returns True
      | _ \<Rightarrow> False)"

text \<open>A request with a code for the second factor of the user of a session.\<close>

definition code_for :: "'s auth_env \<Rightarrow> http_request \<Rightarrow> session \<Rightarrow> bool" where
  "code_for env rq x \<longleftrightarrow>
     route (rq_method rq) (rq_path rq) = Some TotpEndpoint \<and> se_provider x = ''local'' \<and> \<not> se_totp_pending x \<and>
     (\<exists>req usr. bind_totp_request (ae_lib env) rq = Some req \<and>
        get_local_user (ae_runtime env) (se_username x) = Some usr \<and>
        lib_totp (ae_lib env) (tr_code req) (user_totp_secret usr))"

definition waits :: "session \<Rightarrow> string \<Rightarrow> bool" where
  "waits y n \<longleftrightarrow> se_provider y = ''local'' \<and> se_totp_pending y \<and> se_username y = n"

text \<open>What a request may add to the sessions \<open>m\<close> it meets.\<close>

definition adds :: "'s auth_env \<Rightarrow> (string \<Rightarrow> session option) \<Rightarrow> http_request \<Rightarrow> session \<Rightarrow> bool" where
  "adds env m rq x \<longleftrightarrow> earns env rq x \<or> code_for env rq x \<and> (\<exists>v y. m v = Some y \<and> waits y (se_username x))"

lemma expiry_free_adds [simp]: "expiry_free (adds env m rq)" "expiry_free (earns env rq)" "expiry_free (code_for env rq)"
  by (simp_all add: expiry_free_def adds_def earns_def code_for_def cong: option.case_cong endpoint.case_cong)

lemma logged_in_earns:
  "route (rq_method rq) (rq_path rq) = Some LoginEndpoint \<Longrightarrow> logged_in_by env st rq x \<Longrightarrow> earns env rq x"
  by (auto simp: logged_in_by_def earns_def password_by_def password_ok_def split: option.splits)

section \<open>One request\<close>

definition runs_on :: "'s store_ops \<Rightarrow> 's tinyauth \<Rightarrow> bool" where
  "runs_on ops app \<longleftrightarrow> ae_ops (ta_auth app) = ops \<and> (\<forall>env. ta_oidc app = Some env \<longrightarrow> oe_ops env = ops) \<and>
     services_named (ta_auth app)"

context two_tables
begin

text \<open>What one step may do to the state of the authentication service.\<close>

definition moves :: "(session \<Rightarrow> bool) \<Rightarrow> 'a auth_env \<Rightarrow> 'a auth_state \<Rightarrow> 'a auth_state \<Rightarrow> bool" where
  "moves P env a a' \<longleftrightarrow> flow inv sess P a a' \<and> pending_known env a'"

lemma moves_trans: "moves P env a b \<Longrightarrow> moves P env b c \<Longrightarrow> expiry_free P \<Longrightarrow> moves P env a c"
  unfolding moves_def using flow_trans by blast

lemma moves_refl: "inv (as_store a) \<Longrightarrow> pending_known env a \<Longrightarrow> moves P env a a"
  by (simp add: moves_def)

lemma oidc_moves:
  assumes "inv (as_store (tt_auth st))" "pending_known env (tt_auth st)"
    "\<And>d. inv (od_store d) \<Longrightarrow> same_sessions d (snd (f d))"
  shows "moves P env (tt_auth st) (tt_auth (snd (on_oidc f st)))"
proof -
  let ?d = "(tt_oidc st)\<lparr>od_store := as_store (tt_auth st)\<rparr>"
  obtain r d' where f: "f ?d = (r, d')" by fastforce
  with assms(3) [of ?d] assms(1) have "same_sessions ?d d'" by simp
  with f assms(2) show ?thesis by (simp add: on_oidc_def moves_def flow_def same_sessions_def pending_known_def)
qed

lemma auth_moves:
  assumes "flow inv sess P (tt_auth st) (snd (f (tt_auth st)))" "pending_known env (snd (f (tt_auth st)))"
  shows "moves P env (tt_auth st) (tt_auth (snd (on_auth f st)))"
  using assms by (cases "f (tt_auth st)") (simp add: on_auth_def moves_def)

lemma handle_moves:
  assumes app: "runs_on ops app" and i: "inv (as_store (tt_auth st))" "pending_known (ta_auth app) (tt_auth st)"
    and ep: "route (rq_method rq) (rq_path rq) = Some ep"
    and ctx: "\<And>uc. ctx = Some (Some uc) \<Longrightarrow>
       (totp_pending uc \<longrightarrow> (\<exists>v y. m v = Some y \<and> waits y (get_username uc))) \<and>
       (\<forall>t. uc_tailscale uc = Some t \<longrightarrow> middleware_whois (ta_auth app) (rq_client_ip rq) = Some (Some t))"
  shows "moves (adds (ta_auth app) m rq) (ta_auth app) (tt_auth st) (tt_auth (snd (handle app mo ctx rq ep st)))"
proof -
  let ?env = "ta_auth app" and ?a = "tt_auth st"
  let ?P = "adds ?env m rq"
  have ops: "ae_ops ?env = ops" and oidc: "\<And>env. ta_oidc app = Some env \<Longrightarrow> oe_ops env = ops"
    and named: "services_named ?env" using app by (auto simp: runs_on_def)
  have stay: "moves ?P ?env ?a ?a" by (rule moves_refl [OF i])
  have known: "pending_known ?env a" if "as_oauth a = as_oauth ?a" for a
    using i(2) pending_known_same [OF that] by simp
  note mono = flow_mono [where Q = ?P]
  show ?thesis
  proof (cases ep)
    case (OauthUrlEndpoint p)
    let ?f = "oauth_url_handler ?env (mo_order mo) (mo_clock mo 1) (mo_fresh mo) (mo_state mo) (mo_verifier mo) p rq"
    obtain rs a where f: "?f ?a = (rs, a)" by fastforce
    from pending_known_started [OF named i(2) f] have "pending_known ?env a" "as_store a = as_store ?a" by simp_all
    with auth_moves [of ?P st ?f ?env] f i(1) OauthUrlEndpoint show ?thesis
      by (simp add: handle_def Let_def replies_def flow_store)
  next
    case (OauthCallbackEndpoint p)
    let ?f = "oauth_callback_handler ?env (\<lambda>i. mo_clock mo (Suc i)) (mo_fresh mo) p rq"
    obtain r a where f: "?f ?a = (r, a)" by fastforce
    have "flow inv sess ?P ?a a"
    proof (rule mono [OF callback_flow [OF ops i(1) f]], elim conjE exE)
      fix x :: session and k q
      assume "se_provider x = p" "is_email_whitelisted ?env p (se_email x) = Returns True"
        "held (as_oauth ?a) k = Some q" "ov_id (op_service q) = p"
      moreover from this(3,4) i(2) have "get_service (ae_broker ?env) p \<noteq> None" by (auto simp: pending_known_def)
      ultimately show "?P x" using ep OauthCallbackEndpoint by (simp add: adds_def earns_def)
    qed
    with auth_moves [of ?P st ?f ?env] pending_known_callback [OF i(2) f] f
    have "moves ?P ?env ?a (tt_auth (snd (on_auth ?f st)))" by simp
    with OauthCallbackEndpoint show ?thesis by (simp add: handle_def Let_def split_beta)
  next
    case LoginEndpoint
    have "flow inv sess ?P ?a (snd (login_handler ?env (mo_order mo) (mo_clock mo 1) (mo_fresh mo) rq ?a))"
      by (rule mono [OF login_flow [OF ops i(1)]]) (use logged_in_earns ep LoginEndpoint in \<open>auto simp: adds_def\<close>)
    with LoginEndpoint show ?thesis by (simp add: handle_def Let_def replies_def auth_moves known)
  next
    case LogoutEndpoint
    have "moves ?P ?env ?a (tt_auth (snd (on_auth (logout_handler ?env (mo_clock mo 1) ctx rq) st)))"
      by (rule auth_moves) (simp_all add: logout_flow [OF ops i(1)] known)
    with LogoutEndpoint show ?thesis by (simp add: handle_def Let_def split_beta)
  next
    case TotpEndpoint
    have "flow inv sess ?P ?a (snd (totp_handler ?env (mo_order mo) (mo_clock mo 1) (mo_fresh mo) ctx rq ?a))"
      by (rule mono [OF totp_flow [OF ops i(1)]])
        (use ctx ep TotpEndpoint in \<open>auto simp: adds_def code_for_def code_by_def\<close>)
    with TotpEndpoint show ?thesis by (simp add: handle_def Let_def replies_def auth_moves known)
  next
    case TailscaleEndpoint
    have "flow inv sess ?P ?a (snd (tailscale_handler ?env (mo_clock mo 1) (mo_fresh mo) ctx ?a))"
      by (rule mono [OF tailscale_flow [OF ops i(1)]])
        (use ctx ep TailscaleEndpoint in \<open>auto simp: adds_def earns_def\<close>)
    with TailscaleEndpoint show ?thesis by (simp add: handle_def Let_def replies_def auth_moves known)
  next
    case OidcAuthorizeEndpoint
    then show ?thesis by (simp add: handle_def Let_def replies_def oidc_moves [OF i] authorize_apart)
  next
    case OidcCompleteEndpoint
    then show ?thesis by (simp add: handle_def Let_def replies_def oidc_moves [OF i] complete_apart oidc)
  next
    case OidcTokenEndpoint
    then show ?thesis by (simp add: handle_def Let_def replies_def oidc_moves [OF i] token_apart oidc)
  next
    case OidcUserinfoEndpoint
    then show ?thesis by (simp add: handle_def Let_def replies_def oidc_moves [OF i] userinfo_apart oidc)
  qed (simp_all add: handle_def Let_def replies_def stay)
qed

lemma serve_moves:
  assumes app: "runs_on ops app" and i: "inv (as_store (tt_auth st))" "pending_known (ta_auth app) (tt_auth st)"
    and s: "serve_request app mo rq st = (r, st')"
  shows "moves (adds (ta_auth app) (sess (as_store (tt_auth st))) rq) (ta_auth app) (tt_auth st) (tt_auth st')"
proof -
  let ?env = "ta_auth app" and ?m = "sess (as_store (tt_auth st))"
  let ?P = "adds ?env ?m rq" and ?mw = "context_middleware ?env (mo_order mo) (mo_clock mo 0) rq"
  have ops: "ae_ops ?env = ops" using app by (simp add: runs_on_def)
  obtain c a where mw: "?mw (tt_auth st) = (c, a)" by fastforce
  let ?st1 = "st\<lparr>tt_auth := a\<rparr>"
  have "flow inv sess (\<lambda>_. False) (tt_auth st) a"
    using middleware_flow [OF ops i(1), of "mo_order mo" "mo_clock mo 0" rq] mw by simp
  then have "flow inv sess ?P (tt_auth st) a" by (rule flow_mono) simp
  moreover have "as_oauth a = as_oauth (tt_auth st)"
    using middleware_oauth [of ?env "mo_order mo" "mo_clock mo 0" rq "tt_auth st"] mw by simp
  ultimately have first: "moves ?P ?env (tt_auth st) a"
    using i(2) pending_known_same [of a "tt_auth st" ?env] by (simp add: moves_def)
  have i1: "inv (as_store a)" "pending_known ?env a" using first by (auto simp: moves_def flow_def)
  have later: "moves ?P ?env a (tt_auth (snd (handle app mo (cr_value cr) rq ep ?st1)))"
    if "c = Returns cr" "route (rq_method rq) (rq_path rq) = Some ep" for cr ep
  proof -
    have "moves ?P ?env (tt_auth ?st1) (tt_auth (snd (handle app mo (cr_value cr) rq ep ?st1)))"
    proof (rule handle_moves [OF app])
      fix uc
      assume "cr_value cr = Some (Some uc)"
      from middleware_context [OF ops i(1) mw [unfolded that(1)] this]
      show "(totp_pending uc \<longrightarrow> (\<exists>v y. ?m v = Some y \<and> waits y (get_username uc))) \<and>
         (\<forall>t. uc_tailscale uc = Some t \<longrightarrow> middleware_whois ?env (rq_client_ip rq) = Some (Some t))"
        unfolding waits_def by blast
    qed (use i1 that in simp_all)
    then show ?thesis by simp
  qed
  have on: "on_auth ?mw st = (c, ?st1)" using mw by (simp add: on_auth_def)
  show ?thesis
  proof (cases c)
    case Panics
    with s on first show ?thesis by (auto simp: serve_request_def)
  next
    case (Returns cr)
    show ?thesis
    proof (cases "ui_middleware (mo_stat mo) (rq_path rq) = PassOn \<and> (\<exists>ep. route (rq_method rq) (rq_path rq) = Some ep)")
      case False
      with s on first Returns show ?thesis by (auto simp: serve_request_def split: ui_action.splits option.splits)
    next
      case True
      then obtain ep where ep: "route (rq_method rq) (rq_path rq) = Some ep" by blast
      from s on Returns True ep have "st' = snd (handle app mo (cr_value cr) rq ep ?st1)"
        by (auto simp: serve_request_def split: prod.splits outcome.splits)
      with moves_trans [OF first later [OF Returns ep]] show ?thesis by simp
    qed
  qed
qed

end

section \<open>A run\<close>

text \<open>
  A session waited for the second factor of the user \<open>n\<close> when a request came: it was in the store at
  the start, or a request before had earned it.
\<close>

definition waited_for :: "'s auth_env \<Rightarrow> (string \<Rightarrow> session option) \<Rightarrow> event list \<Rightarrow> string \<Rightarrow> bool" where
  "waited_for env old before n \<longleftrightarrow>
     (\<exists>v y. old v = Some y \<and> waits y n) \<or>
     (\<exists>mo rq y. Request mo rq \<in> set before \<and> earns env rq y \<and> waits y n)"

text \<open>A session was earned by one request, or by a login and, after it, a code of the same user.\<close>

definition earned :: "'s auth_env \<Rightarrow> (string \<Rightarrow> session option) \<Rightarrow> event list \<Rightarrow> session \<Rightarrow> bool" where
  "earned env old evs x \<longleftrightarrow>
     (\<exists>mo rq. Request mo rq \<in> set evs \<and> earns env rq x) \<or>
     (\<exists>before mo rq after. evs = before @ Request mo rq # after \<and> code_for env rq x \<and>
        waited_for env old before (se_username x))"

lemma earns_expiry [simp]: "earns env rq (x\<lparr>se_expiry := e\<rparr>) \<longleftrightarrow> earns env rq x"
  by (simp add: earns_def cong: option.case_cong endpoint.case_cong)

lemma code_for_expiry [simp]: "code_for env rq (x\<lparr>se_expiry := e\<rparr>) \<longleftrightarrow> code_for env rq x"
  by (simp add: code_for_def)

lemma waits_expiry [simp]: "waits (x\<lparr>se_expiry := e\<rparr>) n \<longleftrightarrow> waits x n"
  by (simp add: waits_def)

lemma expiry_free_earned [simp]: "expiry_free (earned env old evs)"
  by (simp add: expiry_free_def earned_def)

lemma earned_later: "earned env old evs x \<Longrightarrow> earned env old (evs @ evs') x"
  unfolding earned_def by fastforce

text \<open>What a request may add to sessions that were earned before has been earned after it.\<close>

lemma adds_earned:
  assumes "adds env m rq x" "grows (earned env old evs) old m"
  shows "earned env old (evs @ [Request mo rq]) x"
proof (cases "earns env rq x")
  case True
  then show ?thesis by (auto simp: earned_def)
next
  case False
  with assms(1) obtain v y where c: "code_for env rq x" "m v = Some y" "waits y (se_username x)"
    by (auto simp: adds_def)
  have "waited_for env old evs (se_username x)"
  proof (cases "earned env old evs y")
    case True
    with c(3) have "\<exists>mo rq. Request mo rq \<in> set evs \<and> earns env rq y"
      by (auto simp: earned_def code_for_def waits_def)
    with c(3) show ?thesis by (auto simp: waited_for_def)
  next
    case False
    with assms(2) c(2) obtain z where "old v = Some z" "y = z\<lparr>se_expiry := se_expiry y\<rparr>"
      unfolding grows_def by blast
    with c(3) waits_expiry [of "se_expiry y" z "se_username x"] have "old v = Some z \<and> waits z (se_username x)" by simp
    then show ?thesis by (auto simp: waited_for_def)
  qed
  with c(1) show ?thesis unfolding earned_def
    by (intro disjI2 exI [of _ evs] exI [of _ mo] exI [of _ rq] exI [of _ "[]"]) simp
qed

text \<open>The invariant of a run.\<close>

definition lives ::
  "('s \<Rightarrow> bool) \<Rightarrow> ('s \<Rightarrow> string \<Rightarrow> session option) \<Rightarrow> 's auth_env \<Rightarrow> (string \<Rightarrow> session option) \<Rightarrow> event list \<Rightarrow>
     's auth_state \<Rightarrow> bool"
where
  "lives good sess env old evs a \<longleftrightarrow> good (as_store a) \<and> pending_known env a \<and>
     grows (earned env old evs) old (sess (as_store a))"

context two_tables
begin

lemma lives_moves:
  assumes "lives inv sess env old evs a" "moves P env a a'" "\<And>x. P x \<Longrightarrow> earned env old evs' x"
    "\<And>x. earned env old evs x \<Longrightarrow> earned env old evs' x"
  shows "lives inv sess env old evs' a'"
proof -
  have "grows (earned env old evs') old (sess (as_store a))"
    "grows (earned env old evs') (sess (as_store a)) (sess (as_store a'))"
    using assms by (auto simp: lives_def moves_def flow_def intro: grows_mono)
  then have "grows (earned env old evs') old (sess (as_store a'))" by (rule grows_trans) simp
  with assms(1,2) show ?thesis by (simp add: lives_def moves_def flow_def)
qed

lemma background_moves:
  assumes app: "runs_on ops app" and i: "inv (as_store (tt_auth st))" "pending_known (ta_auth app) (tt_auth st)"
    and s: "tinyauth_step app st Background st'"
  shows "moves (\<lambda>_. False) (ta_auth app) (tt_auth st) (tt_auth st')"
  using s
proof cases
  case (clean_sessions now)
  have "ae_ops (ta_auth app) = ops" using app by (simp add: runs_on_def)
  moreover have "flow inv sess (\<lambda>_. False) (tt_auth st) ((tt_auth st)\<lparr>as_store := snd (delete_expired_sessions_op ops (unix now) (as_store (tt_auth st)))\<rparr>)"
    using expire_inv [OF i(1), of "unix now"] expire_only [OF i(1), of "unix now"]
    by (auto simp: flow_def intro!: grows_subset)
  ultimately show ?thesis using clean_sessions i(2) by (simp add: moves_def db_cleanup_tick_def pending_known_def)
next
  case (sweep_auth ord now)
  with i show ?thesis by (auto simp: moves_def flow_def sweep_caches_def pending_known_def dest!: held_sweep)
next
  case (clean_tokens env now)
  with app i cleanup_apart [of env _ now] show ?thesis by (auto simp: runs_on_def intro!: oidc_moves)
next
  case (sweep_oidc ord now)
  with i show ?thesis by (simp add: moves_refl)
qed

lemma lives_step:
  assumes "runs_on ops app" "tinyauth_step app st ev st'" "lives inv sess (ta_auth app) old evs (tt_auth st)"
  shows "lives inv sess (ta_auth app) old (evs @ [ev]) (tt_auth st')"
proof -
  note i = assms(3) [unfolded lives_def]
  show ?thesis
  proof (cases ev)
    case (Request mo rq)
    with assms(2) obtain r where "serve_request app mo rq st = (r, st')" by (auto elim: tinyauth_step.cases)
    from lives_moves [OF assms(3) serve_moves [OF assms(1) _ _ this]] i Request adds_earned earned_later
    show ?thesis by blast
  next
    case Background
    from lives_moves [OF assms(3) background_moves [OF assms(1)]] i assms(2) Background earned_later
    show ?thesis by blast
  qed
qed

lemma lives_run:
  assumes "tinyauth_run app st0 evs st" "runs_on ops app" "lives inv sess (ta_auth app) old [] (tt_auth st0)"
  shows "lives inv sess (ta_auth app) old evs (tt_auth st)"
  using assms(1,3)
proof (induction rule: tinyauth_run.induct)
  case (next_event st0 evs st1 ev st2)
  then show ?case using lives_step [OF assms(2)] by blast
qed

end

lemma started_runs_on:
  assumes "app_setup h cfg ord fs = (Inr (app, st), fs')" "visits ord" "gm_wf (oac_providers (cfg_oauth cfg))"
  shows "runs_on (ae_ops (ta_auth app)) app"
proof -
  have "ov_id x = n \<and> n \<notin> set reserved_provider_names" if "get_service (ae_broker (ta_auth app)) n = Some x" for n x
    using started_services [OF assms that] by (auto simp: with_redirect_url_def oauth_update_config_def)
  with started_store [OF assms(1)] show ?thesis by (auto simp: runs_on_def services_named_def)
qed


section \<open>A login with two factors\<close>

definition two_factor_config :: config where
  "two_factor_config = demo_setup_config\<lparr>cfg_auth := (cfg_auth demo_setup_config)\<lparr>au_users := [''tom:pw2:123'']\<rparr>\<rparr>"

definition demo_moment :: "string \<Rightarrow> moment" where
  "demo_moment u = \<lparr>mo_order = id, mo_clock = (\<lambda>i. 50000000000), mo_fresh = Some u, mo_state = ''s'', mo_verifier = ''v'',
     mo_random = ''r'', mo_tokens = (''a'', ''b''), mo_labels = None, mo_stat = (\<lambda>p. StatMissing)\<rparr>"

definition second_factor :: http_request where
  "second_factor = (code_form ''u1'' ''123'')\<lparr>rq_cookies := [(''tinyauth-session-Auth.x.io'', ''u1'')]\<rparr>"

definition served :: "'s tinyauth \<Rightarrow> 's tinyauth_state \<Rightarrow> (moment \<times> http_request) list \<Rightarrow> 's tinyauth_state" where
  "served app st rqs = fold (\<lambda>(mo, rq) st. snd (serve_request app mo rq st)) rqs st"

lemma served_run: "tinyauth_run app st (map (\<lambda>(mo, rq). Request mo rq) rqs) (served app st rqs)"
proof (induction rqs rule: rev_induct)
  case (snoc x rqs)
  obtain mo rq where "x = (mo, rq)" by fastforce
  with snoc show ?case
    by (auto simp: served_def intro!: tinyauth_run.next_event tinyauth_step.request surjective_pairing)
qed (simp add: served_def no_event)

lemma two_factor_login:
  "(case fst (app_setup demo_host two_factor_config rev (\<lambda>p. FileMissing)) of
      Inl _ \<Rightarrow> False
    | Inr (app, st0) \<Rightarrow>
        map_option se_totp_pending (mem_sess (as_store (tt_auth (served app st0
          [(demo_moment ''u1'', login_form ''tom'' ''pw2''), (demo_moment ''u2'', second_factor)]))) ''u2'') = Some False)"
  by code_simp


end
