(* ===== verification/Sql.thy ===== *)
theory Sql
  imports Repository
begin

text \<open>
  The stores in a database, \<open>internal/repository/sqlite\<close> and \<open>internal/repository/postgres\<close>: the
  statements with their place holders, the methods of \<open>Queries\<close> that pass the arguments and read
  the answer, and the wrapper \<open>Store\<close> that maps errors. The two engines are third-party code: an
  engine is a parameter, and what SQL promises of it is the locale \<open>sql_engine\<close>. The statements of
  the packages are in \<open>SqlStores\<close>, the contract they keep in \<open>SqlContract\<close>.
\<close>

section \<open>Statements and their meaning\<close>

text \<open>A value of a column, as the driver passes it.\<close>

datatype sql_value = SqlNull | SqlText string | SqlInt int | SqlBool bool

text \<open>SQLite numbers the place holders by their position, PostgreSQL writes the number.\<close>

datatype marker = Mark | Numbered nat

datatype comparison = Equals | Below

type_synonym 'p condition = "string \<times> comparison \<times> 'p"

datatype 'p statement =
    InsertInto string "string list" "'p list" "string list"
  | SelectFrom "string list" string "'p condition list"
  | UpdateSet string "(string \<times> 'p) list" "'p condition list" "string list"
  | DeleteFrom string "'p condition list"

fun markers :: "'p statement \<Rightarrow> 'p list" where
  "markers (InsertInto t cols ps ret) = ps"
| "markers (SelectFrom cols t conds) = map (snd \<circ> snd) conds"
| "markers (UpdateSet t sets conds ret) = map snd sets @ map (snd \<circ> snd) conds"
| "markers (DeleteFrom t conds) = map (snd \<circ> snd) conds"

fun bind_from :: "nat \<Rightarrow> marker list \<Rightarrow> sql_value list \<Rightarrow> sql_value list option" where
  "bind_from i [] args = Some []"
| "bind_from i (Mark # ps) args =
     (if i < length args then map_option (\<lambda>vs. (args ! i) # vs) (bind_from (Suc i) ps args) else None)"
| "bind_from i (Numbered n # ps) args =
     (if 0 < n \<and> n \<le> length args then map_option (\<lambda>vs. (args ! (n - 1)) # vs) (bind_from i ps args) else None)"

fun refill_conditions :: "'p condition list \<Rightarrow> 'v list \<Rightarrow> 'v condition list" where
  "refill_conditions ((c, cmp, p) # conds) (v # vs) = (c, cmp, v) # refill_conditions conds vs"
| "refill_conditions _ _ = []"

fun refill :: "'p statement \<Rightarrow> 'v list \<Rightarrow> 'v statement" where
  "refill (InsertInto t cols ps ret) vs = InsertInto t cols vs ret"
| "refill (SelectFrom cols t conds) vs = SelectFrom cols t (refill_conditions conds vs)"
| "refill (UpdateSet t sets conds ret) vs =
     UpdateSet t (zip (map fst sets) vs) (refill_conditions conds (drop (length sets) vs)) ret"
| "refill (DeleteFrom t conds) vs = DeleteFrom t (refill_conditions conds vs)"

definition bind_statement :: "marker statement \<Rightarrow> sql_value list \<Rightarrow> sql_value statement option" where
  "bind_statement q args = map_option (refill q) (bind_from 0 (markers q) args)"

type_synonym sql_row = "string \<Rightarrow> sql_value"

type_synonym database = "string \<Rightarrow> sql_row list"

text \<open>The keys and unique columns of \<open>internal/assets/migrations\<close>.\<close>

definition unique_columns :: "string \<Rightarrow> string list" where
  "unique_columns t =
     (if t = ''sessions'' then [''uuid'']
      else if t = ''oidc_sessions'' then [''sub'', ''access_token_hash'', ''refresh_token_hash'']
      else [])"

definition unique_rows :: "string \<Rightarrow> sql_row list \<Rightarrow> bool" where
  "unique_rows t rows \<longleftrightarrow> list_all (\<lambda>c. distinct (map (\<lambda>r. r c) rows)) (unique_columns t)"

text \<open>A comparison with NULL holds of no row.\<close>

fun holds :: "sql_row \<Rightarrow> sql_value condition \<Rightarrow> bool" where
  "holds r (c, Equals, v) = (r c = v \<and> v \<noteq> SqlNull)"
| "holds r (c, Below, v) = (case (r c, v) of (SqlInt a, SqlInt b) \<Rightarrow> a < b | _ \<Rightarrow> False)"

definition hit :: "sql_value condition list \<Rightarrow> sql_row \<Rightarrow> bool" where
  "hit conds r \<longleftrightarrow> list_all (holds r) conds"

definition row_of :: "(string \<times> sql_value) list \<Rightarrow> sql_row" where
  "row_of m c = (case map_of m c of None \<Rightarrow> SqlNull | Some v \<Rightarrow> v)"

definition set_row :: "(string \<times> sql_value) list \<Rightarrow> sql_row \<Rightarrow> sql_row" where
  "set_row m r c = (case map_of m c of None \<Rightarrow> r c | Some v \<Rightarrow> v)"

text \<open>The answer and the tables after a statement, \<open>None\<close> when a constraint forbids it.\<close>

fun run :: "sql_value statement \<Rightarrow> database \<Rightarrow> (sql_value list list \<times> database) option" where
  "run (InsertInto t cols vs ret) db =
     (let r = row_of (zip cols vs)
      in if unique_rows t (r # db t) then Some ([map r ret], db(t := r # db t)) else None)"
| "run (SelectFrom cols t conds) db = Some (map (\<lambda>r. map r cols) (filter (hit conds) (db t)), db)"
| "run (UpdateSet t sets conds ret) db =
     (let rows = map (\<lambda>r. if hit conds r then set_row sets r else r) (db t)
      in if unique_rows t rows
         then Some (map (\<lambda>r. map (set_row sets r) ret) (filter (hit conds) (db t)), db(t := rows)) else None)"
| "run (DeleteFrom t conds) db = Some ([], db(t := filter (\<lambda>r. \<not> hit conds r) (db t)))"

section \<open>The engine\<close>

text \<open>
  \<open>DBTX\<close>: the rows a statement gives back or the text of an error, and the text of the error when
  a value does not fit the field it is read into.
\<close>

record 'd sql_db =
  db_exec :: "marker statement \<Rightarrow> sql_value list \<Rightarrow> 'd \<Rightarrow> (string + sql_value list list) \<times> 'd"
  db_scan_error :: "sql_value list \<Rightarrow> string"

text \<open>
  What SQL promises: a statement that succeeds has the meaning above, up to the order of rows; one
  that fails has changed no table; a query changes nothing.
\<close>

locale sql_engine =
  fixes db :: "'d sql_db" and tables :: "'d \<Rightarrow> database"
  assumes exec_ok: "db_exec db q args d = (Inr rs, d') \<Longrightarrow>
      \<exists>bq rs' m. bind_statement q args = Some bq \<and> run bq (tables d) = Some (rs', m) \<and>
        mset rs = mset rs' \<and> (\<forall>t. mset (tables d' t) = mset (m t))"
    and exec_err: "db_exec db q args d = (Inl e, d') \<Longrightarrow> mset (tables d' t) = mset (tables d t)"
    and exec_select: "snd (db_exec db (SelectFrom cols t conds) args d) = d"

section \<open>Queries\<close>

datatype sql_error = NoRows | DriverError string

definition query_row ::
  "'d sql_db \<Rightarrow> (sql_value list \<Rightarrow> 'a option) \<Rightarrow> marker statement \<Rightarrow> sql_value list \<Rightarrow> 'd \<Rightarrow> (sql_error + 'a) \<times> 'd"
where
  "query_row db scan q args d =
     (case db_exec db q args d of
        (Inl e, d') \<Rightarrow> (Inl (DriverError e), d')
      | (Inr [], d') \<Rightarrow> (Inl NoRows, d')
      | (Inr (r # _), d') \<Rightarrow>
          (case scan r of None \<Rightarrow> (Inl (DriverError (db_scan_error db r)), d') | Some x \<Rightarrow> (Inr x, d')))"

definition exec_only :: "'d sql_db \<Rightarrow> marker statement \<Rightarrow> sql_value list \<Rightarrow> 'd \<Rightarrow> sql_error option \<times> 'd" where
  "exec_only db q args d =
     (case db_exec db q args d of (Inl e, d') \<Rightarrow> (Some (DriverError e), d') | (Inr _, d') \<Rightarrow> (None, d'))"

definition session_columns :: "string list" where
  "session_columns = [''uuid'', ''username'', ''email'', ''name'', ''provider'', ''totp_pending'', ''oauth_groups'',
     ''expiry'', ''created_at'', ''oauth_name'', ''oauth_sub'']"

definition oidc_columns :: "string list" where
  "oidc_columns = [''sub'', ''access_token_hash'', ''refresh_token_hash'', ''scope'', ''client_id'', ''token_expires_at'',
     ''refresh_token_expires_at'', ''nonce'', ''userinfo_json'']"

text \<open>Reading a row into the fields of a struct; a NULL does not fit.\<close>

fun text_of :: "sql_value \<Rightarrow> string option" where
  "text_of (SqlText s) = Some s"
| "text_of _ = None"

fun number_of :: "sql_value \<Rightarrow> int option" where
  "number_of (SqlInt n) = Some n"
| "number_of _ = None"

fun truth_of :: "sql_value \<Rightarrow> bool option" where
  "truth_of (SqlBool b) = Some b"
| "truth_of _ = None"

definition scan_session :: "sql_value list \<Rightarrow> session option" where
  "scan_session vs = (if length vs \<noteq> 11 then None else
     Option.bind (text_of (vs ! 0)) (\<lambda>u.
     Option.bind (text_of (vs ! 1)) (\<lambda>n.
     Option.bind (text_of (vs ! 2)) (\<lambda>e.
     Option.bind (text_of (vs ! 3)) (\<lambda>nm.
     Option.bind (text_of (vs ! 4)) (\<lambda>p.
     Option.bind (truth_of (vs ! 5)) (\<lambda>t.
     Option.bind (text_of (vs ! 6)) (\<lambda>g.
     Option.bind (number_of (vs ! 7)) (\<lambda>x.
     Option.bind (number_of (vs ! 8)) (\<lambda>c.
     Option.bind (text_of (vs ! 9)) (\<lambda>on.
     Option.bind (text_of (vs ! 10)) (\<lambda>os.
     Some \<lparr>se_uuid = u, se_username = n, se_email = e, se_name = nm, se_provider = p, se_totp_pending = t,
       se_oauth_groups = g, se_expiry = x, se_created_at = c, se_oauth_name = on, se_oauth_sub = os\<rparr>))))))))))))"

definition scan_oidc_session :: "sql_value list \<Rightarrow> oidc_session option" where
  "scan_oidc_session vs = (if length vs \<noteq> 9 then None else
     Option.bind (text_of (vs ! 0)) (\<lambda>s.
     Option.bind (text_of (vs ! 1)) (\<lambda>a.
     Option.bind (text_of (vs ! 2)) (\<lambda>r.
     Option.bind (text_of (vs ! 3)) (\<lambda>sc.
     Option.bind (text_of (vs ! 4)) (\<lambda>c.
     Option.bind (number_of (vs ! 5)) (\<lambda>t.
     Option.bind (number_of (vs ! 6)) (\<lambda>rt.
     Option.bind (text_of (vs ! 7)) (\<lambda>n.
     Option.bind (text_of (vs ! 8)) (\<lambda>u.
     Some \<lparr>os_sub = s, os_access_token_hash = a, os_refresh_token_hash = r, os_scope = sc, os_client_id = c,
       os_token_expires_at = t, os_refresh_token_expires_at = rt, os_nonce = n, os_userinfo_json = u\<rparr>))))))))))"

definition session_args :: "create_session_params \<Rightarrow> sql_value list" where
  "session_args a =
     [SqlText (se_uuid a), SqlText (se_username a), SqlText (se_email a), SqlText (se_name a), SqlText (se_provider a),
      SqlBool (se_totp_pending a), SqlText (se_oauth_groups a), SqlInt (se_expiry a), SqlInt (se_created_at a),
      SqlText (se_oauth_name a), SqlText (se_oauth_sub a)]"

definition update_session_args :: "update_session_params \<Rightarrow> sql_value list" where
  "update_session_args p =
     [SqlText (us_username p), SqlText (us_email p), SqlText (us_name p), SqlText (us_provider p),
      SqlBool (us_totp_pending p), SqlText (us_oauth_groups p), SqlInt (us_expiry p), SqlText (us_oauth_name p),
      SqlText (us_oauth_sub p), SqlText (us_uuid p)]"

definition oidc_args :: "create_oidc_session_params \<Rightarrow> sql_value list" where
  "oidc_args a =
     [SqlText (os_sub a), SqlText (os_access_token_hash a), SqlText (os_refresh_token_hash a), SqlText (os_scope a),
      SqlText (os_client_id a), SqlInt (os_token_expires_at a), SqlInt (os_refresh_token_expires_at a),
      SqlText (os_nonce a), SqlText (os_userinfo_json a)]"

definition update_oidc_args :: "update_oidc_session_params \<Rightarrow> sql_value list" where
  "update_oidc_args a = tl (oidc_args a) @ [SqlText (os_sub a)]"

end
