(* ===== verification/SqlStores.thy ===== *)
theory SqlStores
  imports Sql
begin

text \<open>
  The two packages of generated queries and their wrappers: \<open>sqlite_\<close> and \<open>postgres_\<close> name the
  package. Each statement is the text of its constant, each method passes the arguments in the
  order the text needs them. That both stores keep the contract \<open>two_tables\<close> is in \<open>SqlContract\<close>.
\<close>

section \<open>SQLite\<close>

definition sqlite_create_session_sql :: "marker statement" where
  "sqlite_create_session_sql = InsertInto ''sessions'' session_columns (replicate 11 Mark) session_columns"

definition sqlite_delete_expired_sessions_sql :: "marker statement" where
  "sqlite_delete_expired_sessions_sql = DeleteFrom ''sessions'' [(''expiry'', Below, Mark)]"

definition sqlite_delete_session_sql :: "marker statement" where
  "sqlite_delete_session_sql = DeleteFrom ''sessions'' [(''uuid'', Equals, Mark)]"

definition sqlite_get_session_sql :: "marker statement" where
  "sqlite_get_session_sql = SelectFrom session_columns ''sessions'' [(''uuid'', Equals, Mark)]"

definition sqlite_update_session_sql :: "marker statement" where
  "sqlite_update_session_sql = UpdateSet ''sessions''
     [(''username'', Mark), (''email'', Mark), (''name'', Mark), (''provider'', Mark),
      (''totp_pending'', Mark), (''oauth_groups'', Mark), (''expiry'', Mark), (''oauth_name'', Mark),
      (''oauth_sub'', Mark)]
     [(''uuid'', Equals, Mark)] session_columns"

definition sqlite_create_oidc_session_sql :: "marker statement" where
  "sqlite_create_oidc_session_sql = InsertInto ''oidc_sessions'' oidc_columns (replicate 9 Mark) oidc_columns"

definition sqlite_delete_expired_oidc_sessions_sql :: "marker statement" where
  "sqlite_delete_expired_oidc_sessions_sql = DeleteFrom ''oidc_sessions''
     [(''token_expires_at'', Below, Mark), (''refresh_token_expires_at'', Below, Mark)]"

definition sqlite_delete_oidc_session_by_sub_sql :: "marker statement" where
  "sqlite_delete_oidc_session_by_sub_sql = DeleteFrom ''oidc_sessions'' [(''sub'', Equals, Mark)]"

definition sqlite_get_oidc_session_by_access_token_hash_sql :: "marker statement" where
  "sqlite_get_oidc_session_by_access_token_hash_sql = SelectFrom oidc_columns ''oidc_sessions'' [(''access_token_hash'', Equals, Mark)]"

definition sqlite_get_oidc_session_by_refresh_token_hash_sql :: "marker statement" where
  "sqlite_get_oidc_session_by_refresh_token_hash_sql = SelectFrom oidc_columns ''oidc_sessions'' [(''refresh_token_hash'', Equals, Mark)]"

definition sqlite_get_oidc_session_by_sub_sql :: "marker statement" where
  "sqlite_get_oidc_session_by_sub_sql = SelectFrom oidc_columns ''oidc_sessions'' [(''sub'', Equals, Mark)]"

definition sqlite_update_oidc_session_sql :: "marker statement" where
  "sqlite_update_oidc_session_sql = UpdateSet ''oidc_sessions''
     [(''access_token_hash'', Mark), (''refresh_token_hash'', Mark), (''scope'', Mark), (''client_id'', Mark),
      (''token_expires_at'', Mark), (''refresh_token_expires_at'', Mark), (''nonce'', Mark),
      (''userinfo_json'', Mark)]
     [(''sub'', Equals, Mark)] oidc_columns"

definition sqlite_create_session :: "'d sql_db \<Rightarrow> create_session_params \<Rightarrow> 'd \<Rightarrow> (sql_error + session) \<times> 'd" where
  "sqlite_create_session db arg = query_row db scan_session sqlite_create_session_sql (session_args arg)"

definition sqlite_delete_expired_sessions :: "'d sql_db \<Rightarrow> int \<Rightarrow> 'd \<Rightarrow> sql_error option \<times> 'd" where
  "sqlite_delete_expired_sessions db expiry = exec_only db sqlite_delete_expired_sessions_sql [SqlInt expiry]"

definition sqlite_delete_session :: "'d sql_db \<Rightarrow> string \<Rightarrow> 'd \<Rightarrow> sql_error option \<times> 'd" where
  "sqlite_delete_session db uuid = exec_only db sqlite_delete_session_sql [SqlText uuid]"

definition sqlite_get_session :: "'d sql_db \<Rightarrow> string \<Rightarrow> 'd \<Rightarrow> (sql_error + session) \<times> 'd" where
  "sqlite_get_session db uuid = query_row db scan_session sqlite_get_session_sql [SqlText uuid]"

definition sqlite_update_session :: "'d sql_db \<Rightarrow> update_session_params \<Rightarrow> 'd \<Rightarrow> (sql_error + session) \<times> 'd" where
  "sqlite_update_session db arg = query_row db scan_session sqlite_update_session_sql (update_session_args arg)"

definition sqlite_create_oidc_session :: "'d sql_db \<Rightarrow> create_oidc_session_params \<Rightarrow> 'd \<Rightarrow> (sql_error + oidc_session) \<times> 'd" where
  "sqlite_create_oidc_session db arg = query_row db scan_oidc_session sqlite_create_oidc_session_sql (oidc_args arg)"

definition sqlite_delete_expired_oidc_sessions :: "'d sql_db \<Rightarrow> delete_expired_oidc_params \<Rightarrow> 'd \<Rightarrow> sql_error option \<times> 'd" where
  "sqlite_delete_expired_oidc_sessions db arg = exec_only db sqlite_delete_expired_oidc_sessions_sql [SqlInt (de_token_expires_at arg), SqlInt (de_refresh_token_expires_at arg)]"

definition sqlite_delete_oidc_session_by_sub :: "'d sql_db \<Rightarrow> string \<Rightarrow> 'd \<Rightarrow> sql_error option \<times> 'd" where
  "sqlite_delete_oidc_session_by_sub db sub = exec_only db sqlite_delete_oidc_session_by_sub_sql [SqlText sub]"

definition sqlite_get_oidc_session_by_access_token_hash :: "'d sql_db \<Rightarrow> string \<Rightarrow> 'd \<Rightarrow> (sql_error + oidc_session) \<times> 'd" where
  "sqlite_get_oidc_session_by_access_token_hash db h = query_row db scan_oidc_session sqlite_get_oidc_session_by_access_token_hash_sql [SqlText h]"

definition sqlite_get_oidc_session_by_refresh_token_hash :: "'d sql_db \<Rightarrow> string \<Rightarrow> 'd \<Rightarrow> (sql_error + oidc_session) \<times> 'd" where
  "sqlite_get_oidc_session_by_refresh_token_hash db h = query_row db scan_oidc_session sqlite_get_oidc_session_by_refresh_token_hash_sql [SqlText h]"

definition sqlite_get_oidc_session_by_sub :: "'d sql_db \<Rightarrow> string \<Rightarrow> 'd \<Rightarrow> (sql_error + oidc_session) \<times> 'd" where
  "sqlite_get_oidc_session_by_sub db sub = query_row db scan_oidc_session sqlite_get_oidc_session_by_sub_sql [SqlText sub]"

definition sqlite_update_oidc_session :: "'d sql_db \<Rightarrow> update_oidc_session_params \<Rightarrow> 'd \<Rightarrow> (sql_error + oidc_session) \<times> 'd" where
  "sqlite_update_oidc_session db arg = query_row db scan_oidc_session sqlite_update_oidc_session_sql (update_oidc_args arg)"

section \<open>PostgreSQL\<close>

definition postgres_create_session_sql :: "marker statement" where
  "postgres_create_session_sql = InsertInto ''sessions'' session_columns (map Numbered [1..<12]) session_columns"

definition postgres_delete_expired_sessions_sql :: "marker statement" where
  "postgres_delete_expired_sessions_sql = DeleteFrom ''sessions'' [(''expiry'', Below, Numbered 1)]"

definition postgres_delete_session_sql :: "marker statement" where
  "postgres_delete_session_sql = DeleteFrom ''sessions'' [(''uuid'', Equals, Numbered 1)]"

definition postgres_get_session_sql :: "marker statement" where
  "postgres_get_session_sql = SelectFrom session_columns ''sessions'' [(''uuid'', Equals, Numbered 1)]"

definition postgres_update_session_sql :: "marker statement" where
  "postgres_update_session_sql = UpdateSet ''sessions''
     [(''username'', Numbered 1), (''email'', Numbered 2), (''name'', Numbered 3), (''provider'', Numbered 4),
      (''totp_pending'', Numbered 5), (''oauth_groups'', Numbered 6), (''expiry'', Numbered 7),
      (''oauth_name'', Numbered 8), (''oauth_sub'', Numbered 9)]
     [(''uuid'', Equals, Numbered 10)] session_columns"

definition postgres_create_oidc_session_sql :: "marker statement" where
  "postgres_create_oidc_session_sql = InsertInto ''oidc_sessions'' oidc_columns (map Numbered [1..<10]) oidc_columns"

definition postgres_delete_expired_oidc_sessions_sql :: "marker statement" where
  "postgres_delete_expired_oidc_sessions_sql = DeleteFrom ''oidc_sessions''
     [(''token_expires_at'', Below, Numbered 1), (''refresh_token_expires_at'', Below, Numbered 2)]"

definition postgres_delete_oidc_session_by_sub_sql :: "marker statement" where
  "postgres_delete_oidc_session_by_sub_sql = DeleteFrom ''oidc_sessions'' [(''sub'', Equals, Numbered 1)]"

definition postgres_get_oidc_session_by_access_token_hash_sql :: "marker statement" where
  "postgres_get_oidc_session_by_access_token_hash_sql = SelectFrom oidc_columns ''oidc_sessions'' [(''access_token_hash'', Equals, Numbered 1)]"

definition postgres_get_oidc_session_by_refresh_token_hash_sql :: "marker statement" where
  "postgres_get_oidc_session_by_refresh_token_hash_sql = SelectFrom oidc_columns ''oidc_sessions'' [(''refresh_token_hash'', Equals, Numbered 1)]"

definition postgres_get_oidc_session_by_sub_sql :: "marker statement" where
  "postgres_get_oidc_session_by_sub_sql = SelectFrom oidc_columns ''oidc_sessions'' [(''sub'', Equals, Numbered 1)]"

definition postgres_update_oidc_session_sql :: "marker statement" where
  "postgres_update_oidc_session_sql = UpdateSet ''oidc_sessions''
     [(''access_token_hash'', Numbered 1), (''refresh_token_hash'', Numbered 2), (''scope'', Numbered 3),
      (''client_id'', Numbered 4), (''token_expires_at'', Numbered 5),
      (''refresh_token_expires_at'', Numbered 6), (''nonce'', Numbered 7), (''userinfo_json'', Numbered 8)]
     [(''sub'', Equals, Numbered 9)] oidc_columns"

definition postgres_create_session :: "'d sql_db \<Rightarrow> create_session_params \<Rightarrow> 'd \<Rightarrow> (sql_error + session) \<times> 'd" where
  "postgres_create_session db arg = query_row db scan_session postgres_create_session_sql (session_args arg)"

definition postgres_delete_expired_sessions :: "'d sql_db \<Rightarrow> int \<Rightarrow> 'd \<Rightarrow> sql_error option \<times> 'd" where
  "postgres_delete_expired_sessions db expiry = exec_only db postgres_delete_expired_sessions_sql [SqlInt expiry]"

definition postgres_delete_session :: "'d sql_db \<Rightarrow> string \<Rightarrow> 'd \<Rightarrow> sql_error option \<times> 'd" where
  "postgres_delete_session db uuid = exec_only db postgres_delete_session_sql [SqlText uuid]"

definition postgres_get_session :: "'d sql_db \<Rightarrow> string \<Rightarrow> 'd \<Rightarrow> (sql_error + session) \<times> 'd" where
  "postgres_get_session db uuid = query_row db scan_session postgres_get_session_sql [SqlText uuid]"

definition postgres_update_session :: "'d sql_db \<Rightarrow> update_session_params \<Rightarrow> 'd \<Rightarrow> (sql_error + session) \<times> 'd" where
  "postgres_update_session db arg = query_row db scan_session postgres_update_session_sql (update_session_args arg)"

definition postgres_create_oidc_session :: "'d sql_db \<Rightarrow> create_oidc_session_params \<Rightarrow> 'd \<Rightarrow> (sql_error + oidc_session) \<times> 'd" where
  "postgres_create_oidc_session db arg = query_row db scan_oidc_session postgres_create_oidc_session_sql (oidc_args arg)"

definition postgres_delete_expired_oidc_sessions :: "'d sql_db \<Rightarrow> delete_expired_oidc_params \<Rightarrow> 'd \<Rightarrow> sql_error option \<times> 'd" where
  "postgres_delete_expired_oidc_sessions db arg = exec_only db postgres_delete_expired_oidc_sessions_sql [SqlInt (de_token_expires_at arg), SqlInt (de_refresh_token_expires_at arg)]"

definition postgres_delete_oidc_session_by_sub :: "'d sql_db \<Rightarrow> string \<Rightarrow> 'd \<Rightarrow> sql_error option \<times> 'd" where
  "postgres_delete_oidc_session_by_sub db sub = exec_only db postgres_delete_oidc_session_by_sub_sql [SqlText sub]"

definition postgres_get_oidc_session_by_access_token_hash :: "'d sql_db \<Rightarrow> string \<Rightarrow> 'd \<Rightarrow> (sql_error + oidc_session) \<times> 'd" where
  "postgres_get_oidc_session_by_access_token_hash db h = query_row db scan_oidc_session postgres_get_oidc_session_by_access_token_hash_sql [SqlText h]"

definition postgres_get_oidc_session_by_refresh_token_hash :: "'d sql_db \<Rightarrow> string \<Rightarrow> 'd \<Rightarrow> (sql_error + oidc_session) \<times> 'd" where
  "postgres_get_oidc_session_by_refresh_token_hash db h = query_row db scan_oidc_session postgres_get_oidc_session_by_refresh_token_hash_sql [SqlText h]"

definition postgres_get_oidc_session_by_sub :: "'d sql_db \<Rightarrow> string \<Rightarrow> 'd \<Rightarrow> (sql_error + oidc_session) \<times> 'd" where
  "postgres_get_oidc_session_by_sub db sub = query_row db scan_oidc_session postgres_get_oidc_session_by_sub_sql [SqlText sub]"

definition postgres_update_oidc_session :: "'d sql_db \<Rightarrow> update_oidc_session_params \<Rightarrow> 'd \<Rightarrow> (sql_error + oidc_session) \<times> 'd" where
  "postgres_update_oidc_session db arg = query_row db scan_oidc_session postgres_update_oidc_session_sql (update_oidc_args arg)"

section \<open>The wrappers\<close>

text \<open>Only a missing row has an error of its own. A query that reads cannot change the database.\<close>

fun map_err :: "sql_error \<Rightarrow> store_error" where
  "map_err NoRows = ErrNotFound"
| "map_err (DriverError e) = StoreFailure e"

definition sqlite_store :: "'d sql_db \<Rightarrow> 'd store_ops" where
  "sqlite_store db =
     \<lparr>create_session_op = (\<lambda>a d. map_prod (map_sum map_err id) id (sqlite_create_session db a d)),
      get_session_op = (\<lambda>k d. map_sum map_err id (fst (sqlite_get_session db k d))),
      update_session_op = (\<lambda>a d. map_prod (map_sum map_err id) id (sqlite_update_session db a d)),
      delete_session_op = (\<lambda>k d. map_prod (map_option map_err) id (sqlite_delete_session db k d)),
      delete_expired_sessions_op = (\<lambda>k d. map_prod (map_option map_err) id (sqlite_delete_expired_sessions db k d)),
      create_oidc_session_op = (\<lambda>a d. map_prod (map_sum map_err id) id (sqlite_create_oidc_session db a d)),
      delete_expired_oidc_sessions_op = (\<lambda>k d. map_prod (map_option map_err) id (sqlite_delete_expired_oidc_sessions db k d)),
      delete_oidc_session_by_sub_op = (\<lambda>k d. map_prod (map_option map_err) id (sqlite_delete_oidc_session_by_sub db k d)),
      get_oidc_session_by_access_token_hash_op = (\<lambda>k d. map_sum map_err id (fst (sqlite_get_oidc_session_by_access_token_hash db k d))),
      get_oidc_session_by_refresh_token_hash_op = (\<lambda>k d. map_sum map_err id (fst (sqlite_get_oidc_session_by_refresh_token_hash db k d))),
      get_oidc_session_by_sub_op = (\<lambda>k d. map_sum map_err id (fst (sqlite_get_oidc_session_by_sub db k d))),
      update_oidc_session_op = (\<lambda>a d. map_prod (map_sum map_err id) id (sqlite_update_oidc_session db a d))\<rparr>"

definition postgres_store :: "'d sql_db \<Rightarrow> 'd store_ops" where
  "postgres_store db =
     \<lparr>create_session_op = (\<lambda>a d. map_prod (map_sum map_err id) id (postgres_create_session db a d)),
      get_session_op = (\<lambda>k d. map_sum map_err id (fst (postgres_get_session db k d))),
      update_session_op = (\<lambda>a d. map_prod (map_sum map_err id) id (postgres_update_session db a d)),
      delete_session_op = (\<lambda>k d. map_prod (map_option map_err) id (postgres_delete_session db k d)),
      delete_expired_sessions_op = (\<lambda>k d. map_prod (map_option map_err) id (postgres_delete_expired_sessions db k d)),
      create_oidc_session_op = (\<lambda>a d. map_prod (map_sum map_err id) id (postgres_create_oidc_session db a d)),
      delete_expired_oidc_sessions_op = (\<lambda>k d. map_prod (map_option map_err) id (postgres_delete_expired_oidc_sessions db k d)),
      delete_oidc_session_by_sub_op = (\<lambda>k d. map_prod (map_option map_err) id (postgres_delete_oidc_session_by_sub db k d)),
      get_oidc_session_by_access_token_hash_op = (\<lambda>k d. map_sum map_err id (fst (postgres_get_oidc_session_by_access_token_hash db k d))),
      get_oidc_session_by_refresh_token_hash_op = (\<lambda>k d. map_sum map_err id (fst (postgres_get_oidc_session_by_refresh_token_hash db k d))),
      get_oidc_session_by_sub_op = (\<lambda>k d. map_sum map_err id (fst (postgres_get_oidc_session_by_sub db k d))),
      update_oidc_session_op = (\<lambda>a d. map_prod (map_sum map_err id) id (postgres_update_oidc_session db a d))\<rparr>"

end
