(* ===== verification/SqlContract.thy ===== *)
theory SqlContract
  imports SqlStores
begin

text \<open>
  A table of readable rows under a key is a map, and every statement of the stores does to the map
  what the contract of the repository says. The reference engine executes the meaning of the
  statements; every engine that keeps \<open>sql_engine\<close> gives both stores the contract.
\<close>

section \<open>A table as a map\<close>

lemma option_eqI: "(\<And>y. f = Some y \<longleftrightarrow> g = Some y) \<Longrightarrow> f = g"
  by (cases f; cases g) auto

lemma found: "List.find P xs = Some x \<Longrightarrow> x \<in> set xs \<and> P x"
  by (auto simp: find_Some_iff)

lemma unique_rows_mset: "mset rows' = mset rows \<Longrightarrow> unique_rows t rows' = unique_rows t rows"
proof -
  assume *: "mset rows' = mset rows"
  have "distinct (map f rows') = distinct (map f rows)" for f :: "sql_row \<Rightarrow> sql_value"
    by (rule mset_eq_imp_distinct_iff) (simp add: *)
  then show ?thesis by (simp add: unique_rows_def)
qed

text \<open>The rows of the table \<open>t\<close> read as values, found by the text of the column \<open>kcol\<close>.\<close>

locale row_reader =
  fixes t kcol :: string and rd :: "sql_row \<Rightarrow> 'x option" and kof :: "'x \<Rightarrow> string"
  assumes key_column: "kcol \<in> set (unique_columns t)"
    and read_key: "rd r = Some x \<Longrightarrow> r kcol = SqlText (kof x)"
begin

definition good_rows :: "sql_row list \<Rightarrow> bool" where
  "good_rows rows \<longleftrightarrow> unique_rows t rows \<and> (\<forall>r\<in>set rows. rd r \<noteq> None)"

definition look :: "sql_row list \<Rightarrow> string \<Rightarrow> 'x option" where
  "look rows u = Option.bind (List.find (\<lambda>r. r kcol = SqlText u) rows) rd"

lemma good_key: "good_rows rows \<Longrightarrow> r \<in> set rows \<Longrightarrow> r' \<in> set rows \<Longrightarrow> r kcol = r' kcol \<Longrightarrow> r = r'"
  using key_column by (auto simp: good_rows_def unique_rows_def list_all_iff distinct_map dest: inj_onD)

lemma look_iff:
  assumes "good_rows rows"
  shows "look rows u = Some x \<longleftrightarrow> (\<exists>r\<in>set rows. rd r = Some x \<and> kof x = u)"
proof
  assume "look rows u = Some x"
  then obtain r where r: "r \<in> set rows" "r kcol = SqlText u" "rd r = Some x"
    by (auto simp: look_def bind_eq_Some_conv dest: found)
  with read_key [OF r(3)] show "\<exists>r\<in>set rows. rd r = Some x \<and> kof x = u" by auto
next
  assume "\<exists>r\<in>set rows. rd r = Some x \<and> kof x = u"
  then obtain r where r: "r \<in> set rows" "rd r = Some x" "r kcol = SqlText u" using read_key by blast
  then obtain r' where f: "List.find (\<lambda>r. r kcol = SqlText u) rows = Some r'"
    by (cases "List.find (\<lambda>r. r kcol = SqlText u) rows") (auto simp: find_None_iff)
  with r(3) have "r' \<in> set rows" "r' kcol = r kcol" by (auto dest: found)
  with good_key [OF assms] r(1) have "r' = r" by blast
  with r f show "look rows u = Some x" by (simp add: look_def)
qed

lemma look_key: "good_rows rows \<Longrightarrow> look rows u = Some x \<Longrightarrow> kof x = u"
  by (simp add: look_iff)

lemma good_mset:
  assumes "mset rows' = mset rows"
  shows "good_rows rows' = good_rows rows"
  unfolding good_rows_def unique_rows_mset [OF assms] mset_eq_setD [OF assms] ..

lemma look_mset:
  assumes "mset rows' = mset rows" "good_rows rows"
  shows "look rows' = look rows"
proof (rule ext, rule option_eqI)
  have g: "good_rows rows'" using assms(2) good_mset [OF assms(1)] by blast
  show "look rows' u = Some x \<longleftrightarrow> look rows u = Some x" for u x
    by (simp only: look_iff [OF assms(2)] look_iff [OF g] mset_eq_setD [OF assms(1)])
qed

lemma look_insert:
  assumes "good_rows rows" "unique_rows t (r # rows)" "rd r = Some a"
  shows "good_rows (r # rows) \<and> look (r # rows) = (look rows)(kof a \<mapsto> a) \<and> look rows (kof a) = None"
proof -
  have g: "good_rows (r # rows)" using assms by (simp add: good_rows_def)
  have new: "kof x \<noteq> kof a" if "r' \<in> set rows" "rd r' = Some x" for r' x
  proof
    assume "kof x = kof a"
    with read_key [OF that(2)] read_key [OF assms(3)] have "r kcol = r' kcol" by simp
    moreover have "r kcol \<notin> (\<lambda>r. r kcol) ` set rows"
      using assms(2) key_column by (auto simp: unique_rows_def list_all_iff)
    ultimately show False using that(1) by auto
  qed
  then have "look rows (kof a) \<noteq> Some x" for x by (auto simp: look_iff [OF assms(1)])
  then have "look rows (kof a) = None" by auto
  moreover have "look (r # rows) = (look rows)(kof a \<mapsto> a)"
  proof (intro ext option_eqI)
    show "look (r # rows) u = Some x \<longleftrightarrow> ((look rows)(kof a \<mapsto> a)) u = Some x" for u x
      using new assms(3) by (auto simp: look_iff [OF g] look_iff [OF assms(1)])
  qed
  ultimately show ?thesis using g by blast
qed

lemma look_filter:
  assumes "good_rows rows" "\<And>r x. r \<in> set rows \<Longrightarrow> rd r = Some x \<Longrightarrow> P r = Q x"
  shows "good_rows (filter P rows) \<and>
    look (filter P rows) u = (case look rows u of None \<Rightarrow> None | Some x \<Rightarrow> if Q x then Some x else None)"
proof -
  have g: "good_rows (filter P rows)"
    using assms(1) by (auto simp: good_rows_def unique_rows_def list_all_iff distinct_map_filter)
  have "look (filter P rows) u = Some x \<longleftrightarrow> look rows u = Some x \<and> Q x" for x
    using assms(2) by (auto simp: look_iff [OF g] look_iff [OF assms(1)])
  then have "look (filter P rows) u = (case look rows u of None \<Rightarrow> None | Some x \<Rightarrow> if Q x then Some x else None)"
    by (intro option_eqI) (auto split: option.split if_splits)
  with g show ?thesis by blast
qed

lemma look_update:
  assumes "good_rows rows" "unique_rows t (map (\<lambda>r. if r kcol = SqlText u then f r else r) rows)"
    "\<And>r y. r \<in> set rows \<Longrightarrow> rd r = Some y \<Longrightarrow> kof y = u \<Longrightarrow> rd (f r) = Some (g y) \<and> kof (g y) = u"
  shows "good_rows (map (\<lambda>r. if r kcol = SqlText u then f r else r) rows) \<and>
    look (map (\<lambda>r. if r kcol = SqlText u then f r else r) rows) =
      (case look rows u of None \<Rightarrow> look rows | Some y \<Rightarrow> (look rows)(u \<mapsto> g y))"
proof -
  let ?rows = "map (\<lambda>r. if r kcol = SqlText u then f r else r) rows"
  have rd: "\<exists>y. rd r = Some y \<and> kof y = u \<and> rd (f r) = Some (g y) \<and> kof (g y) = u" if "r \<in> set rows" "r kcol = SqlText u" for r
  proof -
    from assms(1) that(1) have "rd r \<noteq> None" by (simp add: good_rows_def)
    then obtain y where y: "rd r = Some y" by blast
    with read_key [OF y] assms(3) [OF that(1) y] that(2) show ?thesis by auto
  qed
  have g: "good_rows ?rows" using assms(1,2) rd by (fastforce simp: good_rows_def)
  have "look ?rows v = (case look rows u of None \<Rightarrow> look rows | Some y \<Rightarrow> (look rows)(u \<mapsto> g y)) v" for v
  proof (rule option_eqI)
    fix x
    show "look ?rows v = Some x \<longleftrightarrow> (case look rows u of None \<Rightarrow> look rows | Some y \<Rightarrow> (look rows)(u \<mapsto> g y)) v = Some x"
    proof (cases "look rows u")
      case None
      have "r kcol \<noteq> SqlText u" if "r \<in> set rows" for r
        using rd [OF that] None look_iff [OF assms(1), of u] that by fastforce
      then have "?rows = rows" by (simp add: map_idI)
      with None show ?thesis by simp
    next
      case (Some y)
      then obtain r0 where r0: "r0 \<in> set rows" "rd r0 = Some y" "kof y = u" using look_iff [OF assms(1)] by blast
      note k0 = read_key [OF r0(2)]
      have same: "r = r0" if "r \<in> set rows" "r kcol = SqlText u" for r
        using good_key [OF assms(1) that(1) r0(1)] that(2) k0 r0(3) by simp
      have "look ?rows v = Some x \<longleftrightarrow> (\<exists>r\<in>set rows. rd (if r kcol = SqlText u then f r else r) = Some x \<and> kof x = v)"
        unfolding look_iff [OF g] by (simp only: set_map bex_simps)
      also have "\<dots> \<longleftrightarrow> (if v = u then x = g y else look rows v = Some x)"
      proof
        assume "\<exists>r\<in>set rows. rd (if r kcol = SqlText u then f r else r) = Some x \<and> kof x = v"
        then obtain r where r: "r \<in> set rows" "rd (if r kcol = SqlText u then f r else r) = Some x" "kof x = v" by blast
        show "if v = u then x = g y else look rows v = Some x"
        proof (cases "r kcol = SqlText u")
          case True
          with r same [OF r(1) True] assms(3) [OF r0] show ?thesis by simp
        next
          case False
          with r read_key [of r x] have "v \<noteq> u" "rd r = Some x" by auto
          with r(1,3) show ?thesis by (auto simp: look_iff [OF assms(1)])
        qed
      next
        assume *: "if v = u then x = g y else look rows v = Some x"
        show "\<exists>r\<in>set rows. rd (if r kcol = SqlText u then f r else r) = Some x \<and> kof x = v"
        proof (cases "v = u")
          case True
          with * assms(3) [OF r0] k0 r0 show ?thesis by (intro bexI [of _ r0]) simp_all
        next
          case False
          with * obtain r where r: "r \<in> set rows" "rd r = Some x" "kof x = v" by (auto simp: look_iff [OF assms(1)])
          with False read_key [OF r(2)] show ?thesis by (intro bexI [of _ r]) simp_all
        qed
      qed
      finally show ?thesis using Some by (auto simp: fun_upd_def)
    qed
  qed
  with g show ?thesis by blast
qed

end

text \<open>What the columns of a readable row hold.\<close>

lemma text_of_iff [simp]: "text_of v = Some s \<longleftrightarrow> v = SqlText s"
  by (cases v) auto

lemma number_of_iff [simp]: "number_of v = Some n \<longleftrightarrow> v = SqlInt n"
  by (cases v) auto

lemma truth_of_iff [simp]: "truth_of v = Some b \<longleftrightarrow> v = SqlBool b"
  by (cases v) auto

lemma scan_session_iff: "scan_session vs = Some x \<longleftrightarrow> vs = session_args x"
  by (cases x) (auto simp: scan_session_def session_args_def bind_eq_Some_conv eval_nat_numeral length_Suc_conv
      split: if_splits)

lemma scan_oidc_iff: "scan_oidc_session vs = Some x \<longleftrightarrow> vs = oidc_args x"
  by (cases x) (auto simp: scan_oidc_session_def oidc_args_def bind_eq_Some_conv eval_nat_numeral length_Suc_conv
      split: if_splits)

definition read_session :: "sql_row \<Rightarrow> session option" where
  "read_session r = scan_session (map r session_columns)"

definition read_oidc :: "sql_row \<Rightarrow> oidc_session option" where
  "read_oidc r = scan_oidc_session (map r oidc_columns)"

lemma read_session_iff: "read_session r = Some x \<longleftrightarrow> map r session_columns = session_args x"
  by (simp add: read_session_def scan_session_iff)

lemma read_oidc_iff: "read_oidc r = Some x \<longleftrightarrow> map r oidc_columns = oidc_args x"
  by (simp add: read_oidc_def scan_oidc_iff)

interpretation ses: row_reader "''sessions''" "''uuid''" read_session se_uuid
  by unfold_locales (auto simp: unique_columns_def read_session_iff session_columns_def session_args_def)

interpretation oid: row_reader "''oidc_sessions''" "''sub''" read_oidc os_sub
  by unfold_locales (auto simp: unique_columns_def read_oidc_iff oidc_columns_def oidc_args_def)

section \<open>The statements on a table\<close>

lemma query_row_cases:
  assumes "query_row db scan q args d = (r, d')"
  obtains (failed) e where "db_exec db q args d = (Inl e, d')" "r = Inl (DriverError e)"
    | (none) "db_exec db q args d = (Inr [], d')" "r = Inl NoRows"
    | (row) v vs where "db_exec db q args d = (Inr (v # vs), d')"
        "r = (case scan v of None \<Rightarrow> Inl (DriverError (db_scan_error db v)) | Some x \<Rightarrow> Inr x)"
  using assms by (auto simp: query_row_def split: prod.splits sum.splits list.splits option.splits)

locale sql_table = sql_engine db tables + row_reader t kcol rd kof
  for db :: "'d sql_db" and tables :: "'d \<Rightarrow> database" and t kcol :: string
    and rd :: "sql_row \<Rightarrow> 'x option" and kof :: "'x \<Rightarrow> string" +
  fixes cols :: "string list" and scan :: "sql_value list \<Rightarrow> 'x option"
  assumes scan_cols: "scan (map r cols) = rd r"
begin

text \<open>Only this table may change, and it stays good.\<close>

definition within :: "'d \<Rightarrow> 'd \<Rightarrow> bool" where
  "within d d' \<longleftrightarrow> good_rows (tables d' t) \<and> (\<forall>u. u \<noteq> t \<longrightarrow> mset (tables d' u) = mset (tables d u))"

lemma failed_keeps:
  assumes "good_rows (tables d t)" "db_exec db q args d = (Inl e, d')"
  shows "within d d' \<and> look (tables d' t) = look (tables d t)"
  using exec_err [OF assms(2)] assms(1) look_mset [of "tables d' t" "tables d t"] good_mset [of "tables d' t" "tables d t"]
  by (simp add: within_def)

lemma changed:
  assumes "db_exec db q args d = (Inr rs, d')" "bind_statement q args = Some bq" "run bq (tables d) = Some (rs', m)"
    "good_rows (m t)" "\<And>u. u \<noteq> t \<Longrightarrow> m u = tables d u"
  shows "within d d' \<and> look (tables d' t) = look (m t) \<and> mset rs = mset rs'"
proof -
  from exec_ok [OF assms(1)] assms(2,3) have *: "mset rs = mset rs'" "mset (tables d' u) = mset (m u)" for u by auto
  with assms(4,5) look_mset [of "tables d' t" "m t"] good_mset [of "tables d' t" "m t"] show ?thesis
    by (simp add: within_def)
qed

lemma ran: "db_exec db q args d = (Inr rs, d') \<Longrightarrow> bind_statement q args = Some bq \<Longrightarrow> \<exists>rs' m. run bq (tables d) = Some (rs', m)"
  using exec_ok by fastforce

lemma insert_law:
  assumes g: "good_rows (tables d t)" and q: "bind_statement q args = Some (InsertInto t cs vs cols)"
    and a: "rd (row_of (zip cs vs)) = Some a" and x: "query_row db scan q args d = (r, d')"
  shows "within d d' \<and> (case r of Inl e \<Rightarrow> look (tables d' t) = look (tables d t)
     | Inr x \<Rightarrow> x = a \<and> look (tables d t) (kof a) = None \<and> look (tables d' t) = (look (tables d t))(kof a \<mapsto> a))"
proof -
  let ?row = "row_of (zip cs vs)"
  have *: "within d d' \<and> look (tables d' t) = (look (tables d t))(kof a \<mapsto> a) \<and> look (tables d t) (kof a) = None \<and>
      rs = [map ?row cols]" if e: "db_exec db q args d = (Inr rs, d')" for rs
  proof -
    from ran [OF e q] have u: "unique_rows t (?row # tables d t)" by (auto simp: Let_def split: if_splits)
    then have m: "run (InsertInto t cs vs cols) (tables d) =
        Some ([map ?row cols], (tables d)(t := ?row # tables d t))" by (simp add: Let_def)
    note l = look_insert [OF g u a]
    from changed [OF e q m] l show ?thesis by simp
  qed
  from x show ?thesis
  proof (cases rule: query_row_cases)
    case (failed e)
    with failed_keeps [OF g] show ?thesis by simp
  next
    case none
    from * [OF this(1)] show ?thesis by simp
  next
    case (row v vs')
    from * [OF row(1)] row(2) a show ?thesis by (simp add: scan_cols)
  qed
qed

lemma update_law:
  assumes g: "good_rows (tables d t)" and q: "bind_statement q args = Some (UpdateSet t sets [(kcol, Equals, SqlText u)] cols)"
    and f: "\<And>r y. rd r = Some y \<Longrightarrow> kof y = u \<Longrightarrow> rd (set_row sets r) = Some (f y) \<and> kof (f y) = u"
    and x: "query_row db scan q args d = (r, d')"
  shows "within d d' \<and> (case r of Inl e \<Rightarrow> look (tables d' t) = look (tables d t)
     | Inr x \<Rightarrow> (\<exists>y. look (tables d t) u = Some y \<and> x = f y \<and> look (tables d' t) = (look (tables d t))(u \<mapsto> x)))"
proof -
  let ?upd = "\<lambda>r. if r kcol = SqlText u then set_row sets r else r"
  have hit: "hit [(kcol, Equals, SqlText u)] = (\<lambda>r. r kcol = SqlText u)" by (auto simp: hit_def)
  have *: "within d d' \<and> look (tables d' t) =
      (case look (tables d t) u of None \<Rightarrow> look (tables d t) | Some y \<Rightarrow> (look (tables d t))(u \<mapsto> f y)) \<and>
      mset rs = mset (map (\<lambda>r. map (set_row sets r) cols) (filter (\<lambda>r. r kcol = SqlText u) (tables d t)))"
    if e: "db_exec db q args d = (Inr rs, d')" for rs
  proof -
    from ran [OF e q] have un: "unique_rows t (map ?upd (tables d t))" by (auto simp: Let_def hit split: if_splits)
    then have m: "run (UpdateSet t sets [(kcol, Equals, SqlText u)] cols) (tables d) =
        Some (map (\<lambda>r. map (set_row sets r) cols) (filter (\<lambda>r. r kcol = SqlText u) (tables d t)),
          (tables d)(t := map ?upd (tables d t)))" by (simp add: Let_def hit)
    note l = look_update [OF g un f]
    from changed [OF e q m] l show ?thesis by simp
  qed
  have found: "\<exists>y. look (tables d t) u = Some y \<and> rd (set_row sets r) = Some (f y)" if "r \<in> set (tables d t)" "r kcol = SqlText u" for r
  proof -
    from g that(1) obtain y where y: "rd r = Some y" by (auto simp: good_rows_def)
    with read_key [OF y] that(2) have "kof y = u" by simp
    with y f that(1) show ?thesis by (auto simp: look_iff [OF g])
  qed
  from x show ?thesis
  proof (cases rule: query_row_cases)
    case (failed e)
    with failed_keeps [OF g] show ?thesis by simp
  next
    case none
    from * [OF none(1)] have "filter (\<lambda>r. r kcol = SqlText u) (tables d t) = []" by simp
    then have "List.find (\<lambda>r. r kcol = SqlText u) (tables d t) = None" by (auto simp: filter_empty_conv find_None_iff)
    then have "look (tables d t) u = None" by (simp add: look_def)
    with * [OF none(1)] none(2) show ?thesis by simp
  next
    case (row v vs')
    from * [OF row(1)] have "v \<in> set (map (\<lambda>r. map (set_row sets r) cols) (filter (\<lambda>r. r kcol = SqlText u) (tables d t)))"
      by (metis list.set_intros(1) set_mset_mset)
    then obtain r0 where "r0 \<in> set (tables d t)" "r0 kcol = SqlText u" "v = map (set_row sets r0) cols" by auto
    with found [of r0] * [OF row(1)] row(2) show ?thesis by (auto simp: scan_cols)
  qed
qed

lemma delete_law:
  assumes g: "good_rows (tables d t)" and q: "bind_statement q args = Some (DeleteFrom t conds)"
    and h: "\<And>r x. rd r = Some x \<Longrightarrow> hit conds r = G x" and x: "exec_only db q args d = (r, d')"
  shows "within d d' \<and> (case r of Some e \<Rightarrow> look (tables d' t) = look (tables d t)
     | None \<Rightarrow> (\<forall>u. look (tables d' t) u = (case look (tables d t) u of None \<Rightarrow> None | Some x \<Rightarrow> if G x then None else Some x)))"
proof (cases "db_exec db q args d")
  case (Pair y d1)
  show ?thesis
  proof (cases y)
    case (Inl e)
    with Pair x failed_keeps [OF g] show ?thesis by (auto simp: exec_only_def)
  next
    case (Inr rs)
    with Pair x have r: "r = None" "db_exec db q args d = (Inr rs, d')" by (auto simp: exec_only_def)
    have l: "good_rows (filter (\<lambda>r. \<not> hit conds r) (tables d t)) \<and>
        look (filter (\<lambda>r. \<not> hit conds r) (tables d t)) u =
          (case look (tables d t) u of None \<Rightarrow> None | Some x \<Rightarrow> if \<not> G x then Some x else None)" for u
      by (rule look_filter [OF g]) (use h in simp)
    have "run (DeleteFrom t conds) (tables d) = Some ([], (tables d)(t := filter (\<lambda>r. \<not> hit conds r) (tables d t)))"
      by simp
    from changed [OF r(2) q this] l r(1) show ?thesis by (auto split: option.split)
  qed
qed

lemma select_law:
  assumes g: "good_rows (tables d t)" and q: "bind_statement (SelectFrom cs t ps) args = Some (SelectFrom cols t [(c, Equals, SqlText h)])"
    and f: "\<And>r x. rd r = Some x \<Longrightarrow> r c = SqlText (f x)"
  shows "fst (query_row db scan (SelectFrom cs t ps) args d) = Inr x \<Longrightarrow> look (tables d t) (kof x) = Some x \<and> f x = h"
    and "fst (query_row db scan (SelectFrom cs t ps) args d) = Inl NoRows \<Longrightarrow> look (tables d t) k = Some y \<Longrightarrow> f y \<noteq> h"
proof -
  let ?q = "SelectFrom cs t ps"
  let ?rows = "filter (\<lambda>r. r c = SqlText h) (tables d t)"
  have hit: "hit [(c, Equals, SqlText h)] = (\<lambda>r. r c = SqlText h)" by (auto simp: hit_def)
  have *: "mset rs = mset (map (\<lambda>r. map r cols) ?rows)" if "db_exec db ?q args d = (Inr rs, d')" for rs d'
    using exec_ok [OF that] q by (auto simp: hit)
  obtain r d' where x: "query_row db scan ?q args d = (r, d')" by fastforce
  show "look (tables d t) (kof x) = Some x \<and> f x = h" if "fst (query_row db scan ?q args d) = Inr x"
    using x
  proof (cases rule: query_row_cases)
    case (row v vs')
    from * [OF row(1)] have "v \<in> set (map (\<lambda>r. map r cols) ?rows)" by (metis list.set_intros(1) set_mset_mset)
    then obtain r0 where r0: "r0 \<in> set (tables d t)" "r0 c = SqlText h" "v = map r0 cols" by auto
    with row(2) x that have "rd r0 = Some x" by (auto simp: scan_cols split: option.splits)
    with r0 f [OF this] show ?thesis by (auto simp: look_iff [OF g])
  qed (use x that in simp_all)
  show "f y \<noteq> h" if "fst (query_row db scan ?q args d) = Inl NoRows" "look (tables d t) k = Some y"
    using x
  proof (cases rule: query_row_cases)
    case none
    from * [OF none(1)] have "?rows = []" by simp
    with that(2) f show ?thesis by (auto simp: look_iff [OF g] filter_empty_conv)
  qed (use x that in \<open>auto split: option.splits\<close>)
qed

end

section \<open>Both stores at once\<close>

text \<open>The twelve statements of a package; a query that reads is given by its conditions.\<close>

record statements =
  st_create :: "marker statement"
  st_get :: "marker condition list"
  st_update :: "marker statement"
  st_delete :: "marker statement"
  st_expire :: "marker statement"
  st_ocreate :: "marker statement"
  st_oexpire :: "marker statement"
  st_odelete :: "marker statement"
  st_by_access :: "marker condition list"
  st_by_refresh :: "marker condition list"
  st_by_sub :: "marker condition list"
  st_oupdate :: "marker statement"

abbreviation from_sessions :: "'p condition list \<Rightarrow> 'p statement" where
  "from_sessions \<equiv> SelectFrom session_columns ''sessions''"

abbreviation from_oidc :: "'p condition list \<Rightarrow> 'p statement" where
  "from_oidc \<equiv> SelectFrom oidc_columns ''oidc_sessions''"

abbreviation answered :: "(sql_error + 'a) \<times> 'd \<Rightarrow> (store_error + 'a) \<times> 'd" where
  "answered \<equiv> map_prod (map_sum map_err id) id"

abbreviation executed :: "sql_error option \<times> 'd \<Rightarrow> store_error option \<times> 'd" where
  "executed \<equiv> map_prod (map_option map_err) id"

abbreviation seen :: "(sql_error + 'a) \<times> 'd \<Rightarrow> store_error + 'a" where
  "seen x \<equiv> map_sum map_err id (fst x)"

definition sql_store :: "'d sql_db \<Rightarrow> statements \<Rightarrow> 'd store_ops" where
  "sql_store db Q =
     \<lparr>create_session_op = (\<lambda>a d. answered (query_row db scan_session (st_create Q) (session_args a) d)),
      get_session_op = (\<lambda>k d. seen (query_row db scan_session (from_sessions (st_get Q)) [SqlText k] d)),
      update_session_op = (\<lambda>a d. answered (query_row db scan_session (st_update Q) (update_session_args a) d)),
      delete_session_op = (\<lambda>k d. executed (exec_only db (st_delete Q) [SqlText k] d)),
      delete_expired_sessions_op = (\<lambda>n d. executed (exec_only db (st_expire Q) [SqlInt n] d)),
      create_oidc_session_op = (\<lambda>a d. answered (query_row db scan_oidc_session (st_ocreate Q) (oidc_args a) d)),
      delete_expired_oidc_sessions_op = (\<lambda>p d. executed (exec_only db (st_oexpire Q)
        [SqlInt (de_token_expires_at p), SqlInt (de_refresh_token_expires_at p)] d)),
      delete_oidc_session_by_sub_op = (\<lambda>k d. executed (exec_only db (st_odelete Q) [SqlText k] d)),
      get_oidc_session_by_access_token_hash_op =
        (\<lambda>h d. seen (query_row db scan_oidc_session (from_oidc (st_by_access Q)) [SqlText h] d)),
      get_oidc_session_by_refresh_token_hash_op =
        (\<lambda>h d. seen (query_row db scan_oidc_session (from_oidc (st_by_refresh Q)) [SqlText h] d)),
      get_oidc_session_by_sub_op = (\<lambda>k d. seen (query_row db scan_oidc_session (from_oidc (st_by_sub Q)) [SqlText k] d)),
      update_oidc_session_op = (\<lambda>a d. answered (query_row db scan_oidc_session (st_oupdate Q) (update_oidc_args a) d))\<rparr>"

text \<open>The columns that an update of a session sets: all but the key and the time of its creation.\<close>

definition session_sets :: "update_session_params \<Rightarrow> (string \<times> sql_value) list" where
  "session_sets p = zip (filter (\<lambda>c. c \<notin> {''uuid'', ''created_at''}) session_columns) (update_session_args p)"

definition oidc_sets :: "update_oidc_session_params \<Rightarrow> (string \<times> sql_value) list" where
  "oidc_sets a = zip (tl oidc_columns) (update_oidc_args a)"

text \<open>What each statement is once its arguments are bound.\<close>

locale sql_statements =
  fixes Q :: statements
  assumes create: "bind_statement (st_create Q) (session_args a) =
      Some (InsertInto ''sessions'' session_columns (session_args a) session_columns)"
    and get: "bind_statement (from_sessions (st_get Q)) [SqlText u] = Some (from_sessions [(''uuid'', Equals, SqlText u)])"
    and update: "bind_statement (st_update Q) (update_session_args p) =
      Some (UpdateSet ''sessions'' (session_sets p) [(''uuid'', Equals, SqlText (us_uuid p))] session_columns)"
    and delete: "bind_statement (st_delete Q) [SqlText u] = Some (DeleteFrom ''sessions'' [(''uuid'', Equals, SqlText u)])"
    and expire: "bind_statement (st_expire Q) [SqlInt n] = Some (DeleteFrom ''sessions'' [(''expiry'', Below, SqlInt n)])"
    and ocreate: "bind_statement (st_ocreate Q) (oidc_args b) =
      Some (InsertInto ''oidc_sessions'' oidc_columns (oidc_args b) oidc_columns)"
    and oexpire: "bind_statement (st_oexpire Q) [SqlInt n, SqlInt m] =
      Some (DeleteFrom ''oidc_sessions'' [(''token_expires_at'', Below, SqlInt n), (''refresh_token_expires_at'', Below, SqlInt m)])"
    and odelete: "bind_statement (st_odelete Q) [SqlText u] = Some (DeleteFrom ''oidc_sessions'' [(''sub'', Equals, SqlText u)])"
    and by_access: "bind_statement (from_oidc (st_by_access Q)) [SqlText h] = Some (from_oidc [(''access_token_hash'', Equals, SqlText h)])"
    and by_refresh: "bind_statement (from_oidc (st_by_refresh Q)) [SqlText h] = Some (from_oidc [(''refresh_token_hash'', Equals, SqlText h)])"
    and by_sub: "bind_statement (from_oidc (st_by_sub Q)) [SqlText h] = Some (from_oidc [(''sub'', Equals, SqlText h)])"
    and oupdate: "bind_statement (st_oupdate Q) (update_oidc_args b) =
      Some (UpdateSet ''oidc_sessions'' (oidc_sets b) [(''sub'', Equals, SqlText (os_sub b))] oidc_columns)"

definition sqlite_statements :: statements where
  "sqlite_statements =
     \<lparr>st_create = sqlite_create_session_sql, st_get = [(''uuid'', Equals, Mark)],
      st_update = sqlite_update_session_sql, st_delete = sqlite_delete_session_sql,
      st_expire = sqlite_delete_expired_sessions_sql, st_ocreate = sqlite_create_oidc_session_sql,
      st_oexpire = sqlite_delete_expired_oidc_sessions_sql, st_odelete = sqlite_delete_oidc_session_by_sub_sql,
      st_by_access = [(''access_token_hash'', Equals, Mark)], st_by_refresh = [(''refresh_token_hash'', Equals, Mark)],
      st_by_sub = [(''sub'', Equals, Mark)], st_oupdate = sqlite_update_oidc_session_sql\<rparr>"

definition postgres_statements :: statements where
  "postgres_statements =
     \<lparr>st_create = postgres_create_session_sql, st_get = [(''uuid'', Equals, Numbered 1)],
      st_update = postgres_update_session_sql, st_delete = postgres_delete_session_sql,
      st_expire = postgres_delete_expired_sessions_sql, st_ocreate = postgres_create_oidc_session_sql,
      st_oexpire = postgres_delete_expired_oidc_sessions_sql, st_odelete = postgres_delete_oidc_session_by_sub_sql,
      st_by_access = [(''access_token_hash'', Equals, Numbered 1)], st_by_refresh = [(''refresh_token_hash'', Equals, Numbered 1)],
      st_by_sub = [(''sub'', Equals, Numbered 1)], st_oupdate = postgres_update_oidc_session_sql\<rparr>"

lemmas statement_defs = bind_statement_def session_columns_def oidc_columns_def session_args_def update_session_args_def
  oidc_args_def update_oidc_args_def session_sets_def oidc_sets_def numeral_eq_Suc upt_rec

interpretation lite: sql_statements sqlite_statements
  by unfold_locales (simp_all add: statement_defs sqlite_statements_def sqlite_create_session_sql_def
    sqlite_update_session_sql_def sqlite_delete_session_sql_def sqlite_delete_expired_sessions_sql_def
    sqlite_create_oidc_session_sql_def sqlite_delete_expired_oidc_sessions_sql_def
    sqlite_delete_oidc_session_by_sub_sql_def sqlite_update_oidc_session_sql_def)

interpretation pg: sql_statements postgres_statements
  by unfold_locales (simp_all add: statement_defs postgres_statements_def postgres_create_session_sql_def
    postgres_update_session_sql_def postgres_delete_session_sql_def postgres_delete_expired_sessions_sql_def
    postgres_create_oidc_session_sql_def postgres_delete_expired_oidc_sessions_sql_def
    postgres_delete_oidc_session_by_sub_sql_def postgres_update_oidc_session_sql_def)

lemma sqlite_as_statements: "sqlite_store db = sql_store db sqlite_statements"
  by (simp add: sqlite_store_def sql_store_def sqlite_statements_def sqlite_create_session_def sqlite_get_session_def
      sqlite_update_session_def sqlite_delete_session_def sqlite_delete_expired_sessions_def sqlite_create_oidc_session_def
      sqlite_delete_expired_oidc_sessions_def sqlite_delete_oidc_session_by_sub_def sqlite_update_oidc_session_def
      sqlite_get_oidc_session_by_access_token_hash_def sqlite_get_oidc_session_by_refresh_token_hash_def
      sqlite_get_oidc_session_by_sub_def sqlite_get_session_sql_def sqlite_get_oidc_session_by_access_token_hash_sql_def
      sqlite_get_oidc_session_by_refresh_token_hash_sql_def sqlite_get_oidc_session_by_sub_sql_def)

lemma postgres_as_statements: "postgres_store db = sql_store db postgres_statements"
  by (simp add: postgres_store_def sql_store_def postgres_statements_def postgres_create_session_def postgres_get_session_def
      postgres_update_session_def postgres_delete_session_def postgres_delete_expired_sessions_def postgres_create_oidc_session_def
      postgres_delete_expired_oidc_sessions_def postgres_delete_oidc_session_by_sub_def postgres_update_oidc_session_def
      postgres_get_oidc_session_by_access_token_hash_def postgres_get_oidc_session_by_refresh_token_hash_def
      postgres_get_oidc_session_by_sub_def postgres_get_session_sql_def postgres_get_oidc_session_by_access_token_hash_sql_def
      postgres_get_oidc_session_by_refresh_token_hash_sql_def postgres_get_oidc_session_by_sub_sql_def)

section \<open>The contract\<close>

sublocale sql_engine \<subseteq> s: sql_table db tables "''sessions''" "''uuid''" read_session se_uuid session_columns scan_session
  by unfold_locales (simp add: read_session_def)

sublocale sql_engine \<subseteq> o: sql_table db tables "''oidc_sessions''" "''sub''" read_oidc os_sub oidc_columns scan_oidc_session
  by unfold_locales (simp add: read_oidc_def)

text \<open>Every row of the two tables can be read, and the unique columns are unique.\<close>

definition sql_good :: "('d \<Rightarrow> database) \<Rightarrow> 'd \<Rightarrow> bool" where
  "sql_good tables d \<longleftrightarrow> ses.good_rows (tables d ''sessions'') \<and> oid.good_rows (tables d ''oidc_sessions'')"

definition sql_sess :: "('d \<Rightarrow> database) \<Rightarrow> 'd \<Rightarrow> string \<Rightarrow> session option" where
  "sql_sess tables d = ses.look (tables d ''sessions'')"

definition sql_osess :: "('d \<Rightarrow> database) \<Rightarrow> 'd \<Rightarrow> string \<Rightarrow> oidc_session option" where
  "sql_osess tables d = oid.look (tables d ''oidc_sessions'')"

lemma read_created: "read_session (row_of (zip session_columns (session_args a))) = Some a"
  by (simp add: read_session_iff row_of_def session_columns_def session_args_def)

lemma read_ocreated: "read_oidc (row_of (zip oidc_columns (oidc_args a))) = Some a"
  by (simp add: read_oidc_iff row_of_def oidc_columns_def oidc_args_def)

lemma read_oupdated: "os_sub y = os_sub a \<Longrightarrow> read_oidc r = Some y \<Longrightarrow> read_oidc (set_row (oidc_sets a) r) = Some a"
  by (simp add: read_oidc_iff set_row_def oidc_sets_def oidc_columns_def oidc_args_def update_oidc_args_def)

definition updated_session :: "update_session_params \<Rightarrow> session \<Rightarrow> session" where
  "updated_session p y = \<lparr>se_uuid = us_uuid p, se_username = us_username p, se_email = us_email p, se_name = us_name p,
     se_provider = us_provider p, se_totp_pending = us_totp_pending p, se_oauth_groups = us_oauth_groups p,
     se_expiry = us_expiry p, se_created_at = se_created_at y, se_oauth_name = us_oauth_name p, se_oauth_sub = us_oauth_sub p\<rparr>"

lemma read_updated: "se_uuid y = us_uuid p \<Longrightarrow> read_session r = Some y \<Longrightarrow>
    read_session (set_row (session_sets p) r) = Some (updated_session p y)"
  by (simp add: read_session_iff set_row_def session_sets_def session_columns_def session_args_def
      update_session_args_def updated_session_def)

lemma answered_eq: "answered x = (r, d') \<longleftrightarrow> (\<exists>q. x = (q, d') \<and> r = map_sum map_err id q)"
  by (cases x) auto

lemma executed_eq: "executed x = (r, d') \<longleftrightarrow> (\<exists>q. x = (q, d') \<and> r = map_option map_err q)"
  by (cases x) auto

lemma seen_ok: "seen x = Inr y \<longleftrightarrow> fst x = Inr y"
  by (cases "fst x") auto

lemma seen_missing: "seen x = Inl ErrNotFound \<longleftrightarrow> fst x = Inl NoRows"
proof (cases "fst x")
  case (Inl e)
  then show ?thesis by (cases e) auto
qed simp

locale sql_backend = sql_engine db tables + sql_statements Q
  for db :: "'d sql_db" and tables :: "'d \<Rightarrow> database" and Q :: statements
begin

lemma s_within: "s.within d d' \<Longrightarrow> sql_good tables d \<Longrightarrow> sql_good tables d' \<and> sql_osess tables d' = sql_osess tables d"
  using oid.look_mset [of "tables d' ''oidc_sessions''" "tables d ''oidc_sessions''"]
    oid.good_mset [of "tables d' ''oidc_sessions''" "tables d ''oidc_sessions''"]
  by (simp add: s.within_def sql_good_def sql_osess_def)

lemma o_within: "o.within d d' \<Longrightarrow> sql_good tables d \<Longrightarrow> sql_good tables d' \<and> sql_sess tables d' = sql_sess tables d"
  using ses.look_mset [of "tables d' ''sessions''" "tables d ''sessions''"]
    ses.good_mset [of "tables d' ''sessions''" "tables d ''sessions''"]
  by (simp add: o.within_def sql_good_def sql_sess_def)

lemma create_law:
  assumes g: "sql_good tables d" and r: "create_session_op (sql_store db Q) a d = (r, d')"
  shows "sql_good tables d' \<and> sql_osess tables d' = sql_osess tables d \<and>
     (case r of Inl e \<Rightarrow> sql_sess tables d' = sql_sess tables d
      | Inr x \<Rightarrow> x = a \<and> sql_sess tables d' = (sql_sess tables d)(se_uuid a \<mapsto> a))"
proof -
  obtain q where q: "query_row db scan_session (st_create Q) (session_args a) d = (q, d')" "r = map_sum map_err id q"
    using r by (auto simp: sql_store_def answered_eq)
  have "ses.good_rows (tables d ''sessions'')" using g by (simp add: sql_good_def)
  note s.insert_law [OF this create read_created q(1)]
  with s_within g q(2) show ?thesis by (cases q) (auto simp: sql_sess_def)
qed

lemma update_law:
  assumes g: "sql_good tables d" and r: "update_session_op (sql_store db Q) p d = (r, d')"
  shows "sql_good tables d' \<and> sql_osess tables d' = sql_osess tables d \<and>
     (case r of Inl e \<Rightarrow> sql_sess tables d' = sql_sess tables d
      | Inr x \<Rightarrow> \<exists>y. sql_sess tables d (us_uuid p) = Some y \<and> x = updated_session p y \<and>
          sql_sess tables d' = (sql_sess tables d)(us_uuid p \<mapsto> x))"
proof -
  obtain q where q: "query_row db scan_session (st_update Q) (update_session_args p) d = (q, d')" "r = map_sum map_err id q"
    using r by (auto simp: sql_store_def answered_eq)
  have "ses.good_rows (tables d ''sessions'')" using g by (simp add: sql_good_def)
  note s.update_law [OF this update _ q(1), of "updated_session p"]
  with s_within g q(2) show ?thesis by (cases q) (auto simp: sql_sess_def read_updated updated_session_def)
qed

lemma delete_law:
  assumes g: "sql_good tables d" and r: "delete_session_op (sql_store db Q) u d = (r, d')"
  shows "sql_good tables d' \<and> sql_osess tables d' = sql_osess tables d \<and>
     sql_sess tables d' = (if r = None then (sql_sess tables d)(u := None) else sql_sess tables d)"
proof -
  obtain q where q: "exec_only db (st_delete Q) [SqlText u] d = (q, d')" "r = map_option map_err q"
    using r by (auto simp: sql_store_def executed_eq)
  have g': "ses.good_rows (tables d ''sessions'')" using g by (simp add: sql_good_def)
  have h: "read_session r = Some x \<Longrightarrow> hit [(''uuid'', Equals, SqlText u)] r = (se_uuid x = u)" for r x
    using ses.read_key [of r x] by (simp add: hit_def)
  note s.delete_law [where G = "\<lambda>x. se_uuid x = u", OF g' delete h q(1)]
  with s_within g q(2) ses.look_key [OF g'] show ?thesis
    by (cases q) (auto simp: sql_sess_def fun_eq_iff split: option.splits)
qed

lemma expire_law:
  assumes g: "sql_good tables d" and r: "delete_expired_sessions_op (sql_store db Q) n d = (r, d')"
  shows "sql_good tables d' \<and> sql_osess tables d' = sql_osess tables d \<and>
     (if r = None then \<forall>u. sql_sess tables d' u =
         (case sql_sess tables d u of None \<Rightarrow> None | Some x \<Rightarrow> if se_expiry x < n then None else Some x)
      else sql_sess tables d' = sql_sess tables d)"
proof -
  obtain q where q: "exec_only db (st_expire Q) [SqlInt n] d = (q, d')" "r = map_option map_err q"
    using r by (auto simp: sql_store_def executed_eq)
  have g': "ses.good_rows (tables d ''sessions'')" using g by (simp add: sql_good_def)
  have h: "read_session r = Some x \<Longrightarrow> hit [(''expiry'', Below, SqlInt n)] r = (se_expiry x < n)" for r x
    by (simp add: hit_def read_session_iff session_columns_def session_args_def)
  note s.delete_law [where G = "\<lambda>x. se_expiry x < n", OF g' expire h q(1)]
  with s_within g q(2) show ?thesis by (cases q) (auto simp: sql_sess_def)
qed

lemma get_law:
  assumes g: "sql_good tables d"
  shows "get_session_op (sql_store db Q) u d = Inr x \<Longrightarrow> sql_sess tables d u = Some x"
    and "get_session_op (sql_store db Q) u d = Inl ErrNotFound \<Longrightarrow> sql_sess tables d u = None"
proof -
  have g': "ses.good_rows (tables d ''sessions'')" using g by (simp add: sql_good_def)
  show "sql_sess tables d u = Some x" if "get_session_op (sql_store db Q) u d = Inr x"
  proof -
    from that have "fst (query_row db scan_session (from_sessions (st_get Q)) [SqlText u] d) = Inr x"
      by (simp add: sql_store_def seen_ok)
    then have "ses.look (tables d ''sessions'') (se_uuid x) = Some x \<and> se_uuid x = u"
      by (rule s.select_law(1) [where f = se_uuid and c = "''uuid''", OF g' get, rotated]) (rule ses.read_key)
    then show ?thesis by (auto simp: sql_sess_def)
  qed
  show "sql_sess tables d u = None" if "get_session_op (sql_store db Q) u d = Inl ErrNotFound"
  proof -
    from that have none: "fst (query_row db scan_session (from_sessions (st_get Q)) [SqlText u] d) = Inl NoRows"
      by (simp add: sql_store_def seen_missing)
    have "se_uuid y \<noteq> u" if "ses.look (tables d ''sessions'') u = Some y" for y
      by (rule s.select_law(2) [where f = se_uuid and c = "''uuid''", OF g' get _ none that]) (rule ses.read_key)
    with ses.look_key [OF g'] show ?thesis by (cases "sql_sess tables d u") (auto simp: sql_sess_def)
  qed
qed

lemma ocreate_law:
  assumes g: "sql_good tables d" and r: "create_oidc_session_op (sql_store db Q) a d = (r, d')"
  shows "sql_good tables d' \<and> sql_sess tables d' = sql_sess tables d \<and>
     (case r of Inl e \<Rightarrow> sql_osess tables d' = sql_osess tables d
      | Inr x \<Rightarrow> x = a \<and> sql_osess tables d (os_sub a) = None \<and> sql_osess tables d' = (sql_osess tables d)(os_sub a \<mapsto> a))"
proof -
  obtain q where q: "query_row db scan_oidc_session (st_ocreate Q) (oidc_args a) d = (q, d')" "r = map_sum map_err id q"
    using r by (auto simp: sql_store_def answered_eq)
  have "oid.good_rows (tables d ''oidc_sessions'')" using g by (simp add: sql_good_def)
  note o.insert_law [OF this ocreate read_ocreated q(1)]
  with o_within g q(2) show ?thesis by (cases q) (auto simp: sql_osess_def)
qed

lemma oupdate_law:
  assumes g: "sql_good tables d" and r: "update_oidc_session_op (sql_store db Q) a d = (r, d')"
  shows "sql_good tables d' \<and> sql_sess tables d' = sql_sess tables d \<and>
     (case r of Inl e \<Rightarrow> sql_osess tables d' = sql_osess tables d
      | Inr x \<Rightarrow> x = a \<and> sql_osess tables d (os_sub a) \<noteq> None \<and> sql_osess tables d' = (sql_osess tables d)(os_sub a \<mapsto> a))"
proof -
  obtain q where q: "query_row db scan_oidc_session (st_oupdate Q) (update_oidc_args a) d = (q, d')" "r = map_sum map_err id q"
    using r by (auto simp: sql_store_def answered_eq)
  have "oid.good_rows (tables d ''oidc_sessions'')" using g by (simp add: sql_good_def)
  note o.update_law [OF this oupdate _ q(1), of "\<lambda>_. a"]
  with o_within g q(2) show ?thesis by (cases q) (auto simp: sql_osess_def read_oupdated)
qed

lemma odelete_law:
  assumes g: "sql_good tables d" and r: "delete_oidc_session_by_sub_op (sql_store db Q) u d = (r, d')"
  shows "sql_good tables d' \<and> sql_sess tables d' = sql_sess tables d \<and>
     sql_osess tables d' = (if r = None then (sql_osess tables d)(u := None) else sql_osess tables d)"
proof -
  obtain q where q: "exec_only db (st_odelete Q) [SqlText u] d = (q, d')" "r = map_option map_err q"
    using r by (auto simp: sql_store_def executed_eq)
  have g': "oid.good_rows (tables d ''oidc_sessions'')" using g by (simp add: sql_good_def)
  have h: "read_oidc r = Some x \<Longrightarrow> hit [(''sub'', Equals, SqlText u)] r = (os_sub x = u)" for r x
    using oid.read_key [of r x] by (simp add: hit_def)
  note o.delete_law [where G = "\<lambda>x. os_sub x = u", OF g' odelete h q(1)]
  with o_within g q(2) oid.look_key [OF g'] show ?thesis
    by (cases q) (auto simp: sql_osess_def fun_eq_iff split: option.splits)
qed

lemma oexpire_law:
  assumes g: "sql_good tables d" and r: "delete_expired_oidc_sessions_op (sql_store db Q) p d = (r, d')"
  shows "sql_good tables d' \<and> sql_sess tables d' = sql_sess tables d \<and>
     (if r = None then \<forall>u. sql_osess tables d' u =
         (case sql_osess tables d u of None \<Rightarrow> None | Some x \<Rightarrow>
            if os_token_expires_at x < de_token_expires_at p \<and>
               os_refresh_token_expires_at x < de_refresh_token_expires_at p then None else Some x)
      else sql_osess tables d' = sql_osess tables d)"
proof -
  let ?n = "de_token_expires_at p" and ?m = "de_refresh_token_expires_at p"
  obtain q where q: "exec_only db (st_oexpire Q) [SqlInt ?n, SqlInt ?m] d = (q, d')" "r = map_option map_err q"
    using r by (auto simp: sql_store_def executed_eq)
  have g': "oid.good_rows (tables d ''oidc_sessions'')" using g by (simp add: sql_good_def)
  have h: "read_oidc r = Some x \<Longrightarrow>
      hit [(''token_expires_at'', Below, SqlInt ?n), (''refresh_token_expires_at'', Below, SqlInt ?m)] r =
      (os_token_expires_at x < ?n \<and> os_refresh_token_expires_at x < ?m)" for r x
    by (simp add: hit_def read_oidc_iff oidc_columns_def oidc_args_def)
  note o.delete_law [where G = "\<lambda>x. os_token_expires_at x < ?n \<and> os_refresh_token_expires_at x < ?m", OF g' oexpire h q(1)]
  with o_within g q(2) show ?thesis by (cases q) (auto simp: sql_osess_def)
qed

text \<open>The three queries for a session of a client, each by its own column.\<close>

lemma oget_law:
  assumes g: "sql_good tables d"
    and q: "bind_statement (from_oidc ps) [SqlText h] = Some (from_oidc [(c, Equals, SqlText h)])"
    and c: "\<And>r x. read_oidc r = Some x \<Longrightarrow> r c = SqlText (f x)"
  shows "seen (query_row db scan_oidc_session (from_oidc ps) [SqlText h] d) = Inr y \<Longrightarrow>
       sql_osess tables d (os_sub y) = Some y \<and> f y = h"
    and "seen (query_row db scan_oidc_session (from_oidc ps) [SqlText h] d) = Inl ErrNotFound \<Longrightarrow>
       sql_osess tables d k = Some y \<Longrightarrow> f y \<noteq> h"
proof -
  have g': "oid.good_rows (tables d ''oidc_sessions'')" using g by (simp add: sql_good_def)
  show "sql_osess tables d (os_sub y) = Some y \<and> f y = h"
    if "seen (query_row db scan_oidc_session (from_oidc ps) [SqlText h] d) = Inr y"
    unfolding sql_osess_def
    by (rule o.select_law(1) [where f = f and c = c, OF g' q _ that [unfolded seen_ok]]) (rule c)
  show "f y \<noteq> h" if "seen (query_row db scan_oidc_session (from_oidc ps) [SqlText h] d) = Inl ErrNotFound"
    "sql_osess tables d k = Some y"
    by (rule o.select_law(2) [where f = f and c = c, OF g' q _ that(1) [unfolded seen_missing] that(2) [unfolded sql_osess_def]])
      (rule c)
qed

lemma oidc_column_values:
  "read_oidc r = Some x \<Longrightarrow> r ''access_token_hash'' = SqlText (os_access_token_hash x)"
  "read_oidc r = Some x \<Longrightarrow> r ''refresh_token_hash'' = SqlText (os_refresh_token_hash x)"
  by (simp_all add: read_oidc_iff oidc_columns_def oidc_args_def)

lemma oidc_queries:
  "get_oidc_session_by_access_token_hash_op (sql_store db Q) h d =
     seen (query_row db scan_oidc_session (from_oidc (st_by_access Q)) [SqlText h] d)"
  "get_oidc_session_by_refresh_token_hash_op (sql_store db Q) h d =
     seen (query_row db scan_oidc_session (from_oidc (st_by_refresh Q)) [SqlText h] d)"
  "get_oidc_session_by_sub_op (sql_store db Q) h d =
     seen (query_row db scan_oidc_session (from_oidc (st_by_sub Q)) [SqlText h] d)"
  by (simp_all add: sql_store_def)

lemma oget_laws:
  assumes g: "sql_good tables d"
  shows "get_oidc_session_by_access_token_hash_op (sql_store db Q) h d = Inr y \<Longrightarrow>
      sql_osess tables d (os_sub y) = Some y \<and> os_access_token_hash y = h"
    "get_oidc_session_by_access_token_hash_op (sql_store db Q) h d = Inl ErrNotFound \<Longrightarrow>
      sql_osess tables d k = Some y \<Longrightarrow> os_access_token_hash y \<noteq> h"
    "get_oidc_session_by_refresh_token_hash_op (sql_store db Q) h d = Inr y \<Longrightarrow>
      sql_osess tables d (os_sub y) = Some y \<and> os_refresh_token_hash y = h"
    "get_oidc_session_by_refresh_token_hash_op (sql_store db Q) h d = Inl ErrNotFound \<Longrightarrow>
      sql_osess tables d k = Some y \<Longrightarrow> os_refresh_token_hash y \<noteq> h"
    "get_oidc_session_by_sub_op (sql_store db Q) h d = Inr y \<Longrightarrow>
      sql_osess tables d (os_sub y) = Some y \<and> os_sub y = h"
    "get_oidc_session_by_sub_op (sql_store db Q) h d = Inl ErrNotFound \<Longrightarrow>
      sql_osess tables d k = Some y \<Longrightarrow> os_sub y \<noteq> h"
  unfolding oidc_queries
  by (rule oget_law(1) [where f = os_access_token_hash, OF g by_access], erule oidc_column_values(1), assumption,
      rule oget_law(2) [where f = os_access_token_hash, OF g by_access], erule oidc_column_values(1), assumption, assumption,
      rule oget_law(1) [where f = os_refresh_token_hash, OF g by_refresh], erule oidc_column_values(2), assumption,
      rule oget_law(2) [where f = os_refresh_token_hash, OF g by_refresh], erule oidc_column_values(2), assumption, assumption,
      rule oget_law(1) [where f = os_sub, OF g by_sub], erule oid.read_key, assumption,
      rule oget_law(2) [where f = os_sub, OF g by_sub], erule oid.read_key, assumption, assumption)

text \<open>The laws as the contract states them, of the state after an operation.\<close>

lemmas after_session =
  create_law [OF _ surjective_pairing] update_law [OF _ surjective_pairing]
  delete_law [OF _ surjective_pairing] expire_law [OF _ surjective_pairing]

lemmas after_oidc =
  ocreate_law [OF _ surjective_pairing] oupdate_law [OF _ surjective_pairing]
  odelete_law [OF _ surjective_pairing] oexpire_law [OF _ surjective_pairing]

lemma session_part: "session_repo (sql_store db Q) (sql_good tables) (sql_sess tables)"
proof
  show "se_uuid x = u" if "sql_good tables s" "sql_sess tables s u = Some x" for s u x
    using that ses.look_key [of "tables s ''sessions''" u x] by (simp add: sql_good_def sql_sess_def)
  show "sql_sess tables s' u = (case sql_sess tables s u of None \<Rightarrow> None | Some x \<Rightarrow> if se_expiry x < t then None else Some x)"
    if "sql_good tables s" "delete_expired_sessions_op (sql_store db Q) t s = (None, s')" for s t s' u
    using expire_law [OF that] by simp
  show "(\<exists>y. sql_sess tables s (us_uuid p) = Some y \<and> se_created_at x = se_created_at y) \<and>
      se_uuid x = us_uuid p \<and> se_username x = us_username p \<and> se_email x = us_email p \<and>
      se_name x = us_name p \<and> se_provider x = us_provider p \<and>
      se_totp_pending x = us_totp_pending p \<and> se_oauth_groups x = us_oauth_groups p \<and>
      se_expiry x = us_expiry p \<and> se_oauth_name x = us_oauth_name p \<and>
      se_oauth_sub x = us_oauth_sub p \<and> sql_sess tables s' = (sql_sess tables s)(us_uuid p \<mapsto> x)"
    if "sql_good tables s" "update_session_op (sql_store db Q) p s = (Inr x, s')" for s p x s'
    using update_law [OF that] by (auto simp: updated_session_def)
qed (use after_session in \<open>simp; fail\<close> | drule (1) create_law update_law delete_law expire_law, simp | erule (1) get_law)+

lemma oidc_part: "oidc_repo (sql_store db Q) (sql_good tables) (sql_sess tables) (sql_osess tables)"
proof (intro oidc_repo.intro session_part oidc_repo_axioms.intro)
  show "os_sub y = k" if "sql_good tables s" "sql_osess tables s k = Some y" for s k y
    using that oid.look_key [of "tables s ''oidc_sessions''" k y] by (simp add: sql_good_def sql_osess_def)
  show "sql_osess tables s k = Some y" if "sql_good tables s" "get_oidc_session_by_sub_op (sql_store db Q) k s = Inr y" for s k y
    using oget_laws(5) [OF that] by auto
  show "sql_osess tables s k = None" if "sql_good tables s" "get_oidc_session_by_sub_op (sql_store db Q) k s = Inl ErrNotFound" for s k
  proof (cases "sql_osess tables s k")
    case (Some y)
    with that(1) oid.look_key [of "tables s ''oidc_sessions''" k y] have "os_sub y = k" by (simp add: sql_good_def sql_osess_def)
    with oget_laws(6) [OF that Some] show ?thesis by simp
  qed simp
  show "sql_osess tables s' k = (case sql_osess tables s k of None \<Rightarrow> None | Some y \<Rightarrow>
        if os_token_expires_at y < de_token_expires_at p \<and>
           os_refresh_token_expires_at y < de_refresh_token_expires_at p then None else Some y)"
    if "sql_good tables s" "delete_expired_oidc_sessions_op (sql_store db Q) p s = (None, s')" for s p s' k
    using oexpire_law [OF that] by simp
qed (use after_oidc in \<open>simp; fail\<close> | drule (1) ocreate_law oupdate_law odelete_law oexpire_law, simp | erule (2) oget_laws | erule (1) oget_laws)+

lemma both_tables: "two_tables (sql_store db Q) (sql_good tables) (sql_sess tables) (sql_osess tables)"
  by (intro two_tables.intro oidc_part two_tables_axioms.intro) (simp_all add: after_session after_oidc)

end

section \<open>An engine\<close>

text \<open>The meaning of the statements, executed on the tables themselves.\<close>

definition reference_db :: "database sql_db" where
  "reference_db =
     \<lparr>db_exec = (\<lambda>q args d.
        case bind_statement q args of
          None \<Rightarrow> (Inl ''missing argument'', d)
        | Some bq \<Rightarrow> (case run bq d of None \<Rightarrow> (Inl ''constraint failed'', d) | Some (rs, m) \<Rightarrow> (Inr rs, m))),
      db_scan_error = (\<lambda>row. ''unsupported Scan'')\<rparr>"

lemma reference_engine: "sql_engine reference_db id"
  by unfold_locales (auto simp: reference_db_def bind_statement_def split: option.splits)

interpretation ref: sql_backend reference_db id sqlite_statements
  by (intro sql_backend.intro reference_engine lite.sql_statements_axioms)

interpretation lite_tables: two_tables "sqlite_store reference_db" "sql_good id" "sql_sess id" "sql_osess id"
  unfolding sqlite_as_statements by (rule ref.both_tables)


definition demo_row_session :: session where
  "demo_row_session = \<lparr>se_uuid = ''u1'', se_username = ''ann'', se_email = ''ann@x.io'', se_name = ''Ann'', se_provider = ''local'',
     se_totp_pending = False, se_oauth_groups = [], se_expiry = 9, se_created_at = 1, se_oauth_name = [], se_oauth_sub = []\<rparr>"




section \<open>Rows of earlier versions\<close>

text \<open>
  The migrations of SQLite add the columns \<open>oauth_name\<close> and \<open>oauth_sub\<close> without a default, and
  \<open>oauth_groups\<close> may be NULL from the start, but the field of the struct cannot hold NULL: a session
  stored before the migration cannot be read, which is an error of the store and no missing session.
\<close>

lemma only_one: "distinct xs \<Longrightarrow> set xs = {x} \<Longrightarrow> xs = [x]"
  by (cases xs rule: remdups_adj.cases) auto

theorem null_column_unreadable:
  assumes "sql_engine db tables" "unique_rows ''sessions'' (tables d ''sessions'')" "r \<in> set (tables d ''sessions'')"
    "r ''uuid'' = SqlText u" "r c = SqlNull" "c \<in> {''oauth_groups'', ''oauth_name'', ''oauth_sub''}"
  shows "\<exists>e. get_session_op (sqlite_store db) u d = Inl (StoreFailure e)"
proof -
  let ?rows = "filter (\<lambda>r. r ''uuid'' = SqlText u) (tables d ''sessions'')"
  have unreadable: "read_session r = None"
    using assms(5,6) by (cases "read_session r") (auto simp: read_session_iff session_columns_def session_args_def)
  have d: "distinct (map (\<lambda>r. r ''uuid'') (tables d ''sessions''))"
    using assms(2) by (simp add: unique_rows_def unique_columns_def)
  have "r' = r" if "r' \<in> set (tables d ''sessions'')" "r' ''uuid'' = SqlText u" for r'
  proof (rule inj_onD [of "\<lambda>r. r ''uuid''" "set (tables d ''sessions'')"])
    show "inj_on (\<lambda>r. r ''uuid'') (set (tables d ''sessions''))" using d by (rule distinct_map [THEN iffD1, THEN conjunct2])
  qed (simp_all only: assms(3,4) that)
  with assms(3,4) have "set ?rows = {r}" unfolding set_filter by blast
  moreover have "distinct ?rows" using d by (simp add: distinct_map)
  ultimately have only: "?rows = [r]" by (rule only_one [rotated])
  have hit: "hit [(''uuid'', Equals, SqlText u)] = (\<lambda>r. r ''uuid'' = SqlText u)" by (auto simp: hit_def)
  let ?q = "from_sessions (st_get sqlite_statements)"
  obtain x d' where x: "query_row db scan_session ?q [SqlText u] d = (x, d')" by fastforce
  have answer: "rs = [map r session_columns]" if "db_exec db ?q [SqlText u] d = (Inr rs, d')" for rs
    using sql_engine.exec_ok [OF assms(1) that] lite.get [of u] only by (auto simp: hit)
  from x have "\<exists>e. x = Inl (DriverError e)"
  proof (cases rule: query_row_cases)
    case (failed e)
    then show ?thesis by blast
  next
    case none
    from answer [OF none(1)] show ?thesis by simp
  next
    case (row v vs)
    from answer [OF row(1)] row(2) unreadable show ?thesis by (simp add: read_session_def)
  qed
  with x show ?thesis by (auto simp: sqlite_as_statements sql_store_def)
qed

end
