(* ===== verification/Commands.thy ===== *)
theory Commands
  imports Pages
begin

text \<open>
  The commands of \<open>cmd/tinyauth\<close>: creating and verifying users, adding a second factor, creating
  OpenID Connect clients, the health check, and the text they print. A command gives what it printed
  and, when it fails, the text of its error. The terminal, the forms, the generators of hashes and
  secrets, the YAML encoder and the HTTP client are parameters.
\<close>

section \<open>The terminal\<close>

datatype colour = Blue | Gray | LightGray | Green | Yellow

text \<open>A field of a form: its title with the check of what is entered, or a choice between two options.\<close>

datatype question = Ask string "string \<Rightarrow> string option" | Choose string

datatype reply = Entered string | Chosen bool

text \<open>
  \<open>te_paint\<close> is \<open>Style.Render\<close> of a style with that colour, or of the plain style; \<open>te_form\<close> runs a
  form, \<open>te_hash\<close> is \<open>bcrypt.GenerateFromPassword\<close> and \<open>te_mismatch\<close> the error of the comparison, \<open>te_totp\<close> is \<open>totp.Generate\<close> for an issuer and an
  account, with the secret and the URL of the key, \<open>te_qr\<close> draws a code, \<open>te_yaml\<close> and \<open>te_yaml_oidc\<close>
  are \<open>yaml.Marshal\<close>, and \<open>te_help\<close> is the help of a command.
\<close>

record terminal =
  te_lib :: golib
  te_getenv :: "string \<Rightarrow> string"
  te_paint :: "colour option \<Rightarrow> string \<Rightarrow> string"
  te_form :: "question list \<Rightarrow> string + reply list"
  te_help :: "string \<Rightarrow> string"
  te_hash :: "string \<Rightarrow> string + string"
  te_mismatch :: "string \<Rightarrow> string \<Rightarrow> string"
  te_totp :: "string \<Rightarrow> string \<Rightarrow> string + string \<times> string"
  te_qr :: "string \<Rightarrow> string"
  te_yaml :: "config \<Rightarrow> string + string"
  te_yaml_oidc :: "oidc_config \<Rightarrow> string + string"

record command_result =
  printed :: string
  failure :: "string option"

definition fails :: "string \<Rightarrow> command_result" where
  "fails e = \<lparr>printed = [], failure = Some e\<rparr>"

definition prints :: "string \<Rightarrow> command_result" where
  "prints s = \<lparr>printed = s, failure = None\<rparr>"

abbreviation newline :: string where
  "newline \<equiv> [CHR 0x0A]"

definition use_colors :: "terminal \<Rightarrow> bool" where
  "use_colors t \<longleftrightarrow>
     te_getenv t ''FORCE_COLOR'' \<in> {''true'', ''1''} \<or> te_getenv t ''NO_COLOR'' \<notin> {''true'', ''1''}"

definition paint :: "terminal \<Rightarrow> colour \<Rightarrow> string \<Rightarrow> string" where
  "paint t c = te_paint t (if use_colors t then Some c else None)"

definition render_to_buf :: "terminal \<Rightarrow> (string \<times> string) list \<Rightarrow> string \<Rightarrow> string" where
  "render_to_buf t kvs sep =
     concat (map (\<lambda>(k, v). paint t Blue k @ paint t Gray sep @ paint t LightGray v @ newline) kvs)"

definition render_yaml_line :: "terminal \<Rightarrow> string \<Rightarrow> string" where
  "render_yaml_line t l =
     (if l = [] then []
      else if take 2 (dropWhile (\<lambda>c. c = CHR '' '') l) = ''- '' then paint t LightGray l @ newline
      else let lp = split_n 2 (CHR '':'') l
           in paint t Blue (hd lp) @ paint t Gray '':'' @
              (if length lp = 2 then paint t LightGray (lp ! 1) else []) @ newline)"

definition render_yaml_to_buf :: "terminal \<Rightarrow> string + string \<Rightarrow> string + string" where
  "render_yaml_to_buf t yout =
     (case yout of
        Inl e \<Rightarrow> Inl (''failed to marshal yaml: '' @ e)
      | Inr s \<Rightarrow> Inr (concat (map (render_yaml_line t) (split_on (CHR 0x0A) s))))"

definition required :: "string \<Rightarrow> string \<Rightarrow> string option" where
  "required what s = (if s = [] then Some (what @ '' cannot be empty'') else None)"

definition valid_username :: "string \<Rightarrow> string option" where
  "valid_username s =
     (if s = [] then Some ''username cannot be empty''
      else if CHR '':'' \<in> set s then Some (''username cannot contain '' @ [CHR 0x27] @ '':'' @ [CHR 0x27])
      else None)"

section \<open>Creating a user\<close>

record create_user_config =
  cu_interactive :: bool
  cu_docker :: bool
  cu_username :: string
  cu_password :: string

definition new_create_user_config :: create_user_config where
  "new_create_user_config = \<lparr>cu_interactive = False, cu_docker = False, cu_username = [], cu_password = []\<rparr>"

text \<open>The answers of the form go to the fields that its inputs point to.\<close>

definition ask_create_user :: "terminal \<Rightarrow> create_user_config \<Rightarrow> string + create_user_config" where
  "ask_create_user t cfg =
     (if \<not> cu_interactive cfg then Inr cfg
      else (case te_form t [Ask ''Username'' valid_username, Ask ''Password'' (required ''password''),
                            Choose ''Format the output for Docker?''] of
              Inl e \<Rightarrow> Inl (''failed to run interactive prompt: '' @ e)
            | Inr [Entered u, Entered p, Chosen d] \<Rightarrow> Inr (cfg\<lparr>cu_username := u, cu_password := p, cu_docker := d\<rparr>)
            | Inr _ \<Rightarrow> Inr cfg))"

definition user_entry :: "string \<Rightarrow> string \<Rightarrow> string" where
  "user_entry name hash = name @ '':'' @ hash"

text \<open>Only the output for docker compose doubles the dollar signs of the hash.\<close>

definition escape_for :: "bool \<Rightarrow> string \<Rightarrow> string" where
  "escape_for docker s = (if docker then double_char (CHR ''$'') s else s)"

definition created_text :: "terminal \<Rightarrow> string \<Rightarrow> string \<Rightarrow> string \<Rightarrow> string \<Rightarrow> string" where
  "created_text t name escaped user yaml =
     ''Created user '' @ [CHR 0x27] @ name @ [CHR 0x27] @ ''.'' @ newline @ newline @
     ''Environment variable:'' @ newline @ newline @ render_to_buf t [(''TINYAUTH_AUTH_USERS'', escaped)] ''='' @
     newline @ ''CLI flags:'' @ newline @ newline @ render_to_buf t [(''--auth.users'', user)] ''='' @
     newline @ ''YAML config:'' @ newline @ newline @ yaml @ newline @
     ''Use your config option of choice to add the user to Tinyauth and then restart.'' @ newline"

definition create_user :: "terminal \<Rightarrow> create_user_config \<Rightarrow> command_result" where
  "create_user t cfg0 =
     (case ask_create_user t cfg0 of
        Inl e \<Rightarrow> fails e
      | Inr cfg \<Rightarrow>
          if cu_username cfg = [] \<or> cu_password cfg = []
          then \<lparr>printed = te_help t ''create'', failure = Some ''username and password cannot be empty''\<rparr>
          else if CHR '':'' \<in> set (cu_username cfg) then fails (the (valid_username (cu_username cfg)))
          else (case te_hash t (cu_password cfg) of
            Inl e \<Rightarrow> fails (''failed to hash password: '' @ e)
          | Inr hash \<Rightarrow>
              let user = user_entry (cu_username cfg) hash;
                  escaped = user_entry (cu_username cfg) (escape_for (cu_docker cfg) hash)
              in (case render_yaml_to_buf t (te_yaml t (zero_config\<lparr>cfg_auth := zero_auth_config\<lparr>au_users := [user]\<rparr>\<rparr>)) of
                    Inl e \<Rightarrow> fails (''failed to render yaml config: '' @ e)
                  | Inr yaml \<Rightarrow> prints (created_text t (cu_username cfg) escaped user yaml))))"

section \<open>Verifying a user\<close>

record verify_user_config =
  vu_interactive :: bool
  vu_username :: string
  vu_password :: string
  vu_totp :: string
  vu_user :: string

definition new_verify_user_config :: verify_user_config where
  "new_verify_user_config = \<lparr>vu_interactive = False, vu_username = [], vu_password = [], vu_totp = [], vu_user = []\<rparr>"

definition ask_verify_user :: "terminal \<Rightarrow> verify_user_config \<Rightarrow> string + verify_user_config" where
  "ask_verify_user t cfg =
     (if \<not> vu_interactive cfg then Inr cfg
      else (case te_form t [Ask ''User (username:hash:totp)'' (required ''user''), Ask ''Username'' (required ''username''),
                            Ask ''Password'' (required ''password''), Ask ''TOTP Code (optional)'' (\<lambda>s. None)] of
              Inl e \<Rightarrow> Inl (''failed to run interactive prompt: '' @ e)
            | Inr [Entered u, Entered n, Entered p, Entered c] \<Rightarrow>
                Inr (cfg\<lparr>vu_user := u, vu_username := n, vu_password := p, vu_totp := c\<rparr>)
            | Inr _ \<Rightarrow> Inr cfg))"

text \<open>The check mark and the warning sign, in UTF-8.\<close>

definition check_mark :: string where
  "check_mark = [CHR 0xE2, CHR 0x9C, CHR 0x93]"

definition warning_sign :: string where
  "warning_sign = [CHR 0xE2, CHR 0x9A, CHR 0xA0]"

definition verified_line :: "terminal \<Rightarrow> string" where
  "verified_line t = paint t Green check_mark @ '' User verified'' @ newline"

definition verify_user :: "terminal \<Rightarrow> verify_user_config \<Rightarrow> command_result" where
  "verify_user t cfg0 =
     (case ask_verify_user t cfg0 of
        Inl e \<Rightarrow> fails e
      | Inr cfg \<Rightarrow>
          if vu_user cfg = [] \<or> vu_username cfg = [] \<or> vu_password cfg = []
          then \<lparr>printed = te_help t ''verify'', failure = Some ''user, username, and password are required''\<rparr>
          else (case parse_user (vu_user cfg) of
            None \<Rightarrow> fails ''failed to parse user: invalid user format''
          | Some user \<Rightarrow>
              if user_username user \<noteq> vu_username cfg then fails ''username is incorrect''
              else if \<not> lib_bcrypt (te_lib t) (user_password user) (vu_password cfg) 
              then fails (''password is incorrect: '' @ te_mismatch t (user_password user) (vu_password cfg))
              else if user_totp_secret user = [] then
                prints ((if vu_totp cfg \<noteq> []
                         then paint t Yellow warning_sign @ '' TOTP code provided but user does not have TOTP enabled'' @ newline
                         else []) @ verified_line t)
              else if \<not> lib_totp (te_lib t) (vu_totp cfg) (user_totp_secret user) then fails ''TOTP code incorrect''
              else prints (verified_line t)))"

section \<open>Adding a second factor\<close>

record generate_totp_config =
  gt_interactive :: bool
  gt_user :: string

definition new_generate_totp_config :: generate_totp_config where
  "new_generate_totp_config = \<lparr>gt_interactive = False, gt_user = []\<rparr>"

definition ask_generate_totp :: "terminal \<Rightarrow> generate_totp_config \<Rightarrow> string + generate_totp_config" where
  "ask_generate_totp t cfg =
     (if \<not> gt_interactive cfg then Inr cfg
      else (case te_form t [Ask ''Current user (username:hash)'' (required ''user'')] of
              Inl e \<Rightarrow> Inl (''failed to run interactive prompt: '' @ e)
            | Inr [Entered u] \<Rightarrow> Inr (cfg\<lparr>gt_user := u\<rparr>)
            | Inr _ \<Rightarrow> Inr cfg))"

definition totp_entry :: "bool \<Rightarrow> local_user \<Rightarrow> string \<Rightarrow> string" where
  "totp_entry docker user secret =
     user_username user @ '':'' @ escape_for docker (user_password user) @ '':'' @ secret"

definition totp_text :: "terminal \<Rightarrow> string \<Rightarrow> string \<Rightarrow> string \<Rightarrow> string \<Rightarrow> string" where
  "totp_text t url secret name entry =
     ''Scan the following QR code with your authenticator app (e.g., Google Authenticator, 2fauth, Microsoft Authenticator):'' @
     newline @ newline @ te_qr t url @
     newline @ ''Or add the following TOTP secret to your authenticator app: '' @ paint t Green secret @ newline @ newline @
     ''Finally, add your user '' @ [CHR 0x27] @ name @ [CHR 0x27] @ '' back to your configuration: '' @
     paint t Green entry @ newline"

definition generate_totp :: "terminal \<Rightarrow> generate_totp_config \<Rightarrow> command_result" where
  "generate_totp t cfg0 =
     (case ask_generate_totp t cfg0 of
        Inl e \<Rightarrow> fails e
      | Inr cfg \<Rightarrow>
          if gt_user cfg = [] then \<lparr>printed = te_help t ''generate'', failure = Some ''user is required''\<rparr>
          else (case parse_user (gt_user cfg) of
            None \<Rightarrow> fails ''failed to parse user: invalid user format''
          | Some user \<Rightarrow>
              if user_totp_secret user \<noteq> [] then fails ''user already has a TOTP secret''
              else (case te_totp t ''Tinyauth'' (user_username user) of
                Inl e \<Rightarrow> fails (''failed to generate TOTP secret: '' @ e)
              | Inr (secret, url) \<Rightarrow>
                  prints (totp_text t url secret (user_username user)
                    (totp_entry (has_pair (CHR ''$'') (gt_user cfg)) user secret)))))"

section \<open>Creating an OpenID Connect client\<close>

definition client_name_ok :: "string \<Rightarrow> bool" where
  "client_name_ok = list_all (\<lambda>c. c = CHR ''-'' \<or> CHR ''0'' \<le> c \<and> c \<le> CHR ''9'' \<or>
     CHR ''A'' \<le> c \<and> c \<le> CHR ''Z'' \<or> CHR ''a'' \<le> c \<and> c \<le> CHR ''z'')"

definition client_variables :: "string \<Rightarrow> string \<Rightarrow> string \<Rightarrow> string \<Rightarrow> (string \<times> string) list" where
  "client_variables uname cid secret name =
     [(''TINYAUTH_OIDC_CLIENTS_'' @ uname @ ''_CLIENTID'', cid),
      (''TINYAUTH_OIDC_CLIENTS_'' @ uname @ ''_CLIENTSECRET'', secret),
      (''TINYAUTH_OIDC_CLIENTS_'' @ uname @ ''_NAME'', name)]"

definition client_flags :: "string \<Rightarrow> string \<Rightarrow> string \<Rightarrow> string \<Rightarrow> (string \<times> string) list" where
  "client_flags lname cid secret name =
     [(''--oidc.clients.'' @ lname @ ''.clientid'', cid),
      (''--oidc.clients.'' @ lname @ ''.clientsecret'', secret),
      (''--oidc.clients.'' @ lname @ ''.name'', name)]"

text \<open>The id is a fresh UUID and the 61 random bytes of the secret are an argument.\<close>

definition client_secret :: "string \<Rightarrow> string" where
  "client_secret random = ''ta-'' @ generate_string random"

definition client_text :: "terminal \<Rightarrow> string \<Rightarrow> string \<Rightarrow> string \<Rightarrow> string \<Rightarrow> string" where
  "client_text t name cid secret yaml =
     (let uname = lib_to_upper (te_lib t) name; lname = lib_to_lower (te_lib t) name; shown = capitalize (te_lib t) lname
      in ''Created '' @ [CHR 0x27] @ name @ [CHR 0x27] @ '' OIDC client.'' @ newline @ newline @
         ''Credentials:'' @ newline @ newline @
         ''Client Name: '' @ name @ newline @ ''Client ID: '' @ cid @ newline @ ''Client Secret: '' @ secret @ newline @ newline @
         ''Environment variables:'' @ newline @ newline @ render_to_buf t (client_variables uname cid secret shown) ''='' @ newline @
         ''CLI flags:'' @ newline @ newline @ render_to_buf t (client_flags lname cid secret shown) ''='' @ newline @
         ''YAML config:'' @ newline @ newline @ yaml @ newline @
         ''You can use any of the above options to configure your OIDC client. Make sure to save these credentials as there is no way to regenerate them.'' @
         newline)"

definition client_entry :: "golib \<Rightarrow> string \<Rightarrow> string \<Rightarrow> string \<Rightarrow> oidc_config" where
  "client_entry lib lname cid secret =
     zero_oidc_config\<lparr>oic_clients := [(lname, zero_oidc_client_config\<lparr>occ_client_id := cid,
       occ_client_secret := secret, occ_name := capitalize lib lname\<rparr>)]\<rparr>"

definition create_oidc_client :: "terminal \<Rightarrow> string \<Rightarrow> string \<Rightarrow> string list \<Rightarrow> command_result" where
  "create_oidc_client t cid random args =
     (case args of
        [] \<Rightarrow> fails ''client name is required. use tinyauth oidc create <name>''
      | name # _ \<Rightarrow>
          if \<not> client_name_ok name then fails ''client name can only contain alphanumeric characters and hyphens''
          else (case render_yaml_to_buf t (te_yaml_oidc t
                  (client_entry (te_lib t) (lib_to_lower (te_lib t) name) cid (client_secret random))) of
                  Inl e \<Rightarrow> fails (''failed to render yaml config: '' @ e)
                | Inr yaml \<Rightarrow> prints (client_text t name cid (client_secret random) yaml)))"

section \<open>The health check\<close>

text \<open>The outcome of a request: an error of the client, or a status with its line and the body.\<close>

datatype http_outcome = RequestError string | ClientError string | Answer int string "string + string"

record healthz_response =
  hz_status :: int
  hz_message :: string

text \<open>\<open>json.Unmarshal\<close> into the response.\<close>

definition unmarshal_healthz :: "golib \<Rightarrow> string \<Rightarrow> healthz_response option" where
  "unmarshal_healthz lib body =
     (case json_parse body of
        Some JNull \<Rightarrow> Some \<lparr>hz_status = 0, hz_message = []\<rparr>
      | Some (JObject fs) \<Rightarrow>
          (case (bind_int lib ''status'' fs 0, bind_field lib ''message'' fs []) of
             (Some s, Some m) \<Rightarrow> Some \<lparr>hz_status = s, hz_message = m\<rparr>
           | _ \<Rightarrow> None)
      | _ \<Rightarrow> None)"

definition health_url :: "terminal \<Rightarrow> string list \<Rightarrow> string" where
  "health_url t args =
     (let or_else = \<lambda>s d. if s = [] then d else s;
          addr = or_else (te_getenv t ''TINYAUTH_SERVER_ADDRESS'') ''127.0.0.1'';
          port = or_else (te_getenv t ''TINYAUTH_SERVER_PORT'') ''3000''
      in case args of [] \<Rightarrow> ''http://'' @ addr @ '':'' @ port | a # _ \<Rightarrow> a)"

text \<open>What it logs on the way is left out; the argument \<open>http\<close> is the client, \<open>why\<close> the error of a bad body.\<close>

definition healthcheck :: "terminal \<Rightarrow> (string \<Rightarrow> http_outcome) \<Rightarrow> (string \<Rightarrow> string) \<Rightarrow> string list \<Rightarrow> string option" where
  "healthcheck t http why args =
     (let url = health_url t args
      in if url = [] then Some ''Could not determine app URL''
         else (case http (url @ ''/api/healthz'') of
                 RequestError e \<Rightarrow> Some (''failed to create request: '' @ e)
               | ClientError e \<Rightarrow> Some (''failed to perform request: '' @ e)
               | Answer code line body \<Rightarrow>
                   if code \<noteq> 200 then Some (''service is not healthy, got: '' @ line)
                   else (case body of
                           Inl e \<Rightarrow> Some (''failed to read response: '' @ e)
                         | Inr s \<Rightarrow> (case unmarshal_healthz (te_lib t) s of
                                      None \<Rightarrow> Some (''failed to decode response: '' @ why s)
                                    | Some _ \<Rightarrow> None))))"

section \<open>The other commands\<close>

definition version_command :: "terminal \<Rightarrow> string \<Rightarrow> string \<Rightarrow> string \<Rightarrow> command_result" where
  "version_command t version commit build =
     prints (''Version: '' @ paint t Blue version @ newline @ ''Commit Hash: '' @ paint t Blue commit @ newline @
             ''Build Timestamp: '' @ paint t Blue build @ newline)"

definition config_command :: "terminal \<Rightarrow> config \<Rightarrow> command_result" where
  "config_command t cfg =
     (case render_yaml_to_buf t (te_yaml t cfg) of
        Inl e \<Rightarrow> fails (''failed to render yaml config: '' @ e)
      | Inr yaml \<Rightarrow> prints (''Your current configuration in YAML is:'' @ newline @ newline @ yaml))"

text \<open>The tree of commands, with the name and the description of each and the names below it.\<close>

datatype command = Command string string "command list"

definition command_tree :: command where
  "command_tree =
     Command ''tinyauth'' ''The simplest way to protect your apps with a login screen''
       [Command ''help'' ''Show the help message'' [],
        Command ''version'' ''Print the version number of Tinyauth'' [],
        Command ''config'' ''Dump the current configuration in YAML format, useful for debugging'' [],
        Command ''healthcheck'' ''Perform a health check'' [],
        Command ''user'' ''Manage users''
          [Command ''verify'' ''Verify a user is set up correctly'' [], Command ''create'' ''Create a user'' []],
        Command ''totp'' ''Manage TOTP users'' [Command ''generate'' ''Generate a TOTP secret'' []],
        Command ''oidc'' ''Manage OIDC clients'' [Command ''create'' ''Create a new OIDC Client'' []]]"

text \<open>\<open>strings.Contains\<close>.\<close>

fun contains :: "string \<Rightarrow> string \<Rightarrow> bool" where
  "contains [] p = (p = [])"
| "contains (c # s) p = (take (length p) (c # s) = p \<or> contains s p)"

text \<open>How the program ends: what it prints last and its exit code.\<close>

definition exit_of :: "string option \<Rightarrow> string \<times> int" where
  "exit_of err =
     (case err of
        None \<Rightarrow> ([], 0)
      | Some e \<Rightarrow>
          if contains e ''command not found''
          then (''Command not found. Use '' @ [CHR 0x27] @ ''tinyauth help'' @ [CHR 0x27] @ '' to see available commands.'' @ newline, 0)
          else if contains e ''is not runnable'' then ([], 0)
          else (''Failed to execute command: '' @ e @ newline, 1))"

text \<open>The warning of the root command about experimental features, before it starts the program.\<close>

definition experimental_warning :: "terminal \<Rightarrow> runtime_env \<Rightarrow> config \<Rightarrow> string" where
  "experimental_warning t env cfg =
     (if cfg_experimental cfg \<noteq> cfg_experimental (new_default_configuration env)
      then paint t Yellow warning_sign @
        '' Experimental features are enabled, use with caution. Experimental features may change with each release.'' @ newline
      else [])"

definition run_cmd :: "string option \<Rightarrow> string option" where
  "run_cmd setup = map_option (\<lambda>e. ''failed to bootstrap app: '' @ e) setup"

section \<open>Entries of the configuration\<close>

lemma has_pair_append: "x \<noteq> c \<Longrightarrow> has_pair c (a @ x # b) \<longleftrightarrow> has_pair c a \<or> has_pair c b"
proof (induction a rule: induct_list012)
  case 1
  then show ?case by (cases b) auto
next
  case (2 y)
  then show ?case by (cases b) auto
qed auto

lemma squeeze_append: "x \<noteq> c \<Longrightarrow> \<not> has_pair c a \<Longrightarrow> squeeze_pairs c (a @ x # b) = a @ x # squeeze_pairs c b"
proof (induction a rule: induct_list012)
  case 1
  then show ?case by (cases b) auto
next
  case (2 y)
  then show ?case by (cases b) auto
qed auto

text \<open>A byte that neither starts nor ends the encoding of a white space rune.\<close>

definition solid :: "char \<Rightarrow> bool" where
  "solid c \<longleftrightarrow> list_all (\<lambda>e. hd e \<noteq> c \<and> last e \<noteq> c) space_encodings"

lemma nothing_dropped:
  assumes "s \<noteq> []" "\<And>e. e \<in> set es \<Longrightarrow> hd e \<noteq> hd s"
  shows "drop_while_one es s = s"
proof -
  have "drop_one es s = None" using assms(2)
  proof (induction es)
    case (Cons e es)
    have "\<not> (e \<noteq> [] \<and> take (length e) s = e)" using Cons.prems [of e] assms(1) by (cases e; cases s) auto
    with Cons show ?case by auto
  qed simp
  then show ?thesis by (rule drop_while_one_id)
qed

lemma trim_solid:
  assumes "s \<noteq> []" "solid (hd s)" "solid (last s)"
  shows "trim_space s = s"
proof -
  have "drop_while_one space_encodings s = s"
    using assms by (intro nothing_dropped) (auto simp: solid_def list_all_iff)
  moreover have "drop_while_one (map rev space_encodings) (rev s) = rev s"
    using assms by (intro nothing_dropped) (auto simp: solid_def list_all_iff hd_rev)
  ultimately show ?thesis by (simp add: trim_space_def trim_left_def trim_right_def)
qed

text \<open>A field of an entry that reads back as it was written.\<close>

definition plain_field :: "string \<Rightarrow> bool" where
  "plain_field s \<longleftrightarrow> s \<noteq> [] \<and> CHR '':'' \<notin> set s \<and> solid (hd s) \<and> solid (last s) \<and> \<not> has_pair (CHR ''$'') s"

lemma plain_trim [simp]: "plain_field s \<Longrightarrow> trim_space s = s"
  by (simp add: plain_field_def trim_solid)

lemma plain_not_Nil: "plain_field s \<Longrightarrow> s \<noteq> []"
  by (simp add: plain_field_def)

lemma double_char_id: "c \<notin> set s \<Longrightarrow> double_char c s = s"
  by (induction s) auto

lemma squeeze_escaped: "\<not> has_pair (CHR ''$'') s \<Longrightarrow> squeeze_pairs (CHR ''$'') (escape_for docker s) = s"
  by (simp add: escape_for_def squeeze_double squeeze_no_pair)

text \<open>\<open>ParseUser\<close> takes the doubled dollar signs out of either form.\<close>

lemma parse_user_squeezed:
  "parse_user s = (let parts = split_n 4 (CHR '':'') (squeeze_pairs (CHR ''$'') s)
     in if length parts < 2 \<or> 3 < length parts then None
        else let parts = map trim_space parts
             in if [] \<in> set parts then None
                else Some \<lparr>user_username = parts ! 0, user_password = parts ! 1,
                           user_totp_secret = (if length parts = 3 then parts ! 2 else []),
                           user_attributes = zero_user_attributes\<rparr>)"
  by (simp add: parse_user_def squeeze_no_pair Let_def)

lemma four: "4 = Suc (Suc (Suc (Suc 0)))"
  by simp

lemma parse_two_fields:
  assumes "plain_field name" "plain_field hash"
  shows "parse_user (user_entry name (escape_for docker hash)) =
     Some \<lparr>user_username = name, user_password = hash, user_totp_secret = [], user_attributes = zero_user_attributes\<rparr>"
proof -
  have "squeeze_pairs (CHR ''$'') (user_entry name (escape_for docker hash)) = name @ CHR '':'' # hash"
    using assms by (simp add: user_entry_def squeeze_append squeeze_escaped plain_field_def)
  moreover have "split_n 4 (CHR '':'') (name @ CHR '':'' # hash) = [name, hash]"
    using assms by (simp add: four cut_at_append plain_field_def cut_at_None [THEN iffD2])
  ultimately show ?thesis using assms assms [THEN plain_not_Nil]
    by (auto simp: parse_user_squeezed Let_def)
qed

lemma parse_three_fields:
  assumes "plain_field (user_username user)" "plain_field (user_password user)" "plain_field secret"
  shows "parse_user (totp_entry docker user secret) =
     Some \<lparr>user_username = user_username user, user_password = user_password user, user_totp_secret = secret,
           user_attributes = zero_user_attributes\<rparr>"
proof -
  let ?n = "user_username user" and ?h = "user_password user" and ?e = "escape_for docker (user_password user)"
  have "squeeze_pairs (CHR ''$'') (?e @ CHR '':'' # secret) = ?h @ CHR '':'' # secret"
  proof (cases docker)
    case True
    have "squeeze_pairs c (double_char c a @ x # b) = a @ x # squeeze_pairs c b" if "x \<noteq> c" for c x :: char and a b
    proof (induction a)
      case Nil
      then show ?case using that by (cases b) auto
    next
      case (Cons y a)
      then show ?case using that by (cases "y = c"; cases "double_char c a @ x # b") auto
    qed
    with True assms show ?thesis by (simp add: escape_for_def squeeze_no_pair plain_field_def)
  next
    case False
    with assms show ?thesis by (simp add: escape_for_def squeeze_append squeeze_no_pair plain_field_def)
  qed
  then have "squeeze_pairs (CHR ''$'') (totp_entry docker user secret) = ?n @ CHR '':'' # ?h @ CHR '':'' # secret"
    using assms by (simp add: totp_entry_def squeeze_append plain_field_def)
  moreover have "split_n 4 (CHR '':'') (?n @ CHR '':'' # ?h @ CHR '':'' # secret) = [?n, ?h, secret]"
    using assms by (simp add: four cut_at_append plain_field_def cut_at_None [THEN iffD2])
  ultimately show ?thesis using assms assms [THEN plain_not_Nil]
    by (auto simp: parse_user_squeezed Let_def)
qed

lemma hash_escaped_last: "s \<noteq> [] \<Longrightarrow> escape_for docker s \<noteq> [] \<and> last (escape_for docker s) = last s"
proof (cases docker)
  case True
  have "s \<noteq> [] \<Longrightarrow> double_char c s \<noteq> [] \<and> last (double_char c s) = last s" for c
    by (induction s) auto
  with True show "s \<noteq> [] \<Longrightarrow> ?thesis" by (simp add: escape_for_def)
qed (simp add: escape_for_def)

lemma entry_trim:
  assumes "plain_field name" "plain_field hash"
  shows "trim_space (user_entry name (escape_for docker hash)) = user_entry name (escape_for docker hash)"
  using assms hash_escaped_last [of hash docker] by (intro trim_solid) (auto simp: user_entry_def plain_field_def)

lemma entry_users:
  assumes "plain_field name" "plain_field hash"
  shows "get_users lib [user_entry name (escape_for docker hash)] [] attrs =
     Some (Some [\<lparr>user_username = name, user_password = hash, user_totp_secret = [],
       user_attributes = (case map_of attrs name of None \<Rightarrow> zero_user_attributes | Some a \<Rightarrow> a)\<rparr>])"
  using entry_trim [OF assms, of docker] parse_two_fields [OF assms, of docker]
  by (cases "map_of attrs name") (auto simp: get_users_def get_string_list_def parse_users_def user_entry_def)

section \<open>A created user can log in\<close>


definition demo_terminal :: terminal where
  "demo_terminal = \<lparr>te_lib = ascii_lib, te_getenv = (\<lambda>v. []), te_paint = (\<lambda>c s. s), te_form = (\<lambda>qs. Inl ''no form''),
     te_help = (\<lambda>c. c), te_hash = Inr, te_mismatch = (\<lambda>h p. ''mismatch''), te_totp = (\<lambda>i a. Inr (''123'', ''otpauth'')),
     te_qr = (\<lambda>u. u), te_yaml = (\<lambda>c. Inr ''auth:''), te_yaml_oidc = (\<lambda>c. Inr ''clients:'')\<rparr>"

lemma demo_terminal_simps [simp]:
  "te_lib demo_terminal = ascii_lib" "te_hash demo_terminal p = Inr p" "te_totp demo_terminal i a = Inr (''123'', ''otpauth'')"
  by (simp_all add: demo_terminal_def)


text \<open>
  A second factor, once added, is asked for: the command that adds it to the entry of a user
  without one prints an entry that keeps the name and the hash, escaped as the entry it was given, and
  of this entry the command that verifies users accepts exactly the passwords that the hash accepts
  together with the codes of the new secret.
\<close>

theorem added_factor_is_required:
  assumes "plain_field name" "plain_field hash" "\<And>secret url. te_totp t ''Tinyauth'' name = Inr (secret, url) \<Longrightarrow> plain_field secret"
    "failure (generate_totp t \<lparr>gt_interactive = False, gt_user = user_entry name (escape_for docker hash)\<rparr>) = None"
  shows "\<exists>secret url entry.
     printed (generate_totp t \<lparr>gt_interactive = False, gt_user = user_entry name (escape_for docker hash)\<rparr>) =
       totp_text t url secret name entry \<and> te_totp t ''Tinyauth'' name = Inr (secret, url) \<and>
     entry \<in> {user_entry name hash @ '':'' @ secret, user_entry name (escape_for docker hash) @ '':'' @ secret} \<and>
     (\<forall>p code. failure (verify_user t \<lparr>vu_interactive = False, vu_username = name, vu_password = p, vu_totp = code,
        vu_user = entry\<rparr>) = None \<longleftrightarrow> p \<noteq> [] \<and> lib_bcrypt (te_lib t) hash p \<and> lib_totp (te_lib t) code secret)"
proof -
  let ?given = "user_entry name (escape_for docker hash)"
  let ?user = "\<lparr>user_username = name, user_password = hash, user_totp_secret = [], user_attributes = zero_user_attributes\<rparr>"
  let ?d = "has_pair (CHR ''$'') ?given"
  note parsed = parse_two_fields [OF assms(1,2), of docker]
  have "?given \<noteq> []" by (simp add: user_entry_def)
  with assms(4) parsed obtain secret url where s: "te_totp t ''Tinyauth'' name = Inr (secret, url)"
    "printed (generate_totp t \<lparr>gt_interactive = False, gt_user = ?given\<rparr>) = totp_text t url secret name (totp_entry ?d ?user secret)"
    by (auto simp: generate_totp_def ask_generate_totp_def fails_def prints_def split: sum.splits)
  note plain = assms(3) [OF s(1)]
  have "?d \<Longrightarrow> docker" using assms(1,2) by (cases docker) (auto simp: user_entry_def escape_for_def has_pair_append plain_field_def)
  then have "totp_entry ?d ?user secret \<in> {user_entry name hash @ '':'' @ secret, ?given @ '':'' @ secret}"
    by (cases ?d) (simp_all add: totp_entry_def user_entry_def escape_for_def)
  moreover have "failure (verify_user t \<lparr>vu_interactive = False, vu_username = name, vu_password = p, vu_totp = code,
        vu_user = totp_entry ?d ?user secret\<rparr>) = None \<longleftrightarrow> p \<noteq> [] \<and> lib_bcrypt (te_lib t) hash p \<and> lib_totp (te_lib t) code secret" for p code
    using assms(1,2) plain parse_three_fields [of ?user secret ?d]
    by (auto simp: verify_user_def ask_verify_user_def fails_def prints_def totp_entry_def plain_field_def)
  ultimately show ?thesis using s by blast
qed

theorem added_factor_is_required_witness:
  "failure (verify_user demo_terminal \<lparr>vu_interactive = False, vu_username = ''ann'', vu_password = ''pw'', vu_totp = [],
     vu_user = ''ann:pw:123''\<rparr>) \<noteq> None"
proof -
  have ok: "plain_field ''ann''" "plain_field ''pw''" "plain_field ''123''"
    "failure (generate_totp demo_terminal \<lparr>gt_interactive = False, gt_user = user_entry ''ann'' (escape_for False ''pw'')\<rparr>) = None"
    "\<not> lib_totp ascii_lib [] ''123''" "user_entry ''ann'' ''pw'' @ '':'' @ ''123'' = ''ann:pw:123''"
    "user_entry ''ann'' (escape_for False ''pw'') @ '':'' @ ''123'' = ''ann:pw:123''" by code_simp+
  obtain secret url entry where e: "te_totp demo_terminal ''Tinyauth'' ''ann'' = Inr (secret, url)"
    "entry \<in> {user_entry ''ann'' ''pw'' @ '':'' @ secret, user_entry ''ann'' (escape_for False ''pw'') @ '':'' @ secret}"
    "\<forall>p code. failure (verify_user demo_terminal \<lparr>vu_interactive = False, vu_username = ''ann'', vu_password = p,
      vu_totp = code, vu_user = entry\<rparr>) = None \<longleftrightarrow>
      p \<noteq> [] \<and> lib_bcrypt (te_lib demo_terminal) ''pw'' p \<and> lib_totp (te_lib demo_terminal) code secret"
    using added_factor_is_required [of "''ann''" "''pw''" demo_terminal False] ok(1-4) by auto
  from e(1) have "secret = ''123''" by simp
  with e(2) ok(6,7) have "entry = ''ann:pw:123''" by auto
  with e(3) ok(5) \<open>secret = _\<close> show ?thesis by simp
qed

section \<open>The health check and the health endpoint\<close>

text \<open>
  The health check holds exactly when the address it was given, or else the one of the environment,
  answers with the status 200 and a body that decodes; the body of the health endpoint does.
\<close>

theorem healthcheck_asks_endpoint:
  assumes "\<not> lib_equal_fold lib ''status'' ''message''" "\<not> lib_equal_fold lib ''message'' ''status''" "te_lib t = lib"
  shows "(healthcheck t http why args = None \<longleftrightarrow>
       health_url t args \<noteq> [] \<and>
       (\<exists>line body r. http (health_url t args @ ''/api/healthz'') = Answer 200 line (Inr body) \<and> unmarshal_healthz lib body = Some r)) \<and>
     rs_status health_handler = 200 \<and>
     (\<exists>v. rs_body health_handler = JsonBody v \<and> unmarshal_healthz lib (json_text v) = Some \<lparr>hz_status = 200, hz_message = ''Healthy''\<rparr>)"
proof -
  let ?v = "JObject [(''status'', JNumber 200), (''message'', JString ''Healthy'')]"
  have v: "rs_body health_handler = JsonBody ?v" "rs_status health_handler = 200"
    by (simp_all add: health_handler_def reply_message_def reply_json_def message_json_def empty_response_def)
  have "json_parse (json_text ?v) = Some ?v" by code_simp
  then have "unmarshal_healthz lib (json_text ?v) = Some \<lparr>hz_status = 200, hz_message = ''Healthy''\<rparr>"
    using assms(1,2) by (simp add: unmarshal_healthz_def i64_id)
  with v assms(3) show ?thesis
    by (auto simp: healthcheck_def Let_def split: http_outcome.splits sum.splits option.splits if_splits)
qed

theorem healthcheck_asks_endpoint_witness:
  "healthcheck demo_terminal (\<lambda>url. ClientError ''refused'') (\<lambda>s. s) [] \<noteq> None"
  using healthcheck_asks_endpoint [of ascii_lib demo_terminal "\<lambda>url. ClientError ''refused''" "\<lambda>s. s" "[]"]
  by (simp add: ascii_lib_def ascii_lower_def)

end
