(* ===== verification/HostServices.thy ===== *)
theory HostServices
  imports Startup
begin

text \<open>
  The resources the program holds outside of itself: the connection of the database with its
  migrations, the node in the Tailscale network with its listener, the client of Docker, the log
  streams and the sources of the configuration. What the libraries answer is a parameter; what the
  code opens and closes is the list of its actions.
\<close>

section \<open>The database\<close>

datatype db_action = MakeDir string | OpenDb string string | LimitConnections int | CloseDb

text \<open>\<open>migrate.Up\<close> also reports that there was nothing to do.\<close>

datatype migration = Migrated | NoChange | MigrationFailed string

text \<open>
  The verb \<open>%q\<close> of \<open>fmt\<close>, \<open>filepath.Dir\<close>, \<open>os.MkdirAll\<close> and \<open>sql.Open\<close> with the text of their errors, then the source of the
  migrations, the database and the migrator made of them, for a package of migrations.
\<close>

record db_library =
  dl_quote :: "string \<Rightarrow> string"
  dl_dir :: "string \<Rightarrow> string"
  dl_mkdir :: "string \<Rightarrow> string option"
  dl_open :: "string \<Rightarrow> string \<Rightarrow> string option"
  dl_source :: "string \<Rightarrow> string option"
  dl_instance :: "string \<Rightarrow> string option"
  dl_migrator :: "string \<Rightarrow> string option"
  dl_up :: "string \<Rightarrow> migration"

text \<open>The steps on an open database, \<open>None\<close> when they all succeed.\<close>

definition migrate_db :: "db_library \<Rightarrow> string \<Rightarrow> string \<Rightarrow> string option" where
  "migrate_db lib pkg what =
     (case dl_source lib pkg of
        Some e \<Rightarrow> Some (''failed to create migrations: '' @ e)
      | None \<Rightarrow>
          (case dl_instance lib pkg of
             Some e \<Rightarrow> Some (''failed to create '' @ what @ '' instance: '' @ e)
           | None \<Rightarrow>
               (case dl_migrator lib pkg of
                  Some e \<Rightarrow> Some (''failed to create migrator: '' @ e)
                | None \<Rightarrow>
                    (case dl_up lib pkg of
                       MigrationFailed e \<Rightarrow> Some (''failed to migrate database: '' @ e)
                     | _ \<Rightarrow> None))))"

text \<open>The deferred function closes the database unless the setup reached its end.\<close>

definition opened_db :: "db_action list \<Rightarrow> string option \<Rightarrow> store_choice \<Rightarrow> (string + store_choice) \<times> db_action list" where
  "opened_db acts err choice =
     (case err of Some e \<Rightarrow> (Inl e, acts @ [CloseDb]) | None \<Rightarrow> (Inr choice, acts))"

definition setup_sqlite :: "db_library \<Rightarrow> string \<Rightarrow> (string + store_choice) \<times> db_action list" where
  "setup_sqlite lib path =
     (let dir = dl_dir lib path
      in case dl_mkdir lib dir of
           Some e \<Rightarrow> (Inl (''failed to create database directory '' @ dir @ '': '' @ e), [MakeDir dir])
         | None \<Rightarrow>
             (case dl_open lib ''sqlite'' path of
                Some e \<Rightarrow> (Inl (''failed to open database: '' @ e), [MakeDir dir])
              | None \<Rightarrow> opened_db [MakeDir dir, OpenDb ''sqlite'' path, LimitConnections 1]
                          (migrate_db lib ''migrations/sqlite'' ''sqlite3'') (SqliteStore path)))"

definition setup_postgres :: "db_library \<Rightarrow> string \<Rightarrow> (string + store_choice) \<times> db_action list" where
  "setup_postgres lib url =
     (case dl_open lib ''pgx'' url of
        Some e \<Rightarrow> (Inl (''failed to open database: '' @ e), [])
      | None \<Rightarrow> opened_db [OpenDb ''pgx'' url] (migrate_db lib ''migrations/postgres'' ''postgres'') (PostgresStore url))"

definition setup_store :: "db_library \<Rightarrow> database_config \<Rightarrow> (string + store_choice) \<times> db_action list" where
  "setup_store lib cfg =
     (case choose_store cfg of
        Inl _ \<Rightarrow> (Inl (''unknown database driver '' @ dl_quote lib (db_driver cfg) @ '': valid values are sqlite, postgres, memory''), [])
      | Inr MemoryStore \<Rightarrow> (Inr MemoryStore, [])
      | Inr (SqliteStore path) \<Rightarrow> setup_sqlite lib path
      | Inr (PostgresStore url) \<Rightarrow> setup_postgres lib url)"

text \<open>A database is open after the setup exactly when the setup gave a store on it.\<close>

definition opens :: "db_action list \<Rightarrow> nat" where
  "opens acts = length (filter (\<lambda>a. case a of OpenDb _ _ \<Rightarrow> True | _ \<Rightarrow> False) acts)"

definition closes :: "db_action list \<Rightarrow> nat" where
  "closes acts = length (filter (\<lambda>a. a = CloseDb) acts)"

lemma setup_store_balanced:
  "setup_store lib cfg = (r, acts) \<Longrightarrow>
     (case r of Inl e \<Rightarrow> opens acts = closes acts
      | Inr choice \<Rightarrow> choose_store cfg = Inr choice \<and> closes acts = 0 \<and> opens acts = (if choice = MemoryStore then 0 else 1))"
  by (auto simp: setup_store_def setup_sqlite_def setup_postgres_def opened_db_def opens_def closes_def Let_def
      split: sum.splits store_choice.splits option.splits)

section \<open>The node in the Tailscale network\<close>

datatype ts_action = StartNode | CloseNode | ListenFunnel | ListenTls | CloseListener

text \<open>
  The loop that waits for the node to get an address. At each turn the context may have ended, then
  the address may be valid; else the loop sleeps for a second. The turns are numbered.
\<close>

datatype wait_result = Connected | TimedOut

partial_function (option) wait_for_conn :: "(nat \<Rightarrow> bool) \<Rightarrow> (nat \<Rightarrow> bool) \<Rightarrow> nat \<Rightarrow> wait_result option" where
  "wait_for_conn ended valid i =
     (if ended i then Some TimedOut else if valid i then Some Connected else wait_for_conn ended valid (Suc i))"

text \<open>The context ends two minutes after it was made, by the clock at each turn, or earlier with its parent.\<close>

definition connect_ended :: "(nat \<Rightarrow> int) \<Rightarrow> int \<Rightarrow> (nat \<Rightarrow> bool) \<Rightarrow> nat \<Rightarrow> bool" where
  "connect_ended clock start cancelled i \<longleftrightarrow> cancelled i \<or> start + seconds 120 \<le> clock i"

record ts_library =
  tl_start :: "string option"
  tl_client :: "string option"
  tl_clock :: "nat \<Rightarrow> int"
  tl_cancelled :: "nat \<Rightarrow> bool"
  tl_valid :: "nat \<Rightarrow> bool"

text \<open>\<open>NewTailscaleService\<close>: nothing when it is not enabled, an error, or the running node.\<close>

definition connect_tailscale :: "ts_library \<Rightarrow> int \<Rightarrow> tailscale_config \<Rightarrow> (string startup \<times> ts_action list) option" where
  "connect_tailscale lib now cfg =
     (if \<not> ts_enabled cfg then Some (NotConfigured, [])
      else (case tl_start lib of
              Some e \<Rightarrow> Some (StartupError, [])
            | None \<Rightarrow>
                (case tl_client lib of
                   Some e \<Rightarrow> Some (StartupError, [StartNode, CloseNode])
                 | None \<Rightarrow>
                     (case wait_for_conn (connect_ended (tl_clock lib) now (tl_cancelled lib)) (tl_valid lib) 0 of
                        None \<Rightarrow> None
                      | Some TimedOut \<Rightarrow> Some (StartupError, [StartNode, CloseNode])
                      | Some Connected \<Rightarrow> Some (Started (ts_hostname cfg), [StartNode])))))"

text \<open>The node with its listener, behind the mutex; \<open>ts_srv\<close> and \<open>ts_ln\<close> are set or nil.\<close>

record ts_state =
  ts_srv :: bool
  ts_ln :: bool
  ts_acts :: "ts_action list"

text \<open>\<open>CreateListener\<close>: the listener it has, or a new one; a closed node is a nil pointer.\<close>

definition create_listener :: "tailscale_config \<Rightarrow> string option \<Rightarrow> ts_state \<Rightarrow> (string + unit) outcome \<times> ts_state" where
  "create_listener cfg err st =
     (if ts_ln st then (Returns (Inr ()), st)
      else if \<not> ts_srv st then (Panics, st)
      else (case err of
              Some e \<Rightarrow> (Returns (Inl e), st)
            | None \<Rightarrow> (Returns (Inr ()),
                st\<lparr>ts_ln := True, ts_acts := ts_acts st @ [if ts_funnel cfg then ListenFunnel else ListenTls]\<rparr>)))"

text \<open>\<open>watchAndClose\<close>, once the context has ended.\<close>

definition watch_and_close :: "ts_state \<Rightarrow> ts_state" where
  "watch_and_close st =
     \<lparr>ts_srv = False, ts_ln = False,
      ts_acts = ts_acts st @ (if ts_ln st then [CloseListener] else []) @ (if ts_srv st then [CloseNode] else [])\<rparr>"

text \<open>\<open>GetHostname\<close>: the name of the node without the final dot, empty when the status fails.\<close>

definition ts_hostname_of :: "string option \<Rightarrow> string" where
  "ts_hostname_of status =
     (case status of None \<Rightarrow> [] | Some n \<Rightarrow> if n \<noteq> [] \<and> last n = CHR ''.'' then butlast n else n)"

section \<open>The client of Docker\<close>

text \<open>A client that cannot be made is an error; one that gets no answer is left out.\<close>

definition new_docker_service :: "bool \<Rightarrow> bool \<Rightarrow> source_start" where
  "new_docker_service made pinged = (if \<not> made then SourceFails else if \<not> pinged then SourceAbsent else SourceRuns)"

section \<open>The log streams\<close>

text \<open>The levels of the log library by their number; \<open>lg_parse\<close> is its parser of names.\<close>

datatype log_event_level = TraceLevel | DebugLevel | InfoLevel | WarnLevel | ErrorLevel | FatalLevel | PanicLevel | NoLevel | Disabled

fun level_number :: "log_event_level \<Rightarrow> int" where
  "level_number TraceLevel = - 1"
| "level_number DebugLevel = 0"
| "level_number InfoLevel = 1"
| "level_number WarnLevel = 2"
| "level_number ErrorLevel = 3"
| "level_number FatalLevel = 4"
| "level_number PanicLevel = 5"
| "level_number NoLevel = 6"
| "level_number Disabled = 7"

definition simple_log_config :: log_config where
  "simple_log_config = \<lparr>lc_level = ''info'', lc_json = False,
     lc_streams = \<lparr>ls_http = zero_log_stream_config\<lparr>lsc_enabled := True\<rparr>, ls_app = zero_log_stream_config\<lparr>lsc_enabled := True\<rparr>,
       ls_audit = zero_log_stream_config\<rparr>\<rparr>"

definition new_log_config :: log_config where
  "new_log_config = simple_log_config\<lparr>lc_level := ''error'', lc_json := True\<rparr>"

definition test_log_config :: log_config where
  "test_log_config = simple_log_config\<lparr>lc_level := ''trace'',
     lc_streams := (lc_streams simple_log_config)\<lparr>ls_audit := zero_log_stream_config\<lparr>lsc_enabled := True\<rparr>\<rparr>\<rparr>"

definition parse_log_level :: "golib \<Rightarrow> (string \<Rightarrow> log_event_level option) \<Rightarrow> string \<Rightarrow> log_event_level" where
  "parse_log_level lib lg_parse level =
     (if level = [] then InfoLevel
      else (case lg_parse (lib_to_lower lib level) of None \<Rightarrow> ErrorLevel | Some l \<Rightarrow> l))"

text \<open>A stream that is not enabled drops everything; one without a level has that of the base.\<close>

definition create_logger ::
  "golib \<Rightarrow> (string \<Rightarrow> log_event_level option) \<Rightarrow> log_event_level \<Rightarrow> log_stream_config \<Rightarrow> log_event_level option"
where
  "create_logger lib lg_parse base cfg =
     (if \<not> lsc_enabled cfg then None
      else Some (if lsc_level cfg \<noteq> [] then parse_log_level lib lg_parse (lsc_level cfg) else base))"

record loggers =
  lo_base :: log_event_level
  lo_console :: bool
  lo_caller :: bool
  lo_audit :: "log_event_level option"
  lo_http :: "log_event_level option"
  lo_app :: "log_event_level option"

definition init_loggers :: "golib \<Rightarrow> (string \<Rightarrow> log_event_level option) \<Rightarrow> log_config \<Rightarrow> loggers" where
  "init_loggers lib lg_parse cfg =
     (let base = parse_log_level lib lg_parse (lc_level cfg); make = create_logger lib lg_parse base
      in \<lparr>lo_base = base, lo_console = (\<not> lc_json cfg), lo_caller = (base = TraceLevel \<or> base = DebugLevel),
          lo_audit = make (ls_audit (lc_streams cfg)), lo_http = make (ls_http (lc_streams cfg)),
          lo_app = make (ls_app (lc_streams cfg))\<rparr>)"

definition writes :: "log_event_level option \<Rightarrow> log_event_level \<Rightarrow> bool" where
  "writes stream level = (case stream of None \<Rightarrow> False | Some l \<Rightarrow> level_number l \<le> level_number level)"

type_synonym audit_event = "log_event_level \<times> (string \<times> string) list"

definition audit_login_success :: "string \<Rightarrow> string \<Rightarrow> string \<Rightarrow> audit_event" where
  "audit_login_success username provider ip =
     (InfoLevel, [(''event'', ''login''), (''result'', ''success''), (''username'', username), (''provider'', provider), (''ip'', ip)])"

definition audit_login_failure :: "string \<Rightarrow> string \<Rightarrow> string \<Rightarrow> string \<Rightarrow> audit_event" where
  "audit_login_failure username provider ip reason =
     (WarnLevel, [(''event'', ''login''), (''result'', ''failure''), (''username'', username), (''provider'', provider), (''ip'', ip),
                  (''reason'', reason)])"

definition audit_logout :: "string \<Rightarrow> string \<Rightarrow> string \<Rightarrow> audit_event" where
  "audit_logout username provider ip =
     (InfoLevel, [(''event'', ''logout''), (''result'', ''success''), (''username'', username), (''provider'', provider), (''ip'', ip)])"

definition audited :: "loggers \<Rightarrow> audit_event \<Rightarrow> (string \<times> string) list option" where
  "audited lo ev = (if writes (lo_audit lo) (fst ev) then Some (snd ev) else None)"

section \<open>The sources of the configuration\<close>

text \<open>
  The three loaders; each says whether it changed the configuration. The parser of flags and the
  decoders of files, flags and variables are parameters: \<open>None\<close> is their error.
\<close>

definition load_file ::
  "(string list \<Rightarrow> (string, string) gomap option) \<Rightarrow> (string \<Rightarrow> string) \<Rightarrow> (string \<Rightarrow> 'c \<Rightarrow> 'c option) \<Rightarrow> string list \<Rightarrow> 'c \<Rightarrow>
     (bool \<times> 'c) option"
where
  "load_file parse_flags getenv decode args cfg =
     (case parse_flags args of
        None \<Rightarrow> None
      | Some flags \<Rightarrow>
          let read = \<lambda>path. map_option (Pair True) (decode path cfg)
          in (case map_of flags ''traefik.configfile'' of
                Some path \<Rightarrow> read path
              | None \<Rightarrow> let path = getenv ''TINYAUTH_CONFIGFILE'' in if path \<noteq> [] then read path else Some (False, cfg)))"

definition load_flags :: "(string list \<Rightarrow> 'c \<Rightarrow> 'c option) \<Rightarrow> string list \<Rightarrow> 'c \<Rightarrow> (bool \<times> 'c) option" where
  "load_flags decode args cfg = (if args = [] then Some (False, cfg) else map_option (Pair True) (decode args cfg))"

definition load_env ::
  "((string \<times> string) list \<Rightarrow> (string \<times> string) list) \<Rightarrow> ((string \<times> string) list \<Rightarrow> 'c \<Rightarrow> 'c option) \<Rightarrow>
     (string \<times> string) list \<Rightarrow> 'c \<Rightarrow> (bool \<times> 'c) option"
where
  "load_env prefixed decode environ cfg =
     (let vars = prefixed environ in if vars = [] then Some (False, cfg) else map_option (Pair True) (decode vars cfg))"

section \<open>What is opened is closed\<close>

lemma wait_first:
  assumes "ended j \<or> valid j" "i \<le> j"
  shows "\<exists>k\<le>j. i \<le> k \<and> (\<forall>m. i \<le> m \<and> m < k \<longrightarrow> \<not> ended m \<and> \<not> valid m) \<and>
     wait_for_conn ended valid i = Some (if ended k then TimedOut else Connected) \<and> (ended k \<or> valid k)"
  using assms(2)
proof (induction "j - i" arbitrary: i)
  case 0
  with assms(1) show ?case by (intro exI [of _ i]) (auto simp: wait_for_conn.simps [of _ _ i])
next
  case (Suc n)
  show ?case
  proof (cases "ended i \<or> valid i")
    case True
    with Suc.prems show ?thesis by (intro exI [of _ i]) (auto simp: wait_for_conn.simps [of _ _ i])
  next
    case False
    from Suc.hyps(2) have "n = j - Suc i" "Suc i \<le> j" by simp_all
    from Suc.hyps(1) [OF this] obtain k where k: "k \<le> j" "Suc i \<le> k" "\<forall>m. Suc i \<le> m \<and> m < k \<longrightarrow> \<not> ended m \<and> \<not> valid m"
      "wait_for_conn ended valid (Suc i) = Some (if ended k then TimedOut else Connected)" "ended k \<or> valid k" by blast
    have "wait_for_conn ended valid i = wait_for_conn ended valid (Suc i)"
      using False by (simp add: wait_for_conn.simps [of _ _ i])
    moreover have "\<not> ended m \<and> \<not> valid m" if "i \<le> m" "m < k" for m
      using k(3) that False by (cases "m = i") auto
    ultimately show ?thesis using k by (intro exI [of _ k]) auto
  qed
qed

lemma clock_advances: "(\<And>i. clock i + seconds 1 \<le> clock (Suc i)) \<Longrightarrow> clock 0 + int i * seconds 1 \<le> (clock i :: int)"
proof (induction i)
  case (Suc i)
  then have "clock 0 + int i * seconds 1 + seconds 1 \<le> clock (Suc i)" by (meson add_right_mono order.trans)
  then show ?case by (simp add: algebra_simps)
qed simp

text \<open>
  C34: Joining the Tailscale network ends, whatever the network does: as each turn of the loop sleeps
  for a second and the context ends after two minutes, at most 121 turns are made. The service runs
  exactly when a turn before the end saw a valid address; and a node that was started is closed again
  on every path that ends with an error.
\<close>

theorem joining_tailscale_ends:
  assumes "\<And>i. tl_clock lib i + seconds 1 \<le> tl_clock lib (Suc i)" "now \<le> tl_clock lib 0"
  shows "\<exists>res acts. connect_tailscale lib now cfg = Some (res, acts) \<and>
     ((\<exists>h. res = Started h) \<longleftrightarrow> ts_enabled cfg \<and> tl_start lib = None \<and> tl_client lib = None \<and>
        (\<exists>i\<le>120. tl_valid lib i \<and> (\<forall>j\<le>i. \<not> tl_cancelled lib j \<and> tl_clock lib j < now + seconds 120))) \<and>
     length (filter (\<lambda>a. a = StartNode) acts) = length (filter (\<lambda>a. a = CloseNode) acts) + (if \<exists>h. res = Started h then 1 else 0)"
proof -
  let ?ended = "connect_ended (tl_clock lib) now (tl_cancelled lib)"
  have end120: "?ended 120"
    using clock_advances [of "tl_clock lib" 120] assms by (simp add: connect_ended_def seconds_def)
  from wait_first [of ?ended 120 "tl_valid lib" 0] end120 obtain k where k: "k \<le> 120"
    "\<forall>m<k. \<not> ?ended m \<and> \<not> tl_valid lib m" "?ended k \<or> tl_valid lib k"
    "wait_for_conn ?ended (tl_valid lib) 0 = Some (if ?ended k then TimedOut else Connected)" by auto
  have "\<not> ?ended k \<longleftrightarrow> (\<exists>i\<le>120. tl_valid lib i \<and> (\<forall>j\<le>i. \<not> ?ended j))"
  proof
    assume "\<not> ?ended k"
    with k(1-3) show "\<exists>i\<le>120. tl_valid lib i \<and> (\<forall>j\<le>i. \<not> ?ended j)" by (intro exI [of _ k]) (auto simp: le_less)
  next
    assume "\<exists>i\<le>120. tl_valid lib i \<and> (\<forall>j\<le>i. \<not> ?ended j)"
    then obtain i where i: "tl_valid lib i" "\<forall>j\<le>i. \<not> ?ended j" by blast
    with k(2) have "k \<le> i" by (meson not_less)
    with i(2) show "\<not> ?ended k" by blast
  qed
  with k(4) show ?thesis
    by (auto simp: connect_tailscale_def connect_ended_def not_le split: option.split)
qed

definition demo_node :: ts_library where
  "demo_node = \<lparr>tl_start = None, tl_client = None, tl_clock = (\<lambda>i. int i * 1000000000), tl_cancelled = (\<lambda>i. False),
     tl_valid = (\<lambda>i. i = 3)\<rparr>"

theorem joining_tailscale_ends_witness:
  "\<exists>h acts. connect_tailscale demo_node 0 (zero_tailscale_config\<lparr>ts_enabled := True\<rparr>) = Some (Started h, acts)"
proof -
  have clock: "tl_clock demo_node i + seconds 1 \<le> tl_clock demo_node (Suc i)" "0 \<le> tl_clock demo_node 0" for i
    by (simp_all add: demo_node_def seconds_small)
  have "\<exists>i\<le>120. tl_valid demo_node i \<and> (\<forall>j\<le>i. \<not> tl_cancelled demo_node j \<and> tl_clock demo_node j < 0 + seconds 120)"
    by (intro exI [of _ 3]) (simp add: demo_node_def seconds_small)
  with joining_tailscale_ends [OF clock, of "zero_tailscale_config\<lparr>ts_enabled := True\<rparr>"]
  show ?thesis by (auto simp: demo_node_def)
qed

section \<open>The node and its listener\<close>

text \<open>What is open: the node and the listener, as the actions say.\<close>

definition ts_balanced :: "ts_state \<Rightarrow> bool" where
  "ts_balanced st \<longleftrightarrow>
     length (filter (\<lambda>a. a \<in> {ListenFunnel, ListenTls}) (ts_acts st)) =
       length (filter (\<lambda>a. a = CloseListener) (ts_acts st)) + (if ts_ln st then 1 else 0) \<and>
     length (filter (\<lambda>a. a = StartNode) (ts_acts st)) =
       length (filter (\<lambda>a. a = CloseNode) (ts_acts st)) + (if ts_srv st then 1 else 0)"

text \<open>Asking twice gives the same listener, and after the shutdown nothing is open.\<close>

lemma listener_steps:
  "ts_balanced st \<Longrightarrow> ts_balanced (snd (create_listener cfg err st))"
  "ts_balanced st \<Longrightarrow> ts_balanced (watch_and_close st)"
  "\<not> ts_srv (watch_and_close st) \<and> \<not> ts_ln (watch_and_close st)"
  "create_listener cfg err st = (Returns (Inr ()), st') \<Longrightarrow> create_listener cfg err' st' = (Returns (Inr ()), st')"
  by (auto simp: ts_balanced_def create_listener_def watch_and_close_def split: option.splits if_splits)

section \<open>Who sees the audit log\<close>

text \<open>
  Under the default configuration no audit event is written. Once the stream is enabled without a
  level of its own, a level above the one of the event in the configuration of the base hides it: with
  the level \<open>warn\<close> the failed logins are written and the successful ones are not.
\<close>

lemma audit_default: "audited (init_loggers lib lg_parse (cfg_log default_configuration)) ev = None"
  by (simp add: audited_def init_loggers_def Let_def create_logger_def writes_def default_configuration_def
      zero_log_stream_config_def)

lemma audit_hidden:
  assumes "lsc_enabled (ls_audit (lc_streams cfg))" "lsc_level (ls_audit (lc_streams cfg)) = []"
    "lc_level cfg \<noteq> []" "lg_parse (lib_to_lower lib (lc_level cfg)) = Some WarnLevel"
  shows "audited (init_loggers lib lg_parse cfg) (audit_login_success u p ip) = None"
    "audited (init_loggers lib lg_parse cfg) (audit_login_failure u p ip r) \<noteq> None"
  using assms by (simp_all add: audited_def init_loggers_def Let_def create_logger_def writes_def parse_log_level_def
      audit_login_success_def audit_login_failure_def)

end
