(* ===== verification/SqlcWrapper.thy ===== *)
theory SqlcWrapper
  imports Http
begin

text \<open>
  The generator of the database stores, \<open>gen/sqlc_wrapper\<close>: it checks the package that sqlc generated
  for a driver against the package of the repository and writes the wrapper \<open>store.go\<close>. Packages are
  values, as the type checker gives them; loading them and formatting the text are parameters.
\<close>

section \<open>Packages\<close>

text \<open>A package by its import path and its name; \<open>error\<close> is a named type of no package.\<close>

datatype go_type =
    BasicType string
  | NamedType "(string \<times> string) option" string
  | SliceType go_type
  | PointerType go_type

text \<open>\<open>types.TypeString\<close> for a qualifier of packages.\<close>

fun type_string :: "(string \<times> string \<Rightarrow> string) \<Rightarrow> go_type \<Rightarrow> string" where
  "type_string q (BasicType s) = s"
| "type_string q (NamedType None n) = n"
| "type_string q (NamedType (Some p) n) = (if q p = [] then n else q p @ ''.'' @ n)"
| "type_string q (SliceType t) = ''[]'' @ type_string q t"
| "type_string q (PointerType t) = ''*'' @ type_string q t"

abbreviation full_string :: "go_type \<Rightarrow> string" where
  "full_string \<equiv> type_string fst"

text \<open>A method without its receiver.\<close>

record go_method =
  gm_name :: string
  gm_params :: "(string \<times> go_type) list"
  gm_results :: "go_type list"

type_synonym go_fields = "(string \<times> go_type) list"

datatype go_decl = StructDecl go_fields | InterfaceDecl "string list" | OtherDecl

text \<open>\<open>pk_methods\<close> is the method set of the pointer to a type, sorted by name.\<close>

record go_package =
  pk_path :: string
  pk_name :: string
  pk_scope :: "(string \<times> go_decl) list"
  pk_methods :: "(string \<times> go_method list) list"

section \<open>Validation\<close>

fun struct_of :: "string \<times> go_decl \<Rightarrow> (string \<times> go_fields) list" where
  "struct_of (n, StructDecl fs) = (if n \<in> {''Queries'', ''DBTX'', ''Store''} then [] else [(n, fs)])"
| "struct_of (n, _) = []"

definition scope_structs :: "go_package \<Rightarrow> (string \<times> go_fields) list" where
  "scope_structs pkg = concat (map struct_of (pk_scope pkg))"

definition quoted :: "string \<Rightarrow> string" where
  "quoted s = [CHR 0x22] @ s @ [CHR 0x22]"

fun compare_fields :: "string \<Rightarrow> int \<Rightarrow> go_fields \<Rightarrow> go_fields \<Rightarrow> string option" where
  "compare_fields name i ((dn, dt) # ds) ((rn, rt) # rs) =
     (if dn \<noteq> rn then Some (name @ '': field '' @ itoa i @ '' name mismatch (driver='' @ quoted dn @ '', repo='' @ quoted rn @ '')'')
      else if dt \<noteq> rt
      then Some (name @ ''.'' @ dn @ '': type mismatch (driver='' @ full_string dt @ '', repo='' @ full_string rt @ '')'')
      else compare_fields name (i + 1) ds rs)"
| "compare_fields name i _ _ = None"

definition compare_structs :: "string \<Rightarrow> go_fields \<Rightarrow> go_fields \<Rightarrow> string option" where
  "compare_structs name driver repo =
     (if length driver \<noteq> length repo
      then Some (name @ '': field count mismatch (driver='' @ itoa (int (length driver)) @ '', repo='' @ itoa (int (length repo)) @ '')'')
      else compare_fields name 0 driver repo)"

definition shape_errors :: "go_package \<Rightarrow> go_package \<Rightarrow> string list" where
  "shape_errors driver repo =
     concat (map (\<lambda>(name, fs). case map_of (scope_structs repo) name of
                     None \<Rightarrow> []
                   | Some rfs \<Rightarrow> (case compare_structs name fs rfs of None \<Rightarrow> [] | Some e \<Rightarrow> [e]))
                 (scope_structs driver))"

definition validate_struct_shapes :: "go_package \<Rightarrow> go_package \<Rightarrow> string option" where
  "validate_struct_shapes driver repo =
     (let errs = shape_errors driver repo
      in if errs = [] then None else Some (join_with (CHR 0x0A # ''  '') (sort errs)))"

definition queries_methods :: "go_package \<Rightarrow> go_method list" where
  "queries_methods pkg = (case map_of (pk_methods pkg) ''Queries'' of None \<Rightarrow> [] | Some ms \<Rightarrow> ms)"

definition validate_store_coverage :: "go_package \<Rightarrow> go_package \<Rightarrow> string option" where
  "validate_store_coverage driver repo =
     (if map_of (pk_scope driver) ''Queries'' = None then Some ''queries type not found in driver package''
      else (case map_of (pk_scope repo) ''Store'' of
              None \<Rightarrow> Some ''store type not found in repository package''
            | Some (InterfaceDecl ms) \<Rightarrow>
                let missing = filter (\<lambda>m. m \<notin> gm_name ` set (queries_methods driver)) ms
                in if missing = [] then None
                   else Some (''driver *Queries is missing '' @ itoa (int (length missing)) @
                     '' method(s) required by repository.Store:'' @ CHR 0x0A # ''  - '' @
                     join_with (CHR 0x0A # ''  - '') (sort missing) @ [CHR 0x0A, CHR 0x0A] @
                     ''Run sqlc generate to regenerate query methods, or add the missing SQL queries'')
            | Some _ \<Rightarrow> Some ''repository.Store is not an interface''))"

section \<open>The methods of the wrapper\<close>

record param_info =
  pi_name :: string
  pi_type :: string
  pi_repo :: string

record result_info =
  ri_type :: string
  ri_slice :: bool
  ri_repo :: string

record method_info =
  mi_name :: string
  mi_params :: "param_info list"
  mi_results :: "result_info list"

fun local_name :: "go_type \<Rightarrow> string \<Rightarrow> string" where
  "local_name (NamedType (Some (path, name)) n) driver =
     (if path = driver then n else type_string snd (NamedType (Some (path, name)) n))"
| "local_name t driver = full_string t"

fun repo_name :: "go_type \<Rightarrow> string \<Rightarrow> string" where
  "repo_name (NamedType (Some (path, name)) n) driver = (if path = driver then ''repository.'' @ n else [])"
| "repo_name t driver = []"

definition make_param :: "string \<Rightarrow> go_type \<Rightarrow> string \<Rightarrow> param_info" where
  "make_param name t driver = \<lparr>pi_name = name, pi_type = local_name t driver, pi_repo = repo_name t driver\<rparr>"

definition make_result :: "go_type \<Rightarrow> string \<Rightarrow> result_info" where
  "make_result t driver =
     (let (slice, e) = (case t of SliceType e \<Rightarrow> (True, e) | _ \<Rightarrow> (False, t))
      in \<lparr>ri_type = local_name e driver, ri_slice = slice, ri_repo = repo_name e driver\<rparr>)"

text \<open>The context is skipped, and so is the error among the results.\<close>

definition method_of :: "string \<Rightarrow> go_method \<Rightarrow> method_info" where
  "method_of driver m =
     \<lparr>mi_name = gm_name m, mi_params = map (\<lambda>(n, t). make_param n t driver) (tl (gm_params m)),
      mi_results = map (\<lambda>t. make_result t driver) (filter (\<lambda>t. full_string t \<noteq> ''error'') (gm_results m))\<rparr>"

definition collect_methods :: "go_package \<Rightarrow> string + method_info list" where
  "collect_methods pkg =
     (if map_of (pk_scope pkg) ''Queries'' = None then Inl (''queries type not found in '' @ pk_path pkg)
      else Inr (map (method_of (pk_path pkg)) (filter (\<lambda>m. gm_name m \<noteq> ''WithTx'') (queries_methods pkg))))"

definition build_sig :: "method_info \<Rightarrow> string" where
  "build_sig m =
     ''func (s *Store) '' @ mi_name m @ ''(ctx context.Context'' @
     concat (map (\<lambda>p. '', '' @ pi_name p @ '' '' @ (if pi_repo p \<noteq> [] then pi_repo p else pi_type p)) (mi_params m)) @ '') ('' @
     concat (map (\<lambda>r. (if ri_slice r then ''[]'' else []) @ (if ri_repo r \<noteq> [] then ri_repo r else ri_type r) @ '', '') (mi_results m)) @
     ''error)''"

definition call_args :: "method_info \<Rightarrow> string" where
  "call_args m =
     (let args = map (\<lambda>p. if pi_repo p \<noteq> [] then pi_type p @ ''('' @ pi_name p @ '')'' else pi_name p) (mi_params m)
      in if args = [] then ''ctx'' else ''ctx, '' @ join_with '', '' args)"

text \<open>A line of the text, indented by tabs.\<close>

definition line :: "nat \<Rightarrow> string \<Rightarrow> string" where
  "line n s = replicate n (CHR 0x09) @ s @ [CHR 0x0A]"

definition void_body :: "string \<Rightarrow> string" where
  "void_body call = line 1 (''return mapErr('' @ call @ '')'')"

definition scalar_body :: "string \<Rightarrow> string \<Rightarrow> string" where
  "scalar_body call repo =
     line 1 (''r, err := '' @ call) @ line 1 ''if err != nil {'' @ line 2 (''return '' @ repo @ ''{}, mapErr(err)'') @ line 1 ''}'' @
     line 1 (''return '' @ repo @ ''(r), nil'')"

definition slice_body :: "string \<Rightarrow> string \<Rightarrow> string" where
  "slice_body call repo =
     line 1 (''rows, err := '' @ call) @ line 1 ''if err != nil {'' @ line 2 ''return nil, mapErr(err)'' @ line 1 ''}'' @
     line 1 (''out := make([]'' @ repo @ '', len(rows))'') @ line 1 ''for i, row := range rows {'' @
     line 2 (''out[i] = '' @ repo @ ''(row)'') @ line 1 ''}'' @ line 1 ''return out, nil''"

definition build_body :: "method_info \<Rightarrow> string" where
  "build_body m =
     (let call = ''s.q.'' @ mi_name m @ ''('' @ call_args m @ '')''
      in case mi_results m of
           [] \<Rightarrow> void_body call
         | r # _ \<Rightarrow> if ri_repo r = [] then void_body call
                    else if ri_slice r then slice_body call (ri_repo r) else scalar_body call (ri_repo r))"

definition render_method :: "method_info \<Rightarrow> string" where
  "render_method m = build_sig m @ '' {'' @ [CHR 0x0A] @ build_body m @ ''}'' @ [CHR 0x0A, CHR 0x0A]"

section \<open>The file\<close>

definition store_head :: "string \<Rightarrow> string \<Rightarrow> string" where
  "store_head pkg repo =
     line 0 ''// Code generated by cmd/gen/sqlc-wrapper. DO NOT EDIT.'' @ line 0 (''package '' @ pkg) @ line 0 [] @
     line 0 ''import ('' @ line 1 (quoted ''context'') @ line 1 (quoted ''database/sql'') @ line 1 (quoted ''errors'') @ line 0 [] @
     line 1 (quoted repo) @ line 0 '')'' @ line 0 [] @
     line 0 ''// Store wraps *Queries and implements repository.Store.'' @ line 0 ''type Store struct {'' @ line 1 ''q *Queries'' @
     line 0 ''}'' @ line 0 [] @ line 0 ''// NewStore wraps a *Queries to satisfy repository.Store.'' @
     line 0 ''func NewStore(q *Queries) repository.Store {'' @ line 1 ''return &Store{q: q}'' @ line 0 ''}'' @ line 0 [] @
     line 0 ''var errorMap = map[error]error{'' @ line 1 ''sql.ErrNoRows: repository.ErrNotFound,'' @ line 0 ''}'' @ line 0 [] @
     line 0 ''func mapErr(err error) error {'' @ line 1 ''for from, to := range errorMap {'' @
     line 2 ''if errors.Is(err, from) {'' @ line 3 ''return to'' @ line 2 ''}'' @ line 1 ''}'' @ line 1 ''return err'' @ line 0 ''}'' @
     line 0 []"

definition render :: "(string \<Rightarrow> string option) \<Rightarrow> string \<Rightarrow> string \<Rightarrow> method_info list \<Rightarrow> string option" where
  "render fmt pkg repo ms = fmt (store_head pkg repo @ concat (map render_method ms) @ [CHR 0x0A])"

text \<open>The import path without its last part; there is none to drop in a path without a slash.\<close>

definition parent_pkg :: "string \<Rightarrow> string outcome" where
  "parent_pkg imp =
     (if CHR ''/'' \<in> set imp then Returns (butlast (rev (dropWhile (\<lambda>c. c \<noteq> CHR ''/'') (rev imp)))) else Panics)"

text \<open>What follows once both packages are loaded: the text of the file, or an error.\<close>

definition generate_store :: "(string \<Rightarrow> string option) \<Rightarrow> go_package \<Rightarrow> go_package \<Rightarrow> string \<Rightarrow> string + string" where
  "generate_store fmt driver repo repo_path =
     (case validate_struct_shapes driver repo of
        Some e \<Rightarrow> Inl (''struct shape mismatch: '' @ e)
      | None \<Rightarrow>
          (case validate_store_coverage driver repo of
             Some e \<Rightarrow> Inl e
           | None \<Rightarrow>
               (case collect_methods driver of
                  Inl e \<Rightarrow> Inl e
                | Inr ms \<Rightarrow> (case render fmt (pk_name driver) repo_path ms of
                               None \<Rightarrow> Inl ''render: format source''
                             | Some src \<Rightarrow> Inr src))))"

text \<open>
  What the run calls: \<open>go list\<close>, the functions of \<open>filepath\<close>, \<open>packages.Load\<close> with the file that is
  overlaid, its replacement and the path of the import, and \<open>os.WriteFile\<close>. A loaded package comes with
  the texts of its errors.
\<close>

record toolchain =
  tc_list :: "string \<Rightarrow> string + string"
  tc_join :: "string \<Rightarrow> string \<Rightarrow> string"
  tc_is_abs :: "string \<Rightarrow> bool"
  tc_base :: "string \<Rightarrow> string"
  tc_load :: "string \<Rightarrow> string \<Rightarrow> string \<Rightarrow> string + (string list \<times> go_package) list"
  tc_write :: "string \<Rightarrow> string \<Rightarrow> string option"

definition pkg_dir :: "toolchain \<Rightarrow> string \<Rightarrow> string + string" where
  "pkg_dir tc path =
     (case tc_list tc path of
        Inl e \<Rightarrow> Inl (''go list '' @ path @ '': '' @ e)
      | Inr out \<Rightarrow> Inr (trim_space out))"

definition load_one_pkg :: "(string \<Rightarrow> string + (string list \<times> go_package) list) \<Rightarrow> string \<Rightarrow> string + go_package" where
  "load_one_pkg load path =
     (case load path of
        Inl e \<Rightarrow> Inl (''load '' @ path @ '': '' @ e)
      | Inr [(errors, pkg)] \<Rightarrow>
          if errors \<noteq> []
          then Inl (''package '' @ path @ '' has errors:'' @ [CHR 0x0A] @ ''  '' @ join_with ([CHR 0x0A] @ ''  '') errors)
          else Inr pkg
      | Inr pkgs \<Rightarrow> Inl (''expected 1 package for '' @ path @ '', got '' @ itoa (int (length pkgs))))"

text \<open>The path and the text of the file that is written, or the error; \<open>parentPkg\<close> may panic.\<close>

definition run_generator ::
  "toolchain \<Rightarrow> (string \<Rightarrow> string option) \<Rightarrow> string \<Rightarrow> string \<Rightarrow> (string + string \<times> string) outcome"
where
  "run_generator tc fmt driver_pkg out =
     (if driver_pkg = [] then Returns (Inl ''-pkg is required'')
      else (case pkg_dir tc driver_pkg of
        Inl e \<Rightarrow> Returns (Inl (''resolve driver dir: '' @ e))
      | Inr dir \<Rightarrow>
          let out_path = (if tc_is_abs tc out then out else tc_join tc dir out);
              load = tc_load tc out_path (''package '' @ tc_base tc dir @ [CHR 0x0A])
          in (case load_one_pkg load driver_pkg of
                Inl e \<Rightarrow> Returns (Inl (''load driver package: '' @ e))
              | Inr driver \<Rightarrow>
                  (case parent_pkg driver_pkg of
                     Panics \<Rightarrow> Panics
                   | Returns repo_path \<Rightarrow>
                       (case load_one_pkg load repo_path of
                          Inl e \<Rightarrow> Returns (Inl (''load repo package: '' @ e))
                        | Inr repo \<Rightarrow>
                            (case generate_store fmt driver repo repo_path of
                               Inl e \<Rightarrow> Returns (Inl e)
                             | Inr src \<Rightarrow>
                                 (case tc_write tc out_path src of
                                    Some e \<Rightarrow> Returns (Inl (''write '' @ out_path @ '': '' @ e))
                                  | None \<Rightarrow> Returns (Inr (out_path, src)))))))))"

text \<open>What is written is the text generated from the two packages, which are loaded without errors.\<close>

lemma run_generator_writes:
  assumes "run_generator tc fmt driver_pkg out = Returns (Inr (out_path, src))"
  shows "\<exists>load driver repo repo_path. load_one_pkg load driver_pkg = Inr driver \<and> parent_pkg driver_pkg = Returns repo_path \<and>
     load_one_pkg load repo_path = Inr repo \<and> generate_store fmt driver repo repo_path = Inr src"
  using assms
  by (auto simp: run_generator_def Let_def split: if_splits sum.splits outcome.splits option.splits)

section \<open>What the generator accepts\<close>

lemma compare_fields_same: "length ds = length rs \<Longrightarrow> compare_fields name i ds rs = None \<longleftrightarrow> ds = rs"
proof (induction name i ds rs rule: compare_fields.induct)
  case (1 name i dn dt ds rn rt rs)
  then show ?case by auto
qed auto

lemma compare_structs_same: "compare_structs name ds rs = None \<longleftrightarrow> ds = rs"
  by (auto simp: compare_structs_def compare_fields_same)

lemma shapes_agree:
  "validate_struct_shapes driver repo = None \<longleftrightarrow>
     (\<forall>(n, fs)\<in>set (scope_structs driver). \<forall>rfs. map_of (scope_structs repo) n = Some rfs \<longrightarrow> fs = rfs)"
proof -
  have *: "(case map_of (scope_structs repo) n of None \<Rightarrow> []
      | Some rfs \<Rightarrow> (case compare_structs n fs rfs of None \<Rightarrow> [] | Some e \<Rightarrow> [e])) = [] \<longleftrightarrow>
     (\<forall>rfs. map_of (scope_structs repo) n = Some rfs \<longrightarrow> fs = rfs)" for n fs
    using compare_structs_same [of n fs "the (map_of (scope_structs repo) n)"]
    by (cases "map_of (scope_structs repo) n"; cases "compare_structs n fs (the (map_of (scope_structs repo) n))") auto
  have "validate_struct_shapes driver repo = None \<longleftrightarrow> shape_errors driver repo = []"
    by (simp add: validate_struct_shapes_def Let_def)
  also have "\<dots> \<longleftrightarrow> (\<forall>x\<in>set (scope_structs driver). case x of (n, fs) \<Rightarrow>
      \<forall>rfs. map_of (scope_structs repo) n = Some rfs \<longrightarrow> fs = rfs)"
    unfolding shape_errors_def concat_eq_Nil_conv by (simp add: * case_prod_unfold)
  finally show ?thesis .
qed

text \<open>
  A store that the generator writes has every method that the interface of the repository asks for,
  and every conversion in it is one between structs with the same fields in the same order: the struct
  that a parameter or a result of a query is in the package of the driver, and the one of the
  repository it is converted from or to, as far as the repository has one of that name.
\<close>

theorem generated_store_fits:
  assumes "generate_store fmt driver repo path = Inr src" "map_of (pk_scope repo) ''Store'' = Some (InterfaceDecl wanted)"
  shows "(\<forall>n\<in>set wanted. n \<noteq> ''WithTx'' \<longrightarrow> (\<exists>m\<in>set (queries_methods driver). gm_name m = n \<and>
        (\<exists>ms. collect_methods driver = Inr ms \<and> method_of (pk_path driver) m \<in> set ms))) \<and>
     (\<forall>n fs rfs. (n, fs) \<in> set (scope_structs driver) \<and> map_of (scope_structs repo) n = Some rfs \<longrightarrow> fs = rfs) \<and>
     (\<exists>ms. collect_methods driver = Inr ms \<and>
        fmt (store_head (pk_name driver) path @ concat (map render_method ms) @ [CHR 0x0A]) = Some src)"
proof -
  from assms(1) obtain ms where g: "validate_struct_shapes driver repo = None" "validate_store_coverage driver repo = None"
    "collect_methods driver = Inr ms" "render fmt (pk_name driver) path ms = Some src"
    by (auto simp: generate_store_def split: option.splits sum.splits)
  from g(2) assms(2) have "\<forall>n\<in>set wanted. n \<in> gm_name ` set (queries_methods driver)"
    by (auto simp: validate_store_coverage_def Let_def filter_empty_conv split: if_splits)
  moreover have "method_of (pk_path driver) m \<in> set ms" if "m \<in> set (queries_methods driver)" "gm_name m \<noteq> ''WithTx''" for m
    using g(3) that by (auto simp: collect_methods_def split: if_splits)
  moreover have "fs = rfs" if "(n, fs) \<in> set (scope_structs driver)" "map_of (scope_structs repo) n = Some rfs" for n fs rfs
    using g(1) that unfolding shapes_agree by fastforce
  ultimately show ?thesis using g(3,4) by (fastforce simp: render_def)
qed

text \<open>The structs of the repository, which sqlc generates with the same fields for every driver.\<close>

definition model_structs :: "(string \<times> go_decl) list" where
  "model_structs =
     [(''CreateOIDCSessionParams'', StructDecl [
      (''Sub'', BasicType ''string''), (''AccessTokenHash'', BasicType ''string''),
      (''RefreshTokenHash'', BasicType ''string''), (''Scope'', BasicType ''string''),
      (''ClientID'', BasicType ''string''), (''TokenExpiresAt'', BasicType ''int64''),
      (''RefreshTokenExpiresAt'', BasicType ''int64''), (''Nonce'', BasicType ''string''),
      (''UserinfoJson'', BasicType ''string'')]),
      (''CreateSessionParams'', StructDecl [
      (''UUID'', BasicType ''string''), (''Username'', BasicType ''string''), (''Email'', BasicType ''string''),
      (''Name'', BasicType ''string''), (''Provider'', BasicType ''string''), (''TotpPending'', BasicType ''bool''),
      (''OAuthGroups'', BasicType ''string''), (''Expiry'', BasicType ''int64''),
      (''CreatedAt'', BasicType ''int64''), (''OAuthName'', BasicType ''string''),
      (''OAuthSub'', BasicType ''string'')]),
      (''DeleteExpiredOIDCSessionsParams'', StructDecl [
      (''TokenExpiresAt'', BasicType ''int64''), (''RefreshTokenExpiresAt'', BasicType ''int64'')]),
      (''OidcSession'', StructDecl [
      (''Sub'', BasicType ''string''), (''AccessTokenHash'', BasicType ''string''),
      (''RefreshTokenHash'', BasicType ''string''), (''Scope'', BasicType ''string''),
      (''ClientID'', BasicType ''string''), (''TokenExpiresAt'', BasicType ''int64''),
      (''RefreshTokenExpiresAt'', BasicType ''int64''), (''Nonce'', BasicType ''string''),
      (''UserinfoJson'', BasicType ''string'')]),
      (''Session'', StructDecl [
      (''UUID'', BasicType ''string''), (''Username'', BasicType ''string''), (''Email'', BasicType ''string''),
      (''Name'', BasicType ''string''), (''Provider'', BasicType ''string''), (''TotpPending'', BasicType ''bool''),
      (''OAuthGroups'', BasicType ''string''), (''Expiry'', BasicType ''int64''),
      (''CreatedAt'', BasicType ''int64''), (''OAuthName'', BasicType ''string''),
      (''OAuthSub'', BasicType ''string'')]),
      (''UpdateOIDCSessionParams'', StructDecl [
      (''AccessTokenHash'', BasicType ''string''), (''RefreshTokenHash'', BasicType ''string''),
      (''Scope'', BasicType ''string''), (''ClientID'', BasicType ''string''),
      (''TokenExpiresAt'', BasicType ''int64''), (''RefreshTokenExpiresAt'', BasicType ''int64''),
      (''Nonce'', BasicType ''string''), (''UserinfoJson'', BasicType ''string''), (''Sub'', BasicType ''string'')]),
      (''UpdateSessionParams'', StructDecl [
      (''Username'', BasicType ''string''), (''Email'', BasicType ''string''), (''Name'', BasicType ''string''),
      (''Provider'', BasicType ''string''), (''TotpPending'', BasicType ''bool''),
      (''OAuthGroups'', BasicType ''string''), (''Expiry'', BasicType ''int64''),
      (''OAuthName'', BasicType ''string''), (''OAuthSub'', BasicType ''string''), (''UUID'', BasicType ''string'')])]"

text \<open>The methods of \<open>*Queries\<close> in the package \<open>path\<close>, sorted by name.\<close>

definition query_methods :: "string \<Rightarrow> string \<Rightarrow> go_method list" where
  "query_methods path name =
     (let local = NamedType (Some (path, name)); err = NamedType None ''error'';
          method = \<lambda>n p t rs. \<lparr>gm_name = n, gm_params = [(''ctx'', NamedType (Some (''context'', ''context'')) ''Context''), (p, t)],
                                   gm_results = rs @ [err]\<rparr>
      in [method ''CreateOIDCSession'' ''arg'' (local ''CreateOIDCSessionParams'') [local ''OidcSession''],
          method ''CreateSession'' ''arg'' (local ''CreateSessionParams'') [local ''Session''],
          method ''DeleteExpiredOIDCSessions'' ''arg'' (local ''DeleteExpiredOIDCSessionsParams'') [],
          method ''DeleteExpiredSessions'' ''expiry'' (BasicType ''int64'') [],
          method ''DeleteOIDCSessionBySub'' ''sub'' (BasicType ''string'') [],
          method ''DeleteSession'' ''uuid'' (BasicType ''string'') [],
          method ''GetOIDCSessionByAccessTokenHash'' ''accessTokenHash'' (BasicType ''string'') [local ''OidcSession''],
          method ''GetOIDCSessionByRefreshTokenHash'' ''refreshTokenHash'' (BasicType ''string'') [local ''OidcSession''],
          method ''GetOIDCSessionBySub'' ''sub'' (BasicType ''string'') [local ''OidcSession''],
          method ''GetSession'' ''uuid'' (BasicType ''string'') [local ''Session''],
          method ''UpdateOIDCSession'' ''arg'' (local ''UpdateOIDCSessionParams'') [local ''OidcSession''],
          method ''UpdateSession'' ''arg'' (local ''UpdateSessionParams'') [local ''Session''],
          \<lparr>gm_name = ''WithTx'', gm_params = [(''tx'', PointerType (NamedType (Some (''database/sql'', ''sql'')) ''Tx''))],
           gm_results = [PointerType (local ''Queries'')]\<rparr>])"

definition driver_package :: "string \<Rightarrow> string \<Rightarrow> go_package" where
  "driver_package path name =
     \<lparr>pk_path = path, pk_name = name,
      pk_scope = (''DBTX'', InterfaceDecl [''ExecContext'', ''PrepareContext'', ''QueryContext'', ''QueryRowContext'']) #
        (''Queries'', StructDecl [(''db'', NamedType (Some (path, name)) ''DBTX'')]) # model_structs,
      pk_methods = [(''Queries'', query_methods path name)]\<rparr>"

definition repository_package :: go_package where
  "repository_package =
     \<lparr>pk_path = ''github.com/tinyauthapp/tinyauth/internal/repository'', pk_name = ''repository'',
      pk_scope = (''Store'', InterfaceDecl [
        ''CreateSession'', ''GetSession'', ''UpdateSession'', ''DeleteSession'', ''DeleteExpiredSessions'',
        ''CreateOIDCSession'', ''DeleteExpiredOIDCSessions'', ''DeleteOIDCSessionBySub'',
        ''GetOIDCSessionByAccessTokenHash'', ''GetOIDCSessionByRefreshTokenHash'', ''GetOIDCSessionBySub'',
        ''UpdateOIDCSession'']) # model_structs,
      pk_methods = []\<rparr>"

text \<open>The methods of \<open>store.go\<close>, before the formatter drops the parentheses around a single result.\<close>

definition store_methods_text :: string where
  "store_methods_text =

     line 0 ''func (s *Store) CreateOIDCSession(ctx context.Context, arg repository.CreateOIDCSessionParams) (repository.OidcSession, error) {'' @
     line 1 ''r, err := s.q.CreateOIDCSession(ctx, CreateOIDCSessionParams(arg))'' @ line 1 ''if err != nil {'' @
     line 2 ''return repository.OidcSession{}, mapErr(err)'' @ line 1 ''}'' @
     line 1 ''return repository.OidcSession(r), nil'' @ line 0 ''}'' @ line 0 [] @
     line 0 ''func (s *Store) CreateSession(ctx context.Context, arg repository.CreateSessionParams) (repository.Session, error) {'' @
     line 1 ''r, err := s.q.CreateSession(ctx, CreateSessionParams(arg))'' @ line 1 ''if err != nil {'' @
     line 2 ''return repository.Session{}, mapErr(err)'' @ line 1 ''}'' @ line 1 ''return repository.Session(r), nil'' @
     line 0 ''}'' @ line 0 [] @
     line 0 ''func (s *Store) DeleteExpiredOIDCSessions(ctx context.Context, arg repository.DeleteExpiredOIDCSessionsParams) (error) {'' @
     line 1 ''return mapErr(s.q.DeleteExpiredOIDCSessions(ctx, DeleteExpiredOIDCSessionsParams(arg)))'' @ line 0 ''}'' @
     line 0 [] @ line 0 ''func (s *Store) DeleteExpiredSessions(ctx context.Context, expiry int64) (error) {'' @
     line 1 ''return mapErr(s.q.DeleteExpiredSessions(ctx, expiry))'' @ line 0 ''}'' @ line 0 [] @
     line 0 ''func (s *Store) DeleteOIDCSessionBySub(ctx context.Context, sub string) (error) {'' @
     line 1 ''return mapErr(s.q.DeleteOIDCSessionBySub(ctx, sub))'' @ line 0 ''}'' @ line 0 [] @
     line 0 ''func (s *Store) DeleteSession(ctx context.Context, uuid string) (error) {'' @
     line 1 ''return mapErr(s.q.DeleteSession(ctx, uuid))'' @ line 0 ''}'' @ line 0 [] @
     line 0 ''func (s *Store) GetOIDCSessionByAccessTokenHash(ctx context.Context, accessTokenHash string) (repository.OidcSession, error) {'' @
     line 1 ''r, err := s.q.GetOIDCSessionByAccessTokenHash(ctx, accessTokenHash)'' @ line 1 ''if err != nil {'' @
     line 2 ''return repository.OidcSession{}, mapErr(err)'' @ line 1 ''}'' @
     line 1 ''return repository.OidcSession(r), nil'' @ line 0 ''}'' @ line 0 [] @
     line 0 ''func (s *Store) GetOIDCSessionByRefreshTokenHash(ctx context.Context, refreshTokenHash string) (repository.OidcSession, error) {'' @
     line 1 ''r, err := s.q.GetOIDCSessionByRefreshTokenHash(ctx, refreshTokenHash)'' @ line 1 ''if err != nil {'' @
     line 2 ''return repository.OidcSession{}, mapErr(err)'' @ line 1 ''}'' @
     line 1 ''return repository.OidcSession(r), nil'' @ line 0 ''}'' @ line 0 [] @
     line 0 ''func (s *Store) GetOIDCSessionBySub(ctx context.Context, sub string) (repository.OidcSession, error) {'' @
     line 1 ''r, err := s.q.GetOIDCSessionBySub(ctx, sub)'' @ line 1 ''if err != nil {'' @
     line 2 ''return repository.OidcSession{}, mapErr(err)'' @ line 1 ''}'' @
     line 1 ''return repository.OidcSession(r), nil'' @ line 0 ''}'' @ line 0 [] @
     line 0 ''func (s *Store) GetSession(ctx context.Context, uuid string) (repository.Session, error) {'' @
     line 1 ''r, err := s.q.GetSession(ctx, uuid)'' @ line 1 ''if err != nil {'' @
     line 2 ''return repository.Session{}, mapErr(err)'' @ line 1 ''}'' @ line 1 ''return repository.Session(r), nil'' @
     line 0 ''}'' @ line 0 [] @
     line 0 ''func (s *Store) UpdateOIDCSession(ctx context.Context, arg repository.UpdateOIDCSessionParams) (repository.OidcSession, error) {'' @
     line 1 ''r, err := s.q.UpdateOIDCSession(ctx, UpdateOIDCSessionParams(arg))'' @ line 1 ''if err != nil {'' @
     line 2 ''return repository.OidcSession{}, mapErr(err)'' @ line 1 ''}'' @
     line 1 ''return repository.OidcSession(r), nil'' @ line 0 ''}'' @ line 0 [] @
     line 0 ''func (s *Store) UpdateSession(ctx context.Context, arg repository.UpdateSessionParams) (repository.Session, error) {'' @
     line 1 ''r, err := s.q.UpdateSession(ctx, UpdateSessionParams(arg))'' @ line 1 ''if err != nil {'' @
     line 2 ''return repository.Session{}, mapErr(err)'' @ line 1 ''}'' @ line 1 ''return repository.Session(r), nil'' @
     line 0 ''}'' @ line 0 []"

lemma sqlite_generates:
  "generate_store Some (driver_package ''github.com/tinyauthapp/tinyauth/internal/repository/sqlite'' ''sqlite'') repository_package
     ''github.com/tinyauthapp/tinyauth/internal/repository'' =
   Inr (store_head ''sqlite'' ''github.com/tinyauthapp/tinyauth/internal/repository'' @ store_methods_text @ [CHR 0x0A])"
  by code_simp

lemma postgres_generates:
  "generate_store Some (driver_package ''github.com/tinyauthapp/tinyauth/internal/repository/postgres'' ''postgres'') repository_package
     ''github.com/tinyauthapp/tinyauth/internal/repository'' =
   Inr (store_head ''postgres'' ''github.com/tinyauthapp/tinyauth/internal/repository'' @ store_methods_text @ [CHR 0x0A])"
  by code_simp

theorem generated_store_fits_witness:
  "\<exists>m\<in>set (query_methods ''github.com/tinyauthapp/tinyauth/internal/repository/sqlite'' ''sqlite''). gm_name m = ''GetSession''"
proof -
  let ?d = "driver_package ''github.com/tinyauthapp/tinyauth/internal/repository/sqlite'' ''sqlite''"
  have w: "map_of (pk_scope repository_package) ''Store'' = Some (InterfaceDecl [
        ''CreateSession'', ''GetSession'', ''UpdateSession'', ''DeleteSession'', ''DeleteExpiredSessions'', ''CreateOIDCSession'',
        ''DeleteExpiredOIDCSessions'', ''DeleteOIDCSessionBySub'', ''GetOIDCSessionByAccessTokenHash'',
        ''GetOIDCSessionByRefreshTokenHash'', ''GetOIDCSessionBySub'', ''UpdateOIDCSession''])"
    by (simp add: repository_package_def)
  have q: "queries_methods ?d = query_methods ''github.com/tinyauthapp/tinyauth/internal/repository/sqlite'' ''sqlite''"
    by (simp add: queries_methods_def driver_package_def)
  from generated_store_fits [OF sqlite_generates w] q show ?thesis by auto
qed

section \<open>Counts of rows\<close>

text \<open>
  A query that gives a value which is no struct of the driver, as a count of rows is, gets a body that
  returns the error alone, while its signature promises the value too: the file does not compile.
\<close>

theorem basic_result_loses_value:
  assumes "mi_results m = [\<lparr>ri_type = t, ri_slice = False, ri_repo = []\<rparr>]"
  shows "build_body m = void_body (''s.q.'' @ mi_name m @ ''('' @ call_args m @ '')'') \<and>
     (\<exists>pre. build_sig m = pre @ '') ('' @ t @ '', error)'')"
  using assms by (simp add: build_body_def build_sig_def Let_def)

end
