(* ===== verification/Lifecycle.thy ===== *)
theory Lifecycle
  imports HostServices LoginLimiter
begin

text \<open>
  The program from the end of its setup to its end: the three ways to listen and \<open>serve\<close> of
  \<open>router_bootstrap.go\<close>, the heartbeat and the loop at the end of \<open>Setup\<close> in
  \<open>app_bootstrap.go\<close>, and the routines that \<open>Setup\<close> and the services start. The routines run
  side by side; a run of the program is a list of events in the order they happen. The library
  \<open>ding\<close> groups the routines in rings: once the context of the program is cancelled it ends the
  contexts of the rings one after another, each when the routines of the rings before it have returned.
\<close>

section \<open>Listening\<close>

text \<open>What \<open>net.Listen\<close>, \<open>os.Stat\<close> and \<open>os.Remove\<close> answer; an error is its text.\<close>

record net_library =
  nl_listen :: "string \<Rightarrow> string \<Rightarrow> string option"
  nl_exists :: "string \<Rightarrow> bool"
  nl_remove :: "string \<Rightarrow> string option"

datatype net_action = ListenOn string string | RemoveSocket string

text \<open>Each gives the name under which \<open>serve\<close> runs the listener.\<close>

definition serve_http :: "net_library \<Rightarrow> string \<Rightarrow> (string + string) \<times> net_action list" where
  "serve_http lib address =
     (case nl_listen lib ''tcp'' address of
        Some e \<Rightarrow> (Inl (''failed to create tcp listener: '' @ e), [])
      | None \<Rightarrow> (Inr ''http'', [ListenOn ''tcp'' address]))"

definition serve_unix :: "net_library \<Rightarrow> string \<Rightarrow> (string + string) \<times> net_action list" where
  "serve_unix lib path =
     (let removed = (if nl_exists lib path then [RemoveSocket path] else [])
      in case (if nl_exists lib path then nl_remove lib path else None) of
           Some e \<Rightarrow> (Inl (''failed to remove existing socket file: '' @ e), [])
         | None \<Rightarrow>
             (case nl_listen lib ''unix'' path of
                Some e \<Rightarrow> (Inl (''failed to create unix socket listener: '' @ e), removed)
              | None \<Rightarrow> (Inr ''unix socket'', removed @ [ListenOn ''unix'' path])))"

definition serve_tailscale :: "tailscale_config \<Rightarrow> string option \<Rightarrow> ts_state \<Rightarrow> (string + string) outcome \<times> ts_state" where
  "serve_tailscale cfg err ts =
     (case create_listener cfg err ts of
        (Panics, ts1) \<Rightarrow> (Panics, ts1)
      | (Returns (Inl e), ts1) \<Rightarrow> (Returns (Inl (''failed to create tailscale listener: '' @ e)), ts1)
      | (Returns (Inr _), ts1) \<Rightarrow> (Returns (Inr ''tailscale''), ts1))"

text \<open>The function that \<open>getListenerFunc\<close> chose.\<close>

fun open_listener ::
  "net_library \<Rightarrow> tailscale_config \<Rightarrow> string option \<Rightarrow> listener \<Rightarrow> ts_state \<Rightarrow>
     (string + string) outcome \<times> net_action list \<times> ts_state"
where
  "open_listener lib cfg err TailscaleListener ts =
     (case serve_tailscale cfg err ts of (r, ts1) \<Rightarrow> (r, [], ts1))"
| "open_listener lib cfg err (UnixListener path) ts = (case serve_unix lib path of (r, acts) \<Rightarrow> (Returns r, acts, ts))"
| "open_listener lib cfg err (HttpListener address) ts = (case serve_http lib address of (r, acts) \<Rightarrow> (Returns r, acts, ts))"

text \<open>
  How \<open>Serve\<close> ends: it returns \<open>ErrServerClosed\<close> at once when \<open>Shutdown\<close> is called, or another
  error. \<open>None\<close> is the nil error.
\<close>

datatype serve_end = ServerClosed | ServeError string

fun serve_result :: "string \<Rightarrow> serve_end \<Rightarrow> string option" where
  "serve_result name ServerClosed = None"
| "serve_result name (ServeError e) = Some (''failed to start '' @ name @ '' listener: '' @ e)"

section \<open>The heartbeat\<close>

definition api_server :: string where
  "api_server = ''https://api.tinyauth.app''"

definition heartbeat_body :: "string \<Rightarrow> string \<Rightarrow> string" where
  "heartbeat_body uuid version = json_text (JObject [(''uuid'', JString uuid), (''version'', JString version)])"

datatype post_answer = PostFailed | Answered int

datatype heartbeat_log = HeartbeatRequestFailed | HeartbeatNotSent | HeartbeatStatus int

record post_request =
  pr_url :: string
  pr_content_type :: string
  pr_body :: string

definition heartbeat_request :: "string \<Rightarrow> string \<Rightarrow> post_request" where
  "heartbeat_request uuid version =
     \<lparr>pr_url = api_server @ ''/v1/instances/heartbeat'', pr_content_type = ''application/json'',
      pr_body = heartbeat_body uuid version\<rparr>"

text \<open>A tick: the request it sends, when it could be made, and what it logs.\<close>

definition heartbeat_tick :: "bool \<Rightarrow> (post_request \<Rightarrow> post_answer) \<Rightarrow> string \<Rightarrow> string \<Rightarrow> post_request option \<times> heartbeat_log option" where
  "heartbeat_tick made post uuid version =
     (if \<not> made then (None, Some HeartbeatRequestFailed)
      else let rq = heartbeat_request uuid version
           in (Some rq, case post rq of
                          PostFailed \<Rightarrow> Some HeartbeatNotSent
                        | Answered code \<Rightarrow> if code \<noteq> 200 \<and> code \<noteq> 201 then Some (HeartbeatStatus code) else None))"

section \<open>Rings and routines\<close>

datatype ring = RingMinor | RingNormal | RingMajor | RingCritical

fun ring_index :: "ring \<Rightarrow> nat" where
  "ring_index RingMinor = 0"
| "ring_index RingNormal = 1"
| "ring_index RingMajor = 2"
| "ring_index RingCritical = 3"

lemma ring_index_inj: "ring_index a = ring_index b \<Longrightarrow> a = b"
  by (cases a; cases b) auto

instantiation ring :: linorder
begin

definition less_eq_ring :: "ring \<Rightarrow> ring \<Rightarrow> bool" where
  "less_eq_ring a b \<longleftrightarrow> ring_index a \<le> ring_index b"

definition less_ring :: "ring \<Rightarrow> ring \<Rightarrow> bool" where
  "less_ring a b \<longleftrightarrow> ring_index a < ring_index b"

instance
  by standard (auto simp: less_eq_ring_def less_ring_def intro: ring_index_inj)

end

definition all_rings :: "ring list" where
  "all_rings = [RingMinor, RingNormal, RingMajor, RingCritical]"

lemma in_all_rings [simp]: "r \<in> set all_rings"
  by (cases r) (simp_all add: all_rings_def)

datatype routine =
    DbClose | DbCleanup | HeartbeatRoutine | AuthSweep | OidcCleanup | OidcSweep
  | LdapHeartbeat | KubernetesWatcher | DockerClose | TailscaleClose | ListenerRoutine

fun ring_of :: "routine \<Rightarrow> ring" where
  "ring_of DbClose = RingCritical"
| "ring_of LdapHeartbeat = RingMajor"
| "ring_of KubernetesWatcher = RingMajor"
| "ring_of DockerClose = RingMajor"
| "ring_of TailscaleClose = RingMajor"
| "ring_of ListenerRoutine = RingNormal"
| "ring_of _ = RingMinor"

text \<open>The routines of a program, in the order they are started.\<close>

definition started_routines :: "config \<Rightarrow> 's tinyauth \<Rightarrow> routine list" where
  "started_routines cfg app =
     [DbClose] @
     (case ta_labels app of NoSource \<Rightarrow> [] | KubernetesSource \<Rightarrow> [KubernetesWatcher] | DockerSource \<Rightarrow> [DockerClose]) @
     (if ae_ldap (ta_auth app) = None then [] else [LdapHeartbeat]) @
     (if ae_tailscale (ta_auth app) = None then [] else [TailscaleClose]) @
     [AuthSweep] @
     (if ta_oidc app = None then [] else [OidcCleanup, OidcSweep]) @
     [DbCleanup] @
     (if an_enabled (cfg_analytics cfg) then [HeartbeatRoutine] else []) @
     [ListenerRoutine]"

section \<open>The running program\<close>

text \<open>
  \<open>lf_shutdown\<close> tells whether \<open>Shutdown\<close> was called, \<open>lf_draining\<close> whether that call still waits
  for the requests in flight; it gives up after \<open>GracefulShutdownTimeout\<close>. \<open>lf_channel\<close> is the
  channel with the error of the listener, and \<open>lf_db\<close> tells whether the store can be used.
\<close>

datatype main_phase = Monitoring | Waiting | Exited "string option"

record life =
  lf_cancelled :: bool
  lf_ended :: "ring list"
  lf_running :: "routine list"
  lf_serving :: bool
  lf_shutdown :: bool
  lf_draining :: bool
  lf_requests :: nat
  lf_channel :: "string option option"
  lf_memory :: bool
  lf_db :: bool
  lf_main :: main_phase

definition start_life :: "config \<Rightarrow> store_choice \<Rightarrow> 's tinyauth \<Rightarrow> life" where
  "start_life cfg choice app =
     \<lparr>lf_cancelled = False, lf_ended = [], lf_running = started_routines cfg app, lf_serving = True,
      lf_shutdown = False, lf_draining = False, lf_requests = 0, lf_channel = None,
      lf_memory = (choice = MemoryStore), lf_db = True, lf_main = Monitoring\<rparr>"

datatype life_event =
    Signal | EndRing ring | RoutineReturns routine | CleanupTick
  | RequestArrives | RequestDone | ShutdownBegins | ShutdownEnds
  | ListenerReturns serve_end | MainReceives | MainCancelled | MainReturns

text \<open>The end of a routine other than the listener, once the context of its ring has ended.\<close>

definition routine_returns :: "routine \<Rightarrow> life \<Rightarrow> life option" where
  "routine_returns r st =
     (if r \<in> set (lf_running st) \<and> r \<noteq> ListenerRoutine \<and> ring_of r \<in> set (lf_ended st)
      then Some (st\<lparr>lf_running := filter (\<lambda>x. x \<noteq> r) (lf_running st),
                    lf_db := (lf_db st \<and> (r = DbClose \<longrightarrow> lf_memory st))\<rparr>)
      else None)"

text \<open>
  The goroutine in \<open>serve\<close> that waits for the end of the context calls \<open>Shutdown\<close>, from which
  moment no connection is accepted; \<open>serve\<close> itself returns when \<open>Serve\<close> does and does not wait
  for that goroutine.
\<close>

definition shutdown_begins :: "life \<Rightarrow> life option" where
  "shutdown_begins st =
     (if RingNormal \<in> set (lf_ended st) \<and> \<not> lf_shutdown st
      then Some (st\<lparr>lf_shutdown := True, lf_draining := True, lf_serving := False\<rparr>)
      else None)"

definition listener_returns :: "string \<Rightarrow> serve_end \<Rightarrow> life \<Rightarrow> life option" where
  "listener_returns name e st =
     (if ListenerRoutine \<in> set (lf_running st) \<and> (lf_shutdown st \<longleftrightarrow> e = ServerClosed)
      then Some (st\<lparr>lf_running := filter (\<lambda>x. x \<noteq> ListenerRoutine) (lf_running st), lf_serving := False,
                    lf_channel := Some (serve_result name e)\<rparr>)
      else None)"

text \<open>The turns of the loop at the end of \<open>Setup\<close>; when both cases are ready the runtime takes either.\<close>

definition main_receives :: "life \<Rightarrow> life option" where
  "main_receives st =
     (case lf_channel st of
        None \<Rightarrow> None
      | Some r \<Rightarrow>
          if lf_main st \<noteq> Monitoring then None
          else Some (st\<lparr>lf_channel := None,
                        lf_main := (case r of None \<Rightarrow> Monitoring | Some e \<Rightarrow> Exited (Some (''listener error: '' @ e)))\<rparr>))"

definition main_cancelled :: "life \<Rightarrow> life option" where
  "main_cancelled st =
     (if lf_main st = Monitoring \<and> lf_cancelled st then Some (st\<lparr>lf_main := Waiting\<rparr>) else None)"

definition main_returns :: "life \<Rightarrow> life option" where
  "main_returns st =
     (if lf_main st = Waiting \<and> lf_running st = [] then Some (st\<lparr>lf_main := Exited None\<rparr>) else None)"

text \<open>The context of a ring ends after those of the rings before it, whose routines have returned.\<close>

definition end_ring :: "ring \<Rightarrow> life \<Rightarrow> life option" where
  "end_ring q st =
     (if lf_cancelled st \<and> q \<notin> set (lf_ended st) \<and> list_all (\<lambda>p. p < q \<longrightarrow> p \<in> set (lf_ended st)) all_rings \<and>
         list_all (\<lambda>r. \<not> ring_of r < q) (lf_running st)
      then Some (st\<lparr>lf_ended := q # lf_ended st\<rparr>)
      else None)"

fun life_event_next :: "string \<Rightarrow> life_event \<Rightarrow> life \<Rightarrow> life option" where
  "life_event_next name Signal st = (if lf_cancelled st then None else Some (st\<lparr>lf_cancelled := True\<rparr>))"
| "life_event_next name (EndRing q) st = end_ring q st"
| "life_event_next name (RoutineReturns r) st = routine_returns r st"
| "life_event_next name CleanupTick st = (if DbCleanup \<in> set (lf_running st) then Some st else None)"
| "life_event_next name RequestArrives st =
     (if lf_serving st then Some (st\<lparr>lf_requests := lf_requests st + 1\<rparr>) else None)"
| "life_event_next name RequestDone st =
     (if lf_requests st = 0 then None else Some (st\<lparr>lf_requests := lf_requests st - 1\<rparr>))"
| "life_event_next name ShutdownBegins st = shutdown_begins st"
| "life_event_next name ShutdownEnds st = (if lf_draining st then Some (st\<lparr>lf_draining := False\<rparr>) else None)"
| "life_event_next name (ListenerReturns e) st = listener_returns name e st"
| "life_event_next name MainReceives st = main_receives st"
| "life_event_next name MainCancelled st = main_cancelled st"
| "life_event_next name MainReturns st = main_returns st"

text \<open>Nothing happens after \<open>Setup\<close> has returned: the process ends.\<close>

definition life_next :: "string \<Rightarrow> life_event \<Rightarrow> life \<Rightarrow> life option" where
  "life_next name ev st = (case lf_main st of Exited _ \<Rightarrow> None | _ \<Rightarrow> life_event_next name ev st)"

fun life_run :: "string \<Rightarrow> life_event list \<Rightarrow> life \<Rightarrow> life option" where
  "life_run name [] st = Some st"
| "life_run name (ev # evs) st = (case life_next name ev st of None \<Rightarrow> None | Some st1 \<Rightarrow> life_run name evs st1)"

lemma life_run_append:
  "life_run name (evs @ evs') st = (case life_run name evs st of None \<Rightarrow> None | Some st1 \<Rightarrow> life_run name evs' st1)"
  by (induction evs arbitrary: st) (auto split: option.splits)

lemma life_run_invariant:
  assumes "life_run name evs st = Some st'" "P st"
    "\<And>ev s s'. P s \<Longrightarrow> life_next name ev s = Some s' \<Longrightarrow> P s'"
  shows "P st'"
  using assms(1,2) by (induction evs arbitrary: st) (auto split: option.splits intro: assms(3))

lemmas life_ops = life_next_def end_ring_def routine_returns_def shutdown_begins_def listener_returns_def
  main_receives_def main_cancelled_def main_returns_def

section \<open>The order of the shutdown\<close>

text \<open>
  A ring that has ended was reached in order, the routines of the rings before it are gone, and the
  database is closed by the last routine of all.
\<close>

definition in_order :: "ring list \<Rightarrow> routine list \<Rightarrow> bool" where
  "in_order qs rs \<longleftrightarrow> (\<forall>q\<in>set qs. list_all (\<lambda>r. \<not> ring_of r < q) rs)"

lemma in_order_simps [simp]:
  "in_order [] rs"
  "in_order (q # qs) rs \<longleftrightarrow> list_all (\<lambda>r. \<not> ring_of r < q) rs \<and> in_order qs rs"
  "in_order qs rs \<Longrightarrow> in_order qs (filter P rs)"
  by (auto simp: in_order_def list_all_iff)

definition orderly :: "life \<Rightarrow> bool" where
  "orderly st \<longleftrightarrow>
     in_order (lf_ended st) (lf_running st) \<and>
     (lf_ended st \<noteq> [] \<longrightarrow> lf_cancelled st) \<and>
     (DbClose \<notin> set (lf_running st) \<longrightarrow> RingCritical \<in> set (lf_ended st)) \<and>
     (\<not> lf_db st \<longrightarrow> DbClose \<notin> set (lf_running st)) \<and>
     (lf_main st = Waiting \<longrightarrow> lf_cancelled st) \<and>
     (lf_main st = Exited None \<longrightarrow> lf_cancelled st \<and> lf_running st = [])"

lemma orderly_start: "orderly (start_life cfg choice app)"
  by (simp add: orderly_def start_life_def started_routines_def)

lemma life_next_event: "life_next name ev st = Some st' \<Longrightarrow> life_event_next name ev st = Some st'"
  by (simp add: life_next_def split: main_phase.splits)

text \<open>When each operation is possible, and the state it leaves.\<close>

lemma op_Some:
  "end_ring q st = Some st' \<longleftrightarrow> lf_cancelled st \<and> q \<notin> set (lf_ended st) \<and>
     list_all (\<lambda>p. p < q \<longrightarrow> p \<in> set (lf_ended st)) all_rings \<and> list_all (\<lambda>r. \<not> ring_of r < q) (lf_running st) \<and>
     st' = st\<lparr>lf_ended := q # lf_ended st\<rparr>"
  "routine_returns r st = Some st' \<longleftrightarrow> r \<in> set (lf_running st) \<and> r \<noteq> ListenerRoutine \<and> ring_of r \<in> set (lf_ended st) \<and>
     st' = st\<lparr>lf_running := filter (\<lambda>x. x \<noteq> r) (lf_running st), lf_db := (lf_db st \<and> (r = DbClose \<longrightarrow> lf_memory st))\<rparr>"
  "shutdown_begins st = Some st' \<longleftrightarrow> RingNormal \<in> set (lf_ended st) \<and> \<not> lf_shutdown st \<and>
     st' = st\<lparr>lf_shutdown := True, lf_draining := True, lf_serving := False\<rparr>"
  "listener_returns name e st = Some st' \<longleftrightarrow> ListenerRoutine \<in> set (lf_running st) \<and> (lf_shutdown st \<longleftrightarrow> e = ServerClosed) \<and>
     st' = st\<lparr>lf_running := filter (\<lambda>x. x \<noteq> ListenerRoutine) (lf_running st), lf_serving := False,
              lf_channel := Some (serve_result name e)\<rparr>"
  "main_cancelled st = Some st' \<longleftrightarrow> lf_main st = Monitoring \<and> lf_cancelled st \<and> st' = st\<lparr>lf_main := Waiting\<rparr>"
  "main_returns st = Some st' \<longleftrightarrow> lf_main st = Waiting \<and> lf_running st = [] \<and> st' = st\<lparr>lf_main := Exited None\<rparr>"
  unfolding end_ring_def routine_returns_def shutdown_begins_def listener_returns_def main_cancelled_def main_returns_def
  by (simp_all split: if_split) (intro conjI impI iffI; (elim conjE)?; simp)+

lemma orderly_ops:
  "orderly st \<Longrightarrow> end_ring q st = Some st' \<Longrightarrow> orderly st'"
  "orderly st \<Longrightarrow> shutdown_begins st = Some st' \<Longrightarrow> orderly st'"
  "orderly st \<Longrightarrow> listener_returns name e st = Some st' \<Longrightarrow> orderly st'"
  "orderly st \<Longrightarrow> main_cancelled st = Some st' \<Longrightarrow> orderly st'"
  "orderly st \<Longrightarrow> main_returns st = Some st' \<Longrightarrow> orderly st'"
  unfolding op_Some by (elim conjE; hypsubst; simp add: orderly_def)+

lemma orderly_routine: "orderly st \<Longrightarrow> routine_returns r st = Some st' \<Longrightarrow> orderly st'"
  unfolding op_Some by (cases "r = DbClose"; elim conjE; hypsubst; simp add: orderly_def)

lemma orderly_updates:
  "orderly (st\<lparr>lf_requests := n\<rparr>) = orderly st"
  "orderly (st\<lparr>lf_draining := b\<rparr>) = orderly st"
  "orderly st \<Longrightarrow> orderly (st\<lparr>lf_cancelled := True\<rparr>)"
  by (simp_all add: orderly_def)

lemma orderly_receives: "orderly st \<Longrightarrow> main_receives st = Some st' \<Longrightarrow> orderly st'"
  by (auto simp: orderly_def main_receives_def split: option.splits if_splits)

lemma orderly_step:
  assumes "orderly st" "life_next name ev st = Some st'"
  shows "orderly st'"
proof -
  note step = life_next_event [OF assms(2)]
  show ?thesis
  proof (cases "ev \<in> {Signal, CleanupTick, RequestArrives, RequestDone, ShutdownEnds}")
    case True
    with assms(1) step show ?thesis by (cases ev) (auto simp: orderly_updates split: if_splits)
  next
    case False
    with assms(1) step show ?thesis
      by (cases ev) (simp_all, (blast intro: orderly_ops orderly_routine orderly_receives)+)
  qed
qed

lemma orderly_run: "orderly st \<Longrightarrow> life_run name evs st = Some st' \<Longrightarrow> orderly st'"
  by (rule life_run_invariant [of name evs st st' orderly]) (auto intro: orderly_step)

lemma last_ring: "\<not> ring_of r < RingCritical \<longleftrightarrow> r = DbClose"
  by (cases r) (simp_all add: less_ring_def)

lemma closed_is_last:
  assumes "orderly st" "\<not> lf_db st"
  shows "lf_running st = [] \<and> lf_cancelled st"
proof -
  from assms have no: "DbClose \<notin> set (lf_running st)" and critical: "RingCritical \<in> set (lf_ended st)"
    by (auto simp: orderly_def)
  from assms(1) have "in_order (lf_ended st) (lf_running st)" by (simp add: orderly_def)
  with critical have "\<forall>r\<in>set (lf_running st). r = DbClose" by (auto simp: in_order_def list_all_iff simp flip: last_ring)
  with no have "lf_running st = []" by (cases "lf_running st") auto
  moreover from assms(1) critical have "lf_cancelled st" by (auto simp: orderly_def)
  ultimately show ?thesis ..
qed


section \<open>The shutdown ends\<close>

text \<open>The events that the clients and the clock bring; the others are steps of the program.\<close>

definition from_outside :: "life_event \<Rightarrow> bool" where
  "from_outside ev \<longleftrightarrow> ev \<in> {RequestArrives, RequestDone, CleanupTick}"

fun phases_left :: "main_phase \<Rightarrow> nat" where
  "phases_left Monitoring = 2"
| "phases_left Waiting = 1"
| "phases_left (Exited r) = 0"

definition rings_left :: "ring list \<Rightarrow> nat" where
  "rings_left qs = length (filter (\<lambda>q. q \<notin> set qs) all_rings)"

definition steps_left :: "life \<Rightarrow> nat" where
  "steps_left st =
     2 * length (lf_running st) + rings_left (lf_ended st) +
     2 * of_bool (\<not> lf_shutdown st) + of_bool (lf_draining st) + of_bool (lf_channel st \<noteq> None) +
     of_bool (\<not> lf_cancelled st) + phases_left (lf_main st)"

lemma filter_out_less: "x \<in> set xs \<Longrightarrow> length (filter (\<lambda>y. y \<noteq> x) xs) < length xs"
  by (rule length_filter_less) auto

lemma rings_left_Cons:
  assumes "q \<notin> set qs"
  shows "rings_left (q # qs) < rings_left qs"
proof -
  have "filter (\<lambda>p. p \<notin> set (q # qs)) all_rings = filter (\<lambda>p. p \<noteq> q) (filter (\<lambda>p. p \<notin> set qs) all_rings)"
    by (auto intro: filter_cong)
  with assms show ?thesis by (simp only: rings_left_def) (rule filter_out_less, simp)
qed

lemma steps_left_updates:
  "steps_left (st\<lparr>lf_requests := n\<rparr>) = steps_left st"
  "lf_draining st \<Longrightarrow> steps_left (st\<lparr>lf_draining := False\<rparr>) < steps_left st"
  "\<not> lf_cancelled st \<Longrightarrow> steps_left (st\<lparr>lf_cancelled := True\<rparr>) < steps_left st"
  by (simp_all add: steps_left_def)

lemma steps_left_without:
  "r \<in> set (lf_running st) \<Longrightarrow> steps_left (st\<lparr>lf_running := filter (\<lambda>x. x \<noteq> r) (lf_running st), lf_db := b\<rparr>) < steps_left st"
  using filter_out_less [of r "lf_running st"] by (simp add: steps_left_def)

lemma steps_left_listener:
  "r \<in> set (lf_running st) \<Longrightarrow>
     steps_left (st\<lparr>lf_running := filter (\<lambda>x. x \<noteq> r) (lf_running st), lf_serving := b, lf_channel := Some c\<rparr>) < steps_left st"
  using filter_out_less [of r "lf_running st"] by (simp add: steps_left_def)

lemma steps_left_ops:
  "end_ring q st = Some st' \<Longrightarrow> steps_left st' < steps_left st"
  "routine_returns r st = Some st' \<Longrightarrow> steps_left st' < steps_left st"
  "shutdown_begins st = Some st' \<Longrightarrow> steps_left st' < steps_left st"
  "listener_returns name e st = Some st' \<Longrightarrow> steps_left st' < steps_left st"
  "main_cancelled st = Some st' \<Longrightarrow> steps_left st' < steps_left st"
  "main_returns st = Some st' \<Longrightarrow> steps_left st' < steps_left st"
  unfolding op_Some
  by (elim conjE; hypsubst; (rule steps_left_without steps_left_listener)?; simp add: steps_left_def rings_left_Cons)+

lemma steps_left_receives: "main_receives st = Some st' \<Longrightarrow> steps_left st' < steps_left st"
  by (cases "lf_channel st") (auto simp: main_receives_def steps_left_def split: option.splits if_split_asm)

lemma steps_left_step:
  assumes "life_next name ev st = Some st'"
  shows "steps_left st' + (if from_outside ev then 0 else 1) \<le> steps_left st"
proof -
  note step = life_next_event [OF assms]
  show ?thesis
  proof (cases "from_outside ev \<or> ev = Signal \<or> ev = ShutdownEnds")
    case True
    with step show ?thesis by (cases ev) (auto simp: from_outside_def Suc_le_eq steps_left_updates split: if_splits)
  next
    case False
    with step have "steps_left st' < steps_left st"
      by (cases ev) (simp_all add: from_outside_def, (blast intro: steps_left_ops steps_left_receives)+)
    with False show ?thesis by simp
  qed
qed

lemma steps_left_run:
  "life_run name evs st = Some st' \<Longrightarrow> length (filter (\<lambda>ev. \<not> from_outside ev) evs) + steps_left st' \<le> steps_left st"
proof (induction evs arbitrary: st)
  case (Cons ev evs)
  then obtain st1 where "life_next name ev st = Some st1" "life_run name evs st1 = Some st'"
    by (auto split: option.splits)
  with Cons.IH [of st1] steps_left_step [of name ev st st1] show ?case by (auto split: if_splits)
qed simp

text \<open>A program that was told to end can always make a step of its own.\<close>

lemma innermost_routine:
  assumes "lf_running st \<noteq> []"
  obtains r where "r \<in> set (lf_running st)" "list_all (\<lambda>x. \<not> ring_of x < ring_of r) (lf_running st)"
proof -
  have "finite (ring_of ` set (lf_running st))" "ring_of ` set (lf_running st) \<noteq> {}" using assms by auto
  from ex_min_if_finite [OF this] obtain r where "r \<in> set (lf_running st)"
    "\<not> (\<exists>x\<in>ring_of ` set (lf_running st). x < ring_of r)" by auto
  with that show thesis by (auto simp: list_all_iff)
qed

lemma first_open_ring:
  assumes "q \<notin> set qs"
  obtains p where "p \<le> q" "p \<notin> set qs" "list_all (\<lambda>x. x < p \<longrightarrow> x \<in> set qs) all_rings"
proof -
  have "finite (UNIV :: ring set)" by (rule finite_subset [of _ "set all_rings"]) auto
  then have "finite {p. p \<le> q \<and> p \<notin> set qs}" "{p. p \<le> q \<and> p \<notin> set qs} \<noteq> {}"
    using assms by (auto intro: finite_subset)
  from ex_min_if_finite [OF this] obtain p where "p \<le> q" "p \<notin> set qs" "\<forall>x. x < p \<longrightarrow> \<not> (x \<le> q \<and> x \<notin> set qs)" by blast
  with that show thesis by (auto simp: list_all_iff)
qed

lemma can_step:
  assumes "lf_cancelled st" "\<forall>r. lf_main st \<noteq> Exited r"
  shows "\<exists>ev st'. \<not> from_outside ev \<and> life_next name ev st = Some st'"
proof -
  have enabled: "\<exists>ev st'. \<not> from_outside ev \<and> life_next name ev st = Some st'"
    if "life_event_next name ev st = Some st'" "\<not> from_outside ev" for ev st'
    using that assms(2) by (cases "lf_main st") (auto simp: life_next_def)
  consider "lf_main st = Monitoring" | "lf_main st = Waiting" "lf_running st = []" | "lf_running st \<noteq> []"
    using assms(2) by (cases "lf_main st") auto
  then show ?thesis
  proof cases
    case 1
    with assms(1) enabled [of MainCancelled] show ?thesis by (simp add: main_cancelled_def from_outside_def)
  next
    case 2
    with enabled [of MainReturns] show ?thesis by (simp add: main_returns_def from_outside_def)
  next
    case 3
    then obtain r where r: "r \<in> set (lf_running st)" "list_all (\<lambda>x. \<not> ring_of x < ring_of r) (lf_running st)"
      by (rule innermost_routine)
    show ?thesis
    proof (cases "ring_of r \<in> set (lf_ended st)")
      case True
      with r(1) show ?thesis
        using enabled [of "RoutineReturns r"] enabled [of "ListenerReturns ServerClosed"] enabled [of ShutdownBegins]
        by (cases "r = ListenerRoutine"; cases "lf_shutdown st")
          (auto simp: routine_returns_def listener_returns_def shutdown_begins_def from_outside_def)
    next
      case False
      then obtain p where p: "p \<le> ring_of r" "p \<notin> set (lf_ended st)" "list_all (\<lambda>x. x < p \<longrightarrow> x \<in> set (lf_ended st)) all_rings"
        by (rule first_open_ring)
      with r(2) have "list_all (\<lambda>x. \<not> ring_of x < p) (lf_running st)" by (auto simp: list_all_iff)
      with p assms(1) enabled [of "EndRing p"] show ?thesis by (simp add: end_ring_def from_outside_def)
    qed
  qed
qed

lemma started_at_most: "length (started_routines cfg app) \<le> 10"
  by (simp add: started_routines_def split: label_source.split)


section \<open>A shutdown with a request in flight\<close>

definition demo_program :: "memory_store tinyauth" where
  "demo_program =
     \<lparr>ta_auth = demo_env, ta_oidc = None, ta_labels = NoSource, ta_listener = HttpListener ''0.0.0.0:3000''\<rparr>"

definition demo_shutdown :: "life_event list" where
  "demo_shutdown =
     [RequestArrives, Signal, MainCancelled, EndRing RingMinor, RoutineReturns AuthSweep, RoutineReturns HeartbeatRoutine,
      RoutineReturns DbCleanup, EndRing RingNormal, ShutdownBegins, ListenerReturns ServerClosed, EndRing RingMajor,
      EndRing RingCritical, RoutineReturns DbClose]"

definition demo_ended :: life where
  "demo_ended =
     \<lparr>lf_cancelled = True, lf_ended = [RingCritical, RingMajor, RingNormal, RingMinor], lf_running = [], lf_serving = False,
      lf_shutdown = True, lf_draining = True, lf_requests = 1, lf_channel = Some None, lf_memory = False, lf_db = False,
      lf_main = Waiting\<rparr>"

lemma demo_shutdown_run:
  "life_run ''http'' demo_shutdown (start_life default_configuration (SqliteStore ''tinyauth.db'') demo_program) = Some demo_ended"
proof -
  have start: "started_routines default_configuration demo_program =
      [DbClose, AuthSweep, DbCleanup, HeartbeatRoutine, ListenerRoutine]"
    by (simp add: started_routines_def demo_program_def demo_env_def default_configuration_def)
  show ?thesis
    by (simp add: demo_shutdown_def demo_ended_def start_life_def start life_ops all_rings_def less_ring_def)
qed



text \<open>
  \<open>Serve\<close> returns as soon as \<open>Shutdown\<close> is called, and \<open>serve\<close> with it, so the ring of the listener
  is over while \<open>Shutdown\<close> still waits for the requests in flight: the next rings end, the database
  is closed, and \<open>Setup\<close> returns with a request that has not been answered.
\<close>

theorem requests_outlive_database:
  "\<exists>st. life_run ''http'' (demo_shutdown @ [MainReturns]) (start_life default_configuration (SqliteStore ''tinyauth.db'') demo_program) =
        Some st \<and> lf_requests st = 1 \<and> lf_draining st \<and> \<not> lf_db st \<and> lf_main st = Exited None"
  by (simp add: life_run_append demo_shutdown_run) (simp add: demo_ended_def life_ops)

end
