(* ===== verification/Docs.thy ===== *)
theory Docs
  imports OAuth Ldap
begin

text \<open>
  The generator of the reference of the configuration, \<open>gen/docs\<close>: it walks the structures of the
  default configuration and writes one entry for every setting, as an example of the environment
  (\<open>gen_env.go\<close>) and as a table in Markdown (\<open>gen_md.go\<close>). The structures, which the code reads by
  reflection, are a tree here.
\<close>

section \<open>The tree of the settings\<close>

text \<open>
  A field of a structure has its name, the two tags the generator reads and its value. A slice is
  a list of strings or something else; a map has keys that are strings or not, and
  the zero value of its elements. \<open>OtherKind\<close> is every kind the walk does not know.
\<close>

datatype 'v field = Field (fd_name: string) (fd_description: string) (fd_yaml: string) (fd_value: 'v)

datatype setting =
    SBool bool
  | SString string
  | SInt int
  | SSlice "string list option"
  | SStruct "setting field list"
  | SMap bool setting
  | OtherKind

text \<open>
  What an entry is made of: the entry of a field, the path below a field that is a structure, and the
  path below one that is a map, when its elements are documented.
\<close>

record 'e builder =
  bd_entry :: "setting field \<Rightarrow> string \<Rightarrow> 'e list"
  bd_child :: "string \<Rightarrow> string \<Rightarrow> string"
  bd_map :: "setting field \<Rightarrow> string \<Rightarrow> string option"

text \<open>\<open>walkAndBuild\<close>, with the call that \<open>buildMap\<close> makes for the elements of a map.\<close>

function (sequential) walk :: "'e builder \<Rightarrow> string \<Rightarrow> setting field list \<Rightarrow> 'e list" where
  "walk b path [] = []"
| "walk b path (Field n d y (SStruct fs) # rest) = walk b (bd_child b path n) fs @ walk b path rest"
| "walk b path (Field n d y (SMap str (SStruct fs)) # rest) =
     (case (if str then bd_map b (Field n d y (SMap str (SStruct fs))) path else None) of
        None \<Rightarrow> []
      | Some p \<Rightarrow> walk b p fs) @ walk b path rest"
| "walk b path (Field n d y (SMap str v) # rest) = walk b path rest"
| "walk b path (Field n d y OtherKind # rest) = walk b path rest"
| "walk b path (f # rest) = bd_entry b f path @ walk b path rest"
  by pat_completeness auto

termination by (relation "measure (\<lambda>(b, path, fs). size_list (size_field size) fs)") auto

text \<open>The verb \<open>%v\<close> on the values that have an entry.\<close>

fun value_text :: "setting \<Rightarrow> string" where
  "value_text (SBool b) = (if b then ''true'' else ''false'')"
| "value_text (SString s) = s"
| "value_text (SInt n) = itoa n"
| "value_text (SSlice (Some xs)) = join_with '','' xs"
| "value_text _ = []"

section \<open>The example of the environment\<close>

record env_entry =
  ee_name :: string
  ee_description :: string
  ee_value :: string

text \<open>A slice that is not one of strings is logged and left out.\<close>

definition build_env_entry :: "golib \<Rightarrow> setting field \<Rightarrow> string \<Rightarrow> env_entry list" where
  "build_env_entry lib f path =
     (if fd_yaml f = ''-'' \<or> fd_value f = SSlice None then []
      else [\<lparr>ee_name = path @ lib_to_upper lib (fd_name f), ee_description = fd_description f,
             ee_value = (case fd_value f of
                           SString s \<Rightarrow> if s \<noteq> [] then CHR 0x22 # s @ [CHR 0x22] else []
                         | v \<Rightarrow> value_text v)\<rparr>])"

definition build_env_child_path :: "golib \<Rightarrow> string \<Rightarrow> string \<Rightarrow> string" where
  "build_env_child_path lib path name = path @ lib_to_upper lib name @ ''_''"

definition build_env_map_entry :: "golib \<Rightarrow> setting field \<Rightarrow> string \<Rightarrow> string option" where
  "build_env_map_entry lib f path = Some (path @ lib_to_upper lib (fd_name f) @ ''_name_'')"

definition env_builder :: "golib \<Rightarrow> env_entry builder" where
  "env_builder lib =
     \<lparr>bd_entry = build_env_entry lib, bd_child = build_env_child_path lib, bd_map = build_env_map_entry lib\<rparr>"

definition env_entries :: "golib \<Rightarrow> setting field list \<Rightarrow> env_entry list" where
  "env_entries lib fs = walk (env_builder lib) ''TINYAUTH_'' fs"

text \<open>The section of a name with more than one underscore is its second part.\<close>

definition section_of :: "string \<Rightarrow> string option" where
  "section_of name =
     (if 1 < length (filter (\<lambda>c. c = CHR ''_'') name)
      then Some (hd (split_on (CHR ''_'') (trim_prefix ''TINYAUTH_'' name)))
      else None)"

definition new_section :: "string \<Rightarrow> string \<Rightarrow> string option" where
  "new_section previous name =
     (case section_of name of Some s \<Rightarrow> if s \<noteq> previous then Some s else None | None \<Rightarrow> None)"

definition line_end :: string where
  "line_end = [CHR 0x0A]"

fun env_lines :: "golib \<Rightarrow> string \<Rightarrow> env_entry list \<Rightarrow> string" where
  "env_lines lib previous [] = []"
| "env_lines lib previous (e # es) =
     (case new_section previous (ee_name e) of
        None \<Rightarrow> []
      | Some s \<Rightarrow> line_end @ ''# '' @ lib_to_lower lib s @ '' config'' @ line_end @ line_end) @
     ''# '' @ ee_description e @ line_end @ ee_name e @ ''='' @ ee_value e @ line_end @
     env_lines lib (case new_section previous (ee_name e) of None \<Rightarrow> previous | Some s \<Rightarrow> s) es"

definition compile_env :: "golib \<Rightarrow> env_entry list \<Rightarrow> string" where
  "compile_env lib es =
     ''# This file is automatically generated by gen/gen_env.go. Do not edit manually.'' @ line_end @ line_end @
     ''# Tinyauth example configuration'' @ line_end @ line_end @ env_lines lib [] es"

section \<open>The table in Markdown\<close>

record md_entry =
  me_env :: string
  me_flag :: string
  me_description :: string
  me_default :: string

text \<open>\<open>strings.ToUpper(strings.ReplaceAll(path, ".", "_"))\<close>.\<close>

definition env_path :: "golib \<Rightarrow> string \<Rightarrow> string" where
  "env_path lib path = lib_to_upper lib (replace_char (CHR ''.'') (CHR ''_'') path)"

definition build_md_entry :: "golib \<Rightarrow> setting field \<Rightarrow> string \<Rightarrow> md_entry list" where
  "build_md_entry lib f path =
     (if fd_yaml f = ''-'' \<or> fd_value f = SSlice None then []
      else [\<lparr>me_env = env_path lib path @ lib_to_upper lib (fd_name f),
             me_flag = ''--'' @ trim_prefix ''tinyauth.'' path @ lib_to_lower lib (fd_name f),
             me_description = fd_description f,
             me_default = [CHR 0x60] @ value_text (fd_value f) @ [CHR 0x60]\<rparr>])"

definition build_md_child_path :: "golib \<Rightarrow> string \<Rightarrow> string \<Rightarrow> string" where
  "build_md_child_path lib path name = path @ lib_to_lower lib name @ ''.''"

definition build_md_map_entry :: "setting field \<Rightarrow> string \<Rightarrow> string option" where
  "build_md_map_entry f path = (if fd_yaml f = ''-'' then None else Some (path @ fd_yaml f @ ''.[name].''))"

definition md_builder :: "golib \<Rightarrow> md_entry builder" where
  "md_builder lib =
     \<lparr>bd_entry = build_md_entry lib, bd_child = build_md_child_path lib, bd_map = build_md_map_entry\<rparr>"

definition md_entries :: "golib \<Rightarrow> setting field list \<Rightarrow> md_entry list" where
  "md_entries lib fs = walk (md_builder lib) ''tinyauth.'' fs"

definition md_header :: string where
  "md_header = ''| Environment | Flag | Description | Default |'' @ line_end @ ''| - | - | - | - |'' @ line_end"

definition md_row :: "md_entry \<Rightarrow> string" where
  "md_row e =
     ''| '' @ [CHR 0x60] @ me_env e @ [CHR 0x60] @ '' | '' @ [CHR 0x60] @ me_flag e @ [CHR 0x60] @ '' | '' @
     me_description e @ '' | '' @ me_default e @ '' |'' @ line_end"

fun md_lines :: "golib \<Rightarrow> string \<Rightarrow> md_entry list \<Rightarrow> string" where
  "md_lines lib previous [] = []"
| "md_lines lib previous (e # es) =
     (case new_section previous (me_env e) of
        None \<Rightarrow> []
      | Some s \<Rightarrow> line_end @ ''## '' @ lib_to_lower lib s @ line_end @ line_end @ md_header) @
     md_row e @ md_lines lib (case new_section previous (me_env e) of None \<Rightarrow> previous | Some s \<Rightarrow> s) es"

definition compile_md :: "golib \<Rightarrow> md_entry list \<Rightarrow> string" where
  "compile_md lib es =
     ''<!--- This file is automatically generated by gen/gen_md.go. Do not edit manually. --->'' @ line_end @ line_end @
     ''# Tinyauth configuration reference'' @ line_end @ line_end @ md_header @ md_lines lib [] es"

section \<open>The two references agree\<close>

text \<open>The settings outside of maps, under names of letters and digits.\<close>

definition plain_char :: "char \<Rightarrow> bool" where
  "plain_char c \<longleftrightarrow> (let n = (of_char c :: int) in 48 \<le> n \<and> n \<le> 57 \<or> 65 \<le> n \<and> n \<le> 90 \<or> 97 \<le> n \<and> n \<le> 122)"

definition plain_name :: "string \<Rightarrow> bool" where
  "plain_name s \<longleftrightarrow> list_all plain_char s"

function (sequential) documented :: "setting field list \<Rightarrow> bool" where
  "documented [] = True"
| "documented (Field n d y (SStruct fs) # rest) \<longleftrightarrow> plain_name n \<and> documented fs \<and> documented rest"
| "documented (Field n d y (SMap str v) # rest) \<longleftrightarrow> False"
| "documented (f # rest) \<longleftrightarrow> plain_name (fd_name f) \<and> documented rest"
  by pat_completeness auto

termination by (relation "measure (size_list (size_field size))") auto

text \<open>On bytes below 128 the case of a string is that of its letters.\<close>

definition cases_ascii :: "golib \<Rightarrow> bool" where
  "cases_ascii lib \<longleftrightarrow> (\<forall>s. (\<forall>c\<in>set s. (of_char c :: int) < 128) \<longrightarrow>
     lib_to_upper lib s = map ascii_upper s \<and> lib_to_lower lib s = map ascii_lower s)"

text \<open>The paths of the walk: plain names in lower case, and dots.\<close>

definition path_char :: "char \<Rightarrow> bool" where
  "path_char c \<longleftrightarrow> c = CHR ''.'' \<or> plain_char c \<and> ascii_lower c = c"


lemma lower_code: "(of_char (ascii_lower c) :: int) = (let n = of_char c in if 65 \<le> n \<and> n \<le> 90 then n + 32 else n)"
  by (auto simp: ascii_lower_def Let_def of_char_of)

lemma upper_code: "(of_char (ascii_upper c) :: int) = (let n = of_char c in if 97 \<le> n \<and> n \<le> 122 then n - 32 else n)"
  by (auto simp: ascii_upper_def Let_def of_char_of)

lemma char_eq_code: "c = d \<longleftrightarrow> (of_char c :: int) = of_char d"
  by (metis char_of_char)


lemmas char_codes = lower_code upper_code char_eq_code plain_char_def path_char_def Let_def


lemma plain_lower: "plain_char c \<Longrightarrow> path_char (ascii_lower c)"
  by (simp add: char_codes split: if_splits) 

lemma plain_upper_lower: "ascii_upper (ascii_lower c) = ascii_upper c"
  by (simp add: char_codes)

lemma path_back: "path_char c \<Longrightarrow> c \<noteq> CHR ''.'' \<Longrightarrow> c \<noteq> CHR ''_'' \<and> ascii_upper c \<noteq> CHR ''_'' \<and> ascii_lower (ascii_upper c) = c"
  by (auto simp add: char_codes split: if_splits)

lemma plain_back: "plain_char c \<Longrightarrow> c \<noteq> CHR ''.'' \<and> c \<noteq> CHR ''_'' \<and> ascii_upper c \<noteq> CHR ''_'' \<and> ascii_lower (ascii_upper c) = ascii_lower c"
  by (auto simp add: char_codes split: if_splits)

lemma path_ascii: "list_all path_char s \<Longrightarrow> c \<in> set s \<Longrightarrow> (of_char c :: int) < 128"
  by (auto simp: list_all_iff char_codes)

lemma plain_ascii: "plain_name s \<Longrightarrow> c \<in> set s \<Longrightarrow> (of_char c :: int) < 128"
  by (auto simp: plain_name_def list_all_iff plain_char_def Let_def)

lemma plain_cases:
  assumes "cases_ascii lib" "plain_name n"
  shows "lib_to_upper lib n = map ascii_upper n" "lib_to_lower lib n = map ascii_lower n"
  using assms plain_ascii [OF assms(2)] unfolding cases_ascii_def by blast+

text \<open>The part of a name that a byte of a path becomes.\<close>

definition env_char :: "char \<Rightarrow> char" where
  "env_char c = ascii_upper (if c = CHR ''.'' then CHR ''_'' else c)"

definition flag_char :: "char \<Rightarrow> char" where
  "flag_char c = ascii_lower (if c = CHR ''_'' then CHR ''.'' else c)"

lemma env_path_chars:
  assumes "cases_ascii lib" "list_all path_char path"
  shows "env_path lib path = map env_char path"
proof -
  have "(of_char c :: int) < 128" if "c \<in> set (replace_char (CHR ''.'') (CHR ''_'') path)" for c
    using that path_ascii [OF assms(2)] by (auto simp: replace_char_def)
  with assms(1) have "env_path lib path = map ascii_upper (replace_char (CHR ''.'') (CHR ''_'') path)"
    unfolding env_path_def cases_ascii_def by blast
  then show ?thesis by (simp add: replace_char_def env_char_def)
qed

lemma path_name: "plain_name n \<Longrightarrow> list_all path_char (map ascii_lower n)"
  by (induction n) (auto simp: plain_name_def plain_lower)

lemma env_char_name: "plain_name n \<Longrightarrow> map env_char (map ascii_lower n) = map ascii_upper n"
proof -
  have "ascii_lower c \<noteq> CHR ''.''" if "plain_char c" for c
    using that by (auto simp: char_codes split: if_splits)
  then show "plain_name n \<Longrightarrow> ?thesis"
    by (induction n) (auto simp: plain_name_def env_char_def plain_upper_lower)
qed

lemma child_paths:
  assumes "cases_ascii lib" "list_all path_char path" "plain_name n"
  shows "list_all path_char (build_md_child_path lib path n) \<and>
     env_path lib (build_md_child_path lib path n) = build_env_child_path lib (env_path lib path) n"
proof -
  have dot: "path_char CHR ''.''" "env_char CHR ''.'' = CHR ''_''" by (simp_all add: path_char_def env_char_def char_codes)
  have path: "list_all path_char (build_md_child_path lib path n)"
    using assms by (simp add: build_md_child_path_def plain_cases path_name dot)
  from env_path_chars [OF assms(1) this] env_path_chars [OF assms(1,2)] path show ?thesis
    by (simp add: build_md_child_path_def build_env_child_path_def plain_cases [OF assms(1,3)] env_char_name [OF assms(3)]
        dot del: map_map)
qed

text \<open>The flag of a setting, read off its name in the environment.\<close>

definition flag_of_env :: "string \<Rightarrow> string" where
  "flag_of_env name = ''--'' @ trim_prefix ''tinyauth.'' (map flag_char name)"

lemma flag_path: "list_all path_char path \<Longrightarrow> map flag_char (map env_char path) = path"
proof (induction path)
  case (Cons c path)
  then show ?case using path_back [of c] by (cases "c = CHR ''.''") (simp_all add: flag_char_def env_char_def char_codes)
qed simp

lemma flag_name: "plain_name n \<Longrightarrow> map flag_char (map ascii_upper n) = map ascii_lower n"
  using plain_back by (induction n) (auto simp: plain_name_def flag_char_def)

lemma trim_prefix_append: "prefix p a \<Longrightarrow> trim_prefix p (a @ b) = trim_prefix p a @ b"
  by (auto simp: trim_prefix_def prefix_def)

definition agree :: "env_entry list \<Rightarrow> md_entry list \<Rightarrow> bool" where
  "agree es ms \<longleftrightarrow>
     map (\<lambda>e. (ee_name e, ee_description e)) es = map (\<lambda>e. (me_env e, me_description e)) ms \<and>
     (\<forall>e\<in>set ms. me_flag e = flag_of_env (me_env e))"

lemma agree_Nil: "agree [] []"
  by (simp add: agree_def)

lemma agree_append: "agree es ms \<Longrightarrow> agree es' ms' \<Longrightarrow> agree (es @ es') (ms @ ms')"
  by (auto simp: agree_def)

lemma entries_agree:
  assumes "cases_ascii lib" "list_all path_char path" "prefix ''tinyauth.'' path" "plain_name (fd_name f)"
  shows "agree (build_env_entry lib f (env_path lib path)) (build_md_entry lib f path)"
  using assms(3)
  by (simp add: agree_def build_env_entry_def build_md_entry_def flag_of_env_def env_path_chars [OF assms(1,2)]
      plain_cases [OF assms(1,4)] flag_path [OF assms(2)] flag_name [OF assms(4)] trim_prefix_append del: map_map)

lemma builders [simp]:
  "bd_entry (env_builder lib) = build_env_entry lib" "bd_child (env_builder lib) = build_env_child_path lib"
  "bd_entry (md_builder lib) = build_md_entry lib" "bd_child (md_builder lib) = build_md_child_path lib"
  by (simp_all add: env_builder_def md_builder_def)

lemma walks_agree:
  assumes "cases_ascii lib"
  shows "documented fs \<Longrightarrow> list_all path_char path \<Longrightarrow> prefix ''tinyauth.'' path \<Longrightarrow>
     agree (walk (env_builder lib) (env_path lib path) fs) (walk (md_builder lib) path fs)"
proof (induction fs arbitrary: path rule: documented.induct)
  case (2 n d y fs rest)
  let ?child = "build_md_child_path lib path n"
  from 2 child_paths [OF assms 2(4), of n] have child: "list_all path_char ?child"
    "env_path lib ?child = build_env_child_path lib (env_path lib path) n" by simp_all
  moreover have "prefix ''tinyauth.'' ?child" using 2(5) by (simp add: build_md_child_path_def)
  ultimately show ?case using 2(1) [of ?child] 2(2) [of path] 2(3-5) by (auto simp: agree_append simp flip: child(2))
qed (simp_all add: agree_Nil agree_append entries_agree [OF assms])


definition demo_settings :: "setting field list" where
  "demo_settings =
     [Field ''AppURL'' ''The base URL where the app is hosted.'' ''appUrl,omitempty'' (SString []),
      Field ''Server'' [] ''server,omitempty''
        (SStruct [Field ''SocketPath'' ''The path to the Unix socket.'' ''socketPath,omitempty'' (SString [])]),
      Field ''ConfigFile'' ''Path to config file.'' ''-'' (SString [])]"


text \<open>
  For a map the table takes the whole tag of the field, with the option after the comma, into the
  names, where the example takes the name of the field.
\<close>

definition demo_map :: "setting field list" where
  "demo_map =
     [Field ''Apps'' ''Application ACLs configuration.'' ''apps,omitempty''
        (SMap True (SStruct [Field ''Domain'' ''The domain of the app.'' ''domain,omitempty'' (SString [])]))]"

lemma map_settings_misnamed:
  "map ee_name (env_entries ascii_lib demo_map) = [''TINYAUTH_APPS_name_DOMAIN'']"
  "map me_env (md_entries ascii_lib demo_map) = [''TINYAUTH_APPS,OMITEMPTY_[NAME]_DOMAIN'']"
  "map me_flag (md_entries ascii_lib demo_map) = [''--apps,omitempty.[name].domain'']"
  by code_simp+

text \<open>The example as it is in the repository.\<close>

lemma demo_example:
  "compile_env ascii_lib (env_entries ascii_lib [hd demo_settings]) =
     ''# This file is automatically generated by gen/gen_env.go. Do not edit manually.'' @ line_end @ line_end @
     ''# Tinyauth example configuration'' @ line_end @ line_end @
     ''# The base URL where the app is hosted.'' @ line_end @ ''TINYAUTH_APPURL='' @ line_end"
  by code_simp

end
